(* ===== verification/CC_Prelude.thy ===== *)
theory CC_Prelude
  imports Complex_Main "HOL-Library.Word"
begin

text \<open>
  Shared vocabulary of the development: the outcome of a Go call, Go error values,
  decoded JSON values (what \<^verbatim>\<open>encoding/json\<close> puts behind an \<^verbatim>\<open>interface{}\<close>), the
  runtime a process reads (\<^verbatim>\<open>time.Now\<close>, \<^verbatim>\<open>uuid.NewRandom\<close>), and the parts of the
  packages \<^verbatim>\<open>strings\<close> and \<^verbatim>\<open>strconv\<close> the program uses, with the lemmas about them
  that several components need.
\<close>

named_theorems cc_defs
  \<open>definitions of the model that the component proofs unfold\<close>

named_theorems cc_frame
  \<open>what an operation leaves unchanged\<close>

section \<open>Outcomes and errors\<close>

text \<open>
  A call either returns, panics (a failed type assertion, a nil dereference) or ends the
  process (\<^verbatim>\<open>logrus.Fatal\<close>). A stateful call yields its outcome and the state
  reached: effects made before a panic stay.
\<close>

datatype 'a go = Ret 'a | Panic | Exit

type_synonym ('w, 'a) action = "'w \<Rightarrow> 'a go \<times> 'w"

fun and_then :: "'a go \<times> 'w \<Rightarrow> ('a \<Rightarrow> 'w \<Rightarrow> 'b go \<times> 'w) \<Rightarrow> 'b go \<times> 'w" where
  "and_then (Ret x, w) f = f x w"
| "and_then (Panic, w) f = (Panic, w)"
| "and_then (Exit, w) f = (Exit, w)"

fun go_bind :: "'a go \<Rightarrow> ('a \<Rightarrow> 'b go) \<Rightarrow> 'b go" where
  "go_bind (Ret x) f = f x"
| "go_bind Panic f = Panic"
| "go_bind Exit f = Exit"

text \<open>
  Error values. Sentinels are compared with \<^verbatim>\<open>==\<close> or \<^verbatim>\<open>errors.Is\<close>; \<open>FatalError\<close> is
  the wrapper type of \<^verbatim>\<open>connection_repository\<close>; \<open>Wrapped\<close> is \<^verbatim>\<open>fmt.Errorf\<close> with
  \<^verbatim>\<open>%w\<close>; \<open>PqError\<close> carries the SQLSTATE the database reported.
\<close>

datatype error =
    NotFoundError
  | InvalidOrgIDError
  | InvalidClientIDError
  | FatalError error
  | DuplicateOrOldMQTTMessage
  | ErrDisconnectedNode
  | ErrNoRows
  | ContextCanceled
  | PqError string
  | ErrorString string
  | Wrapped string error

fun errors_is :: "error \<Rightarrow> error \<Rightarrow> bool" where
  "errors_is (Wrapped s e) target \<longleftrightarrow> Wrapped s e = target \<or> errors_is e target"
| "errors_is e target \<longleftrightarrow> e = target"

fun errors_as_fatal :: "error \<Rightarrow> bool" where
  "errors_as_fatal (FatalError e) = True"
| "errors_as_fatal (Wrapped s e) = errors_as_fatal e"
| "errors_as_fatal e = False"

text \<open>\<^verbatim>\<open>if err != nil { logger.LogFatalError(...) }\<close>\<close>

definition must :: "error + 'x \<Rightarrow> 'x go" where
  "must r = (case r of Inl err \<Rightarrow> Exit | Inr x \<Rightarrow> Ret x)"

section \<open>Decoded JSON\<close>

text \<open>
  The dynamic types \<^verbatim>\<open>encoding/json\<close> produces: nil, bool, float64, string,
  \<^verbatim>\<open>[]interface{}\<close> and \<^verbatim>\<open>map[string]interface{}\<close>. Every finite float64 is a rational.
  An object is the list of its entries; \<open>wf_json\<close> says that keys are distinct, as in
  every Go map. The order of the entries is the order of one iteration over the map.
\<close>

datatype json =
    JNull
  | JBool bool
  | JNum rat
  | JStr string
  | JArr "json list"
  | JObj "(string \<times> json) list"

fun wf_json :: "json \<Rightarrow> bool" where
  "wf_json (JArr xs) \<longleftrightarrow> (\<forall>x\<in>set xs. wf_json x)"
| "wf_json (JObj kvs) \<longleftrightarrow> distinct (map fst kvs) \<and> (\<forall>kv\<in>set kvs. wf_json (snd kv))"
| "wf_json _ \<longleftrightarrow> True"

text \<open>The type assertions \<^verbatim>\<open>v.(map[string]interface{})\<close> and \<^verbatim>\<open>v.(string)\<close>.\<close>

fun as_object :: "json \<Rightarrow> (string \<times> json) list go" where
  "as_object (JObj kvs) = Ret kvs"
| "as_object _ = Panic"

fun as_string :: "json \<Rightarrow> string go" where
  "as_string (JStr s) = Ret s"
| "as_string _ = Panic"

text \<open>Indexing a map yields the zero value, nil, when the key is absent.\<close>

definition index_map :: "(string \<times> json) list \<Rightarrow> string \<Rightarrow> json" where
  "index_map m k = (case map_of m k of None \<Rightarrow> JNull | Some v \<Rightarrow> v)"

text \<open>Storing under a key: a later write replaces an earlier one.\<close>

fun put :: "'k \<Rightarrow> 'v \<Rightarrow> ('k \<times> 'v) list \<Rightarrow> ('k \<times> 'v) list" where
  "put k v [] = [(k, v)]"
| "put k v (p # ps) = (if fst p = k then (k, v) # ps else p # put k v ps)"

section \<open>Time, and the runtime of a process\<close>

text \<open>
  A \<^verbatim>\<open>time.Time\<close> is the number of nanoseconds since the Unix epoch; the zero value of
  the type is the first instant of year 1. A \<^verbatim>\<open>time.Duration\<close> is a signed 64-bit count
  of nanoseconds, and subtracting two times saturates at its bounds.
\<close>

type_synonym time = int
type_synonym duration = "64 word"

definition zero_time :: time where
  "zero_time = - 62135596800000000000"

definition time_before :: "time \<Rightarrow> time \<Rightarrow> bool" where
  "time_before t u \<longleftrightarrow> t < u"

definition time_add :: "time \<Rightarrow> duration \<Rightarrow> time" where
  "time_add t d = t + sint d"

definition time_sub :: "time \<Rightarrow> time \<Rightarrow> duration" where
  "time_sub t u =
     (if t - u > 2 ^ 63 - 1 then word_of_int (2 ^ 63 - 1)
      else if t - u < - (2 ^ 63) then word_of_int (- (2 ^ 63))
      else word_of_int (t - u))"

text \<open>
  The runtime: successive readings of the wall clock, and successive results of the
  random UUID source, which can fail.
\<close>

record runtime =
  clock :: "nat \<Rightarrow> time"
  ticks :: nat
  uuid_source :: "nat \<Rightarrow> error + string"
  uuids :: nat

definition time_now :: "'a runtime_scheme \<Rightarrow> time \<times> 'a runtime_scheme" where
  "time_now w = (clock w (ticks w), w\<lparr>ticks := Suc (ticks w)\<rparr>)"

definition new_uuid :: "'a runtime_scheme \<Rightarrow> (error + string) \<times> 'a runtime_scheme" where
  "new_uuid w = (uuid_source w (uuids w), w\<lparr>uuids := Suc (uuids w)\<rparr>)"

section \<open>Strings\<close>

text \<open>\<^verbatim>\<open>strings.Split\<close> with a one-character separator, and \<^verbatim>\<open>strings.Join\<close>.\<close>

fun split_on :: "'a \<Rightarrow> 'a list \<Rightarrow> 'a list list" where
  "split_on c [] = [[]]"
| "split_on c (x # xs) =
     (if x = c then [] # split_on c xs
      else (case split_on c xs of [] \<Rightarrow> [[x]] | y # ys \<Rightarrow> (x # y) # ys))"

fun join :: "'a list \<Rightarrow> 'a list list \<Rightarrow> 'a list" where
  "join sep [] = []"
| "join sep [x] = x"
| "join sep (x # y # ys) = x @ sep @ join sep (y # ys)"

text \<open>
  \<^verbatim>\<open>strings.TrimSpace\<close> removes the UTF-8 encodings of the characters with the Unicode
  property White Space from both ends.
\<close>

definition space_runes :: "string list" where
  "space_runes =
     [[CHR 0x09], [CHR 0x0A], [CHR 0x0B], [CHR 0x0C], [CHR 0x0D], [CHR 0x20],
      [CHR 0xC2, CHR 0x85], [CHR 0xC2, CHR 0xA0], [CHR 0xE1, CHR 0x9A, CHR 0x80],
      [CHR 0xE2, CHR 0x80, CHR 0x80], [CHR 0xE2, CHR 0x80, CHR 0x81],
      [CHR 0xE2, CHR 0x80, CHR 0x82], [CHR 0xE2, CHR 0x80, CHR 0x83],
      [CHR 0xE2, CHR 0x80, CHR 0x84], [CHR 0xE2, CHR 0x80, CHR 0x85],
      [CHR 0xE2, CHR 0x80, CHR 0x86], [CHR 0xE2, CHR 0x80, CHR 0x87],
      [CHR 0xE2, CHR 0x80, CHR 0x88], [CHR 0xE2, CHR 0x80, CHR 0x89],
      [CHR 0xE2, CHR 0x80, CHR 0x8A], [CHR 0xE2, CHR 0x80, CHR 0xA8],
      [CHR 0xE2, CHR 0x80, CHR 0xA9], [CHR 0xE2, CHR 0x80, CHR 0xAF],
      [CHR 0xE2, CHR 0x81, CHR 0x9F], [CHR 0xE3, CHR 0x80, CHR 0x80]]"

fun strip_prefix :: "'a list \<Rightarrow> 'a list \<Rightarrow> 'a list option" where
  "strip_prefix [] s = Some s"
| "strip_prefix (p # ps) [] = None"
| "strip_prefix (p # ps) (x # xs) = (if p = x then strip_prefix ps xs else None)"

fun strip_any :: "'a list list \<Rightarrow> 'a list \<Rightarrow> 'a list option" where
  "strip_any [] s = None"
| "strip_any (p # ps) s =
     (case strip_prefix p s of None \<Rightarrow> strip_any ps s | Some r \<Rightarrow> Some r)"

lemma strip_prefix_length: "strip_prefix p s = Some r \<Longrightarrow> length s = length p + length r"
  by (induction p s rule: strip_prefix.induct) (auto split: if_splits)

lemma strip_any_length:
  "strip_any ps s = Some r \<Longrightarrow> \<exists>p\<in>set ps. length s = length p + length r"
  by (induction ps) (auto split: option.splits dest: strip_prefix_length)

text \<open>Stripping stops at the latest when the input is exhausted, so its length is fuel enough.\<close>

fun trim_runes :: "nat \<Rightarrow> 'a list list \<Rightarrow> 'a list \<Rightarrow> 'a list" where
  "trim_runes 0 ps s = s"
| "trim_runes (Suc n) ps s =
     (case strip_any ps s of None \<Rightarrow> s | Some r \<Rightarrow> trim_runes n ps r)"

definition trim_left :: "string \<Rightarrow> string" where
  "trim_left s = trim_runes (length s) space_runes s"

definition trim_right :: "string \<Rightarrow> string" where
  "trim_right s = rev (trim_runes (length s) (map rev space_runes) (rev s))"

definition TrimSpace :: "string \<Rightarrow> string" where
  "TrimSpace s = trim_right (trim_left s)"

text \<open>\<^verbatim>\<open>strconv.Itoa\<close> and \<^verbatim>\<open>strconv.Atoi\<close> for the 64-bit \<^verbatim>\<open>int\<close>.\<close>

definition digit_char :: "nat \<Rightarrow> char" where
  "digit_char d = char_of (48 + d)"

definition digit_value :: "char \<Rightarrow> nat option" where
  "digit_value c =
     (let n = of_char c in if 48 \<le> n \<and> n \<le> (57 :: nat) then Some (n - 48) else None)"

fun itoa_nat :: "nat \<Rightarrow> string" where
  "itoa_nat n = (if n < 10 then [digit_char n] else itoa_nat (n div 10) @ [digit_char (n mod 10)])"

declare itoa_nat.simps [simp del]

definition Itoa :: "int \<Rightarrow> string" where
  "Itoa i = (if i < 0 then CHR ''-'' # itoa_nat (nat (- i)) else itoa_nat (nat i))"

fun digits_value :: "nat \<Rightarrow> string \<Rightarrow> nat option" where
  "digits_value acc [] = Some acc"
| "digits_value acc (c # cs) =
     (case digit_value c of None \<Rightarrow> None | Some d \<Rightarrow> digits_value (10 * acc + d) cs)"

definition ErrSyntax :: error where
  "ErrSyntax = ErrorString ''strconv.Atoi: invalid syntax''"

definition ErrRange :: error where
  "ErrRange = ErrorString ''strconv.Atoi: value out of range''"

definition in_int64 :: "int \<Rightarrow> bool" where
  "in_int64 i \<longleftrightarrow> - (2 ^ 63) \<le> i \<and> i < 2 ^ 63"

definition Atoi :: "string \<Rightarrow> error + int" where
  "Atoi s =
     (let neg = (case s of [] \<Rightarrow> False | c # _ \<Rightarrow> c = CHR ''-'');
          body = (case s of [] \<Rightarrow> [] | c # cs \<Rightarrow> if c = CHR ''-'' \<or> c = CHR ''+'' then cs else s)
      in if body = [] then Inl ErrSyntax
         else case digits_value 0 body of
                None \<Rightarrow> Inl ErrSyntax
              | Some n \<Rightarrow>
                  (let i = (if neg then - int n else int n)
                   in if in_int64 i then Inr i else Inl ErrRange))"

section \<open>Lemmas on outcomes and errors\<close>

lemma must_Ret_iff [simp]: "must r = Ret x \<longleftrightarrow> r = Inr x"
  by (cases r) (auto simp: must_def)

lemma and_then_Ret_iff:
  "and_then p f = (Ret y, w') \<longleftrightarrow> (\<exists>x w. p = (Ret x, w) \<and> f x w = (Ret y, w'))"
  by (cases "(p, f)" rule: and_then.cases) auto

lemma go_bind_Ret_iff: "go_bind p f = Ret y \<longleftrightarrow> (\<exists>x. p = Ret x \<and> f x = Ret y)"
  by (cases p) auto

lemma go_bind_not_Exit [simp]: "p \<noteq> Exit \<Longrightarrow> (\<And>x. f x \<noteq> Exit) \<Longrightarrow> go_bind p f \<noteq> Exit"
  by (cases p) auto

lemma as_object_not_Exit [simp]: "as_object v \<noteq> Exit"
  by (cases v) auto

lemma as_string_not_Exit [simp]: "as_string v \<noteq> Exit"
  by (cases v) auto

lemma as_object_Ret_iff [simp]: "as_object v = Ret m \<longleftrightarrow> v = JObj m"
  by (cases v) auto

lemma as_string_Ret_iff [simp]: "as_string v = Ret s \<longleftrightarrow> v = JStr s"
  by (cases v) auto

lemma errors_is_refl [simp]: "errors_is e e"
  by (cases e) auto

lemma of_char_less_256: "of_char c < (256 :: nat)"
  by (metis mod_less_divisor of_char_mod_256 zero_less_numeral)

section \<open>Lemmas on association lists\<close>

lemma map_of_put [simp]: "map_of (put k v ps) = (map_of ps)(k \<mapsto> v)"
  by (induction ps) auto

lemma fst_set_put [simp]: "fst ` set (put k v ps) = insert k (fst ` set ps)"
  by (induction ps) auto

lemma distinct_put [simp]: "distinct (map fst ps) \<Longrightarrow> distinct (map fst (put k v ps))"
  by (induction ps) auto

lemma put_ne_Nil [simp]: "put k v ps \<noteq> []"
  by (cases ps) auto

section \<open>Lemmas on splitting and joining\<close>

lemma split_on_ne_Nil [simp]: "split_on c s \<noteq> []"
  by (induction s) (auto split: list.splits)

lemma split_on_no_sep: "c \<notin> set s \<Longrightarrow> split_on c s = [s]"
  by (induction s) auto

lemma split_on_append_sep: "c \<notin> set s \<Longrightarrow> split_on c (s @ c # t) = s # split_on c t"
  by (induction s) auto

lemma length_split_on: "length (split_on c s) = Suc (count_list s c)"
  by (induction s) (auto split: list.splits)

lemma join_split_on: "join [c] (split_on c s) = s"
proof (induction s)
  case Nil
  show ?case by simp
next
  case (Cons x xs)
  obtain y ys where ys: "split_on c xs = y # ys"
    by (cases "split_on c xs") auto
  with Cons.IH show ?case by (cases ys) auto
qed

lemma split_on_segments: "seg \<in> set (split_on c s) \<Longrightarrow> c \<notin> set seg"
  by (induction s arbitrary: seg) (auto split: list.splits if_splits)

section \<open>Lemmas on trimming\<close>

lemma strip_any_space_shrinks:
  "strip_any space_runes s = Some r \<Longrightarrow> length r < length s"
  by (drule strip_any_length) (auto simp: space_runes_def)

lemma trim_right_Nil [simp]: "trim_right [] = []"
  by (simp add: trim_right_def)

lemma strip_prefix_append: "strip_prefix p (p @ s) = Some s"
  by (induction p) auto

lemma trim_runes_fixpoint:
  "length s \<le> n \<Longrightarrow> strip_any space_runes (trim_runes n space_runes s) = None"
proof (induction n arbitrary: s)
  case 0
  then show ?case by (auto simp: space_runes_def)
next
  case (Suc n)
  show ?case
  proof (cases "strip_any space_runes s")
    case None
    then show ?thesis by simp
  next
    case (Some r)
    then have "length r \<le> n"
      using strip_any_space_shrinks [OF Some] Suc.prems by simp
    then show ?thesis using Some Suc.IH by simp
  qed
qed

section \<open>Lemmas on decimal numbers\<close>

lemma of_char_digit_char [simp]: "d < 10 \<Longrightarrow> of_char (digit_char d) = (48 + d :: nat)"
  by (simp add: digit_char_def)

lemma digit_value_digit_char [simp]: "d < 10 \<Longrightarrow> digit_value (digit_char d) = Some d"
  by (simp add: digit_value_def)

lemma digits_value_append:
  "digits_value acc (xs @ ys) =
     (case digits_value acc xs of None \<Rightarrow> None | Some a \<Rightarrow> digits_value a ys)"
  by (induction xs arbitrary: acc) (auto split: option.splits)

lemma digits_value_itoa_nat [simp]: "digits_value 0 (itoa_nat n) = Some n"
proof (induction n rule: itoa_nat.induct)
  case (1 n)
  show ?case
  proof (cases "n < 10")
    case True
    then show ?thesis by (subst itoa_nat.simps) simp
  next
    case False
    with "1.IH" have "digits_value 0 (itoa_nat (n div 10)) = Some (n div 10)" by simp
    with False show ?thesis by (subst itoa_nat.simps) (simp add: digits_value_append)
  qed
qed

lemma itoa_nat_ne_Nil [simp]: "itoa_nat n \<noteq> []"
  by (subst itoa_nat.simps) simp

lemma itoa_nat_hd_digit: "\<exists>d. digit_value (hd (itoa_nat n)) = Some d"
proof -
  obtain c cs where "itoa_nat n = c # cs" by (cases "itoa_nat n") auto
  then show ?thesis
    using digits_value_itoa_nat [of n] by (auto split: option.splits)
qed

lemma itoa_nat_hd_sign: "hd (itoa_nat n) \<noteq> CHR ''-''" "hd (itoa_nat n) \<noteq> CHR ''+''"
  using itoa_nat_hd_digit [of n] by (auto simp: digit_value_def)

lemma Itoa_ne_Nil [simp]: "Itoa i \<noteq> []"
  by (simp add: Itoa_def)

lemma Atoi_Itoa: "in_int64 i \<Longrightarrow> Atoi (Itoa i) = Inr i"
proof -
  assume i: "in_int64 i"
  obtain c cs where c: "itoa_nat (nat i) = c # cs" by (cases "itoa_nat (nat i)") auto
  moreover have "c \<noteq> CHR ''-''" "c \<noteq> CHR ''+''"
    using itoa_nat_hd_sign [of "nat i"] c by auto
  moreover have "digits_value 0 (c # cs) = Some (nat i)"
    using c digits_value_itoa_nat [of "nat i"] by simp
  ultimately show ?thesis
    using i by (cases "i < 0") (simp_all add: Atoi_def Itoa_def Let_def del: digits_value.simps)
qed

lemma Atoi_in_range: "Atoi s = Inr i \<Longrightarrow> in_int64 i"
  by (auto simp: Atoi_def Let_def split: if_splits option.splits)

end
