(* ===== verification/Protocol.thy ===== *)
theory Protocol
  imports CC_Prelude
begin

text \<open>
  The data the components exchange: the domain types (\<^verbatim>\<open>internal/domain/types.go\<close>) and
  the messages of the client protocol with the functions that build and read them
  (\<^verbatim>\<open>internal/cloud_connector/protocol\<close>).
\<close>

section \<open>Domain types\<close>

type_synonym Identity = string
type_synonym ClientID = string
type_synonym AccountID = string
type_synonym OrgID = string

record MessageMetadata =
  LatestMessageID :: string
  LatestTimestamp :: time

record ConnectorClientState =
  cs_Account :: AccountID
  cs_OrgID :: OrgID
  cs_ClientID :: ClientID
  cs_CanonicalFacts :: json
  cs_Dispatchers :: json
  cs_Tags :: json
  cs_MessageMetadata :: MessageMetadata
  cs_TenantLookupTimestamp :: time
  cs_TenantLookupFailureCount :: int

definition zero_MessageMetadata :: MessageMetadata where
  "zero_MessageMetadata = \<lparr>LatestMessageID = '''', LatestTimestamp = zero_time\<rparr>"

text \<open>The zero value of the struct, which a Go function returns beside an error.\<close>

definition zero_ConnectorClientState :: ConnectorClientState where
  "zero_ConnectorClientState =
     \<lparr>cs_Account = '''', cs_OrgID = '''', cs_ClientID = '''',
      cs_CanonicalFacts = JNull, cs_Dispatchers = JNull, cs_Tags = JNull,
      cs_MessageMetadata = zero_MessageMetadata,
      cs_TenantLookupTimestamp = zero_time, cs_TenantLookupFailureCount = 0\<rparr>"

section \<open>Protocol messages\<close>

record ControlMessage =
  cm_MessageType :: string
  cm_MessageID :: string
  cm_Version :: int
  cm_Sent :: time
  cm_Content :: json

record CommandMessageContent =
  cc_Command :: string
  cc_Arguments :: json
  cc_Message :: string

record DataMessage =
  dm_MessageType :: string
  dm_MessageID :: string
  dm_ResponseTo :: string
  dm_Version :: int
  dm_Sent :: time
  dm_Directive :: string
  dm_Metadata :: json
  dm_Content :: json

text \<open>The JSON object \<^verbatim>\<open>encoding/json\<close> makes of a command, by its struct tags.\<close>

definition CommandMessageContent_json :: "CommandMessageContent \<Rightarrow> json" where
  "CommandMessageContent_json c =
     JObj [(''command'', JStr (cc_Command c)), (''arguments'', cc_Arguments c),
           (''message'', JStr (cc_Message c))]"

subsection \<open>Building messages\<close>

definition BuildControlMessage ::
  "string \<Rightarrow> CommandMessageContent \<Rightarrow> 'a runtime_scheme
    \<Rightarrow> (error + string \<times> ControlMessage) \<times> 'a runtime_scheme" where
  "BuildControlMessage messageType content w =
     (case new_uuid w of
        (Inl err, w1) \<Rightarrow> (Inl err, w1)
      | (Inr messageID, w1) \<Rightarrow>
          (let (now, w2) = time_now w1
           in (Inr (messageID,
                 \<lparr>cm_MessageType = messageType, cm_MessageID = messageID, cm_Version = 1,
                  cm_Sent = now, cm_Content = CommandMessageContent_json content\<rparr>), w2)))"

definition BuildReconnectMessage ::
  "int \<Rightarrow> 'a runtime_scheme \<Rightarrow> (error + string \<times> ControlMessage) \<times> 'a runtime_scheme" where
  "BuildReconnectMessage delay w =
     (let args = JObj [(''delay'', JStr (Itoa delay))];
          content = \<lparr>cc_Command = ''reconnect'', cc_Arguments = args, cc_Message = ''''\<rparr>
      in BuildControlMessage ''command'' content w)"

definition BuildDataMessage ::
  "string \<Rightarrow> json \<Rightarrow> json \<Rightarrow> 'a runtime_scheme
    \<Rightarrow> (error + string \<times> DataMessage) \<times> 'a runtime_scheme" where
  "BuildDataMessage directive metadata payload w =
     (case new_uuid w of
        (Inl err, w1) \<Rightarrow> (Inl err, w1)
      | (Inr messageID, w1) \<Rightarrow>
          (let (now, w2) = time_now w1
           in (Inr (messageID,
                 \<lparr>dm_MessageType = ''data'', dm_MessageID = messageID, dm_ResponseTo = '''',
                  dm_Version = 1, dm_Sent = now, dm_Directive = directive,
                  dm_Metadata = metadata, dm_Content = payload\<rparr>), w2)))"

subsection \<open>Reading the content of a connection-status message\<close>

definition getStringFromContentPayload ::
  "string \<Rightarrow> (string \<times> json) list \<Rightarrow> (string \<times> bool) go" where
  "getStringFromContentPayload fieldName payload =
     (case map_of payload fieldName of
        Some data \<Rightarrow> go_bind (as_string data) (\<lambda>s. Ret (s, True))
      | None \<Rightarrow> Ret ('''', False))"

definition GetClientNameFromConnectionStatusContent ::
  "(string \<times> json) list \<Rightarrow> (string \<times> bool) go" where
  "GetClientNameFromConnectionStatusContent payload =
     getStringFromContentPayload ''client_name'' payload"

definition GetClientVersionFromConnectionStatusContent ::
  "(string \<times> json) list \<Rightarrow> (string \<times> bool) go" where
  "GetClientVersionFromConnectionStatusContent payload =
     getStringFromContentPayload ''client_version'' payload"

section \<open>Lemmas\<close>

lemma getStringFromContentPayload_total:
  "getStringFromContentPayload f p \<noteq> Panic \<longleftrightarrow>
     (\<forall>v. map_of p f = Some v \<longrightarrow> (\<exists>s. v = JStr s))"
proof (cases "map_of p f")
  case None
  then show ?thesis by (simp add: getStringFromContentPayload_def)
next
  case (Some v)
  then show ?thesis by (cases v) (auto simp: getStringFromContentPayload_def)
qed

lemma getStringFromContentPayload_not_Exit [simp]:
  "getStringFromContentPayload f p \<noteq> Exit"
  by (auto simp: getStringFromContentPayload_def split: option.splits)

lemma BuildControlMessage_Inr:
  "BuildControlMessage ty c w = (Inr (mid, m), w') \<Longrightarrow>
     cm_MessageType m = ty \<and> cm_MessageID m = mid \<and> cm_Version m = 1
     \<and> cm_Content m = CommandMessageContent_json c \<and> Inr mid = uuid_source w (uuids w)"
  by (auto simp: BuildControlMessage_def new_uuid_def time_now_def split: sum.splits)

lemma BuildDataMessage_Inr:
  "BuildDataMessage d md p w = (Inr (mid, m), w') \<Longrightarrow>
     dm_MessageType m = ''data'' \<and> dm_MessageID m = mid \<and> dm_Version m = 1
     \<and> dm_Directive m = d \<and> dm_Metadata m = md \<and> dm_Content m = p
     \<and> Inr mid = uuid_source w (uuids w)"
  by (auto simp: BuildDataMessage_def new_uuid_def time_now_def split: sum.splits)

end
