(* ===== verification/Topic.thy ===== *)
theory Topic
  imports Protocol
begin

text \<open>
  MQTT topics (\<^verbatim>\<open>internal/mqtt/topic.go\<close>): the verifier that parses the topic of an
  incoming message and the builder of the outgoing topics and of the wildcard
  subscriptions, and how the two fit together.
\<close>

section \<open>The verifier and the builder\<close>

definition defaultTopicPrefix :: string where
  "defaultTopicPrefix = ''redhat''"

datatype TopicType = ControlTopicType | DataTopicType

record TopicVerifier =
  tv_prefix :: string

record TopicBuilder =
  tb_prefix :: string

definition NewTopicVerifier :: "string \<Rightarrow> TopicVerifier" where
  "NewTopicVerifier prefix =
     (let topicVerifier = \<lparr>tv_prefix = defaultTopicPrefix\<rparr>
      in if prefix \<noteq> '''' then topicVerifier\<lparr>tv_prefix := prefix\<rparr> else topicVerifier)"

definition VerifyIncomingTopic :: "TopicVerifier \<Rightarrow> string \<Rightarrow> error + TopicType \<times> ClientID" where
  "VerifyIncomingTopic tv topic =
     (case split_on CHR ''/'' topic of
        [i0, i1, i2, i3, i4] \<Rightarrow>
          if i0 \<noteq> tv_prefix tv \<or> i1 \<noteq> ''insights'' \<or> i4 \<noteq> ''out''
          then Inl (ErrorString (''MQTT topic needs to be '' @ tv_prefix tv @ ''/insights/<clientID>/<type>/out''))
          else if i3 = ''control'' then Inr (ControlTopicType, i2)
          else if i3 = ''data'' then Inr (DataTopicType, i2)
          else Inl (ErrorString ''Invalid topic type'')
      | _ \<Rightarrow> Inl (ErrorString (''MQTT topic requires 4 sections: '' @ tv_prefix tv
                    @ '', insights, <clientID>, <type>, in '' @ topic)))"

definition NewTopicBuilder :: "string \<Rightarrow> TopicBuilder" where
  "NewTopicBuilder prefix =
     (let topicBuilder = \<lparr>tb_prefix = defaultTopicPrefix\<rparr>
      in if prefix \<noteq> '''' then topicBuilder\<lparr>tb_prefix := prefix\<rparr> else topicBuilder)"

text \<open>
  The builder formats the whole string, prefix included, with \<^verbatim>\<open>fmt.Sprintf\<close>.
  \<open>sprintf_s\<close> is its action on string operands for the verbs \<^verbatim>\<open>%s\<close>, \<^verbatim>\<open>%v\<close> and
  \<^verbatim>\<open>%%\<close>, with the texts it puts for a missing operand, an extra one, a missing verb and
  an unknown verb. Flags and the verbs q, x, X, T and p in a configured prefix are outside
  the model.
\<close>

fun sprintf_s :: "string \<Rightarrow> string list \<Rightarrow> string" where
  "sprintf_s [] [] = []"
| "sprintf_s [] (a # as) = ''%!(EXTRA string='' @ join '', string='' (a # as) @ '')''"
| "sprintf_s [c] as =
     (if c = CHR ''%'' then ''%!(NOVERB)'' @ sprintf_s [] as else c # sprintf_s [] as)"
| "sprintf_s (c # d # cs) as =
     (if c = CHR ''%'' then
        (if d = CHR ''%'' then c # sprintf_s cs as
         else (case as of
                 [] \<Rightarrow> ''%!'' @ [d] @ ''(MISSING)'' @ sprintf_s cs []
               | x # xs \<Rightarrow>
                   (if d = CHR ''s'' \<or> d = CHR ''v'' then x
                    else ''%!'' @ [d] @ ''(string='' @ x @ '')'') @ sprintf_s cs xs))
      else c # sprintf_s (d # cs) as)"

definition BuildOutgoingDataTopic :: "TopicBuilder \<Rightarrow> ClientID \<Rightarrow> string" where
  "BuildOutgoingDataTopic tb clientID =
     (let topicStringFmt = tb_prefix tb @ ''/'' @ ''insights/%s/data/in''
      in sprintf_s topicStringFmt [clientID])"

definition BuildOutgoingControlTopic :: "TopicBuilder \<Rightarrow> ClientID \<Rightarrow> string" where
  "BuildOutgoingControlTopic tb clientID =
     (let topicStringFmt = tb_prefix tb @ ''/'' @ ''insights/%s/control/in''
      in sprintf_s topicStringFmt [clientID])"

definition BuildIncomingWildcardDataTopic :: "TopicBuilder \<Rightarrow> string" where
  "BuildIncomingWildcardDataTopic tb = tb_prefix tb @ ''/'' @ ''insights/+/data/out''"

definition BuildIncomingWildcardControlTopic :: "TopicBuilder \<Rightarrow> string" where
  "BuildIncomingWildcardControlTopic tb = tb_prefix tb @ ''/'' @ ''insights/+/control/out''"

text \<open>
  MQTT subscription matching for the only wildcard the program uses: a level \<^verbatim>\<open>+\<close>
  matches any one topic level (MQTT 3.1.1, section 4.7.1.3).
\<close>

definition mqtt_matches :: "string \<Rightarrow> string \<Rightarrow> bool" where
  "mqtt_matches subscription topic \<longleftrightarrow>
     list_all2 (\<lambda>f l. f = ''+'' \<or> f = l)
       (split_on CHR ''/'' subscription) (split_on CHR ''/'' topic)"

text \<open>The topic a client publishes on, as the protocol documentation gives it.\<close>

fun topic_type_name :: "TopicType \<Rightarrow> string" where
  "topic_type_name ControlTopicType = ''control''"
| "topic_type_name DataTopicType = ''data''"

definition client_out_topic :: "string \<Rightarrow> TopicType \<Rightarrow> ClientID \<Rightarrow> string" where
  "client_out_topic prefix ty cid =
     prefix @ ''/insights/'' @ cid @ ''/'' @ topic_type_name ty @ ''/out''"

section \<open>Parsing and building\<close>

lemma NewTopicVerifier_prefix [simp]:
  "tv_prefix (NewTopicVerifier p) = (if p = '''' then defaultTopicPrefix else p)"
  by (simp add: NewTopicVerifier_def)

lemma NewTopicBuilder_prefix [simp]:
  "tb_prefix (NewTopicBuilder p) = (if p = '''' then defaultTopicPrefix else p)"
  by (simp add: NewTopicBuilder_def)

lemma VerifyIncomingTopic_Inr_iff:
  "VerifyIncomingTopic tv topic = Inr (ty, cid) \<longleftrightarrow>
     split_on CHR ''/'' topic = [tv_prefix tv, ''insights'', cid, topic_type_name ty, ''out'']"
  by (cases ty) (auto simp: VerifyIncomingTopic_def split: list.splits if_splits)

lemma topic_of_segments:
  "split_on CHR ''/'' topic = [a, b, c, d, e] \<longleftrightarrow>
     topic = a @ ''/'' @ b @ ''/'' @ c @ ''/'' @ d @ ''/'' @ e
     \<and> CHR ''/'' \<notin> set a \<union> set b \<union> set c \<union> set d \<union> set e" (is "?L \<longleftrightarrow> ?R")
proof
  assume L: ?L
  have "topic = join [CHR ''/''] [a, b, c, d, e]"
    using join_split_on [of "CHR ''/''" topic] L by simp
  moreover have "CHR ''/'' \<notin> set a \<union> set b \<union> set c \<union> set d \<union> set e"
    using split_on_segments [of _ "CHR ''/''" topic] L by auto
  ultimately show ?R by simp
next
  assume ?R
  then show ?L by (simp add: split_on_append_sep split_on_no_sep)
qed

lemma topic_type_name_no_slash [simp]: "CHR ''/'' \<notin> set (topic_type_name ty)"
  by (cases ty) auto

lemma split_client_out_topic:
  "CHR ''/'' \<notin> set prefix \<Longrightarrow> CHR ''/'' \<notin> set cid \<Longrightarrow>
     split_on CHR ''/'' (client_out_topic prefix ty cid)
       = [prefix, ''insights'', cid, topic_type_name ty, ''out'']"
  by (simp add: topic_of_segments client_out_topic_def)

lemma sprintf_s_plain:
  "CHR ''%'' \<notin> set p \<Longrightarrow> q \<noteq> [] \<Longrightarrow> sprintf_s (p @ q) as = p @ sprintf_s q as"
proof (induction p)
  case Nil
  then show ?case by simp
next
  case (Cons c p)
  obtain d r where "p @ q = d # r" using Cons.prems by (cases "p @ q") auto
  then have "sprintf_s ((c # p) @ q) as = c # sprintf_s (p @ q) as"
    using Cons.prems by auto
  then show ?case using Cons by simp
qed

lemma BuildOutgoingDataTopic_eq:
  "CHR ''%'' \<notin> set (tb_prefix tb) \<Longrightarrow>
     BuildOutgoingDataTopic tb cid = tb_prefix tb @ ''/insights/'' @ cid @ ''/data/in''"
  by (simp add: BuildOutgoingDataTopic_def sprintf_s_plain)

lemma BuildOutgoingControlTopic_eq:
  "CHR ''%'' \<notin> set (tb_prefix tb) \<Longrightarrow>
     BuildOutgoingControlTopic tb cid = tb_prefix tb @ ''/insights/'' @ cid @ ''/control/in''"
  by (simp add: BuildOutgoingControlTopic_def sprintf_s_plain)

lemmas outgoing_topics = BuildOutgoingDataTopic_eq BuildOutgoingControlTopic_eq

text \<open>
  C37: the verifier accepts exactly the topics the protocol documentation gives clients:
  it returns type \<open>ty\<close> and client \<open>cid\<close> if and only if the topic is
  \<^verbatim>\<open>prefix/insights/cid/ty/out\<close> with no slash in the prefix or in the client id. So the
  client id it reports is the one in the topic, whatever characters the topic holds.
\<close>

theorem VerifyIncomingTopic_correct:
  "VerifyIncomingTopic tv topic = Inr (ty, cid) \<longleftrightarrow>
     topic = client_out_topic (tv_prefix tv) ty cid
     \<and> CHR ''/'' \<notin> set (tv_prefix tv) \<and> CHR ''/'' \<notin> set cid"
  unfolding VerifyIncomingTopic_Inr_iff topic_of_segments client_out_topic_def
  by auto

lemma mqtt_matches_wildcard:
  assumes "CHR ''/'' \<notin> set p" "p \<noteq> ''+''"
  shows "mqtt_matches (p @ ''/insights/+/'' @ topic_type_name ty @ ''/out'') topic \<longleftrightarrow>
           (\<exists>cid. split_on CHR ''/'' topic = [p, ''insights'', cid, topic_type_name ty, ''out''])"
proof -
  have "split_on CHR ''/'' (p @ ''/insights/+/'' @ topic_type_name ty @ ''/out'')
          = [p, ''insights'', ''+'', topic_type_name ty, ''out'']"
    using assms by (simp add: topic_of_segments)
  moreover have "topic_type_name ty \<noteq> ''+''" by (cases ty) auto
  ultimately show ?thesis using assms(2) by (auto simp: mqtt_matches_def list_all2_Cons1)
qed

lemma outgoing_never_incoming:
  "VerifyIncomingTopic tv (x @ ''/in'') \<noteq> Inr r"
proof
  assume "VerifyIncomingTopic tv (x @ ''/in'') = Inr r"
  then have "x @ ''/in'' = client_out_topic (tv_prefix tv) (fst r) (snd r)"
    by (cases r) (simp add: VerifyIncomingTopic_Inr_iff topic_of_segments client_out_topic_def)
  then have "rev (x @ ''/in'') = rev (client_out_topic (tv_prefix tv) (fst r) (snd r))" by simp
  then show False by (simp add: client_out_topic_def)
qed

lemma subscription_verified:
  assumes "CHR ''/'' \<notin> set p" and "p \<noteq> ''+''"
  shows "(mqtt_matches (BuildIncomingWildcardControlTopic (NewTopicBuilder p)) topic
            \<longleftrightarrow> (\<exists>cid. VerifyIncomingTopic (NewTopicVerifier p) topic = Inr (ControlTopicType, cid)))
       \<and> (mqtt_matches (BuildIncomingWildcardDataTopic (NewTopicBuilder p)) topic
            \<longleftrightarrow> (\<exists>cid. VerifyIncomingTopic (NewTopicVerifier p) topic = Inr (DataTopicType, cid)))"
proof -
  define q where "q = (if p = '''' then defaultTopicPrefix else p)"
  have q: "CHR ''/'' \<notin> set q" "q \<noteq> ''+''"
    using assms by (auto simp: q_def defaultTopicPrefix_def)
  show ?thesis
    using mqtt_matches_wildcard [OF q, of ControlTopicType] mqtt_matches_wildcard [OF q, of DataTopicType]
    by (simp add: BuildIncomingWildcardControlTopic_def BuildIncomingWildcardDataTopic_def
        VerifyIncomingTopic_Inr_iff flip: q_def)
qed

text \<open>
  Messages for different clients go to different topics, and never to a topic the
  service itself takes messages from. With a prefix free of the format character, the
  outgoing data (control) topics of two clients are equal only if the clients are, no data
  topic is a control topic, and no verifier accepts an outgoing topic.
\<close>

lemma outgoing_topics_disjoint:
  assumes "CHR ''%'' \<notin> set (tb_prefix tb)"
  shows "(BuildOutgoingDataTopic tb a = BuildOutgoingDataTopic tb b \<longleftrightarrow> a = b)
       \<and> (BuildOutgoingControlTopic tb a = BuildOutgoingControlTopic tb b \<longleftrightarrow> a = b)
       \<and> BuildOutgoingDataTopic tb a \<noteq> BuildOutgoingControlTopic tb b
       \<and> (\<forall>tv r. VerifyIncomingTopic tv (BuildOutgoingDataTopic tb a) \<noteq> Inr r
               \<and> VerifyIncomingTopic tv (BuildOutgoingControlTopic tb a) \<noteq> Inr r)"
proof -
  have "a @ ''/data/in'' \<noteq> b @ ''/control/in''"
  proof
    assume "a @ ''/data/in'' = b @ ''/control/in''"
    then have "rev (a @ ''/data/in'') = rev (b @ ''/control/in'')" by simp
    then show False by simp
  qed
  moreover have "VerifyIncomingTopic tv (q @ ''/insights/'' @ a @ ''/data/in'') \<noteq> Inr r"
    "VerifyIncomingTopic tv (q @ ''/insights/'' @ a @ ''/control/in'') \<noteq> Inr r" for tv q r
    using outgoing_never_incoming [of tv "q @ ''/insights/'' @ a @ ''/data''" r]
      outgoing_never_incoming [of tv "q @ ''/insights/'' @ a @ ''/control''" r]
    by simp_all
  ultimately show ?thesis using assms by (simp add: outgoing_topics)
qed

end
