(* ===== verification/Connection_Store.thy ===== *)
theory Connection_Store
  imports Protocol
begin

text \<open>
  The table \<^verbatim>\<open>connections\<close> (\<^verbatim>\<open>db/migrations\<close>), the statements the program sends to
  it, and the registrar that writes it (\<^verbatim>\<open>sql_connection_registrar.go\<close>,
  \<^verbatim>\<open>deserialization.go\<close>, \<^verbatim>\<open>utils.go\<close>). A statement is a function on the list of rows;
  that the database can refuse a call is an oracle of the state, read once per call of
  the driver. The interface \<^verbatim>\<open>ConnectionRegistrar\<close> is the locale
  \<open>connection_registrar\<close>, interpreted on the SQL registrar at the end.
\<close>

section \<open>The table\<close>

text \<open>
  One row of the table after the last migration. Nullable columns are options; a jsonb
  column holds a JSON value.
\<close>

record row =
  r_id :: nat
  r_account :: "string option"
  r_org_id :: string
  r_client_id :: string
  r_dispatchers :: json
  r_canonical_facts :: json
  r_tags :: "json option"
  r_created_at :: time
  r_updated_at :: time
  r_stale_timestamp :: time
  r_message_id :: "string option"
  r_message_sent :: time
  r_tenant_lookup_failure_count :: "int option"
  r_tenant_lookup_timestamp :: "time option"

text \<open>
  The database as a process sees it: the rows, the next value of the serial column, and
  the oracle of failing calls. \<open>sql_now\<close> is what \<^verbatim>\<open>NOW()\<close> yields, and
  \<open>pg_timestamp\<close> is what a timestamp becomes when a timestamptz column stores it
  (PostgreSQL keeps microseconds).
\<close>

record db_state = runtime +
  connections :: "row list"
  next_id :: nat
  db_fault :: "nat \<Rightarrow> error option"
  db_calls :: nat
  sql_clock :: "nat \<Rightarrow> time"
  pg_timestamp :: "time \<Rightarrow> time"

definition db_call :: "'a db_state_scheme \<Rightarrow> error option \<times> 'a db_state_scheme" where
  "db_call w = (db_fault w (db_calls w), w\<lparr>db_calls := Suc (db_calls w)\<rparr>)"

definition sql_now :: "'a db_state_scheme \<Rightarrow> time" where
  "sql_now w = sql_clock w (db_calls w)"

text \<open>
  The jsonb operator \<^verbatim>\<open>?\<close>: the text is a key of an object, a string element of an array,
  or the string itself.
\<close>

fun jsonb_exists :: "json \<Rightarrow> string \<Rightarrow> bool" where
  "jsonb_exists (JObj kvs) k \<longleftrightarrow> k \<in> fst ` set kvs"
| "jsonb_exists (JArr xs) k \<longleftrightarrow> JStr k \<in> set xs"
| "jsonb_exists (JStr s) k \<longleftrightarrow> s = k"
| "jsonb_exists _ k \<longleftrightarrow> False"

text \<open>Reading a nullable jsonb column: NULL leaves the Go variable nil.\<close>

definition deserializeDispatchers :: "json option \<Rightarrow> json" where
  "deserializeDispatchers s = (case s of None \<Rightarrow> JNull | Some v \<Rightarrow> v)"

definition deserializeCanonicalFacts :: "json option \<Rightarrow> json" where
  "deserializeCanonicalFacts s = (case s of None \<Rightarrow> JNull | Some v \<Rightarrow> v)"

definition deserializeTags :: "json option \<Rightarrow> json" where
  "deserializeTags s = (case s of None \<Rightarrow> JNull | Some v \<Rightarrow> v)"

definition nullstring_value :: "string option \<Rightarrow> string" where
  "nullstring_value s = (case s of None \<Rightarrow> '''' | Some v \<Rightarrow> v)"

definition verifyOrgId :: "OrgID \<Rightarrow> error option" where
  "verifyOrgId orgId = (if orgId = '''' then Some InvalidOrgIDError else None)"

definition verifyClientId :: "ClientID \<Rightarrow> error option" where
  "verifyClientId clientId = (if clientId = '''' then Some InvalidClientIDError else None)"

text \<open>The statements \<^verbatim>\<open>UPDATE ... WHERE\<close> and \<^verbatim>\<open>DELETE ... WHERE\<close> on the rows.\<close>

definition sql_update :: "(row \<Rightarrow> bool) \<Rightarrow> (row \<Rightarrow> row) \<Rightarrow> row list \<Rightarrow> row list" where
  "sql_update cond f rs = map (\<lambda>r. if cond r then f r else r) rs"

definition sql_delete :: "(row \<Rightarrow> bool) \<Rightarrow> row list \<Rightarrow> row list" where
  "sql_delete cond rs = filter (\<lambda>r. \<not> cond r) rs"

section \<open>The statements of the registrar\<close>

definition isTenantlessConnection :: "ConnectorClientState \<Rightarrow> bool" where
  "isTenantlessConnection rhcClient \<longleftrightarrow> length (cs_OrgID rhcClient) = 0"

text \<open>
  The UPDATE half of the upsert: every row of the client is rewritten, but for its
  canonical facts, its stale timestamp and, when the connection has no tenant, its
  failure count.
\<close>

definition register_update ::
  "ConnectorClientState \<Rightarrow> time option \<Rightarrow> time \<Rightarrow> (time \<Rightarrow> time) \<Rightarrow> row \<Rightarrow> row" where
  "register_update c tenantLookupTimestamp now ts r =
     r\<lparr>r_dispatchers := cs_Dispatchers c,
       r_tags := Some (cs_Tags c),
       r_updated_at := now,
       r_message_id := Some (LatestMessageID (cs_MessageMetadata c)),
       r_message_sent := ts (LatestTimestamp (cs_MessageMetadata c)),
       r_org_id := cs_OrgID c,
       r_account := Some (cs_Account c),
       r_tenant_lookup_timestamp := map_option ts tenantLookupTimestamp,
       r_tenant_lookup_failure_count :=
         (if isTenantlessConnection c then r_tenant_lookup_failure_count r else Some 0)\<rparr>"

text \<open>The INSERT half: the other columns take the defaults of the schema.\<close>

definition register_insert ::
  "nat \<Rightarrow> ConnectorClientState \<Rightarrow> time option \<Rightarrow> time \<Rightarrow> (time \<Rightarrow> time) \<Rightarrow> row" where
  "register_insert i c tenantLookupTimestamp now ts =
     \<lparr>r_id = i,
      r_account = Some (cs_Account c),
      r_org_id = cs_OrgID c,
      r_client_id = cs_ClientID c,
      r_dispatchers = cs_Dispatchers c,
      r_canonical_facts = cs_CanonicalFacts c,
      r_tags = Some (cs_Tags c),
      r_created_at = now,
      r_updated_at = now,
      r_stale_timestamp = now,
      r_message_id = Some (LatestMessageID (cs_MessageMetadata c)),
      r_message_sent = ts (LatestTimestamp (cs_MessageMetadata c)),
      r_tenant_lookup_failure_count = Some 0,
      r_tenant_lookup_timestamp = map_option ts tenantLookupTimestamp\<rparr>"

definition upsert ::
  "ConnectorClientState \<Rightarrow> time option \<Rightarrow> time \<Rightarrow> 'a db_state_scheme \<Rightarrow> 'a db_state_scheme" where
  "upsert c tenantLookupTimestamp now w =
     (if \<exists>r\<in>set (connections w). r_client_id r = cs_ClientID c
      then w\<lparr>connections :=
             sql_update (\<lambda>r. r_client_id r = cs_ClientID c)
               (register_update c tenantLookupTimestamp now (pg_timestamp w)) (connections w)\<rparr>
      else w\<lparr>connections := connections w
               @ [register_insert (next_id w) c tenantLookupTimestamp now (pg_timestamp w)],
             next_id := Suc (next_id w)\<rparr>)"

text \<open>
  What the registrar asks of the driver packages about an error of the database:
  \<^verbatim>\<open>pgerrcode.IsConnectionException\<close> and \<^verbatim>\<open>pq.ErrorCode.Name\<close>, which are parameters.
\<close>

record pq_driver =
  IsConnectionException :: "string \<Rightarrow> bool"
  CodeName :: "string \<Rightarrow> string"

definition Register ::
  "pq_driver \<Rightarrow> ConnectorClientState \<Rightarrow> 'a db_state_scheme
    \<Rightarrow> error option \<times> 'a db_state_scheme" where
  "Register pq rhcClient w =
     (let (tenantLookupTimestamp, w1) =
            (if isTenantlessConnection rhcClient
             then (let (timestamp, w') = time_now w in (Some timestamp, w'))
             else (None, w))
      in case db_call w1 of
           (Some err, w2) \<Rightarrow> (Some (FatalError err), w2)
         | (None, w2) \<Rightarrow>
             (case db_call w2 of
                (Some err, w3) \<Rightarrow>
                  (case err of
                     PqError code \<Rightarrow>
                       if IsConnectionException pq (CodeName pq code)
                       then (Some (FatalError err), w3) else (Some err, w3)
                   | _ \<Rightarrow> (Some err, w3))
              | (None, w3) \<Rightarrow>
                  (None, upsert rhcClient tenantLookupTimestamp (sql_now w2) w3)))"

definition Unregister ::
  "ClientID \<Rightarrow> 'a db_state_scheme \<Rightarrow> error option \<times> 'a db_state_scheme" where
  "Unregister client_id w =
     (case db_call w of
        (Some err, w1) \<Rightarrow> (Some (FatalError err), w1)
      | (None, w1) \<Rightarrow>
          (case db_call w1 of
             (Some err, w2) \<Rightarrow> (Some (FatalError err), w2)
           | (None, w2) \<Rightarrow>
               (None, w2\<lparr>connections :=
                         sql_delete (\<lambda>r. r_client_id r = client_id) (connections w2)\<rparr>)))"

text \<open>
  What a row gives to the struct: the columns of the registrar's SELECT. The tenant lookup
  fields are not selected and stay zero.
\<close>

definition row_state :: "row \<Rightarrow> ConnectorClientState" where
  "row_state r =
     zero_ConnectorClientState
       \<lparr>cs_OrgID := r_org_id r,
        cs_ClientID := r_client_id r,
        cs_Account := nullstring_value (r_account r),
        cs_CanonicalFacts := deserializeCanonicalFacts (Some (r_canonical_facts r)),
        cs_Dispatchers := deserializeDispatchers (Some (r_dispatchers r)),
        cs_Tags := deserializeTags (r_tags r),
        cs_MessageMetadata :=
          \<lparr>LatestMessageID = nullstring_value (r_message_id r),
           LatestTimestamp = r_message_sent r\<rparr>\<rparr>"

definition FindConnectionByClientID ::
  "ClientID \<Rightarrow> 'a db_state_scheme
    \<Rightarrow> (ConnectorClientState \<times> error option) \<times> 'a db_state_scheme" where
  "FindConnectionByClientID client_id w =
     (case db_call w of
        (Some err, w1) \<Rightarrow> ((zero_ConnectorClientState, Some (FatalError err)), w1)
      | (None, w1) \<Rightarrow>
          (case db_call w1 of
             (Some err, w2) \<Rightarrow>
               (if errors_is err ErrNoRows
                then ((zero_ConnectorClientState, Some NotFoundError), w2)
                else ((zero_ConnectorClientState, Some (FatalError err)), w2))
           | (None, w2) \<Rightarrow>
               (case find (\<lambda>r. r_client_id r = client_id) (connections w2) of
                  None \<Rightarrow> ((zero_ConnectorClientState, Some NotFoundError), w2)
                | Some r \<Rightarrow> ((row_state r, None), w2))))"

section \<open>The interface ConnectionRegistrar\<close>

text \<open>The Go interface: three methods that act on the state \<open>'w\<close> of the implementation.\<close>

record 'w ConnectionRegistrar =
  reg_Register :: "ConnectorClientState \<Rightarrow> 'w \<Rightarrow> error option \<times> 'w"
  reg_Unregister :: "ClientID \<Rightarrow> 'w \<Rightarrow> error option \<times> 'w"
  reg_FindConnectionByClientID ::
    "ClientID \<Rightarrow> 'w \<Rightarrow> (ConnectorClientState \<times> error option) \<times> 'w"

definition SqlConnectionRegistrar :: "pq_driver \<Rightarrow> ('a db_state_scheme) ConnectionRegistrar" where
  "SqlConnectionRegistrar pq =
     \<lparr>reg_Register = Register pq,
      reg_Unregister = Unregister,
      reg_FindConnectionByClientID = FindConnectionByClientID\<rparr>"

text \<open>
  The part of a client's state that every successful registration writes: all of it but
  the canonical facts and the tenant lookup fields, with the time as the store keeps it.
\<close>

definition registration :: "(time \<Rightarrow> time) \<Rightarrow> ConnectorClientState \<Rightarrow> ConnectorClientState" where
  "registration ts c =
     zero_ConnectorClientState
       \<lparr>cs_Account := cs_Account c, cs_OrgID := cs_OrgID c, cs_ClientID := cs_ClientID c,
        cs_Dispatchers := cs_Dispatchers c, cs_Tags := cs_Tags c,
        cs_MessageMetadata :=
          \<lparr>LatestMessageID = LatestMessageID (cs_MessageMetadata c),
           LatestTimestamp = ts (LatestTimestamp (cs_MessageMetadata c))\<rparr>\<rparr>"

definition conn_view :: "'a db_state_scheme \<Rightarrow> ClientID \<Rightarrow> ConnectorClientState option" where
  "conn_view w cid =
     map_option (\<lambda>r. registration id (row_state r))
       (find (\<lambda>r. r_client_id r = cid) (connections w))"

text \<open>
  The invariant of the table: no client has two rows, stored times are times the column
  can hold, rounding to the column keeps the order, and the oracle of failures never plays
  the error that means an empty result.
\<close>

definition unique_clients :: "'a db_state_scheme \<Rightarrow> bool" where
  "unique_clients w \<longleftrightarrow> distinct (map r_client_id (connections w))"

definition pg_timestamp_ok :: "(time \<Rightarrow> time) \<Rightarrow> bool" where
  "pg_timestamp_ok ts \<longleftrightarrow> mono ts \<and> (\<forall>t. ts (ts t) = ts t)"

definition db_inv :: "'a db_state_scheme \<Rightarrow> bool" where
  "db_inv w \<longleftrightarrow>
     unique_clients w
     \<and> (\<forall>r\<in>set (connections w). pg_timestamp w (r_message_sent r) = r_message_sent r)
     \<and> pg_timestamp_ok (pg_timestamp w)
     \<and> (\<forall>n e. db_fault w n = Some e \<longrightarrow> \<not> errors_is e ErrNoRows)"

text \<open>
  What the handlers rely on. \<open>view\<close> is the abstract content of the store, a finite map
  from clients to registrations; \<open>ts\<close> is the rounding of times.
\<close>

locale connection_registrar =
  fixes reg :: "'w ConnectionRegistrar"
    and view :: "'w \<Rightarrow> ClientID \<Rightarrow> ConnectorClientState option"
    and ts :: "'w \<Rightarrow> time \<Rightarrow> time"
    and inv :: "'w \<Rightarrow> bool"
  assumes register_ok:
      "inv w \<Longrightarrow> reg_Register reg c w = (None, w') \<Longrightarrow>
         view w' = (view w)(cs_ClientID c \<mapsto> registration (ts w) c)"
    and register_err:
      "inv w \<Longrightarrow> reg_Register reg c w = (Some e, w') \<Longrightarrow> view w' = view w"
    and register_keeps:
      "inv w \<Longrightarrow> reg_Register reg c w = (r, w') \<Longrightarrow> inv w' \<and> ts w' = ts w"
    and unregister_ok:
      "inv w \<Longrightarrow> reg_Unregister reg cid w = (None, w') \<Longrightarrow> view w' = (view w)(cid := None)"
    and unregister_err:
      "inv w \<Longrightarrow> reg_Unregister reg cid w = (Some e, w') \<Longrightarrow> view w' = view w"
    and unregister_keeps:
      "inv w \<Longrightarrow> reg_Unregister reg cid w = (r, w') \<Longrightarrow> inv w' \<and> ts w' = ts w"
    and find_ok:
      "inv w \<Longrightarrow> reg_FindConnectionByClientID reg cid w = ((c, None), w') \<Longrightarrow>
         view w cid = Some (registration id c)"
    and find_missing:
      "inv w \<Longrightarrow> reg_FindConnectionByClientID reg cid w = ((c, Some NotFoundError), w') \<Longrightarrow>
         view w cid = None"
    and find_err:
      "inv w \<Longrightarrow> reg_FindConnectionByClientID reg cid w = ((c, Some e), w') \<Longrightarrow>
         e = NotFoundError \<or> (\<exists>e'. e = FatalError e')"
    and find_keeps:
      "inv w \<Longrightarrow> reg_FindConnectionByClientID reg cid w = (res, w') \<Longrightarrow>
         inv w' \<and> ts w' = ts w \<and> view w' = view w"
    and view_client: "inv w \<Longrightarrow> view w cid = Some v \<Longrightarrow> cs_ClientID v = cid"
    and view_time:
      "inv w \<Longrightarrow> view w cid = Some v \<Longrightarrow>
         ts w (LatestTimestamp (cs_MessageMetadata v)) = LatestTimestamp (cs_MessageMetadata v)"
    and ts_mono: "inv w \<Longrightarrow> t \<le> u \<Longrightarrow> ts w t \<le> ts w u"

section \<open>The SQL registrar meets the interface\<close>

lemma registration_simps [simp]:
  "cs_ClientID (registration ts c) = cs_ClientID c"
  "cs_OrgID (registration ts c) = cs_OrgID c"
  "cs_Account (registration ts c) = cs_Account c"
  "cs_Dispatchers (registration ts c) = cs_Dispatchers c"
  "cs_Tags (registration ts c) = cs_Tags c"
  "LatestMessageID (cs_MessageMetadata (registration ts c)) = LatestMessageID (cs_MessageMetadata c)"
  "LatestTimestamp (cs_MessageMetadata (registration ts c)) = ts (LatestTimestamp (cs_MessageMetadata c))"
  by (simp_all add: registration_def)

lemma row_state_simps [simp]:
  "cs_ClientID (row_state r) = r_client_id r"
  "cs_OrgID (row_state r) = r_org_id r"
  "cs_Account (row_state r) = nullstring_value (r_account r)"
  "cs_Dispatchers (row_state r) = r_dispatchers r"
  "cs_CanonicalFacts (row_state r) = r_canonical_facts r"
  "LatestTimestamp (cs_MessageMetadata (row_state r)) = r_message_sent r"
  "LatestMessageID (cs_MessageMetadata (row_state r)) = nullstring_value (r_message_id r)"
  by (simp_all add: row_state_def deserializeDispatchers_def deserializeCanonicalFacts_def)

lemma registration_register_update [simp]:
  "r_client_id r = cs_ClientID c \<Longrightarrow>
     registration id (row_state (register_update c t now ts r)) = registration ts c"
  by (simp add: registration_def row_state_def register_update_def nullstring_value_def
      deserializeDispatchers_def deserializeTags_def)

lemma registration_register_insert [simp]:
  "registration id (row_state (register_insert i c t now ts)) = registration ts c"
  by (simp add: registration_def row_state_def register_insert_def nullstring_value_def
      deserializeDispatchers_def deserializeTags_def)

lemma register_update_simps [simp]:
  "r_client_id (register_update c t now ts r) = r_client_id r"
  "r_canonical_facts (register_update c t now ts r) = r_canonical_facts r"
  "r_stale_timestamp (register_update c t now ts r) = r_stale_timestamp r"
  "r_message_sent (register_update c t now ts r) = ts (LatestTimestamp (cs_MessageMetadata c))"
  "r_org_id (register_update c t now ts r) = cs_OrgID c"
  by (simp_all add: register_update_def)

lemma register_insert_simps [simp]:
  "r_client_id (register_insert i c t now ts) = cs_ClientID c"
  "r_message_sent (register_insert i c t now ts) = ts (LatestTimestamp (cs_MessageMetadata c))"
  "r_org_id (register_insert i c t now ts) = cs_OrgID c"
  by (simp_all add: register_insert_def)

lemma find_append:
  "find P (xs @ ys) = (case find P xs of None \<Rightarrow> find P ys | Some x \<Rightarrow> Some x)"
  by (induction xs) auto

lemma find_client_Some: "find (\<lambda>r. r_client_id r = cid) rs = Some r \<Longrightarrow> r \<in> set rs \<and> r_client_id r = cid"
  by (induction rs) (auto split: if_splits)

lemma find_client_None: "find (\<lambda>r. r_client_id r = cid) rs = None \<longleftrightarrow> (\<forall>r\<in>set rs. r_client_id r \<noteq> cid)"
  by (induction rs) auto

lemma find_client_distinct:
  "distinct (map r_client_id rs) \<Longrightarrow> r \<in> set rs \<Longrightarrow> find (\<lambda>x. r_client_id x = r_client_id r) rs = Some r"
  by (induction rs) auto

lemma sql_update_set: "set (sql_update P f rs) = (\<lambda>r. if P r then f r else r) ` set rs"
  by (simp add: sql_update_def)

lemma sql_update_clients:
  "(\<And>r. r_client_id (f r) = r_client_id r) \<Longrightarrow>
     map r_client_id (sql_update P f rs) = map r_client_id rs"
  by (induction rs) (auto simp: sql_update_def)

lemma find_sql_update:
  "(\<And>r. r_client_id (f r) = r_client_id r) \<Longrightarrow>
     find (\<lambda>r. r_client_id r = cid) (sql_update P f rs)
       = map_option (\<lambda>r. if P r then f r else r) (find (\<lambda>r. r_client_id r = cid) rs)"
  by (induction rs) (auto simp: sql_update_def)

lemma find_sql_delete:
  "find (\<lambda>r. r_client_id r = cid) (sql_delete (\<lambda>r. r_client_id r = cid') rs)
     = (if cid = cid' then None else find (\<lambda>r. r_client_id r = cid) rs)"
  by (induction rs) (auto simp: sql_delete_def)

lemma conn_view_upsert:
  "conn_view (upsert c t now w) = (conn_view w)(cs_ClientID c \<mapsto> registration (pg_timestamp w) c)"
proof (rule ext)
  fix cid
  show "conn_view (upsert c t now w) cid
          = ((conn_view w)(cs_ClientID c \<mapsto> registration (pg_timestamp w) c)) cid"
  proof (cases "find (\<lambda>r. r_client_id r = cid) (connections w)")
    case None
    then show ?thesis
      using find_client_None [of cid "connections w"]
      by (auto simp: upsert_def conn_view_def find_append find_sql_update)
  next
    case (Some r)
    then have "r \<in> set (connections w)" "r_client_id r = cid" using find_client_Some by auto
    with Some show ?thesis
      by (cases "cid = cs_ClientID c")
        (auto simp: upsert_def conn_view_def find_append find_sql_update option.map_comp)
  qed
qed

lemma db_inv_upsert: "db_inv w \<Longrightarrow> db_inv (upsert c t now w)"
  by (auto simp: db_inv_def unique_clients_def upsert_def pg_timestamp_ok_def
      sql_update_clients sql_update_set)

lemma upsert_frame [simp]:
  "db_fault (upsert c t now w) = db_fault w" "pg_timestamp (upsert c t now w) = pg_timestamp w"
  "db_calls (upsert c t now w) = db_calls w"
  by (simp_all add: upsert_def)

text \<open>Calls of the driver and readings of the clock leave the table alone.\<close>

lemma db_call_frame [cc_frame]:
  "db_call w = (r, w') \<Longrightarrow> connections w' = connections w \<and> pg_timestamp w' = pg_timestamp w
     \<and> db_fault w' = db_fault w \<and> next_id w' = next_id w \<and> sql_clock w' = sql_clock w"
  by (auto simp: db_call_def)

lemma time_now_frame [cc_frame]:
  "time_now w = (t, (w' :: 'a db_state_scheme)) \<Longrightarrow>
     connections w' = connections w \<and> pg_timestamp w' = pg_timestamp w
     \<and> db_fault w' = db_fault w \<and> next_id w' = next_id w \<and> db_calls w' = db_calls w
     \<and> sql_clock w' = sql_clock w"
  by (auto simp: time_now_def)

lemma conn_view_cong: "connections w' = connections w \<Longrightarrow> conn_view w' = conn_view w"
  by (simp add: conn_view_def fun_eq_iff)

lemma db_inv_cong:
  "connections w' = connections w \<Longrightarrow> pg_timestamp w' = pg_timestamp w \<Longrightarrow> db_fault w' = db_fault w
     \<Longrightarrow> db_inv w' = db_inv w"
  by (simp add: db_inv_def unique_clients_def)

text \<open>
  A registration either fails and leaves the table as it was, or is one upsert on a state
  that differs from the start in its counters only.
\<close>

lemma Register_cases:
  assumes "Register pq c w = (res, w')"
  obtains (failed) e where "res = Some e" "connections w' = connections w"
      "pg_timestamp w' = pg_timestamp w" "db_fault w' = db_fault w"
    | (stored) u t now where "res = None" "w' = upsert c t now u"
      "connections u = connections w" "pg_timestamp u = pg_timestamp w" "db_fault u = db_fault w"
      "next_id u = next_id w" "t = None \<longleftrightarrow> \<not> isTenantlessConnection c"
  using assms
  by (fastforce simp: Register_def db_call_def time_now_def Let_def
      split: prod.splits option.splits error.splits if_splits)

lemma Unregister_cases:
  assumes "Unregister cid w = (res, w')"
  obtains (failed) e where "res = Some e" "connections w' = connections w"
      "pg_timestamp w' = pg_timestamp w" "db_fault w' = db_fault w"
    | (stored) "res = None" "connections w' = sql_delete (\<lambda>r. r_client_id r = cid) (connections w)"
      "pg_timestamp w' = pg_timestamp w" "db_fault w' = db_fault w"
  using assms
  by (auto simp: Unregister_def db_call_def split: prod.splits option.splits)

lemma FindConnectionByClientID_cases:
  assumes "FindConnectionByClientID cid w = ((c, err), w')"
  obtains (fault) e where "err = Some (FatalError e)"
    | (norows) n e where "err = Some NotFoundError" "db_fault w n = Some e" "errors_is e ErrNoRows"
    | (missing) "err = Some NotFoundError" "find (\<lambda>r. r_client_id r = cid) (connections w) = None"
    | (found) r where "err = None" "c = row_state r"
        "find (\<lambda>r. r_client_id r = cid) (connections w) = Some r"
  using assms
  by (fastforce simp: FindConnectionByClientID_def db_call_def
      split: prod.splits option.splits if_splits)

lemma FindConnectionByClientID_frame [cc_frame]:
  "FindConnectionByClientID cid w = (res, w') \<Longrightarrow>
     connections w' = connections w \<and> pg_timestamp w' = pg_timestamp w \<and> db_fault w' = db_fault w"
  by (auto simp: FindConnectionByClientID_def db_call_def
      split: prod.splits option.splits if_splits)

interpretation sql: connection_registrar
  "SqlConnectionRegistrar pq" conn_view pg_timestamp db_inv
  for pq :: pq_driver
proof (unfold_locales, goal_cases)
  case (1 w c w')
  then have "Register pq c w = (None, w')" by (simp add: SqlConnectionRegistrar_def)
  then show ?case
  proof (cases rule: Register_cases)
    case (stored u t now)
    then show ?thesis using conn_view_cong [of u w] by (simp add: conn_view_upsert)
  qed simp
next
  case (2 w c e w')
  then show ?case
    by (auto simp: SqlConnectionRegistrar_def intro: conn_view_cong elim!: Register_cases)
next
  case (3 w c r w')
  then have "Register pq c w = (r, w')" by (simp add: SqlConnectionRegistrar_def)
  then show ?case
  proof (cases rule: Register_cases)
    case (failed e)
    then show ?thesis using 3(1) db_inv_cong [of w' w] by simp
  next
    case (stored u t now)
    then show ?thesis using 3(1) db_inv_upsert [of u] db_inv_cong [of u w] by simp
  qed
next
  case (4 w cid w')
  then show ?case
    by (auto simp: SqlConnectionRegistrar_def conn_view_def find_sql_delete fun_eq_iff
        elim!: Unregister_cases)
next
  case (5 w cid e w')
  then show ?case
    by (auto simp: SqlConnectionRegistrar_def intro: conn_view_cong elim!: Unregister_cases)
next
  case (6 w cid r w')
  then show ?case
    by (auto simp: SqlConnectionRegistrar_def db_inv_def unique_clients_def sql_delete_def
        distinct_map_filter elim!: Unregister_cases)
next
  case (7 w cid c w')
  then show ?case
    by (auto simp: SqlConnectionRegistrar_def conn_view_def elim!: FindConnectionByClientID_cases)
next
  case (8 w cid c w')
  then show ?case
    by (auto simp: SqlConnectionRegistrar_def conn_view_def db_inv_def
        elim!: FindConnectionByClientID_cases)
next
  case (9 w cid c e w')
  then show ?case
    by (auto simp: SqlConnectionRegistrar_def elim!: FindConnectionByClientID_cases)
next
  case (10 w cid res w')
  then have "FindConnectionByClientID cid w = (res, w')" by (simp add: SqlConnectionRegistrar_def)
  from FindConnectionByClientID_frame [OF this] 10(1) show ?case
    using conn_view_cong [of w' w] db_inv_cong [of w' w] by simp
next
  case (11 w cid v)
  then show ?case by (auto simp: conn_view_def dest: find_client_Some)
next
  case (12 w cid v)
  then show ?case by (auto simp: conn_view_def db_inv_def dest: find_client_Some)
next
  case (13 w t u)
  then show ?case by (auto simp: db_inv_def pg_timestamp_ok_def monoD)
qed

section \<open>A store that answers\<close>

text \<open>
  What progress needs beside the laws above: while the store is \<open>up\<close>, no call fails, and
  reading leaves it up.
\<close>

locale available_registrar = connection_registrar reg view ts inv
  for reg :: "'w ConnectionRegistrar" and view and ts and inv +
  fixes up :: "'w \<Rightarrow> bool"
  assumes up_register: "inv w \<Longrightarrow> up w \<Longrightarrow> fst (reg_Register reg c w) = None"
    and up_unregister: "inv w \<Longrightarrow> up w \<Longrightarrow> fst (reg_Unregister reg cid w) = None"
    and up_find:
      "inv w \<Longrightarrow> up w \<Longrightarrow> reg_FindConnectionByClientID reg cid w = ((c, Some e), w') \<Longrightarrow>
         e = NotFoundError"
    and up_find_keeps:
      "inv w \<Longrightarrow> up w \<Longrightarrow> reg_FindConnectionByClientID reg cid w = (res, w') \<Longrightarrow> up w'"
begin

text \<open>While the store is up, a client is found right after it registered, as it registered.\<close>

lemma register_then_find:
  assumes "inv w" and "reg_Register reg c w = (None, w1)" and "up w1"
  shows "\<exists>c' w2. reg_FindConnectionByClientID reg (cs_ClientID c) w1 = ((c', None), w2)
     \<and> registration id c' = registration (ts w) c"
proof -
  have i1: "inv w1" using register_keeps [OF assms(1,2)] by simp
  have v: "view w1 (cs_ClientID c) = Some (registration (ts w) c)"
    using register_ok [OF assms(1,2)] by simp
  obtain c' e w2 where f: "reg_FindConnectionByClientID reg (cs_ClientID c) w1 = ((c', e), w2)"
    by (cases "reg_FindConnectionByClientID reg (cs_ClientID c) w1") auto
  have "e = None"
    using f v up_find [OF i1 assms(3)] find_missing [OF i1] by (cases e) auto
  with f v show ?thesis using find_ok [OF i1] by auto
qed

lemma unregister_then_find:
  assumes "inv w" and "reg_Unregister reg cid w = (None, w1)" and "up w1"
  shows "\<exists>c' w2. reg_FindConnectionByClientID reg cid w1 = ((c', Some NotFoundError), w2)"
proof -
  have i1: "inv w1" using unregister_keeps [OF assms(1,2)] by simp
  have v: "view w1 cid = None" using unregister_ok [OF assms(1,2)] by simp
  obtain c' e w2 where f: "reg_FindConnectionByClientID reg cid w1 = ((c', e), w2)"
    by (cases "reg_FindConnectionByClientID reg cid w1") auto
  show ?thesis using f v up_find [OF i1 assms(3)] find_ok [OF i1] by (cases e) auto
qed

end

definition db_up :: "'a db_state_scheme \<Rightarrow> bool" where
  "db_up w \<longleftrightarrow> (\<forall>n. db_fault w n = None)"

lemma db_call_up [simp]: "db_up w \<Longrightarrow> db_call w = (None, w\<lparr>db_calls := Suc (db_calls w)\<rparr>)"
  by (simp add: db_call_def db_up_def)

lemma db_up_simps [simp]:
  "db_up (w\<lparr>db_calls := n\<rparr>) = db_up w" "db_up (w\<lparr>ticks := n\<rparr>) = db_up w"
  "db_up (w\<lparr>uuids := n\<rparr>) = db_up w"
  by (simp_all add: db_up_def)

interpretation sql_up: available_registrar
  "SqlConnectionRegistrar pq" conn_view pg_timestamp db_inv db_up for pq
  by unfold_locales
    (auto simp: SqlConnectionRegistrar_def Register_def Unregister_def FindConnectionByClientID_def
      time_now_def Let_def split: option.splits)

section \<open>Properties\<close>

text \<open>
  C26: The SQL registrar implements a map from clients to registrations. On a table that
  meets the invariant, each operation that reports success has exactly the map's effect,
  each that reports an error has none, lookups agree with the map, and the invariant is
  kept on every path.
\<close>

theorem registrar_refines_map:
  assumes "db_inv w"
  shows "(case Register pq c w of
            (None, w') \<Rightarrow> db_inv w' \<and> conn_view w' = (conn_view w)(cs_ClientID c \<mapsto> registration (pg_timestamp w) c)
          | (Some e, w') \<Rightarrow> db_inv w' \<and> conn_view w' = conn_view w)
     \<and> (case Unregister cid w of
            (None, w') \<Rightarrow> db_inv w' \<and> conn_view w' = (conn_view w)(cid := None)
          | (Some e, w') \<Rightarrow> db_inv w' \<and> conn_view w' = conn_view w)
     \<and> (case FindConnectionByClientID cid w of
            ((c', None), w') \<Rightarrow> db_inv w' \<and> conn_view w' = conn_view w \<and> conn_view w cid = Some (registration id c')
          | ((c', Some e), w') \<Rightarrow> db_inv w' \<and> conn_view w' = conn_view w
              \<and> (e = NotFoundError \<and> conn_view w cid = None \<or> (\<exists>e'. e = FatalError e')))"
proof (intro conjI)
  show "case Register pq c w of
            (None, w') \<Rightarrow> db_inv w' \<and> conn_view w' = (conn_view w)(cs_ClientID c \<mapsto> registration (pg_timestamp w) c)
          | (Some e, w') \<Rightarrow> db_inv w' \<and> conn_view w' = conn_view w"
    using sql.register_ok [OF assms, of pq c] sql.register_err [OF assms, of pq c]
      sql.register_keeps [OF assms, of pq c]
    by (auto simp: SqlConnectionRegistrar_def split: prod.splits option.splits)
  show "case Unregister cid w of
            (None, w') \<Rightarrow> db_inv w' \<and> conn_view w' = (conn_view w)(cid := None)
          | (Some e, w') \<Rightarrow> db_inv w' \<and> conn_view w' = conn_view w"
    using sql.unregister_ok [OF assms, of _ cid] sql.unregister_err [OF assms, of _ cid]
      sql.unregister_keeps [OF assms, of _ cid]
    by (auto simp: SqlConnectionRegistrar_def split: prod.splits option.splits)
  show "case FindConnectionByClientID cid w of
            ((c', None), w') \<Rightarrow> db_inv w' \<and> conn_view w' = conn_view w \<and> conn_view w cid = Some (registration id c')
          | ((c', Some e), w') \<Rightarrow> db_inv w' \<and> conn_view w' = conn_view w
              \<and> (e = NotFoundError \<and> conn_view w cid = None \<or> (\<exists>e'. e = FatalError e'))"
  proof -
    obtain c' err w' where f: "FindConnectionByClientID cid w = ((c', err), w')"
      by (cases "FindConnectionByClientID cid w") auto
    then have "reg_FindConnectionByClientID (SqlConnectionRegistrar pq) cid w = ((c', err), w')"
      by (simp add: SqlConnectionRegistrar_def)
    then show ?thesis
      using f sql.find_keeps [OF assms, of pq cid "(c', err)" w'] sql.find_ok [OF assms, of pq cid c' w']
        sql.find_missing [OF assms, of pq cid c' w'] sql.find_err [OF assms, of pq cid c' _ w']
      by (cases err) auto
  qed
qed

text \<open>A database without faults, with one client.\<close>

definition example_db :: db_state where
  "example_db =
     \<lparr>clock = (\<lambda>n. 0), ticks = 0, uuid_source = (\<lambda>n. Inr ''u''), uuids = 0,
      connections = [], next_id = 1, db_fault = (\<lambda>n. None), db_calls = 0,
      sql_clock = (\<lambda>n. 0), pg_timestamp = (\<lambda>t. t)\<rparr>"

definition example_driver :: pq_driver where
  "example_driver =
     \<lparr>IsConnectionException = (\<lambda>c. take 2 c = ''08''), CodeName = (\<lambda>c. ''connection_failure'')\<rparr>"

lemma example_db_inv: "db_inv example_db" "db_up example_db"
  by (simp_all add: db_inv_def unique_clients_def pg_timestamp_ok_def mono_def example_db_def db_up_def)

theorem registrar_refines_map_witness:
  "conn_view (snd (Register example_driver (zero_ConnectorClientState\<lparr>cs_ClientID := ''c''\<rparr>) example_db)) ''c''
     = Some (registration (\<lambda>t. t) (zero_ConnectorClientState\<lparr>cs_ClientID := ''c''\<rparr>))"
proof -
  let ?c = "zero_ConnectorClientState\<lparr>cs_ClientID := ''c''\<rparr>"
  have r: "fst (Register example_driver ?c example_db) = None"
    using sql_up.up_register [OF example_db_inv, of example_driver ?c] by (simp add: SqlConnectionRegistrar_def)
  have "case Register example_driver ?c example_db of
            (None, w') \<Rightarrow> db_inv w' \<and> conn_view w' = (conn_view example_db)(cs_ClientID ?c \<mapsto> registration (pg_timestamp example_db) ?c)
          | (Some e, w') \<Rightarrow> db_inv w' \<and> conn_view w' = conn_view example_db"
    using registrar_refines_map [OF example_db_inv(1), where pq = example_driver and c = ?c] by (rule conjunct1)
  with r show ?thesis by (auto simp: example_db_def split: prod.splits option.splits)
qed



text \<open>
  When a registration error is fatal. The driver's test for connection errors compares
  SQLSTATE codes, but is given the name of the code; when no name passes the test, a
  registration fails with a fatal error exactly when the statement could not be prepared.
  An upsert that fails, for whatever reason, gives an error that is not fatal, which the
  handler drops.
\<close>

theorem Register_fatal_only_on_prepare:
  assumes "\<forall>code. \<not> IsConnectionException pq (CodeName pq code)"
    and "\<forall>n e. db_fault w n = Some e \<longrightarrow> \<not> errors_as_fatal e"
  shows "(\<exists>e. fst (Register pq c w) = Some e \<and> errors_as_fatal e) \<longleftrightarrow> db_fault w (db_calls w) \<noteq> None"
  using assms(1) assms(2) [rule_format, of "Suc (db_calls w)"]
  by (auto simp: Register_def db_call_def time_now_def Let_def split: option.splits error.splits)

theorem Register_fatal_only_on_prepare_witness:
  "\<not> (\<exists>e. fst (Register example_driver zero_ConnectorClientState
            (example_db\<lparr>db_fault := (\<lambda>n. if n = 1 then Some (PqError ''08006'') else None)\<rparr>)) = Some e
         \<and> errors_as_fatal e)"
proof -
  let ?w = "example_db\<lparr>db_fault := (\<lambda>n. if n = 1 then Some (PqError ''08006'') else None)\<rparr>"
  have "\<forall>code. \<not> IsConnectionException example_driver (CodeName example_driver code)"
    by (simp add: example_driver_def)
  moreover have "\<forall>n e. db_fault ?w n = Some e \<longrightarrow> \<not> errors_as_fatal e" by simp
  moreover have "db_fault ?w (db_calls ?w) = None" by (simp add: example_db_def)
  ultimately show ?thesis
    using Register_fatal_only_on_prepare [where pq = example_driver and w = ?w
        and c = zero_ConnectorClientState] by simp
qed

text \<open>The update half of the upsert does not write the canonical facts.\<close>

lemma upsert_keeps_facts:
  assumes "r \<in> set (connections w)" and "r_client_id r = cs_ClientID c"
  shows "\<exists>r'\<in>set (connections (upsert c t now w)).
     r_client_id r' = cs_ClientID c \<and> r_canonical_facts r' = r_canonical_facts r"
proof -
  have "register_update c t now (pg_timestamp w) r \<in> set (connections (upsert c t now w))"
    using assms by (auto simp: upsert_def sql_update_set image_iff)
  then show ?thesis using assms(2) by (intro bexI) simp_all
qed

end
