(* ===== verification/Base64.thy ===== *)
theory Base64
  imports CC_Prelude
begin

text \<open>
  \<^verbatim>\<open>base64.StdEncoding\<close> of the Go standard library, which the identity headers go
  through (\<^verbatim>\<open>identity_utils/identity.go\<close>, \<^verbatim>\<open>account_resolver.go\<close>): the padded alphabet,
  a decoder that skips line breaks and refuses everything else, and the round trip.
\<close>

section \<open>Definitions\<close>

definition b64_alphabet :: string where
  "b64_alphabet = ''ABCDEFGHIJKLMNOPQRSTUVWXYZabcdefghijklmnopqrstuvwxyz0123456789+/''"

definition b64_char :: "nat \<Rightarrow> char" where
  "b64_char n = b64_alphabet ! n"

definition b64_value :: "char \<Rightarrow> nat option" where
  "b64_value c =
     (let n = (of_char c :: nat)
      in if 65 \<le> n \<and> n \<le> 90 then Some (n - 65)
         else if 97 \<le> n \<and> n \<le> 122 then Some (n - 71)
         else if 48 \<le> n \<and> n \<le> 57 then Some (n + 4)
         else if n = 43 then Some 62
         else if n = 47 then Some 63
         else None)"

definition b64_pad :: char where
  "b64_pad = CHR ''=''"

fun encode_bytes :: "nat list \<Rightarrow> string" where
  "encode_bytes [] = []"
| "encode_bytes [a] =
     [b64_char (a div 4), b64_char (a mod 4 * 16), b64_pad, b64_pad]"
| "encode_bytes [a, b] =
     [b64_char (a div 4), b64_char (a mod 4 * 16 + b div 16), b64_char (b mod 16 * 4), b64_pad]"
| "encode_bytes (a # b # c # bs) =
     b64_char (a div 4) # b64_char (a mod 4 * 16 + b div 16)
     # b64_char (b mod 16 * 4 + c div 64) # b64_char (c mod 64) # encode_bytes bs"

definition EncodeToString :: "string \<Rightarrow> string" where
  "EncodeToString s = encode_bytes (map of_char s)"

fun decode_quanta :: "string \<Rightarrow> nat list option" where
  "decode_quanta [] = Some []"
| "decode_quanta (p # q # r # s # rest) =
     (case (b64_value p, b64_value q) of
        (Some a, Some b) \<Rightarrow>
          (if r = b64_pad then
             (if s = b64_pad \<and> rest = [] then Some [(a * 4 + b div 16) mod 256] else None)
           else case b64_value r of
                  None \<Rightarrow> None
                | Some c \<Rightarrow>
                    (if s = b64_pad then
                       (if rest = []
                        then Some [(a * 4 + b div 16) mod 256, (b mod 16 * 16 + c div 4) mod 256]
                        else None)
                     else case b64_value s of
                            None \<Rightarrow> None
                          | Some d \<Rightarrow>
                              (case decode_quanta rest of
                                 None \<Rightarrow> None
                               | Some bs \<Rightarrow>
                                   Some ((a * 4 + b div 16) mod 256 # (b mod 16 * 16 + c div 4) mod 256
                                         # (c mod 4 * 64 + d) mod 256 # bs))))
      | _ \<Rightarrow> None)"
| "decode_quanta s = None"

definition CorruptInputError :: error where
  "CorruptInputError = ErrorString ''illegal base64 data''"

definition DecodeString :: "string \<Rightarrow> error + string" where
  "DecodeString s =
     (case decode_quanta (filter (\<lambda>c. c \<noteq> CHR 0x0A \<and> c \<noteq> CHR 0x0D) s) of
        None \<Rightarrow> Inl CorruptInputError
      | Some bs \<Rightarrow> Inr (map char_of bs))"

section \<open>The round trip\<close>

lemma b64_alphabet_values:
  "map b64_value b64_alphabet = map Some [0..<64]"
  by code_simp

lemma length_b64_alphabet [simp]: "length b64_alphabet = 64"
  by (simp add: b64_alphabet_def)

lemma b64_value_b64_char [simp]: "n < 64 \<Longrightarrow> b64_value (b64_char n) = Some n"
proof -
  assume n: "n < 64"
  have "map b64_value b64_alphabet ! n = map Some [0..<64] ! n"
    by (simp only: b64_alphabet_values)
  with n show ?thesis by (simp add: b64_char_def)
qed

lemma b64_char_not_special:
  assumes "n < 64"
  shows "b64_char n \<noteq> b64_pad" "b64_char n \<noteq> CHR 0x0A" "b64_char n \<noteq> CHR 0x0D"
  using b64_value_b64_char [OF assms] by (auto simp: b64_value_def b64_pad_def)

lemma encode_bytes_no_breaks:
  "\<forall>b\<in>set bs. b < 256 \<Longrightarrow>
     filter (\<lambda>c. c \<noteq> CHR 0x0A \<and> c \<noteq> CHR 0x0D) (encode_bytes bs) = encode_bytes bs"
  by (induction bs rule: encode_bytes.induct)
    (auto simp: b64_char_not_special b64_pad_def)

lemma decode_encode_bytes:
  "\<forall>b\<in>set bs. b < 256 \<Longrightarrow> decode_quanta (encode_bytes bs) = Some bs"
proof (induction bs rule: encode_bytes.induct)
  case (4 a b c bs)
  have v: "a div 4 < 64" "a mod 4 * 16 + b div 16 < 64" "b mod 16 * 4 + c div 64 < 64" "c mod 64 < 64"
    using 4 by auto
  have e: "(a div 4 * 4 + (a mod 4 * 16 + b div 16) div 16) mod 256 = a"
      "((a mod 4 * 16 + b div 16) mod 16 * 16 + (b mod 16 * 4 + c div 64) div 4) mod 256 = b"
      "((b mod 16 * 4 + c div 64) mod 4 * 64 + c mod 64) mod 256 = c"
    using 4 by auto
  show ?case using 4 v e by (simp add: b64_char_not_special)
qed (auto simp: b64_char_not_special)

lemma DecodeString_EncodeToString [simp]: "DecodeString (EncodeToString s) = Inr s"
proof -
  have b: "\<forall>b\<in>set (map of_char s). b < (256 :: nat)"
    by (auto simp: of_char_def intro!: horner_sum_of_bool_2_less [THEN less_le_trans])
  have "map char_of (map of_char s :: nat list) = s"
    by (simp add: comp_def)
  then show ?thesis
    by (simp add: DecodeString_def EncodeToString_def encode_bytes_no_breaks [OF b]
        decode_encode_bytes [OF b])
qed

lemma EncodeToString_inject: "EncodeToString s = EncodeToString t \<Longrightarrow> s = t"
  by (metis DecodeString_EncodeToString sum.inject(2))

end
