(* ===== verification/Configuration.thy ===== *)
theory Configuration
  imports CC_Prelude "HOL-Library.List_Lexorder" "HOL-Library.Char_ord"
begin

text \<open>
  The configuration of the program (\<^verbatim>\<open>internal/config/config.go\<close>): the names of the
  options, the struct \<^verbatim>\<open>Config\<close>, its text for the log, the defaults, and how a process
  fills the struct at its start from the option library (\<^verbatim>\<open>spf13/viper\<close>) and, in a
  deployment by the Clowder operator, from that operator's file. Both libraries are
  parameters.
\<close>

section \<open>Names of the options\<close>

definition ENV_PREFIX :: string where
  "ENV_PREFIX = ''CLOUD_CONNECTOR''"

definition URL_APP_NAME :: string where
  "URL_APP_NAME = ''URL_App_Name''"

definition URL_PATH_PREFIX :: string where
  "URL_PATH_PREFIX = ''URL_Path_Prefix''"

definition URL_BASE_PATH :: string where
  "URL_BASE_PATH = ''URL_Base_Path''"

definition OPENAPI_SPEC_FILE_PATH :: string where
  "OPENAPI_SPEC_FILE_PATH = ''OpenAPI_Spec_File_Path''"

definition HTTP_SHUTDOWN_TIMEOUT :: string where
  "HTTP_SHUTDOWN_TIMEOUT = ''HTTP_Shutdown_Timeout''"

definition SERVICE_TO_SERVICE_CREDENTIALS :: string where
  "SERVICE_TO_SERVICE_CREDENTIALS = ''Service_To_Service_Credentials''"

definition PROFILE :: string where
  "PROFILE = ''Enable_Profile''"

definition MQTT_BROKER_ADDRESS :: string where
  "MQTT_BROKER_ADDRESS = ''MQTT_Broker_Address''"

definition MQTT_BROKER_ADDRESS_DEFAULT :: string where
  "MQTT_BROKER_ADDRESS_DEFAULT = ''ssl://localhost:8883''"

definition MQTT_CLIENT_ID :: string where
  "MQTT_CLIENT_ID = ''MQTT_Client_Id''"

definition MQTT_USE_HOSTNAME_AS_CLIENT_ID :: string where
  "MQTT_USE_HOSTNAME_AS_CLIENT_ID = ''MQTT_Use_Hostname_As_Client_Id''"

definition MQTT_CLEAN_SESSION :: string where
  "MQTT_CLEAN_SESSION = ''MQTT_Clean_Session''"

definition MQTT_RESUME_SUBS :: string where
  "MQTT_RESUME_SUBS = ''MQTT_Resume_Subs''"

definition MQTT_BROKER_TLS_CERT_FILE :: string where
  "MQTT_BROKER_TLS_CERT_FILE = ''MQTT_Broker_Tls_Cert_File''"

definition MQTT_BROKER_TLS_KEY_FILE :: string where
  "MQTT_BROKER_TLS_KEY_FILE = ''MQTT_Broker_Tls_Key_File''"

definition MQTT_BROKER_TLS_CA_CERT_FILE :: string where
  "MQTT_BROKER_TLS_CA_CERT_FILE = ''MQTT_Broker_Tls_CA_Cert_File''"

definition MQTT_BROKER_TLS_SKIP_VERIFY :: string where
  "MQTT_BROKER_TLS_SKIP_VERIFY = ''MQTT_Broker_Tls_Skip_Verify''"

definition MQTT_BROKER_AUTH_TYPE :: string where
  "MQTT_BROKER_AUTH_TYPE = ''MQTT_Broker_Auth_Type''"

definition MQTT_BROKER_USERNAME :: string where
  "MQTT_BROKER_USERNAME = ''MQTT_Broker_Username''"

definition MQTT_BROKER_PASSWORD :: string where
  "MQTT_BROKER_PASSWORD = ''MQTT_Broker_Password''"

definition MQTT_BROKER_JWT_GENERATOR_IMPL :: string where
  "MQTT_BROKER_JWT_GENERATOR_IMPL = ''MQTT_Broker_JWT_Generator_Impl''"

definition MQTT_BROKER_JWT_FILE :: string where
  "MQTT_BROKER_JWT_FILE = ''MQTT_Broker_JWT_File''"

definition MQTT_TOPIC_PREFIX :: string where
  "MQTT_TOPIC_PREFIX = ''MQTT_Topic_Prefix''"

definition MQTT_CONTROL_SUBSCRIPTION_QOS :: string where
  "MQTT_CONTROL_SUBSCRIPTION_QOS = ''MQTT_Control_Subscription_QoS''"

definition MQTT_CONTROL_PUBLISH_QOS :: string where
  "MQTT_CONTROL_PUBLISH_QOS = ''MQTT_Control_Publish_QoS''"

definition MQTT_DATA_SUBSCRIPTION_QOS :: string where
  "MQTT_DATA_SUBSCRIPTION_QOS = ''MQTT_Data_Subscription_QoS''"

definition MQTT_DATA_PUBLISH_QOS :: string where
  "MQTT_DATA_PUBLISH_QOS = ''MQTT_Data_Publish_QoS''"

definition MQTT_DISCONNECT_QUIESCE_TIME :: string where
  "MQTT_DISCONNECT_QUIESCE_TIME = ''MQTT_Disconnect_Quiesce_Time''"

definition MQTT_PUBLISH_TIMEOUT :: string where
  "MQTT_PUBLISH_TIMEOUT = ''MQTT_Publish_Timeout''"

definition MQTT_CONSUMER_SHUTDOWN_SLEEP_TIME :: string where
  "MQTT_CONSUMER_SHUTDOWN_SLEEP_TIME = ''MQTT_Consumer_Shutdown_Sleep_Time''"

definition SHUTDOWN_ON_MQTT_CONNECTION_LOST :: string where
  "SHUTDOWN_ON_MQTT_CONNECTION_LOST = ''Shutdown_On_MQTT_Connection_Lost''"

definition INVALID_HANDSHAKE_RECONNECT_DELAY :: string where
  "INVALID_HANDSHAKE_RECONNECT_DELAY = ''Invalid_Handshake_Reconnect_Delay''"

definition CLIENT_ID_TO_ACCOUNT_ID_IMPL :: string where
  "CLIENT_ID_TO_ACCOUNT_ID_IMPL = ''Client_Id_To_Account_Id_Impl''"

definition CLIENT_ID_TO_ACCOUNT_ID_CONFIG_FILE :: string where
  "CLIENT_ID_TO_ACCOUNT_ID_CONFIG_FILE = ''Client_Id_To_Account_Id_Config_File''"

definition CLIENT_ID_TO_ACCOUNT_ID_DEFAULT_ACCOUNT_ID :: string where
  "CLIENT_ID_TO_ACCOUNT_ID_DEFAULT_ACCOUNT_ID = ''Client_Id_To_Account_Id_Default_Account_Id''"

definition CLIENT_ID_TO_ACCOUNT_ID_DEFAULT_ORG_ID :: string where
  "CLIENT_ID_TO_ACCOUNT_ID_DEFAULT_ORG_ID = ''Client_Id_To_Account_Id_Default_Org_Id''"

definition CLIENT_ID_TO_ACCOUNT_ID_CACHE_SIZE :: string where
  "CLIENT_ID_TO_ACCOUNT_ID_CACHE_SIZE = ''Client_Id_To_Account_Id_Cache_Size''"

definition CLIENT_ID_TO_ACCOUNT_ID_CACHE_VALID_RESP_TTL :: string where
  "CLIENT_ID_TO_ACCOUNT_ID_CACHE_VALID_RESP_TTL = ''Client_Id_To_Account_Id_Cache_Valid_Response_TTL''"

definition CLIENT_ID_TO_ACCOUNT_ID_CACHE_ERROR_RESP_TTL :: string where
  "CLIENT_ID_TO_ACCOUNT_ID_CACHE_ERROR_RESP_TTL = ''Client_Id_To_Account_Id_Cache_Error_Response_TTL''"

definition CONNECTION_DATABASE_IMPL :: string where
  "CONNECTION_DATABASE_IMPL = ''Connection_Database_Impl''"

definition CONNECTION_DATABASE_HOST :: string where
  "CONNECTION_DATABASE_HOST = ''Connection_Database_Host''"

definition CONNECTION_DATABASE_PORT :: string where
  "CONNECTION_DATABASE_PORT = ''Connection_Database_Port''"

definition CONNECTION_DATABASE_USER :: string where
  "CONNECTION_DATABASE_USER = ''Connection_Database_User''"

definition CONNECTION_DATABASE_PASSWORD :: string where
  "CONNECTION_DATABASE_PASSWORD = ''Connection_Database_Password''"

definition CONNECTION_DATABASE_NAME :: string where
  "CONNECTION_DATABASE_NAME = ''Connection_Database_Name''"

definition CONNECTION_DATABASE_SSL_MODE :: string where
  "CONNECTION_DATABASE_SSL_MODE = ''Connection_Database_SSL_Mode''"

definition CONNECTION_DATABASE_SSL_ROOT_CERT :: string where
  "CONNECTION_DATABASE_SSL_ROOT_CERT = ''Connection_Database_SSL_Root_Cert''"

definition CONNECTION_DATABASE_QUERY_TIMEOUT :: string where
  "CONNECTION_DATABASE_QUERY_TIMEOUT = ''Connection_Database_Query_Timeout''"

definition AUTH_GATEWAY_URL :: string where
  "AUTH_GATEWAY_URL = ''Auth_Gateway_Url''"

definition AUTH_GATEWAY_HTTP_CLIENT_TIMEOUT :: string where
  "AUTH_GATEWAY_HTTP_CLIENT_TIMEOUT = ''Auth_Gateway_HTTP_Client_Timeout''"

definition DEFAULT_KAFKA_BROKER_ADDRESS :: string where
  "DEFAULT_KAFKA_BROKER_ADDRESS = ''kafka:29092''"

definition KAFKA_CA :: string where
  "KAFKA_CA = ''Kafka_CA''"

definition KAFKA_USERNAME :: string where
  "KAFKA_USERNAME = ''Kafka_Username''"

definition KAFKA_PASSWORD :: string where
  "KAFKA_PASSWORD = ''Kafka_Password''"

definition KAFKA_SASL_MECHANISM :: string where
  "KAFKA_SASL_MECHANISM = ''Kafka_SASL_Mechanism''"

definition CONNECTED_CLIENT_RECORDER_IMPL :: string where
  "CONNECTED_CLIENT_RECORDER_IMPL = ''Connected_Client_Recorder_Impl''"

definition INVENTORY_KAFKA_BROKERS :: string where
  "INVENTORY_KAFKA_BROKERS = ''Inventory_Kafka_Brokers''"

definition INVENTORY_KAFKA_TOPIC :: string where
  "INVENTORY_KAFKA_TOPIC = ''Inventory_Kafka_Topic''"

definition INVENTORY_KAFKA_BATCH_SIZE :: string where
  "INVENTORY_KAFKA_BATCH_SIZE = ''Inventory_Kafka_Batch_Size''"

definition INVENTORY_KAFKA_BATCH_BYTES :: string where
  "INVENTORY_KAFKA_BATCH_BYTES = ''Inventory_Kafka_Batch_Bytes''"

definition INVENTORY_STALE_TIMESTAMP_OFFSET :: string where
  "INVENTORY_STALE_TIMESTAMP_OFFSET = ''Inventory_Stale_Timestamp_Offset''"

definition INVENTORY_STALE_TIMESTAMP_UPDATER_CHUNK_SIZE :: string where
  "INVENTORY_STALE_TIMESTAMP_UPDATER_CHUNK_SIZE = ''Inventory_Stale_Timestamp_Updater_Chunk_Size''"

definition INVENTORY_REPORTER_NAME :: string where
  "INVENTORY_REPORTER_NAME = ''Inventory_Reporter_Name''"

definition SOURCES_RECORDER_IMPL :: string where
  "SOURCES_RECORDER_IMPL = ''Sources_Recorder_Impl''"

definition SOURCES_BASE_URL :: string where
  "SOURCES_BASE_URL = ''Sources_Base_Url''"

definition SOURCES_HTTP_CLIENT_TIMEOUT :: string where
  "SOURCES_HTTP_CLIENT_TIMEOUT = ''Sources_HTTP_Client_Timeout''"

definition JWT_TOKEN_EXPIRY :: string where
  "JWT_TOKEN_EXPIRY = ''JWT_Token_Expiry_Minutes''"

definition JWT_PRIVATE_KEY_FILE :: string where
  "JWT_PRIVATE_KEY_FILE = ''JWT_Private_Key_File''"

definition JWT_PUBLIC_KEY_FILE :: string where
  "JWT_PUBLIC_KEY_FILE = ''JWT_Public_Key_File''"

definition RHC_MESSAGE_KAFKA_BROKERS :: string where
  "RHC_MESSAGE_KAFKA_BROKERS = ''RHC_Message_Kafka_Brokers''"

definition RHC_MESSAGE_KAFKA_TOPIC :: string where
  "RHC_MESSAGE_KAFKA_TOPIC = ''RHC_Message_Kafka_Topic''"

definition RHC_MESSAGE_KAFKA_TOPIC_DEFAULT :: string where
  "RHC_MESSAGE_KAFKA_TOPIC_DEFAULT = ''platform.cloud-connector.rhc-message-ingress''"

definition RHC_MESSAGE_KAFKA_BATCH_SIZE :: string where
  "RHC_MESSAGE_KAFKA_BATCH_SIZE = ''RHC_Message_Kafka_Batch_Size''"

definition RHC_MESSAGE_KAFKA_BATCH_BYTES :: string where
  "RHC_MESSAGE_KAFKA_BATCH_BYTES = ''RHC_Message_Kafka_Batch_Bytes''"

definition RHC_MESSAGE_KAFKA_CONSUMER_GROUP :: string where
  "RHC_MESSAGE_KAFKA_CONSUMER_GROUP = ''RHC_Message_Kafka_Consumer_Group''"

definition PENDO_API_ENDPOINT :: string where
  "PENDO_API_ENDPOINT = ''Pendo_Api_Endpoint''"

definition PENDO_REQUEST_TIMEOUT :: string where
  "PENDO_REQUEST_TIMEOUT = ''Pendo_Request_Timeout''"

definition PENDO_INTEGRATION_KEY :: string where
  "PENDO_INTEGRATION_KEY = ''Pendo_Integration_Key''"

definition PENDO_REQUEST_SIZE :: string where
  "PENDO_REQUEST_SIZE = ''Pendo_Request_Size''"

definition PROMETHEUS_PUSH_GATEWAY :: string where
  "PROMETHEUS_PUSH_GATEWAY = ''Prometheus_Push_Gateway''"

definition API_SERVER_CONNECTION_LOOKUP_IMPL :: string where
  "API_SERVER_CONNECTION_LOOKUP_IMPL = ''API_Server_Connection_Lookup_Impl''"

definition TENANT_TRANSLATOR_IMPL :: string where
  "TENANT_TRANSLATOR_IMPL = ''Tenant_Translator_Impl''"

definition TENANT_TRANSLATOR_MOCK_MAPPING :: string where
  "TENANT_TRANSLATOR_MOCK_MAPPING = ''Tenant_Translator_Mock_Mapping''"

definition TENANT_TRANSLATOR_URL :: string where
  "TENANT_TRANSLATOR_URL = ''Tenant_Translator_URL''"

definition TENANT_TRANSLATOR_TIMEOUT :: string where
  "TENANT_TRANSLATOR_TIMEOUT = ''Tenant_Translator_Timeout''"

definition PURGE_CONNECTION_ON_FAILED_TENANT_LOOKUP_COUNT :: string where
  "PURGE_CONNECTION_ON_FAILED_TENANT_LOOKUP_COUNT = ''Purge_Connection_On_Failed_Tenant_Lookup_Count''"

definition TENANTLESS_CONNECTION_TIMESTAMP_OFFSET :: string where
  "TENANTLESS_CONNECTION_TIMESTAMP_OFFSET = ''Tenantless_Connection_Timestamp_Offset''"

definition TENANTLESS_CONNECTION_UPDATER_CHUNK_SIZE :: string where
  "TENANTLESS_CONNECTION_UPDATER_CHUNK_SIZE = ''Tenantless_Connection_Updater_Chunk_Size''"

definition TENANTLESS_CONNECTION_MAX_LOOKUP_FAILURES :: string where
  "TENANTLESS_CONNECTION_MAX_LOOKUP_FAILURES = ''Tenantless_Connection_Max_Lookup_Failures''"

section \<open>The struct\<close>

record Config =
  UrlAppName :: string
  UrlPathPrefix :: string
  UrlBasePath :: string
  OpenApiSpecFilePath :: string
  HttpShutdownTimeout :: duration
  ServiceToServiceCredentials :: "(string \<times> json) list"
  Profile :: bool
  MqttBrokerAddress :: string
  MqttClientId :: string
  MqttUseHostnameAsClientId :: bool
  MqttCleanSession :: bool
  MqttResumeSubs :: bool
  MqttBrokerTlsCertFile :: string
  MqttBrokerTlsKeyFile :: string
  MqttBrokerTlsCACertFile :: string
  MqttBrokerTlsSkipVerify :: bool
  MqttBrokerAuthType :: string
  MqttBrokerUsername :: string
  MqttBrokerPassword :: string
  MqttBrokerJwtGeneratorImpl :: string
  MqttBrokerJwtFile :: string
  MqttTopicPrefix :: string
  MqttControlSubscriptionQoS :: "8 word"
  MqttControlPublishQoS :: "8 word"
  MqttDataSubscriptionQoS :: "8 word"
  MqttDataPublishQoS :: "8 word"
  MqttDisconnectQuiesceTime :: "64 word"
  MqttPublishTimeout :: duration
  MqttConsumerShutdownSleepTime :: duration
  ShutdownOnMqttConnectionLost :: bool
  InvalidHandshakeReconnectDelay :: int
  KafkaBrokers :: "string list"
  KafkaCA :: string
  KafkaUsername :: string
  KafkaPassword :: string
  KafkaSASLMechanism :: string
  ClientIdToAccountIdImpl :: string
  ClientIdToAccountIdConfigFile :: string
  ClientIdToAccountIdDefaultAccountId :: string
  ClientIdToAccountIdDefaultOrgId :: string
  ClientIdToAccountIdCacheSize :: int
  ClientIdToAccountIdCacheValidRespTTL :: duration
  ClientIdToAccountIdCacheErrorRespTTL :: duration
  ConnectionDatabaseImpl :: string
  ConnectionDatabaseHost :: string
  ConnectionDatabasePort :: int
  ConnectionDatabaseUser :: string
  ConnectionDatabasePassword :: string
  ConnectionDatabaseName :: string
  ConnectionDatabaseSslMode :: string
  ConnectionDatabaseSslRootCert :: string
  ConnectionDatabaseQueryTimeout :: duration
  AuthGatewayUrl :: string
  AuthGatewayHttpClientTimeout :: duration
  ConnectedClientRecorderImpl :: string
  InventoryKafkaBrokers :: "string list"
  InventoryKafkaTopic :: string
  InventoryKafkaBatchSize :: int
  InventoryKafkaBatchBytes :: int
  InventoryStaleTimestampOffset :: duration
  InventoryStaleTimestampUpdaterChunkSize :: int
  InventoryReporterName :: string
  SourcesRecorderImpl :: string
  SourcesBaseUrl :: string
  SourcesHttpClientTimeout :: duration
  JwtTokenExpiry :: int
  JwtPrivateKeyFile :: string
  JwtPublicKeyFile :: string
  RhcMessageKafkaBrokers :: "string list"
  RhcMessageKafkaTopic :: string
  RhcMessageKafkaBatchSize :: int
  RhcMessageKafkaBatchBytes :: int
  RhcMessageKafkaConsumerGroup :: string
  PendoApiEndpoint :: string
  PendoRequestTimeout :: duration
  PendoIntegrationKey :: string
  PendoRequestSize :: int
  PrometheusPushGateway :: string
  ApiServerConnectionLookupImpl :: string
  TenantTranslatorImpl :: string
  TenantTranslatorMockMapping :: "(string \<times> json) list"
  TenantTranslatorURL :: string
  TenantTranslatorTimeout :: duration
  PurgeConnectionOnFailedTenantLookupCount :: int
  TenantlessConnectionTimestampOffset :: duration
  TenantlessConnectionUpdaterChunkSize :: int
  TenantlessConnectionMaxLookupFailures :: int

text \<open>The value of a declared but unset struct.\<close>

definition zero_Config :: Config where
  "zero_Config =
     \<lparr>UrlAppName = '''', UrlPathPrefix = '''', UrlBasePath = '''', OpenApiSpecFilePath = '''',
      HttpShutdownTimeout = 0, ServiceToServiceCredentials = [], Profile = False,
      MqttBrokerAddress = '''', MqttClientId = '''', MqttUseHostnameAsClientId = False,
      MqttCleanSession = False, MqttResumeSubs = False, MqttBrokerTlsCertFile = '''',
      MqttBrokerTlsKeyFile = '''', MqttBrokerTlsCACertFile = '''', MqttBrokerTlsSkipVerify = False,
      MqttBrokerAuthType = '''', MqttBrokerUsername = '''', MqttBrokerPassword = '''',
      MqttBrokerJwtGeneratorImpl = '''', MqttBrokerJwtFile = '''', MqttTopicPrefix = '''',
      MqttControlSubscriptionQoS = 0, MqttControlPublishQoS = 0, MqttDataSubscriptionQoS = 0,
      MqttDataPublishQoS = 0, MqttDisconnectQuiesceTime = 0, MqttPublishTimeout = 0,
      MqttConsumerShutdownSleepTime = 0, ShutdownOnMqttConnectionLost = False,
      InvalidHandshakeReconnectDelay = 0, KafkaBrokers = [], KafkaCA = '''', KafkaUsername = '''',
      KafkaPassword = '''', KafkaSASLMechanism = '''', ClientIdToAccountIdImpl = '''',
      ClientIdToAccountIdConfigFile = '''', ClientIdToAccountIdDefaultAccountId = '''',
      ClientIdToAccountIdDefaultOrgId = '''', ClientIdToAccountIdCacheSize = 0,
      ClientIdToAccountIdCacheValidRespTTL = 0, ClientIdToAccountIdCacheErrorRespTTL = 0,
      ConnectionDatabaseImpl = '''', ConnectionDatabaseHost = '''', ConnectionDatabasePort = 0,
      ConnectionDatabaseUser = '''', ConnectionDatabasePassword = '''',
      ConnectionDatabaseName = '''', ConnectionDatabaseSslMode = '''',
      ConnectionDatabaseSslRootCert = '''', ConnectionDatabaseQueryTimeout = 0,
      AuthGatewayUrl = '''', AuthGatewayHttpClientTimeout = 0, ConnectedClientRecorderImpl = '''',
      InventoryKafkaBrokers = [], InventoryKafkaTopic = '''', InventoryKafkaBatchSize = 0,
      InventoryKafkaBatchBytes = 0, InventoryStaleTimestampOffset = 0,
      InventoryStaleTimestampUpdaterChunkSize = 0, InventoryReporterName = '''',
      SourcesRecorderImpl = '''', SourcesBaseUrl = '''', SourcesHttpClientTimeout = 0,
      JwtTokenExpiry = 0, JwtPrivateKeyFile = '''', JwtPublicKeyFile = '''',
      RhcMessageKafkaBrokers = [], RhcMessageKafkaTopic = '''', RhcMessageKafkaBatchSize = 0,
      RhcMessageKafkaBatchBytes = 0, RhcMessageKafkaConsumerGroup = '''', PendoApiEndpoint = '''',
      PendoRequestTimeout = 0, PendoIntegrationKey = '''', PendoRequestSize = 0,
      PrometheusPushGateway = '''', ApiServerConnectionLookupImpl = '''',
      TenantTranslatorImpl = '''', TenantTranslatorMockMapping = [], TenantTranslatorURL = '''',
      TenantTranslatorTimeout = 0, PurgeConnectionOnFailedTenantLookupCount = 0,
      TenantlessConnectionTimestampOffset = 0, TenantlessConnectionUpdaterChunkSize = 0,
      TenantlessConnectionMaxLookupFailures = 0\<rparr>"

section \<open>The text of the configuration\<close>

text \<open>
  The verbs of \<^verbatim>\<open>fmt\<close> that are used: \<open>%t\<close> and \<open>%v\<close> of a boolean, \<open>%d\<close> of an integer, \<open>%s\<close>
  of a slice of strings, of a map (whose keys are sorted) and of a \<^verbatim>\<open>time.Duration\<close>.
  \<open>verb_s\<close> is \<open>%s\<close> for a value of a map that is not a string, where \<^verbatim>\<open>fmt\<close> writes its
  notation for a wrong verb.
\<close>

definition fmt_bool :: "bool \<Rightarrow> string" where
  "fmt_bool b = (if b then ''true'' else ''false'')"

definition fmt_d :: "int \<Rightarrow> string" where
  "fmt_d i = Itoa i"

definition fmt_strings :: "string list \<Rightarrow> string" where
  "fmt_strings xs = ''['' @ join '' '' xs @ '']''"

definition fmt_value :: "(json \<Rightarrow> string) \<Rightarrow> json \<Rightarrow> string" where
  "fmt_value verb_s v = (case v of JStr s \<Rightarrow> s | _ \<Rightarrow> verb_s v)"

definition fmt_map :: "(json \<Rightarrow> string) \<Rightarrow> (string \<times> json) list \<Rightarrow> string" where
  "fmt_map verb_s m =
     ''map['' @ join '' '' (map (\<lambda>(k, v). k @ '':'' @ fmt_value verb_s v) (sort_key fst m)) @ '']''"

text \<open>
  \<^verbatim>\<open>Duration.String\<close>: units from hours to nanoseconds, a fraction without trailing zeros.
  The digits of the fraction are written from the last one.
\<close>

fun fmtFrac_loop :: "nat \<Rightarrow> int \<Rightarrow> bool \<Rightarrow> string \<Rightarrow> bool \<times> string \<times> int" where
  "fmtFrac_loop 0 v started buf = (started, buf, v)"
| "fmtFrac_loop (Suc prec) v started buf =
     (let digit = v mod 10; started' = started \<or> digit \<noteq> 0
      in fmtFrac_loop prec (v div 10) started' (if started' then digit_char (nat digit) # buf else buf))"

definition fmtFrac :: "nat \<Rightarrow> int \<Rightarrow> string \<Rightarrow> string \<times> int" where
  "fmtFrac prec v buf =
     (case fmtFrac_loop prec v False buf of
        (started, buf', v') \<Rightarrow> (if started then CHR ''.'' # buf' else buf', v'))"

definition fmt_below_second :: "int \<Rightarrow> string" where
  "fmt_below_second u =
     (if u = 0 then ''0s''
      else
        (let (prec, unit) =
               (if u < 1000 then (0, ''ns'')
                else if u < 1000000 then (3, [CHR 0xC2, CHR 0xB5, CHR ''s''])
                else (6, ''ms''));
             (buf, v) = fmtFrac prec u unit
         in Itoa v @ buf))"

definition fmt_seconds :: "int \<Rightarrow> string" where
  "fmt_seconds u =
     (let (buf, secs) = fmtFrac 9 u ''s'';
          buf1 = Itoa (secs mod 60) @ buf;
          mins = secs div 60
      in if mins = 0 then buf1
         else
           (let buf2 = Itoa (mins mod 60) @ ''m'' @ buf1;
                hours = mins div 60
            in if hours = 0 then buf2 else Itoa hours @ ''h'' @ buf2))"

definition Duration_String :: "duration \<Rightarrow> string" where
  "Duration_String d =
     (let u = \<bar>sint d\<bar>;
          s = (if u < 1000000000 then fmt_below_second u else fmt_seconds u)
      in if sint d < 0 then CHR ''-'' # s else s)"

text \<open>One line: the name of the option, a colon, the value.\<close>

definition fmt_line :: "string \<Rightarrow> string \<Rightarrow> string" where
  "fmt_line k v = k @ '': '' @ v @ [CHR 0x0A]"

definition Config_String :: "(json \<Rightarrow> string) \<Rightarrow> Config \<Rightarrow> string" where
  "Config_String verb_s c =
     concat
      [fmt_line URL_PATH_PREFIX (UrlPathPrefix c),
       fmt_line URL_APP_NAME (UrlAppName c),
       fmt_line URL_BASE_PATH (UrlBasePath c),
       fmt_line OPENAPI_SPEC_FILE_PATH (OpenApiSpecFilePath c),
       fmt_line HTTP_SHUTDOWN_TIMEOUT (Duration_String (HttpShutdownTimeout c)),
       fmt_line PROFILE (fmt_bool (Profile c)),
       fmt_line MQTT_BROKER_ADDRESS (MqttBrokerAddress c),
       fmt_line MQTT_CLIENT_ID (MqttClientId c),
       fmt_line MQTT_USE_HOSTNAME_AS_CLIENT_ID (fmt_bool (MqttUseHostnameAsClientId c)),
       fmt_line MQTT_CLEAN_SESSION (fmt_bool (MqttCleanSession c)),
       fmt_line MQTT_RESUME_SUBS (fmt_bool (MqttResumeSubs c)),
       fmt_line MQTT_BROKER_TLS_CERT_FILE (MqttBrokerTlsCertFile c),
       fmt_line MQTT_BROKER_TLS_KEY_FILE (MqttBrokerTlsKeyFile c),
       fmt_line MQTT_BROKER_TLS_CA_CERT_FILE (MqttBrokerTlsCACertFile c),
       fmt_line MQTT_BROKER_TLS_SKIP_VERIFY (fmt_bool (MqttBrokerTlsSkipVerify c)),
       fmt_line MQTT_BROKER_AUTH_TYPE (MqttBrokerAuthType c),
       fmt_line MQTT_BROKER_USERNAME (MqttBrokerUsername c),
       fmt_line MQTT_BROKER_JWT_GENERATOR_IMPL (MqttBrokerJwtGeneratorImpl c),
       fmt_line MQTT_BROKER_JWT_FILE (MqttBrokerJwtFile c),
       fmt_line MQTT_TOPIC_PREFIX (MqttTopicPrefix c),
       fmt_line MQTT_CONTROL_SUBSCRIPTION_QOS (fmt_d (uint (MqttControlSubscriptionQoS c))),
       fmt_line MQTT_CONTROL_PUBLISH_QOS (fmt_d (uint (MqttControlPublishQoS c))),
       fmt_line MQTT_DATA_SUBSCRIPTION_QOS (fmt_d (uint (MqttDataSubscriptionQoS c))),
       fmt_line MQTT_DATA_PUBLISH_QOS (fmt_d (uint (MqttDataPublishQoS c))),
       fmt_line MQTT_DISCONNECT_QUIESCE_TIME (fmt_d (uint (MqttDisconnectQuiesceTime c))),
       fmt_line MQTT_PUBLISH_TIMEOUT (Duration_String (MqttPublishTimeout c)),
       fmt_line MQTT_CONSUMER_SHUTDOWN_SLEEP_TIME (Duration_String (MqttConsumerShutdownSleepTime c)),
       fmt_line SHUTDOWN_ON_MQTT_CONNECTION_LOST (fmt_bool (ShutdownOnMqttConnectionLost c)),
       fmt_line INVALID_HANDSHAKE_RECONNECT_DELAY (fmt_d (InvalidHandshakeReconnectDelay c)),
       fmt_line CLIENT_ID_TO_ACCOUNT_ID_IMPL (ClientIdToAccountIdImpl c),
       fmt_line CLIENT_ID_TO_ACCOUNT_ID_CONFIG_FILE (ClientIdToAccountIdConfigFile c),
       fmt_line CLIENT_ID_TO_ACCOUNT_ID_DEFAULT_ACCOUNT_ID (ClientIdToAccountIdDefaultAccountId c),
       fmt_line CLIENT_ID_TO_ACCOUNT_ID_DEFAULT_ORG_ID (ClientIdToAccountIdDefaultOrgId c),
       fmt_line CLIENT_ID_TO_ACCOUNT_ID_CACHE_SIZE (fmt_d (ClientIdToAccountIdCacheSize c)),
       fmt_line CLIENT_ID_TO_ACCOUNT_ID_CACHE_VALID_RESP_TTL (Duration_String (ClientIdToAccountIdCacheValidRespTTL c)),
       fmt_line CLIENT_ID_TO_ACCOUNT_ID_CACHE_ERROR_RESP_TTL (Duration_String (ClientIdToAccountIdCacheErrorRespTTL c)),
       fmt_line CONNECTION_DATABASE_IMPL (ConnectionDatabaseImpl c),
       fmt_line CONNECTION_DATABASE_HOST (ConnectionDatabaseHost c),
       fmt_line CONNECTION_DATABASE_PORT (fmt_d (ConnectionDatabasePort c)),
       fmt_line CONNECTION_DATABASE_USER (ConnectionDatabaseUser c),
       fmt_line CONNECTION_DATABASE_NAME (ConnectionDatabaseName c),
       fmt_line CONNECTION_DATABASE_SSL_MODE (ConnectionDatabaseSslMode c),
       fmt_line CONNECTION_DATABASE_SSL_ROOT_CERT (ConnectionDatabaseSslRootCert c),
       fmt_line CONNECTION_DATABASE_QUERY_TIMEOUT (Duration_String (ConnectionDatabaseQueryTimeout c)),
       fmt_line CONNECTED_CLIENT_RECORDER_IMPL (ConnectedClientRecorderImpl c),
       fmt_line KAFKA_CA (KafkaCA c),
       fmt_line KAFKA_SASL_MECHANISM (KafkaSASLMechanism c),
       fmt_line INVENTORY_KAFKA_BROKERS (fmt_strings (InventoryKafkaBrokers c)),
       fmt_line INVENTORY_KAFKA_TOPIC (InventoryKafkaTopic c),
       fmt_line INVENTORY_KAFKA_BATCH_SIZE (fmt_d (InventoryKafkaBatchSize c)),
       fmt_line INVENTORY_KAFKA_BATCH_BYTES (fmt_d (InventoryKafkaBatchBytes c)),
       fmt_line INVENTORY_STALE_TIMESTAMP_OFFSET (Duration_String (InventoryStaleTimestampOffset c)),
       fmt_line INVENTORY_STALE_TIMESTAMP_UPDATER_CHUNK_SIZE (fmt_d (InventoryStaleTimestampUpdaterChunkSize c)),
       fmt_line INVENTORY_REPORTER_NAME (InventoryReporterName c),
       fmt_line SOURCES_RECORDER_IMPL (SourcesRecorderImpl c),
       fmt_line SOURCES_BASE_URL (SourcesBaseUrl c),
       fmt_line SOURCES_HTTP_CLIENT_TIMEOUT (Duration_String (SourcesHttpClientTimeout c)),
       fmt_line JWT_TOKEN_EXPIRY (fmt_d (JwtTokenExpiry c)),
       fmt_line JWT_PRIVATE_KEY_FILE (JwtPrivateKeyFile c),
       fmt_line JWT_PUBLIC_KEY_FILE (JwtPublicKeyFile c),
       fmt_line AUTH_GATEWAY_URL (AuthGatewayUrl c),
       fmt_line AUTH_GATEWAY_HTTP_CLIENT_TIMEOUT (Duration_String (AuthGatewayHttpClientTimeout c)),
       fmt_line RHC_MESSAGE_KAFKA_BROKERS (fmt_strings (RhcMessageKafkaBrokers c)),
       fmt_line RHC_MESSAGE_KAFKA_TOPIC (RhcMessageKafkaTopic c),
       fmt_line RHC_MESSAGE_KAFKA_BATCH_SIZE (fmt_d (RhcMessageKafkaBatchSize c)),
       fmt_line RHC_MESSAGE_KAFKA_BATCH_BYTES (fmt_d (RhcMessageKafkaBatchBytes c)),
       fmt_line RHC_MESSAGE_KAFKA_CONSUMER_GROUP (RhcMessageKafkaConsumerGroup c),
       fmt_line API_SERVER_CONNECTION_LOOKUP_IMPL (ApiServerConnectionLookupImpl c),
       fmt_line TENANT_TRANSLATOR_IMPL (TenantTranslatorImpl c),
       fmt_line TENANT_TRANSLATOR_MOCK_MAPPING (fmt_map verb_s (TenantTranslatorMockMapping c)),
       fmt_line TENANT_TRANSLATOR_URL (TenantTranslatorURL c),
       fmt_line TENANT_TRANSLATOR_TIMEOUT (Duration_String (TenantTranslatorTimeout c)),
       fmt_line PROMETHEUS_PUSH_GATEWAY (PrometheusPushGateway c),
       fmt_line PURGE_CONNECTION_ON_FAILED_TENANT_LOOKUP_COUNT (fmt_d (PurgeConnectionOnFailedTenantLookupCount c)),
       fmt_line TENANTLESS_CONNECTION_TIMESTAMP_OFFSET (Duration_String (TenantlessConnectionTimestampOffset c)),
       fmt_line TENANTLESS_CONNECTION_UPDATER_CHUNK_SIZE (fmt_d (TenantlessConnectionUpdaterChunkSize c)),
       fmt_line TENANTLESS_CONNECTION_MAX_LOOKUP_FAILURES (fmt_d (TenantlessConnectionMaxLookupFailures c))]"

section \<open>Reading the options\<close>

text \<open>
  The options object: what \<^verbatim>\<open>SetDefault\<close>, \<^verbatim>\<open>SetEnvPrefix\<close> and \<^verbatim>\<open>AutomaticEnv\<close> gave it.
  The getters of the library see it, the environment of the process, and a name.
\<close>

datatype option_value =
    OStr string
  | OInt int
  | OBool bool
  | ODuration duration
  | OStrs "string list"

record viper_options =
  vo_defaults :: "(string \<times> option_value) list"
  vo_env_prefix :: string
  vo_automatic_env :: bool

record viper =
  vp_GetString :: "viper_options \<Rightarrow> string \<Rightarrow> string"
  vp_GetBool :: "viper_options \<Rightarrow> string \<Rightarrow> bool"
  vp_GetInt :: "viper_options \<Rightarrow> string \<Rightarrow> int"
  vp_GetUint :: "viper_options \<Rightarrow> string \<Rightarrow> 64 word"
  vp_GetDuration :: "viper_options \<Rightarrow> string \<Rightarrow> duration"
  vp_GetStringSlice :: "viper_options \<Rightarrow> string \<Rightarrow> string list"
  vp_GetStringMap :: "viper_options \<Rightarrow> string \<Rightarrow> (string \<times> json) list"

text \<open>The constants of the package \<^verbatim>\<open>time\<close>, in nanoseconds.\<close>

definition Second :: duration where
  "Second = 1000000000"

definition Minute :: duration where
  "Minute = 60000000000"

definition Hour :: duration where
  "Hour = 3600000000000"

definition default_options :: "(string \<times> option_value) list" where
  "default_options =
     [(URL_PATH_PREFIX, OStr ''api''),
      (URL_APP_NAME, OStr ''cloud-connector''),
      (OPENAPI_SPEC_FILE_PATH, OStr ''/opt/app-root/src/api/api.spec.file''),
      (HTTP_SHUTDOWN_TIMEOUT, OInt 2),
      (SERVICE_TO_SERVICE_CREDENTIALS, OStr ''''),
      (PROFILE, OBool False),
      (MQTT_BROKER_ADDRESS, OStr MQTT_BROKER_ADDRESS_DEFAULT),
      (MQTT_CLIENT_ID, OStr ''''),
      (MQTT_CLEAN_SESSION, OBool False),
      (MQTT_RESUME_SUBS, OBool True),
      (MQTT_BROKER_TLS_SKIP_VERIFY, OBool False),
      (MQTT_BROKER_AUTH_TYPE, OStr ''jwt''),
      (MQTT_BROKER_JWT_GENERATOR_IMPL, OStr ''jwt_file_reader''),
      (MQTT_BROKER_JWT_FILE, OStr ''cloud-connector-mqtt-jwt.txt''),
      (MQTT_TOPIC_PREFIX, OStr ''redhat''),
      (MQTT_CONTROL_SUBSCRIPTION_QOS, OInt 1),
      (MQTT_CONTROL_PUBLISH_QOS, OInt 1),
      (MQTT_DATA_SUBSCRIPTION_QOS, OInt 1),
      (MQTT_DATA_PUBLISH_QOS, OInt 1),
      (MQTT_DISCONNECT_QUIESCE_TIME, OInt 1000),
      (MQTT_PUBLISH_TIMEOUT, OInt 2),
      (MQTT_CONSUMER_SHUTDOWN_SLEEP_TIME, OInt 2),
      (SHUTDOWN_ON_MQTT_CONNECTION_LOST, OBool False),
      (INVALID_HANDSHAKE_RECONNECT_DELAY, OInt 60),
      (CLIENT_ID_TO_ACCOUNT_ID_IMPL, OStr ''config_file_based''),
      (CLIENT_ID_TO_ACCOUNT_ID_CONFIG_FILE, OStr ''client_id_to_account_id_map.json''),
      (CLIENT_ID_TO_ACCOUNT_ID_DEFAULT_ACCOUNT_ID, OStr ''111000''),
      (CLIENT_ID_TO_ACCOUNT_ID_DEFAULT_ORG_ID, OStr ''10000''),
      (CLIENT_ID_TO_ACCOUNT_ID_CACHE_SIZE, OStr ''1000''),
      (CLIENT_ID_TO_ACCOUNT_ID_CACHE_VALID_RESP_TTL, ODuration (10 * Minute)),
      (CLIENT_ID_TO_ACCOUNT_ID_CACHE_ERROR_RESP_TTL, ODuration (10 * Second)),
      (CONNECTION_DATABASE_IMPL, OStr ''postgres''),
      (CONNECTION_DATABASE_HOST, OStr ''localhost''),
      (CONNECTION_DATABASE_PORT, OInt 5432),
      (CONNECTION_DATABASE_USER, OStr ''insights''),
      (CONNECTION_DATABASE_PASSWORD, OStr ''insights''),
      (CONNECTION_DATABASE_NAME, OStr ''cloud-connector''),
      (CONNECTION_DATABASE_SSL_MODE, OStr ''disable''),
      (CONNECTION_DATABASE_SSL_ROOT_CERT, OStr ''db_ssl_root_cert.pem''),
      (CONNECTION_DATABASE_QUERY_TIMEOUT, OInt 5),
      (CONNECTED_CLIENT_RECORDER_IMPL, OStr ''fake''),
      (INVENTORY_KAFKA_BROKERS, OStrs [DEFAULT_KAFKA_BROKER_ADDRESS]),
      (INVENTORY_KAFKA_TOPIC, OStr ''platform.inventory.host-ingress-p1''),
      (INVENTORY_KAFKA_BATCH_SIZE, OInt 1),
      (INVENTORY_KAFKA_BATCH_BYTES, OInt 1048576),
      (INVENTORY_STALE_TIMESTAMP_OFFSET, OInt 26),
      (INVENTORY_STALE_TIMESTAMP_UPDATER_CHUNK_SIZE, OInt 100),
      (INVENTORY_REPORTER_NAME, OStr ''cloud-connector''),
      (SOURCES_RECORDER_IMPL, OStr ''fake''),
      (SOURCES_BASE_URL, OStr ''http''),
      (SOURCES_HTTP_CLIENT_TIMEOUT, OInt 5),
      (JWT_TOKEN_EXPIRY, OInt 1),
      (JWT_PRIVATE_KEY_FILE, OStr ''/etc/jwt/mqtt-private-key.rsa''),
      (JWT_PUBLIC_KEY_FILE, OStr ''/etc/jwt/mqtt-public-key.rsa''),
      (AUTH_GATEWAY_URL, OStr ''http''),
      (AUTH_GATEWAY_HTTP_CLIENT_TIMEOUT, OInt 15),
      (RHC_MESSAGE_KAFKA_BROKERS, OStrs [DEFAULT_KAFKA_BROKER_ADDRESS]),
      (RHC_MESSAGE_KAFKA_TOPIC, OStr RHC_MESSAGE_KAFKA_TOPIC_DEFAULT),
      (RHC_MESSAGE_KAFKA_BATCH_SIZE, OInt 1),
      (RHC_MESSAGE_KAFKA_BATCH_BYTES, OInt 1048576),
      (RHC_MESSAGE_KAFKA_CONSUMER_GROUP, OStr ''cloud-connector-rhc-message-consumer''),
      (PENDO_API_ENDPOINT, OStr ''https''),
      (PENDO_REQUEST_TIMEOUT, OInt 5),
      (PENDO_INTEGRATION_KEY, OStr ''''),
      (PENDO_REQUEST_SIZE, OInt 100),
      (API_SERVER_CONNECTION_LOOKUP_IMPL, OStr ''relaxed''),
      (TENANT_TRANSLATOR_IMPL, OStr ''mock''),
      (TENANT_TRANSLATOR_MOCK_MAPPING, OStr ''{\"10001\": \"010101\", \"10000\": \"000000\", \"0002\": \"111000\", \"10002\": \"010102\", \"10003\": \"010103\", \"10004\": \"010104\"}''),
      (TENANT_TRANSLATOR_URL, OStr ''http''),
      (TENANT_TRANSLATOR_TIMEOUT, OInt 5),
      (PROMETHEUS_PUSH_GATEWAY, OStr ''prometheus-push.insights-push-stage.svc.cluster.local:9091''),
      (PURGE_CONNECTION_ON_FAILED_TENANT_LOOKUP_COUNT, OInt (6 * 24)),
      (TENANTLESS_CONNECTION_TIMESTAMP_OFFSET, OInt 30),
      (TENANTLESS_CONNECTION_UPDATER_CHUNK_SIZE, OInt 100),
      (TENANTLESS_CONNECTION_MAX_LOOKUP_FAILURES, OInt 30)]"

definition buildUrlBasePath :: "string \<Rightarrow> string \<Rightarrow> string" where
  "buildUrlBasePath pathPrefix appName = ''/'' @ pathPrefix @ ''/'' @ appName"

text \<open>
  The struct literal of \<^verbatim>\<open>GetConfig\<close>. A count read from the options is multiplied by its
  unit at 64 bits.
\<close>

definition read_options :: "viper \<Rightarrow> viper_options \<Rightarrow> Config" where
  "read_options vp options =
     \<lparr>UrlAppName = vp_GetString vp options URL_APP_NAME,
      UrlPathPrefix = vp_GetString vp options URL_PATH_PREFIX,
      UrlBasePath = buildUrlBasePath (vp_GetString vp options URL_PATH_PREFIX) (vp_GetString vp options URL_APP_NAME),
      OpenApiSpecFilePath = vp_GetString vp options OPENAPI_SPEC_FILE_PATH,
      HttpShutdownTimeout = vp_GetDuration vp options HTTP_SHUTDOWN_TIMEOUT * Second,
      ServiceToServiceCredentials = vp_GetStringMap vp options SERVICE_TO_SERVICE_CREDENTIALS,
      Profile = vp_GetBool vp options PROFILE,
      MqttBrokerAddress = vp_GetString vp options MQTT_BROKER_ADDRESS,
      MqttClientId = vp_GetString vp options MQTT_CLIENT_ID,
      MqttUseHostnameAsClientId = vp_GetBool vp options MQTT_USE_HOSTNAME_AS_CLIENT_ID,
      MqttCleanSession = vp_GetBool vp options MQTT_CLEAN_SESSION,
      MqttResumeSubs = vp_GetBool vp options MQTT_RESUME_SUBS,
      MqttBrokerTlsCertFile = vp_GetString vp options MQTT_BROKER_TLS_CERT_FILE,
      MqttBrokerTlsKeyFile = vp_GetString vp options MQTT_BROKER_TLS_KEY_FILE,
      MqttBrokerTlsCACertFile = vp_GetString vp options MQTT_BROKER_TLS_CA_CERT_FILE,
      MqttBrokerTlsSkipVerify = vp_GetBool vp options MQTT_BROKER_TLS_SKIP_VERIFY,
      MqttBrokerAuthType = vp_GetString vp options MQTT_BROKER_AUTH_TYPE,
      MqttBrokerUsername = vp_GetString vp options MQTT_BROKER_USERNAME,
      MqttBrokerPassword = vp_GetString vp options MQTT_BROKER_PASSWORD,
      MqttBrokerJwtGeneratorImpl = vp_GetString vp options MQTT_BROKER_JWT_GENERATOR_IMPL,
      MqttBrokerJwtFile = vp_GetString vp options MQTT_BROKER_JWT_FILE,
      MqttTopicPrefix = vp_GetString vp options MQTT_TOPIC_PREFIX,
      MqttControlSubscriptionQoS = word_of_int (vp_GetInt vp options MQTT_CONTROL_SUBSCRIPTION_QOS),
      MqttControlPublishQoS = word_of_int (vp_GetInt vp options MQTT_CONTROL_PUBLISH_QOS),
      MqttDataSubscriptionQoS = word_of_int (vp_GetInt vp options MQTT_DATA_SUBSCRIPTION_QOS),
      MqttDataPublishQoS = word_of_int (vp_GetInt vp options MQTT_DATA_PUBLISH_QOS),
      MqttDisconnectQuiesceTime = vp_GetUint vp options MQTT_DISCONNECT_QUIESCE_TIME,
      MqttPublishTimeout = vp_GetDuration vp options MQTT_PUBLISH_TIMEOUT * Second,
      MqttConsumerShutdownSleepTime = vp_GetDuration vp options MQTT_CONSUMER_SHUTDOWN_SLEEP_TIME * Second,
      ShutdownOnMqttConnectionLost = vp_GetBool vp options SHUTDOWN_ON_MQTT_CONNECTION_LOST,
      InvalidHandshakeReconnectDelay = vp_GetInt vp options INVALID_HANDSHAKE_RECONNECT_DELAY,
      KafkaBrokers = [],
      KafkaCA = vp_GetString vp options KAFKA_CA,
      KafkaUsername = vp_GetString vp options KAFKA_USERNAME,
      KafkaPassword = vp_GetString vp options KAFKA_PASSWORD,
      KafkaSASLMechanism = vp_GetString vp options KAFKA_SASL_MECHANISM,
      ClientIdToAccountIdImpl = vp_GetString vp options CLIENT_ID_TO_ACCOUNT_ID_IMPL,
      ClientIdToAccountIdConfigFile = vp_GetString vp options CLIENT_ID_TO_ACCOUNT_ID_CONFIG_FILE,
      ClientIdToAccountIdDefaultAccountId = vp_GetString vp options CLIENT_ID_TO_ACCOUNT_ID_DEFAULT_ACCOUNT_ID,
      ClientIdToAccountIdDefaultOrgId = vp_GetString vp options CLIENT_ID_TO_ACCOUNT_ID_DEFAULT_ORG_ID,
      ClientIdToAccountIdCacheSize = vp_GetInt vp options CLIENT_ID_TO_ACCOUNT_ID_CACHE_SIZE,
      ClientIdToAccountIdCacheValidRespTTL = vp_GetDuration vp options CLIENT_ID_TO_ACCOUNT_ID_CACHE_VALID_RESP_TTL,
      ClientIdToAccountIdCacheErrorRespTTL = vp_GetDuration vp options CLIENT_ID_TO_ACCOUNT_ID_CACHE_ERROR_RESP_TTL,
      ConnectionDatabaseImpl = vp_GetString vp options CONNECTION_DATABASE_IMPL,
      ConnectionDatabaseHost = vp_GetString vp options CONNECTION_DATABASE_HOST,
      ConnectionDatabasePort = vp_GetInt vp options CONNECTION_DATABASE_PORT,
      ConnectionDatabaseUser = vp_GetString vp options CONNECTION_DATABASE_USER,
      ConnectionDatabasePassword = vp_GetString vp options CONNECTION_DATABASE_PASSWORD,
      ConnectionDatabaseName = vp_GetString vp options CONNECTION_DATABASE_NAME,
      ConnectionDatabaseSslMode = vp_GetString vp options CONNECTION_DATABASE_SSL_MODE,
      ConnectionDatabaseSslRootCert = vp_GetString vp options CONNECTION_DATABASE_SSL_ROOT_CERT,
      ConnectionDatabaseQueryTimeout = vp_GetDuration vp options CONNECTION_DATABASE_QUERY_TIMEOUT * Second,
      AuthGatewayUrl = vp_GetString vp options AUTH_GATEWAY_URL,
      AuthGatewayHttpClientTimeout = vp_GetDuration vp options AUTH_GATEWAY_HTTP_CLIENT_TIMEOUT * Second,
      ConnectedClientRecorderImpl = vp_GetString vp options CONNECTED_CLIENT_RECORDER_IMPL,
      InventoryKafkaBrokers = vp_GetStringSlice vp options INVENTORY_KAFKA_BROKERS,
      InventoryKafkaTopic = vp_GetString vp options INVENTORY_KAFKA_TOPIC,
      InventoryKafkaBatchSize = vp_GetInt vp options INVENTORY_KAFKA_BATCH_SIZE,
      InventoryKafkaBatchBytes = vp_GetInt vp options INVENTORY_KAFKA_BATCH_BYTES,
      InventoryStaleTimestampOffset = vp_GetDuration vp options INVENTORY_STALE_TIMESTAMP_OFFSET * Hour,
      InventoryStaleTimestampUpdaterChunkSize = vp_GetInt vp options INVENTORY_STALE_TIMESTAMP_UPDATER_CHUNK_SIZE,
      InventoryReporterName = vp_GetString vp options INVENTORY_REPORTER_NAME,
      SourcesRecorderImpl = vp_GetString vp options SOURCES_RECORDER_IMPL,
      SourcesBaseUrl = vp_GetString vp options SOURCES_BASE_URL,
      SourcesHttpClientTimeout = vp_GetDuration vp options SOURCES_HTTP_CLIENT_TIMEOUT * Second,
      JwtTokenExpiry = vp_GetInt vp options JWT_TOKEN_EXPIRY,
      JwtPrivateKeyFile = vp_GetString vp options JWT_PRIVATE_KEY_FILE,
      JwtPublicKeyFile = vp_GetString vp options JWT_PUBLIC_KEY_FILE,
      RhcMessageKafkaBrokers = vp_GetStringSlice vp options RHC_MESSAGE_KAFKA_BROKERS,
      RhcMessageKafkaTopic = vp_GetString vp options RHC_MESSAGE_KAFKA_TOPIC,
      RhcMessageKafkaBatchSize = vp_GetInt vp options RHC_MESSAGE_KAFKA_BATCH_SIZE,
      RhcMessageKafkaBatchBytes = vp_GetInt vp options RHC_MESSAGE_KAFKA_BATCH_BYTES,
      RhcMessageKafkaConsumerGroup = vp_GetString vp options RHC_MESSAGE_KAFKA_CONSUMER_GROUP,
      PendoApiEndpoint = vp_GetString vp options PENDO_API_ENDPOINT,
      PendoRequestTimeout = vp_GetDuration vp options PENDO_REQUEST_TIMEOUT * Second,
      PendoIntegrationKey = vp_GetString vp options PENDO_INTEGRATION_KEY,
      PendoRequestSize = vp_GetInt vp options PENDO_REQUEST_SIZE,
      PrometheusPushGateway = vp_GetString vp options PROMETHEUS_PUSH_GATEWAY,
      ApiServerConnectionLookupImpl = vp_GetString vp options API_SERVER_CONNECTION_LOOKUP_IMPL,
      TenantTranslatorImpl = vp_GetString vp options TENANT_TRANSLATOR_IMPL,
      TenantTranslatorMockMapping = vp_GetStringMap vp options TENANT_TRANSLATOR_MOCK_MAPPING,
      TenantTranslatorURL = vp_GetString vp options TENANT_TRANSLATOR_URL,
      TenantTranslatorTimeout = vp_GetDuration vp options TENANT_TRANSLATOR_TIMEOUT * Second,
      PurgeConnectionOnFailedTenantLookupCount = vp_GetInt vp options PURGE_CONNECTION_ON_FAILED_TENANT_LOOKUP_COUNT,
      TenantlessConnectionTimestampOffset = vp_GetDuration vp options TENANTLESS_CONNECTION_TIMESTAMP_OFFSET * Minute,
      TenantlessConnectionUpdaterChunkSize = vp_GetInt vp options TENANTLESS_CONNECTION_UPDATER_CHUNK_SIZE,
      TenantlessConnectionMaxLookupFailures = vp_GetInt vp options TENANTLESS_CONNECTION_MAX_LOOKUP_FAILURES\<rparr>"

section \<open>Clowder\<close>

text \<open>
  What the code reads of the operator's file. A pointer is an option; dereferencing nil
  panics. A topic that the file does not list has the empty name.
\<close>

record clowder_sasl =
  sasl_Username :: "string option"
  sasl_Password :: "string option"
  sasl_SaslMechanism :: "string option"

record clowder_broker =
  br_Authtype :: "string option"
  br_Cacert :: "string option"
  br_Sasl :: "clowder_sasl option"

record clowder_database =
  cdb_Hostname :: string
  cdb_Port :: int
  cdb_Name :: string
  cdb_Username :: string
  cdb_Password :: string
  cdb_SslMode :: string
  cdb_RdsCa :: "string option"

text \<open>
  \<open>cl_Brokers\<close> is \<^verbatim>\<open>cfg.Kafka.Brokers\<close>: \<open>None\<close> outside when \<^verbatim>\<open>Kafka\<close> is nil, \<open>Some None\<close> when
  the slice is nil. \<open>cl_KafkaCa\<close> and \<open>cl_RdsCaFile\<close> write a certificate to a file and
  return its path.
\<close>

record clowder =
  cl_IsClowderEnabled :: bool
  cl_Brokers :: "clowder_broker list option option"
  cl_Database :: "clowder_database option"
  cl_KafkaServers :: "string list"
  cl_KafkaTopics :: "string \<Rightarrow> string option"
  cl_KafkaCa :: "clowder_broker \<Rightarrow> error + string"
  cl_RdsCaFile :: "error + string"

definition deref :: "'a option \<Rightarrow> 'a go" where
  "deref p = (case p of None \<Rightarrow> Panic | Some x \<Rightarrow> Ret x)"

definition clowder_topic :: "clowder \<Rightarrow> string \<Rightarrow> string" where
  "clowder_topic cl name = (case cl_KafkaTopics cl name of None \<Rightarrow> '''' | Some t \<Rightarrow> t)"

definition zero_broker :: clowder_broker where
  "zero_broker = \<lparr>br_Authtype = None, br_Cacert = None, br_Sasl = None\<rparr>"

definition first_broker :: "clowder \<Rightarrow> clowder_broker go" where
  "first_broker cl =
     go_bind (deref (cl_Brokers cl)) (\<lambda>brokers.
       case brokers of
         None \<Rightarrow> Ret zero_broker
       | Some [] \<Rightarrow> Panic
       | Some (b # _) \<Rightarrow> Ret b)"

definition override_kafka_auth :: "clowder_broker \<Rightarrow> Config \<Rightarrow> Config go" where
  "override_kafka_auth broker config =
     (case br_Authtype broker of
        None \<Rightarrow> Ret config
      | Some _ \<Rightarrow>
          go_bind (deref (br_Sasl broker)) (\<lambda>sasl.
          go_bind (deref (sasl_Username sasl)) (\<lambda>username.
          go_bind (deref (sasl_Password sasl)) (\<lambda>password.
          go_bind (deref (sasl_SaslMechanism sasl)) (\<lambda>mechanism.
            Ret (config\<lparr>KafkaUsername := username, KafkaPassword := password,
                         KafkaSASLMechanism := mechanism\<rparr>))))))"

definition override_kafka_ca :: "clowder \<Rightarrow> clowder_broker \<Rightarrow> Config \<Rightarrow> Config go" where
  "override_kafka_ca cl broker config =
     (case br_Cacert broker of
        None \<Rightarrow> Ret config
      | Some _ \<Rightarrow>
          (case cl_KafkaCa cl broker of
             Inl err \<Rightarrow> Panic
           | Inr caPath \<Rightarrow> Ret (config\<lparr>KafkaCA := caPath\<rparr>)))"

definition override_database :: "clowder \<Rightarrow> Config \<Rightarrow> Config go" where
  "override_database cl config =
     go_bind (deref (cl_Database cl)) (\<lambda>d.
       let config1 = config\<lparr>ConnectionDatabaseHost := cdb_Hostname d,
                            ConnectionDatabasePort := cdb_Port d,
                            ConnectionDatabaseName := cdb_Name d,
                            ConnectionDatabaseUser := cdb_Username d,
                            ConnectionDatabasePassword := cdb_Password d,
                            ConnectionDatabaseSslMode := cdb_SslMode d\<rparr>
       in case cdb_RdsCa d of
            None \<Rightarrow> Ret config1
          | Some _ \<Rightarrow>
              (case cl_RdsCaFile cl of
                 Inl err \<Rightarrow> Panic
               | Inr path \<Rightarrow> Ret (config1\<lparr>ConnectionDatabaseSslRootCert := path\<rparr>)))"

definition override_config :: "clowder \<Rightarrow> Config \<Rightarrow> Config go" where
  "override_config cl config =
     go_bind (first_broker cl) (\<lambda>broker.
       let config1 =
         config\<lparr>InventoryKafkaBrokers := cl_KafkaServers cl,
                InventoryKafkaTopic := clowder_topic cl ''platform.inventory.host-ingress-p1'',
                RhcMessageKafkaBrokers := cl_KafkaServers cl,
                RhcMessageKafkaTopic := clowder_topic cl RHC_MESSAGE_KAFKA_TOPIC_DEFAULT\<rparr>
       in go_bind (override_kafka_auth broker config1) (\<lambda>config2.
          go_bind (override_kafka_ca cl broker config2) (\<lambda>config3.
            override_database cl config3)))"

definition GetConfig :: "viper \<Rightarrow> clowder \<Rightarrow> Config go" where
  "GetConfig vp cl =
     (let options = \<lparr>vo_defaults = default_options, vo_env_prefix = ENV_PREFIX,
                     vo_automatic_env = True\<rparr>;
          config = read_options vp options
      in if cl_IsClowderEnabled cl then override_config cl config else Ret config)"


section \<open>Properties\<close>

lemma go_bind_Panic_iff: "go_bind p f = Panic \<longleftrightarrow> p = Panic \<or> (\<exists>x. p = Ret x \<and> f x = Panic)"
  by (cases p) auto

lemma go_bind_Panic_const:
  "(\<And>x. f x = Panic \<longleftrightarrow> B) \<Longrightarrow> p \<noteq> Exit \<Longrightarrow> go_bind p f = Panic \<longleftrightarrow> p = Panic \<or> B"
  by (cases p) auto

lemma deref_simps [simp]: "deref p = Panic \<longleftrightarrow> p = None" "deref p = Ret x \<longleftrightarrow> p = Some x" "deref p \<noteq> Exit"
  by (auto simp: deref_def split: option.splits)

lemma first_broker_iff:
  "first_broker cl = Panic \<longleftrightarrow> cl_Brokers cl = None \<or> cl_Brokers cl = Some (Some [])"
  "first_broker cl = Ret b \<longleftrightarrow>
     cl_Brokers cl = Some None \<and> b = zero_broker \<or> (\<exists>bs. cl_Brokers cl = Some (Some (b # bs)))"
  "first_broker cl \<noteq> Exit"
  by (auto simp: first_broker_def deref_def split: option.splits list.splits)

definition sasl_complete :: "clowder_broker \<Rightarrow> bool" where
  "sasl_complete b \<longleftrightarrow>
     (case br_Sasl b of
        None \<Rightarrow> False
      | Some s \<Rightarrow> sasl_Username s \<noteq> None \<and> sasl_Password s \<noteq> None \<and> sasl_SaslMechanism s \<noteq> None)"

lemma override_kafka_auth_iff:
  "override_kafka_auth b c = Panic \<longleftrightarrow> br_Authtype b \<noteq> None \<and> \<not> sasl_complete b"
  "override_kafka_auth b c \<noteq> Exit"
  by (auto simp: override_kafka_auth_def sasl_complete_def deref_def split: option.splits)

lemma override_kafka_ca_iff:
  "override_kafka_ca cl b c = Panic \<longleftrightarrow> br_Cacert b \<noteq> None \<and> isl (cl_KafkaCa cl b)"
  "override_kafka_ca cl b c \<noteq> Exit"
  by (auto simp: override_kafka_ca_def split: option.splits sum.splits)

lemma override_database_iff:
  "override_database cl c = Panic \<longleftrightarrow>
     (case cl_Database cl of None \<Rightarrow> True | Some d \<Rightarrow> cdb_RdsCa d \<noteq> None \<and> isl (cl_RdsCaFile cl))"
  "override_database cl c \<noteq> Exit"
  by (auto simp: override_database_def deref_def Let_def split: option.splits sum.splits)

text \<open>
  Which brokers matter: the first one, or the zero value when the file lists none.
\<close>

definition broker_usable :: "clowder \<Rightarrow> clowder_broker \<Rightarrow> bool" where
  "broker_usable cl b \<longleftrightarrow>
     (br_Authtype b \<noteq> None \<longrightarrow> sasl_complete b) \<and> (br_Cacert b \<noteq> None \<longrightarrow> \<not> isl (cl_KafkaCa cl b))"

text \<open>
  C39: A process comes up with a configuration or panics, and it panics exactly when it is
  run by Clowder with a file that lacks what the code dereferences: no Kafka or no database
  section, an empty list of brokers, a first broker with an authentication type but
  incomplete SASL data, or a certificate that cannot be written.
\<close>

theorem GetConfig_panics_iff:
  "GetConfig vp cl \<noteq> Exit
   \<and> (GetConfig vp cl = Panic \<longleftrightarrow>
        cl_IsClowderEnabled cl
        \<and> ((case cl_Brokers cl of
              None \<Rightarrow> True
            | Some None \<Rightarrow> False
            | Some (Some []) \<Rightarrow> True
            | Some (Some (b # bs)) \<Rightarrow> \<not> broker_usable cl b)
          \<or> (case cl_Database cl of
              None \<Rightarrow> True
            | Some d \<Rightarrow> cdb_RdsCa d \<noteq> None \<and> isl (cl_RdsCaFile cl))))"
proof -
  let ?db = "case cl_Database cl of None \<Rightarrow> True | Some d \<Rightarrow> cdb_RdsCa d \<noteq> None \<and> isl (cl_RdsCaFile cl)"
  have "go_bind (override_kafka_auth b c) (\<lambda>c2. go_bind (override_kafka_ca cl b c2) (override_database cl)) = Panic
      \<longleftrightarrow> \<not> broker_usable cl b \<or> ?db" for b c
    by (simp add: go_bind_Panic_const [where B = ?db] go_bind_Panic_const
        [where B = "br_Cacert b \<noteq> None \<and> isl (cl_KafkaCa cl b) \<or> ?db"] override_kafka_auth_iff
        override_kafka_ca_iff override_database_iff broker_usable_def)
  then have "override_config cl c = Panic \<longleftrightarrow>
      first_broker cl = Panic \<or> (\<exists>b. first_broker cl = Ret b \<and> (\<not> broker_usable cl b \<or> ?db))" for c
    by (simp add: override_config_def Let_def go_bind_Panic_iff)
  moreover have "override_config cl c \<noteq> Exit" for c
    by (simp add: override_config_def Let_def first_broker_iff override_kafka_auth_iff
        override_kafka_ca_iff override_database_iff)
  moreover have "broker_usable cl zero_broker"
    by (simp add: broker_usable_def zero_broker_def)
  ultimately show ?thesis
    by (auto simp: GetConfig_def Let_def first_broker_iff split: option.splits list.splits)
qed


text \<open>
  What the option library documents for a process whose environment sets none of the
  options: a getter gives the default, cast to its type; a number cast to a duration counts
  nanoseconds, and an option without a default has the zero value.
\<close>

definition default_value :: "viper_options \<Rightarrow> string \<Rightarrow> option_value option" where
  "default_value options k = map_of (vo_defaults options) k"

definition only_defaults :: "viper \<Rightarrow> bool" where
  "only_defaults vp \<longleftrightarrow>
     (\<forall>options k.
        (\<forall>s. default_value options k = Some (OStr s) \<longrightarrow> vp_GetString vp options k = s)
      \<and> (\<forall>b. default_value options k = Some (OBool b) \<longrightarrow> vp_GetBool vp options k = b)
      \<and> (\<forall>i. default_value options k = Some (OInt i) \<longrightarrow>
             vp_GetInt vp options k = i \<and> vp_GetDuration vp options k = word_of_int i)
      \<and> (\<forall>d. default_value options k = Some (ODuration d) \<longrightarrow> vp_GetDuration vp options k = d)
      \<and> (\<forall>xs. default_value options k = Some (OStrs xs) \<longrightarrow> vp_GetStringSlice vp options k = xs)
      \<and> (default_value options k = None \<longrightarrow>
             vp_GetString vp options k = '''' \<and> \<not> vp_GetBool vp options k))"

lemma only_defaults_reads:
  assumes "only_defaults vp"
  shows "default_value o1 k = Some (OStr s) \<Longrightarrow> vp_GetString vp o1 k = s"
    and "default_value o1 k = Some (OBool b) \<Longrightarrow> vp_GetBool vp o1 k = b"
    and "default_value o1 k = Some (OInt i) \<Longrightarrow> vp_GetInt vp o1 k = i"
    and "default_value o1 k = Some (OInt i) \<Longrightarrow> vp_GetDuration vp o1 k = word_of_int i"
    and "default_value o1 k = Some (ODuration d) \<Longrightarrow> vp_GetDuration vp o1 k = d"
    and "default_value o1 k = None \<Longrightarrow> vp_GetString vp o1 k = ''''"
  using assms unfolding only_defaults_def by blast+

definition defaults_viper :: viper where
  "defaults_viper =
     \<lparr>vp_GetString = (\<lambda>options k. case default_value options k of Some (OStr s) \<Rightarrow> s | _ \<Rightarrow> ''''),
      vp_GetBool = (\<lambda>options k. case default_value options k of Some (OBool b) \<Rightarrow> b | _ \<Rightarrow> False),
      vp_GetInt = (\<lambda>options k. case default_value options k of Some (OInt i) \<Rightarrow> i | _ \<Rightarrow> 0),
      vp_GetUint = (\<lambda>options k. case default_value options k of Some (OInt i) \<Rightarrow> word_of_int i | _ \<Rightarrow> 0),
      vp_GetDuration = (\<lambda>options k. case default_value options k of
         Some (OInt i) \<Rightarrow> word_of_int i | Some (ODuration d) \<Rightarrow> d | _ \<Rightarrow> 0),
      vp_GetStringSlice = (\<lambda>options k. case default_value options k of Some (OStrs xs) \<Rightarrow> xs | _ \<Rightarrow> []),
      vp_GetStringMap = (\<lambda>options k. [])\<rparr>"

lemma only_defaults_viper: "only_defaults defaults_viper"
  by (simp add: only_defaults_def defaults_viper_def)

definition no_clowder :: clowder where
  "no_clowder =
     \<lparr>cl_IsClowderEnabled = False, cl_Brokers = None, cl_Database = None, cl_KafkaServers = [],
      cl_KafkaTopics = (\<lambda>t. None), cl_KafkaCa = (\<lambda>b. Inr ''''), cl_RdsCaFile = Inr ''''\<rparr>"

abbreviation process_options :: viper_options where
  "process_options \<equiv> \<lparr>vo_defaults = default_options, vo_env_prefix = ENV_PREFIX, vo_automatic_env = True\<rparr>"

lemma default_lookups:
  "default_value process_options URL_PATH_PREFIX = Some (OStr ''api'')"
  "default_value process_options URL_APP_NAME = Some (OStr ''cloud-connector'')"
  "default_value process_options MQTT_TOPIC_PREFIX = Some (OStr ''redhat'')"
  "default_value process_options MQTT_BROKER_TLS_SKIP_VERIFY = Some (OBool False)"
  "default_value process_options SHUTDOWN_ON_MQTT_CONNECTION_LOST = Some (OBool False)"
  "default_value process_options MQTT_PUBLISH_TIMEOUT = Some (OInt 2)"
  "default_value process_options CLIENT_ID_TO_ACCOUNT_ID_CACHE_ERROR_RESP_TTL = Some (ODuration (10 * Second))"
  "default_value process_options INVENTORY_STALE_TIMESTAMP_OFFSET = Some (OInt 26)"
  "default_value process_options TENANTLESS_CONNECTION_TIMESTAMP_OFFSET = Some (OInt 30)"
  "default_value process_options TENANTLESS_CONNECTION_MAX_LOOKUP_FAILURES = Some (OInt 30)"
  "default_value process_options API_SERVER_CONNECTION_LOOKUP_IMPL = Some (OStr ''relaxed'')"
  "default_value process_options KAFKA_SASL_MECHANISM = None"
  by code_simp+


text \<open>
  The configuration of a process outside Clowder whose environment sets nothing: the
  base path and the topic prefix, TLS verification on, reconnection on, no SASL, the relaxed
  lookup, and the periods of the jobs with their units as the log shows them.
\<close>

theorem default_configuration:
  assumes "only_defaults vp" and "\<not> cl_IsClowderEnabled cl"
  shows "\<exists>c. GetConfig vp cl = Ret c
     \<and> UrlBasePath c = ''/api/cloud-connector'' \<and> MqttTopicPrefix c = ''redhat''
     \<and> \<not> MqttBrokerTlsSkipVerify c \<and> \<not> ShutdownOnMqttConnectionLost c
     \<and> KafkaSASLMechanism c = '''' \<and> ApiServerConnectionLookupImpl c = ''relaxed''
     \<and> TenantlessConnectionMaxLookupFailures c = 30
     \<and> Duration_String (MqttPublishTimeout c) = ''2s''
     \<and> Duration_String (ClientIdToAccountIdCacheErrorRespTTL c) = ''10s''
     \<and> Duration_String (InventoryStaleTimestampOffset c) = ''26h0m0s''
     \<and> Duration_String (TenantlessConnectionTimestampOffset c) = ''30m0s''"
proof -
  have d: "Duration_String (2 * Second) = ''2s''"
    "Duration_String (10 * Second) = ''10s''"
    "Duration_String (26 * Hour) = ''26h0m0s''"
    "Duration_String (30 * Minute) = ''30m0s''"
    by code_simp+
  have g: "vp_GetString vp process_options URL_PATH_PREFIX = ''api''"
    "vp_GetString vp process_options URL_APP_NAME = ''cloud-connector''"
    "vp_GetString vp process_options MQTT_TOPIC_PREFIX = ''redhat''"
    "\<not> vp_GetBool vp process_options MQTT_BROKER_TLS_SKIP_VERIFY"
    "\<not> vp_GetBool vp process_options SHUTDOWN_ON_MQTT_CONNECTION_LOST"
    "vp_GetDuration vp process_options MQTT_PUBLISH_TIMEOUT = word_of_int 2"
    "vp_GetDuration vp process_options CLIENT_ID_TO_ACCOUNT_ID_CACHE_ERROR_RESP_TTL = 10 * Second"
    "vp_GetDuration vp process_options INVENTORY_STALE_TIMESTAMP_OFFSET = word_of_int 26"
    "vp_GetDuration vp process_options TENANTLESS_CONNECTION_TIMESTAMP_OFFSET = word_of_int 30"
    "vp_GetInt vp process_options TENANTLESS_CONNECTION_MAX_LOOKUP_FAILURES = 30"
    "vp_GetString vp process_options API_SERVER_CONNECTION_LOOKUP_IMPL = ''relaxed''"
    "vp_GetString vp process_options KAFKA_SASL_MECHANISM = ''''"
    by (simp_all only: only_defaults_reads [OF assms(1)] default_lookups
        only_defaults_reads(2) [OF assms(1) default_lookups(4)]
        only_defaults_reads(2) [OF assms(1) default_lookups(5)] not_False_eq_True)
  have "GetConfig vp cl = Ret (read_options vp process_options)"
    using assms(2) by (simp add: GetConfig_def Let_def)
  then show ?thesis
    by (rule exI [of _ "read_options vp process_options", OF conjI])
      (simp add: read_options_def g d buildUrlBasePath_def)
qed

theorem default_configuration_witness:
  "\<exists>c. GetConfig defaults_viper no_clowder = Ret c \<and> UrlBasePath c = ''/api/cloud-connector''
     \<and> Duration_String (InventoryStaleTimestampOffset c) = ''26h0m0s''"
  using default_configuration [OF only_defaults_viper, of no_clowder] by (auto simp: no_clowder_def)

text \<open>The same configuration with other secrets: keys of other services, user and passwords.\<close>

definition with_secrets ::
  "(string \<times> json) list \<Rightarrow> string \<Rightarrow> string \<Rightarrow> string \<Rightarrow> string \<Rightarrow> string \<Rightarrow> Config \<Rightarrow> Config" where
  "with_secrets keys mqtt database user kafka pendo c =
     c\<lparr>ServiceToServiceCredentials := keys, MqttBrokerPassword := mqtt,
       ConnectionDatabasePassword := database, KafkaUsername := user, KafkaPassword := kafka,
       PendoIntegrationKey := pendo\<rparr>"

lemma Config_String_with_secrets:
  "Config_String verb_s (with_secrets keys mqtt database user kafka pendo c) = Config_String verb_s c"
  by (simp add: Config_String_def with_secrets_def)

end
