(* ===== verification/Services.thy ===== *)
theory Services
  imports Connection_Store Base64 Configuration
begin

text \<open>
  What a process of the program runs in: the database (\<open>db_state\<close>), the HTTP services
  and the Kafka broker it calls, and the cache it keeps. Each outside party is an oracle,
  read once per call, and a log of what was sent to it, so that a theorem can say what
  went over the wire. The theory also holds the reading of identity headers
  (\<^verbatim>\<open>internal/platform/utils/identity_utils/identity.go\<close>).
\<close>

section \<open>HTTP and Kafka\<close>

record http_request =
  rq_method :: string
  rq_url :: string
  rq_headers :: "(string \<times> string) list"
  rq_body :: "json option"

text \<open>Reading the body of a response can fail.\<close>

record http_response =
  rs_status :: int
  rs_body :: "error + string"

text \<open>
  \<open>parse_url\<close> says whether \<^verbatim>\<open>http.NewRequest\<close> refuses the URL. \<open>cache\<close> is the state of
  the client id cache, of a type of its own because the cache is a library.
\<close>

record 'c system = db_state +
  parse_url :: "string \<Rightarrow> error option"
  http_do :: "nat \<Rightarrow> http_request \<Rightarrow> error + http_response"
  http_log :: "http_request list"
  kafka_fault :: "nat \<Rightarrow> error option"
  kafka_calls :: nat
  kafka_log :: "(string \<times> json) list"
  cache :: 'c

definition send_http ::
  "http_request \<Rightarrow> ('c, 'a) system_scheme \<Rightarrow> (error + http_response) \<times> ('c, 'a) system_scheme" where
  "send_http req w =
     (case parse_url w (rq_url req) of
        Some err \<Rightarrow> (Inl err, w)
      | None \<Rightarrow> (http_do w (length (http_log w)) req, w\<lparr>http_log := http_log w @ [req]\<rparr>))"

definition read_body :: "(string \<Rightarrow> error + 'x) \<Rightarrow> http_response \<Rightarrow> error + 'x" where
  "read_body decode r = (case rs_body r of Inl err \<Rightarrow> Inl err | Inr s \<Rightarrow> decode s)"

text \<open>A message that the broker refuses is not in the log.\<close>

definition kafka_write ::
  "string \<Rightarrow> json \<Rightarrow> ('c, 'a) system_scheme \<Rightarrow> error option \<times> ('c, 'a) system_scheme" where
  "kafka_write key msg w =
     (let w1 = w\<lparr>kafka_calls := Suc (kafka_calls w)\<rparr>
      in case kafka_fault w (kafka_calls w) of
           Some err \<Rightarrow> (Some err, w1)
         | None \<Rightarrow> (None, w1\<lparr>kafka_log := kafka_log w1 @ [(key, msg)]\<rparr>))"

section \<open>Writing a time\<close>

text \<open>
  \<^verbatim>\<open>t.UTC().Format("2006-01-02T15:04:05Z07:00")\<close>: the date of the proleptic Gregorian
  calendar from the number of days since the epoch, by eras of 400 years that start in
  March, and the second of the day.
\<close>

definition civil_from_days :: "int \<Rightarrow> int \<times> int \<times> int" where
  "civil_from_days n =
     (let z = n + 719468; era = z div 146097; doe = z mod 146097;
          yoe = (doe - doe div 1460 + doe div 36524 - doe div 146096) div 365;
          doy = doe - (365 * yoe + yoe div 4 - yoe div 100);
          mp = (5 * doy + 2) div 153;
          d = doy - (153 * mp + 2) div 5 + 1;
          m = (if mp < 10 then mp + 3 else mp - 9);
          y = yoe + era * 400 + (if m \<le> 2 then 1 else 0)
      in (y, m, d))"

definition pad_int :: "nat \<Rightarrow> int \<Rightarrow> string" where
  "pad_int width i =
     (let digits = itoa_nat (nat (abs i))
      in (if i < 0 then ''-'' else '''') @ replicate (width - length digits) (CHR ''0'') @ digits)"

definition format_rfc3339 :: "time \<Rightarrow> string" where
  "format_rfc3339 t =
     (let secs = t div 1000000000; sod = secs mod 86400;
          (y, m, d) = civil_from_days (secs div 86400)
      in pad_int 4 y @ ''-'' @ pad_int 2 m @ ''-'' @ pad_int 2 d @ ''T''
         @ pad_int 2 (sod div 3600) @ '':'' @ pad_int 2 (sod mod 3600 div 60) @ '':''
         @ pad_int 2 (sod mod 60) @ ''Z'')"

text \<open>\<^verbatim>\<open>time.RFC3339Nano\<close>: the fraction of the second without its trailing zeros.\<close>

definition fraction_digits :: "int \<Rightarrow> string" where
  "fraction_digits nanos =
     (let ds = rev (dropWhile (\<lambda>c. c = CHR ''0'') (rev (pad_int 9 nanos)))
      in if ds = [] then [] else CHR ''.'' # ds)"

definition format_rfc3339nano :: "time \<Rightarrow> string" where
  "format_rfc3339nano t =
     butlast (format_rfc3339 t) @ fraction_digits (t mod 1000000000) @ ''Z''"

section \<open>Identity headers\<close>

text \<open>
  \<open>unmarshal\<close> is \<^verbatim>\<open>json.Unmarshal\<close> into a \<^verbatim>\<open>map[string]interface{}\<close>; a JSON null leaves
  the map nil, which reads as an empty one.
\<close>

type_synonym map_decoder = "string \<Rightarrow> error + (string \<times> json) list"

definition convertIdentityToMap :: "map_decoder \<Rightarrow> Identity \<Rightarrow> error + (string \<times> json) list" where
  "convertIdentityToMap unmarshal identity =
     (case DecodeString identity of
        Inl err \<Rightarrow> Inl err
      | Inr idRaw \<Rightarrow>
          (case unmarshal idRaw of
             Inl err \<Rightarrow> Inl err
           | Inr jsonDataMap \<Rightarrow>
               (case index_map jsonDataMap ''identity'' of
                  JObj data \<Rightarrow> Inr data
                | _ \<Rightarrow> Inl (ErrorString ''Unable to parse identity string''))))"

definition GetIdentityMap :: "map_decoder \<Rightarrow> Identity \<Rightarrow> error + (string \<times> json) list" where
  "GetIdentityMap unmarshal identity = convertIdentityToMap unmarshal identity"

definition AuthenticatedWithCertificate :: "map_decoder \<Rightarrow> Identity \<Rightarrow> error + bool" where
  "AuthenticatedWithCertificate unmarshal identity =
     (case convertIdentityToMap unmarshal identity of
        Inl err \<Rightarrow> Inl err
      | Inr identityMap \<Rightarrow> Inr (index_map identityMap ''auth_type'' = JStr ''cert-auth''))"

definition GetAuthType :: "map_decoder \<Rightarrow> Identity \<Rightarrow> error + string" where
  "GetAuthType unmarshal identity =
     (case convertIdentityToMap unmarshal identity of
        Inl err \<Rightarrow> Inl err
      | Inr identityMap \<Rightarrow>
          (case index_map identityMap ''auth_type'' of
             JStr authType \<Rightarrow> Inr authType
           | _ \<Rightarrow> Inr ''''))"

section \<open>The interfaces of the controller package\<close>

type_synonym 'w AccountIdResolver =
  "ClientID \<Rightarrow> 'w \<Rightarrow> (Identity \<times> AccountID \<times> OrgID \<times> error option) go \<times> 'w"

type_synonym 'w ConnectedClientRecorder =
  "Identity \<Rightarrow> ConnectorClientState \<Rightarrow> 'w \<Rightarrow> error option go \<times> 'w"

text \<open>Arguments: identity, account, org id, client, source ref, name, type, application type.\<close>

type_synonym 'w SourcesRecorder =
  "Identity \<Rightarrow> AccountID \<Rightarrow> OrgID \<Rightarrow> ClientID \<Rightarrow> string \<Rightarrow> string \<Rightarrow> string \<Rightarrow> string
    \<Rightarrow> 'w \<Rightarrow> error option \<times> 'w"

section \<open>What calls of the services leave alone\<close>

text \<open>
  Two states with the same table, the same rounding and the same oracle of database
  failures: every fact about the registrations carries over.
\<close>

definition same_store :: "'a db_state_scheme \<Rightarrow> 'a db_state_scheme \<Rightarrow> bool" where
  "same_store w w' \<longleftrightarrow>
     connections w' = connections w \<and> pg_timestamp w' = pg_timestamp w \<and> db_fault w' = db_fault w"

lemma same_store_refl [simp]: "same_store w w"
  by (simp add: same_store_def)

lemma same_store_trans: "same_store u v \<Longrightarrow> same_store v w \<Longrightarrow> same_store u w"
  by (simp add: same_store_def)

lemma same_storeD:
  assumes "same_store w w'"
  shows "db_inv w' = db_inv w" "pg_timestamp w' = pg_timestamp w" "conn_view w' = conn_view w"
  using assms conn_view_cong [of w' w] db_inv_cong [of w' w] by (simp_all add: same_store_def)

lemma send_http_store [cc_frame]: "send_http req w = (r, w') \<Longrightarrow> same_store w w'"
  by (auto simp: send_http_def same_store_def split: option.splits)

lemma kafka_write_store [cc_frame]: "kafka_write k m w = (r, w') \<Longrightarrow> same_store w w'"
  by (auto simp: kafka_write_def same_store_def Let_def split: option.splits)

lemma time_now_store [cc_frame]:
  "time_now w = (t, (w' :: 'a db_state_scheme)) \<Longrightarrow> same_store w w'"
  by (auto simp: time_now_def same_store_def)

lemma new_uuid_store [cc_frame]:
  "new_uuid w = (t, (w' :: 'a db_state_scheme)) \<Longrightarrow> same_store w w'"
  by (auto simp: new_uuid_def same_store_def)

text \<open>An identity header reads as certificate authentication exactly when it says so.\<close>

lemma AuthenticatedWithCertificate_GetAuthType:
  "AuthenticatedWithCertificate un ident = Inr b \<Longrightarrow>
     b \<longleftrightarrow> GetAuthType un ident = Inr ''cert-auth''"
  by (auto simp: AuthenticatedWithCertificate_def GetAuthType_def split: sum.splits json.splits)

end
