(* ===== verification/Mqtt_Bridge.thy ===== *)
theory Mqtt_Bridge
  imports Topic Services
begin

text \<open>
  The process that moves control messages from the MQTT broker to Kafka
  (\<^verbatim>\<open>internal/mqtt/message_handlers.go\<close>). A handler that returns lets the MQTT library
  acknowledge the message; a handler that ends the process does not.
\<close>

section \<open>Definitions\<close>

record mqtt_message =
  mm_Topic :: string
  mm_MessageID :: "16 word"
  mm_Payload :: string

text \<open>\<open>km_Headers\<close> is \<open>None\<close> for the nil slice.\<close>

record kafka_message =
  km_Key :: string
  km_Value :: string
  km_Headers :: "(string \<times> string) list option"

definition TopicKafkaHeaderKey :: string where
  "TopicKafkaHeaderKey = ''topic''"

definition MessageIDKafkaHeaderKey :: string where
  "MessageIDKafkaHeaderKey = ''mqtt_message_id''"

definition DateReceivedHeaderKey :: string where
  "DateReceivedHeaderKey = ''date_received''"

record bridge_state = runtime +
  write_fault :: "nat \<Rightarrow> error option"
  write_calls :: nat
  written :: "kafka_message list"

definition WriteMessages ::
  "kafka_message \<Rightarrow> 'a bridge_state_scheme \<Rightarrow> error option \<times> 'a bridge_state_scheme" where
  "WriteMessages m w =
     (let w1 = w\<lparr>write_calls := Suc (write_calls w)\<rparr>
      in case write_fault w (write_calls w) of
           Some err \<Rightarrow> (Some err, w1)
         | None \<Rightarrow> (None, w1\<lparr>written := written w1 @ [m]\<rparr>))"

text \<open>\<^verbatim>\<open>log.Fatal\<close> ends the process.\<close>

definition ControlMessageHandler ::
  "TopicVerifier \<Rightarrow> mqtt_message \<Rightarrow> ('a bridge_state_scheme, unit) action" where
  "ControlMessageHandler topicVerifier message w =
     (case VerifyIncomingTopic topicVerifier (mm_Topic message) of
        Inl err \<Rightarrow> (Ret (), w)
      | Inr (topicType, clientID) \<Rightarrow>
          (if length (mm_Payload message) = 0 then (Ret (), w)
           else
             (let (now, w1) = time_now w;
                  m = \<lparr>km_Key = clientID, km_Value = mm_Payload message,
                       km_Headers =
                         Some [(TopicKafkaHeaderKey, mm_Topic message),
                               (MessageIDKafkaHeaderKey, Itoa (uint (mm_MessageID message))),
                               (DateReceivedHeaderKey, format_rfc3339nano now)]\<rparr>
              in case WriteMessages m w1 of
                   (None, w2) \<Rightarrow> (Ret (), w2)
                 | (Some err, w2) \<Rightarrow>
                     (if errors_is err ContextCanceled then (Ret (), w2) else (Exit, w2)))))"

definition DataMessageHandler :: "mqtt_message \<Rightarrow> ('w, unit) action" where
  "DataMessageHandler message w = (Ret (), w)"

definition DefaultMessageHandler ::
  "TopicVerifier \<Rightarrow> (mqtt_message \<Rightarrow> ('w, unit) action) \<Rightarrow> (mqtt_message \<Rightarrow> ('w, unit) action)
    \<Rightarrow> mqtt_message \<Rightarrow> ('w, unit) action" where
  "DefaultMessageHandler topicVerifier controlMessageHandler dataMessageHandler message w =
     (case VerifyIncomingTopic topicVerifier (mm_Topic message) of
        Inl err \<Rightarrow> (Ret (), w)
      | Inr (ControlTopicType, _) \<Rightarrow> controlMessageHandler message w
      | Inr (DataTopicType, _) \<Rightarrow> dataMessageHandler message w)"

section \<open>Lemmas\<close>

text \<open>The three ways a control message can go through the bridge.\<close>

lemma ControlMessageHandler_cases:
  assumes "ControlMessageHandler tv m w = (r, w')"
  obtains (skipped) "r = Ret ()" "w' = w"
      "(\<exists>e. VerifyIncomingTopic tv (mm_Topic m) = Inl e) \<or> mm_Payload m = ''''"
    | (refused) e where "write_fault w (write_calls w) = Some e" "written w' = written w"
      "r = (if errors_is e ContextCanceled then Ret () else Exit)"
    | (forwarded) ty cid km where "r = Ret ()" "written w' = written w @ [km]"
      "VerifyIncomingTopic tv (mm_Topic m) = Inr (ty, cid)" "mm_Payload m \<noteq> ''''"
      "km_Key km = cid" "km_Value km = mm_Payload m"
      "map_of (the (km_Headers km)) TopicKafkaHeaderKey = Some (mm_Topic m)" "km_Headers km \<noteq> None"
  using assms
  by (auto simp: ControlMessageHandler_def time_now_def WriteMessages_def Let_def
      split: sum.splits prod.splits if_splits option.splits)

section \<open>Examples\<close>

definition example_bridge :: bridge_state where
  "example_bridge =
     \<lparr>clock = (\<lambda>n. 0), ticks = 0, uuid_source = (\<lambda>n. Inr ''u''), uuids = 0,
      write_fault = (\<lambda>n. None), write_calls = 0, written = []\<rparr>"

definition example_mqtt_message :: mqtt_message where
  "example_mqtt_message =
     \<lparr>mm_Topic = ''redhat/insights/client-1/control/out'', mm_MessageID = 7, mm_Payload = ''{}''\<rparr>"

end
