(* ===== verification/Message_Handlers.thy ===== *)
theory Message_Handlers
  imports Services
begin

text \<open>
  The control message handler of the Kafka consumer
  (\<^verbatim>\<open>internal/cloud_connector/message_handlers.go\<close> and \<^verbatim>\<open>utils.go\<close>): connection-status
  messages register and unregister connections. The handlers call four interfaces
  (\<^verbatim>\<open>ConnectionRegistrar\<close>, \<^verbatim>\<open>AccountIdResolver\<close>, \<^verbatim>\<open>ConnectedClientRecorder\<close>,
  \<^verbatim>\<open>SourcesRecorder\<close>) that they are given, over a state \<open>'w\<close> the implementations share.
  What the handlers guarantee is proved once, in the locale \<open>control_handler\<close>.
\<close>

section \<open>Canonical facts\<close>

text \<open>
  An invalid insights id is dropped, everything else is kept. \<open>validUUID\<close> is
  \<^verbatim>\<open>uuid.Parse\<close> of the package \<^verbatim>\<open>google/uuid\<close> succeeding. The loop is over one iteration
  order of the map.
\<close>

fun sanitize_entries ::
  "(string \<Rightarrow> bool) \<Rightarrow> (string \<times> json) list \<Rightarrow> (string \<times> json) list \<Rightarrow> (string \<times> json) list go" where
  "sanitize_entries validUUID [] acc = Ret acc"
| "sanitize_entries validUUID ((key, val) # kvs) acc =
     (if key = ''insights_id'' then
        go_bind (as_string val) (\<lambda>s.
          if validUUID s then sanitize_entries validUUID kvs (put key val acc)
          else sanitize_entries validUUID kvs acc)
      else sanitize_entries validUUID kvs (put key val acc))"

definition sanitizeCanonicalFacts :: "(string \<Rightarrow> bool) \<Rightarrow> json \<Rightarrow> json go" where
  "sanitizeCanonicalFacts validUUID cf =
     (if cf = JNull then Ret (JObj [])
      else go_bind (as_object cf) (\<lambda>canonicalFacts.
             go_bind (sanitize_entries validUUID canonicalFacts []) (\<lambda>kvs. Ret (JObj kvs))))"

section \<open>Online messages\<close>

definition isDuplicateOrOldMessage :: "ConnectorClientState \<Rightarrow> ControlMessage \<Rightarrow> bool" where
  "isDuplicateOrOldMessage currentConnectionState incomingMsg \<longleftrightarrow>
     LatestMessageID (cs_MessageMetadata currentConnectionState) = cm_MessageID incomingMsg
     \<or> time_before (cm_Sent incomingMsg) (LatestTimestamp (cs_MessageMetadata currentConnectionState))"

definition checkForDuplicateOnlineMessage ::
  "'w ConnectionRegistrar \<Rightarrow> ClientID \<Rightarrow> ControlMessage \<Rightarrow> 'w \<Rightarrow> error option \<times> 'w" where
  "checkForDuplicateOnlineMessage connectionRegistrar clientID incomingMsg w =
     (case reg_FindConnectionByClientID connectionRegistrar clientID w of
        ((connectionState, err), w1) \<Rightarrow>
          (let dup = (if isDuplicateOrOldMessage connectionState incomingMsg
                      then (Some DuplicateOrOldMQTTMessage, w1) else (None, w1))
           in case err of
                None \<Rightarrow> dup
              | Some e \<Rightarrow>
                  (if errors_is e NotFoundError then (None, w1)
                   else if errors_as_fatal e then (Some e, w1)
                   else dup)))"

definition processDispatchers ::
  "'w SourcesRecorder \<Rightarrow> Identity \<Rightarrow> AccountID \<Rightarrow> OrgID \<Rightarrow> ClientID
    \<Rightarrow> (string \<times> json) list \<Rightarrow> 'w \<Rightarrow> unit go \<times> 'w" where
  "processDispatchers sourcesRecorder identity account orgID clientId handshakePayload w =
     (case map_of handshakePayload ''dispatchers'' of
        None \<Rightarrow> (Ret (), w)
      | Some dispatchers \<Rightarrow>
          and_then (as_object dispatchers, w) (\<lambda>dispatchersMap w1.
            case map_of dispatchersMap ''catalog'' of
              None \<Rightarrow> (Ret (), w1)
            | Some catalog \<Rightarrow>
                and_then (as_object catalog, w1) (\<lambda>catalogMap w2.
                  case (map_of catalogMap ''ApplicationType'', map_of catalogMap ''SrcType'',
                        map_of catalogMap ''SourceRef'', map_of catalogMap ''SrcName'') of
                    (Some applicationType, Some sourceType, Some sourceRef, Some sourceName) \<Rightarrow>
                      and_then (as_string sourceRef, w2) (\<lambda>ref w3.
                      and_then (as_string sourceName, w3) (\<lambda>name w4.
                      and_then (as_string sourceType, w4) (\<lambda>styp w5.
                      and_then (as_string applicationType, w5) (\<lambda>atyp w6.
                        case sourcesRecorder identity account orgID clientId ref name styp atyp w6 of
                          (err, w7) \<Rightarrow> (Ret (), w7)))))
                  | _ \<Rightarrow> (Ret (), w2))))"

text \<open>The struct an online message registers.\<close>

definition online_state ::
  "ClientID \<Rightarrow> AccountID \<Rightarrow> OrgID \<Rightarrow> (string \<times> json) list \<Rightarrow> json \<Rightarrow> ControlMessage
    \<Rightarrow> ConnectorClientState" where
  "online_state clientID account orgID handshakePayload facts msg =
     \<lparr>cs_Account = account, cs_OrgID = orgID, cs_ClientID = clientID,
      cs_CanonicalFacts = facts,
      cs_Dispatchers = index_map handshakePayload ''dispatchers'',
      cs_Tags = index_map handshakePayload ''tags'',
      cs_MessageMetadata = \<lparr>LatestMessageID = cm_MessageID msg, LatestTimestamp = cm_Sent msg\<rparr>,
      cs_TenantLookupTimestamp = zero_time,
      cs_TenantLookupFailureCount = 0\<rparr>"

definition handleOnlineMessage ::
  "(string \<Rightarrow> bool) \<Rightarrow> ClientID \<Rightarrow> ControlMessage \<Rightarrow> 'w AccountIdResolver
    \<Rightarrow> 'w ConnectionRegistrar \<Rightarrow> 'w ConnectedClientRecorder \<Rightarrow> 'w SourcesRecorder
    \<Rightarrow> 'w \<Rightarrow> error option go \<times> 'w" where
  "handleOnlineMessage validUUID clientID msg accountResolver connectionRegistrar
       connectedClientRecorder sourcesRecorder w =
     (case checkForDuplicateOnlineMessage connectionRegistrar clientID msg w of
        (Some err, w1) \<Rightarrow> (Ret (Some err), w1)
      | (None, w1) \<Rightarrow>
          and_then (accountResolver clientID w1) (\<lambda>(identity, account, orgID, resolveErr) w2.
               and_then (as_object (cm_Content msg), w2) (\<lambda>handshakePayload w3.
               and_then (sanitizeCanonicalFacts validUUID (index_map handshakePayload ''canonical_facts''), w3)
                 (\<lambda>facts w4.
                   let rhcClient = online_state clientID account orgID handshakePayload facts msg
                   in case reg_Register connectionRegistrar rhcClient w4 of
                        (Some err, w5) \<Rightarrow>
                          (if errors_as_fatal err then (Ret (Some err), w5) else (Ret None, w5))
                      | (None, w5) \<Rightarrow>
                          and_then (connectedClientRecorder identity rhcClient w5) (\<lambda>recordErr w6.
                            case recordErr of
                              Some err \<Rightarrow> (Ret None, w6)
                            | None \<Rightarrow>
                                and_then (processDispatchers sourcesRecorder identity account orgID
                                            clientID handshakePayload w6)
                                  (\<lambda>u w7. (Ret None, w7)))))))"

section \<open>Offline messages and the dispatch on the message type\<close>

definition handleOfflineMessage ::
  "ClientID \<Rightarrow> 'w ConnectionRegistrar \<Rightarrow> 'w \<Rightarrow> error option go \<times> 'w" where
  "handleOfflineMessage clientID connectionRegistrar w =
     (case reg_Unregister connectionRegistrar clientID w of
        (Some err, w1) \<Rightarrow> (if errors_as_fatal err then (Ret (Some err), w1) else (Ret None, w1))
      | (None, w1) \<Rightarrow> (Ret None, w1))"

definition handleEventMessage :: "ClientID \<Rightarrow> ControlMessage \<Rightarrow> 'w \<Rightarrow> error option go \<times> 'w" where
  "handleEventMessage clientID msg w = (Ret None, w)"

definition handleConnectionStatusMessage ::
  "(string \<Rightarrow> bool) \<Rightarrow> ClientID \<Rightarrow> ControlMessage \<Rightarrow> 'w ConnectionRegistrar
    \<Rightarrow> 'w AccountIdResolver \<Rightarrow> 'w ConnectedClientRecorder \<Rightarrow> 'w SourcesRecorder
    \<Rightarrow> 'w \<Rightarrow> error option go \<times> 'w" where
  "handleConnectionStatusMessage validUUID clientID msg connectionRegistrar accountResolver
       connectedClientRecorder sourcesRecorder w =
     and_then (as_object (cm_Content msg), w) (\<lambda>handshakePayload w1.
       case map_of handshakePayload ''state'' of
         None \<Rightarrow> (Ret None, w1)
       | Some connectionState \<Rightarrow>
           and_then (GetClientVersionFromConnectionStatusContent handshakePayload, w1) (\<lambda>clientName w2.
           and_then (GetClientNameFromConnectionStatusContent handshakePayload, w2) (\<lambda>clientVersion w3.
             if connectionState = JStr ''online'' \<or> connectionState = JStr ''offline'' then
               and_then
                 (if connectionState = JStr ''online''
                  then handleOnlineMessage validUUID clientID msg accountResolver connectionRegistrar
                         connectedClientRecorder sourcesRecorder w3
                  else handleOfflineMessage clientID connectionRegistrar w3)
                 (\<lambda>err w4. if err = Some DuplicateOrOldMQTTMessage then (Ret None, w4)
                            else (Ret err, w4))
             else (Ret None, w3))))"

text \<open>
  \<open>unmarshal\<close> is \<^verbatim>\<open>json.Unmarshal\<close> of the payload into the struct
  \<^verbatim>\<open>ControlMessage\<close>.
\<close>

definition HandleControlMessage ::
  "(string \<Rightarrow> error + ControlMessage) \<Rightarrow> (string \<Rightarrow> bool) \<Rightarrow> 'w ConnectionRegistrar
    \<Rightarrow> 'w AccountIdResolver \<Rightarrow> 'w ConnectedClientRecorder \<Rightarrow> 'w SourcesRecorder
    \<Rightarrow> ClientID \<Rightarrow> string \<Rightarrow> 'w \<Rightarrow> error option go \<times> 'w" where
  "HandleControlMessage unmarshal validUUID connectionRegistrar accountResolver
       connectedClientRecorder sourcesRecorder clientID payload w =
     (if length payload = 0 then (Ret None, w)
      else case unmarshal payload of
             Inl err \<Rightarrow> (Ret None, w)
           | Inr controlMsg \<Rightarrow>
               (if cm_MessageType controlMsg = ''connection-status''
                then handleConnectionStatusMessage validUUID clientID controlMsg connectionRegistrar
                       accountResolver connectedClientRecorder sourcesRecorder w
                else if cm_MessageType controlMsg = ''event''
                then handleEventMessage clientID controlMsg w
                else (Ret None, w)))"

section \<open>Sanitized canonical facts\<close>

lemma map_of_sanitize_entries:
  "sanitize_entries v kvs acc = Ret out \<Longrightarrow> distinct (map fst kvs) \<Longrightarrow>
     fst ` set kvs \<inter> fst ` set acc = {} \<Longrightarrow>
     map_of out k =
       (case map_of kvs k of
          None \<Rightarrow> map_of acc k
        | Some x \<Rightarrow> if k = ''insights_id'' \<and> \<not> (\<exists>s. x = JStr s \<and> v s) then None else Some x)"
proof (induction v kvs acc arbitrary: out rule: sanitize_entries.induct)
  case (1 v acc)
  then show ?case by simp
next
  case (2 v key x kvs acc)
  have acc: "key \<notin> fst ` set acc" "key \<notin> fst ` set kvs"
    using "2.prems" by auto
  then have none: "map_of acc key = None" "map_of kvs key = None"
    by (simp_all add: map_of_eq_None_iff)
  show ?case
  proof (cases "key = ''insights_id''")
    case True
    with "2.prems"(1) obtain s where s: "x = JStr s"
      by (auto simp: go_bind_Ret_iff)
    show ?thesis
      using "2.prems" True s none acc "2.IH"(1) [OF True, of s] "2.IH"(2) [OF True, of s]
      by (cases "v s") (auto split: option.splits)
  next
    case False
    then show ?thesis
      using "2.prems" none acc "2.IH"(3) by (auto split: option.splits)
  qed
qed

lemma sanitize_entries_not_Exit [simp]: "sanitize_entries v kvs acc \<noteq> Exit"
  by (induction v kvs acc rule: sanitize_entries.induct) auto

lemma sanitize_entries_Panic_iff:
  "sanitize_entries v kvs acc = Panic \<longleftrightarrow>
     (\<exists>x. (''insights_id'', x) \<in> set kvs \<and> (\<forall>s. x \<noteq> JStr s))"
proof (induction v kvs acc rule: sanitize_entries.induct)
  case (1 v acc)
  then show ?case by simp
next
  case (2 v key x kvs acc)
  show ?case
  proof (cases "key = ''insights_id''")
    case True
    then show ?thesis using 2 by (cases x) auto
  next
    case False
    then show ?thesis using 2 by auto
  qed
qed

section \<open>What the handlers guarantee of any implementation\<close>

text \<open>
  The handlers rely on the registrar's laws and on the other services not touching the
  registrations: a lookup of the tenant, a report to the inventory and a report to the
  sources service leave \<open>view\<close> and the invariant as they were.
\<close>

lemma and_then_pure:
  "and_then (g, w) f = (case g of Ret x \<Rightarrow> f x w | Panic \<Rightarrow> (Panic, w) | Exit \<Rightarrow> (Exit, w))"
  by (cases g) auto

lemma isDuplicateOrOldMessage_registration [simp]:
  "isDuplicateOrOldMessage (registration id c) m = isDuplicateOrOldMessage c m"
  by (simp add: isDuplicateOrOldMessage_def)

lemma sanitizeCanonicalFacts_not_Exit [simp]: "sanitizeCanonicalFacts v cf \<noteq> Exit"
  by (simp add: sanitizeCanonicalFacts_def)

locale control_handler = connection_registrar reg view ts inv
  for reg :: "'w ConnectionRegistrar" and view and ts and inv +
  fixes resolver :: "'w AccountIdResolver"
    and recorder :: "'w ConnectedClientRecorder"
    and sources :: "'w SourcesRecorder"
  assumes resolver_keeps:
      "inv w \<Longrightarrow> resolver cid w = (ra, w') \<Longrightarrow> inv w' \<and> ts w' = ts w \<and> view w' = view w"
    and resolver_returns: "inv w \<Longrightarrow> fst (resolver cid w) \<noteq> Exit"
    and recorder_keeps:
      "inv w \<Longrightarrow> recorder ident c w = (rb, w') \<Longrightarrow> inv w' \<and> ts w' = ts w \<and> view w' = view w"
    and recorder_returns: "inv w \<Longrightarrow> fst (recorder ident c w) \<noteq> Exit"
    and sources_keeps:
      "inv w \<Longrightarrow> sources ident acc org cid s1 s2 s3 s4 w = (rc, w') \<Longrightarrow>
         inv w' \<and> ts w' = ts w \<and> view w' = view w"
begin

lemma dispatchers_keep:
  "inv w \<Longrightarrow> processDispatchers sources ident acc org cid hp w = (r, w') \<Longrightarrow>
     inv w' \<and> ts w' = ts w \<and> view w' = view w \<and> r \<noteq> Exit"
  unfolding processDispatchers_def
  by (auto simp: and_then_pure dest: sources_keeps split: option.splits prod.splits go.splits)

lemma duplicate_check:
  assumes "inv w" and "checkForDuplicateOnlineMessage reg cid m w = (r, w')"
  shows "inv w' \<and> ts w' = ts w \<and> view w' = view w
     \<and> (case r of
          None \<Rightarrow> \<forall>v. view w cid = Some v \<longrightarrow> \<not> isDuplicateOrOldMessage v m
        | Some e \<Rightarrow>
            (e = DuplicateOrOldMQTTMessage
               \<and> (\<exists>v. view w cid = Some v \<and> isDuplicateOrOldMessage v m))
            \<or> (\<exists>e'. e = FatalError e'))"
proof -
  obtain c err where f: "reg_FindConnectionByClientID reg cid w = ((c, err), w')"
    using assms(2) by (auto simp: checkForDuplicateOnlineMessage_def Let_def
        split: prod.splits option.splits if_splits)
  have keep: "inv w' \<and> ts w' = ts w \<and> view w' = view w"
    using find_keeps [OF assms(1) f] .
  show ?thesis
  proof (cases err)
    case None
    then show ?thesis
      using keep assms(2) f find_ok [OF assms(1), of cid c w']
      by (auto simp: checkForDuplicateOnlineMessage_def split: if_splits)
  next
    case (Some e)
    then consider "e = NotFoundError" | e' where "e = FatalError e'"
      using find_err [OF assms(1), of cid c e w'] f by auto
    then show ?thesis
    proof cases
      case 1
      then show ?thesis
        using keep assms(2) f Some find_missing [OF assms(1), of cid c w']
        by (auto simp: checkForDuplicateOnlineMessage_def)
    next
      case (2 e')
      then show ?thesis
        using keep assms(2) f Some by (auto simp: checkForDuplicateOnlineMessage_def)
    qed
  qed
qed

text \<open>
  The four ways an online message can end: refused by the duplicate check, panicked
  before the store was reached, not stored, or stored. In each the state keeps its invariant.
\<close>

lemma online_cases:
  assumes "inv w" and "handleOnlineMessage vu cid m resolver reg recorder sources w = (r, w')"
  obtains (refused) e where "r = Ret (Some e)" "inv w'" "ts w' = ts w" "view w' = view w"
      "e = DuplicateOrOldMQTTMessage \<and> (\<exists>v. view w cid = Some v \<and> isDuplicateOrOldMessage v m)
       \<or> (\<exists>e'. e = FatalError e')"
    | (panicked) "r = Panic" "inv w'" "ts w' = ts w" "view w' = view w"
    | (failed) e where "r = (if errors_as_fatal e then Ret (Some e) else Ret None)"
      "inv w'" "ts w' = ts w" "view w' = view w"
    | (stored) acc org hp facts where "r = Ret None \<or> r = Panic" "inv w'" "ts w' = ts w"
      "cm_Content m = JObj hp"
      "view w' = (view w)(cid \<mapsto> registration (ts w) (online_state cid acc org hp facts m))"
      "\<forall>v. view w cid = Some v \<longrightarrow> \<not> isDuplicateOrOldMessage v m"
proof -
  obtain d w1 where d: "checkForDuplicateOnlineMessage reg cid m w = (d, w1)"
    by (cases "checkForDuplicateOnlineMessage reg cid m w") auto
  note w1 = duplicate_check [OF assms(1) d]
  obtain a w2 where res: "resolver cid w1 = (a, w2)"
    by (cases "resolver cid w1") auto
  have w2: "inv w2 \<and> ts w2 = ts w \<and> view w2 = view w \<and> a \<noteq> Exit"
    using resolver_keeps [OF _ res] resolver_returns [of w1 cid] res w1 by simp
  show thesis
  proof (cases d)
    case (Some e)
    then show ?thesis using refused [of e] assms(2) d w1 by (auto simp: handleOnlineMessage_def)
  next
    case None
    show ?thesis
    proof (cases "\<exists>ident acc org rerr hp facts. a = Ret (ident, acc, org, rerr) \<and> cm_Content m = JObj hp
        \<and> sanitizeCanonicalFacts vu (index_map hp ''canonical_facts'') = Ret facts")
      case False
      then have "w' = w2" "r = Panic"
        using assms(2) d None res w2
        by (auto simp: handleOnlineMessage_def and_then_pure split: go.splits)
      with w2 show ?thesis using panicked by simp
    next
      case True
      then obtain ident acc org rerr hp facts where hp: "a = Ret (ident, acc, org, rerr)" "cm_Content m = JObj hp"
          "sanitizeCanonicalFacts vu (index_map hp ''canonical_facts'') = Ret facts" by blast
      let ?c = "online_state cid acc org hp facts m"
      obtain g w5 where g: "reg_Register reg ?c w2 = (g, w5)" by (cases "reg_Register reg ?c w2") auto
      have k5: "inv w5 \<and> ts w5 = ts w" using register_keeps [OF _ g] w2 by simp
      show ?thesis
      proof (cases g)
        case (Some e)
        then have "w' = w5" "r = (if errors_as_fatal e then Ret (Some e) else Ret None)"
          using assms(2) d None res hp g by (auto simp: handleOnlineMessage_def split: if_splits)
        moreover have "view w5 = view w" using register_err [of w2 ?c e w5] g Some w2 by simp
        ultimately show ?thesis using failed [of e] k5 by simp
      next
        case g0: None
        then have v5: "view w5 = (view w)(cid \<mapsto> registration (ts w) ?c)"
          using register_ok [of w2 ?c w5] g w2 by (simp add: online_state_def)
        obtain rr w6 where rr: "recorder ident ?c w5 = (rr, w6)" by (cases "recorder ident ?c w5") auto
        have k6: "inv w6 \<and> ts w6 = ts w \<and> view w6 = view w5 \<and> rr \<noteq> Exit"
          using recorder_keeps [OF _ rr] recorder_returns [of w5 ident ?c] k5 rr by simp
        obtain pd w7 where pd: "processDispatchers sources ident acc org cid hp w6 = (pd, w7)"
          by (cases "processDispatchers sources ident acc org cid hp w6") auto
        have k7: "inv w7 \<and> ts w7 = ts w \<and> view w7 = view w5 \<and> pd \<noteq> Exit"
          using dispatchers_keep [OF _ pd] k6 by simp
        have "w' = w6 \<or> w' = w7" "r = Ret None \<or> r = Panic"
          using assms(2) d None res hp g g0 rr pd k6 k7
          by (auto simp: handleOnlineMessage_def Let_def and_then_pure split: go.splits option.splits)
        moreover have "\<forall>v. view w cid = Some v \<longrightarrow> \<not> isDuplicateOrOldMessage v m"
          using w1 None by simp
        ultimately show ?thesis using stored [of hp acc org facts] hp k6 k7 v5 by auto
      qed
    qed
  qed
qed

lemma offline_cases:
  assumes "inv w" and "handleOfflineMessage cid reg w = (r, w')"
  obtains (failed) e where "r = (if errors_as_fatal e then Ret (Some e) else Ret None)"
      "inv w'" "ts w' = ts w" "view w' = view w"
    | (removed) "r = Ret None" "inv w'" "ts w' = ts w" "view w' = (view w)(cid := None)"
proof -
  obtain u w1 where u: "reg_Unregister reg cid w = (u, w1)" by (cases "reg_Unregister reg cid w") auto
  note k = unregister_keeps [OF assms(1) u]
  show thesis
  proof (cases u)
    case None
    then show ?thesis
      using removed assms(2) u k unregister_ok [OF assms(1), of cid w1]
      by (simp add: handleOfflineMessage_def)
  next
    case (Some e)
    then show ?thesis
      using failed [of e] assms(2) u k unregister_err [OF assms(1), of cid e w1]
      by (auto simp: handleOfflineMessage_def split: if_splits)
  qed
qed

text \<open>
  The effect of one control message on the registrations, whatever its payload: none, or
  its client's registration is replaced by the message's, or it is removed. The result is
  nil, a fatal error, or a panic.
\<close>

lemma control_cases:
  assumes "inv w"
    and "HandleControlMessage un vu reg resolver recorder sources cid p w = (r, w')"
  obtains (unchanged) "inv w'" "ts w' = ts w" "view w' = view w"
      "r = Ret None \<or> r = Panic \<or> (\<exists>e. r = Ret (Some e) \<and> errors_as_fatal e)"
    | (online) m acc org hp facts where "inv w'" "ts w' = ts w" "r = Ret None \<or> r = Panic"
      "un p = Inr m" "cm_MessageType m = ''connection-status''" "cm_Content m = JObj hp"
      "map_of hp ''state'' = Some (JStr ''online'')"
      "\<forall>v. view w cid = Some v \<longrightarrow> \<not> isDuplicateOrOldMessage v m"
      "view w' = (view w)(cid \<mapsto> registration (ts w) (online_state cid acc org hp facts m))"
    | (offline) m hp where "inv w'" "ts w' = ts w" "r = Ret None"
      "un p = Inr m" "cm_MessageType m = ''connection-status''" "cm_Content m = JObj hp"
      "map_of hp ''state'' = Some (JStr ''offline'')"
      "view w' = (view w)(cid := None)"
proof (cases "\<exists>m hp st nv vv. length p \<noteq> 0 \<and> un p = Inr m \<and> cm_MessageType m = ''connection-status''
    \<and> cm_Content m = JObj hp \<and> map_of hp ''state'' = Some (JStr st) \<and> st \<in> {''online'', ''offline''}
    \<and> GetClientVersionFromConnectionStatusContent hp = Ret nv
    \<and> GetClientNameFromConnectionStatusContent hp = Ret vv")
  case False
  then have "w' = w" "r = Ret None \<or> r = Panic"
    using assms(2)
    by (auto simp: HandleControlMessage_def handleConnectionStatusMessage_def handleEventMessage_def
        GetClientVersionFromConnectionStatusContent_def GetClientNameFromConnectionStatusContent_def
        and_then_pure split: if_splits sum.splits option.splits go.splits)
  then show ?thesis using unchanged assms(1) by auto
next
  case True
  then obtain m hp st where m: "length p \<noteq> 0" "un p = Inr m" "cm_MessageType m = ''connection-status''"
      "cm_Content m = JObj hp" "map_of hp ''state'' = Some (JStr st)"
    and st: "st = ''online'' \<or> st = ''offline''"
    and nv: "\<exists>nv. GetClientVersionFromConnectionStatusContent hp = Ret nv"
        "\<exists>vv. GetClientNameFromConnectionStatusContent hp = Ret vv"
    by blast
  show ?thesis
  proof (cases "st = ''online''")
    case on: True
    obtain q u where q: "handleOnlineMessage vu cid m resolver reg recorder sources w = (q, u)"
      by (cases "handleOnlineMessage vu cid m resolver reg recorder sources w") auto
    have r: "w' = u" "r = (if q = Ret (Some DuplicateOrOldMQTTMessage) then Ret None else q)"
      using assms(2) m on nv q
      by (auto simp: HandleControlMessage_def handleConnectionStatusMessage_def and_then_pure
          split: go.splits if_splits)
    from assms(1) q show ?thesis
    proof (cases rule: online_cases)
      case (refused e)
      then show ?thesis using r unchanged by auto
    next
      case panicked
      then show ?thesis using r unchanged by simp
    next
      case (failed e)
      then show ?thesis using r unchanged by (auto split: if_splits)
    next
      case (stored acc org hp' facts)
      then show ?thesis using online [of m hp acc org facts] r m on by auto
    qed
  next
    case off: False
    obtain q u where q: "handleOfflineMessage cid reg w = (q, u)"
      by (cases "handleOfflineMessage cid reg w") auto
    have r: "w' = u" "r = (if q = Ret (Some DuplicateOrOldMQTTMessage) then Ret None else q)"
      using assms(2) m st off nv q
      by (auto simp: HandleControlMessage_def handleConnectionStatusMessage_def and_then_pure
          split: go.splits if_splits)
    from assms(1) q show ?thesis
    proof (cases rule: offline_cases)
      case (failed e)
      then show ?thesis using r unchanged by (auto split: if_splits)
    next
      case removed
      then show ?thesis using r m st off offline [of m hp] by simp
    qed
  qed
qed

lemma control_keeps:
  "inv w \<Longrightarrow> HandleControlMessage un vu reg resolver recorder sources cid p w = (r, w') \<Longrightarrow>
     inv w' \<and> ts w' = ts w"
  by (erule (1) control_cases) auto

lemma control_result:
  "inv w \<Longrightarrow> HandleControlMessage un vu reg resolver recorder sources cid p w = (r, w') \<Longrightarrow>
     r = Ret None \<or> r = Panic \<or> (\<exists>e. r = Ret (Some e) \<and> errors_as_fatal e)"
  by (erule (1) control_cases) auto

lemma control_error_no_effect:
  "inv w \<Longrightarrow> HandleControlMessage un vu reg resolver recorder sources cid p w = (Ret (Some e), w') \<Longrightarrow>
     errors_as_fatal e \<and> view w' = view w"
  by (erule (1) control_cases) auto

lemma control_other_clients:
  "inv w \<Longrightarrow> HandleControlMessage un vu reg resolver recorder sources cid p w = (r, w') \<Longrightarrow>
     cid' \<noteq> cid \<Longrightarrow> view w' cid' = view w cid'"
  by (erule (1) control_cases) auto

text \<open>The time of the latest message of a client that stays registered never goes back.\<close>

lemma control_time_mono:
  assumes "inv w" and "HandleControlMessage un vu reg resolver recorder sources cid p w = (r, w')"
    and "view w c = Some v" and "view w' c = Some v'"
  shows "LatestTimestamp (cs_MessageMetadata v) \<le> LatestTimestamp (cs_MessageMetadata v')"
  using assms(1,2)
proof (cases rule: control_cases)
  case unchanged
  then show ?thesis using assms(3,4) by simp
next
  case (online m acc org hp facts)
  show ?thesis
  proof (cases "c = cid")
    case True
    have "LatestTimestamp (cs_MessageMetadata v) \<le> cm_Sent m"
      using online(8) assms(3) True
      by (auto simp: isDuplicateOrOldMessage_def time_before_def)
    then have "ts w (LatestTimestamp (cs_MessageMetadata v)) \<le> ts w (cm_Sent m)"
      by (rule ts_mono [OF assms(1)])
    moreover have "ts w (LatestTimestamp (cs_MessageMetadata v)) = LatestTimestamp (cs_MessageMetadata v)"
      using view_time [OF assms(1,3)] .
    moreover have "LatestTimestamp (cs_MessageMetadata v') = ts w (cm_Sent m)"
      using online(9) assms(4) True by (auto simp: online_state_def)
    ultimately show ?thesis by simp
  qed (use online assms(3,4) in auto)
next
  case (offline m hp)
  then show ?thesis using assms(3,4) by (cases "c = cid") auto
qed

text \<open>Delivering a message again after it took effect changes nothing more.\<close>

lemma control_redelivery:
  assumes "inv w" and "HandleControlMessage un vu reg resolver recorder sources cid p w = (r, w1)"
    and "view w1 \<noteq> view w"
    and "HandleControlMessage un vu reg resolver recorder sources cid p w1 = (r', w2)"
  shows "view w2 = view w1"
proof -
  have i1: "inv w1" using control_keeps [OF assms(1,2)] by simp
  from assms(1,2) show ?thesis
  proof (cases rule: control_cases)
    case unchanged
    then show ?thesis using assms(3) by simp
  next
    case first: (online m acc org hp facts)
    have dup: "isDuplicateOrOldMessage (registration (ts w) (online_state cid acc org hp facts m)) m"
      by (simp add: isDuplicateOrOldMessage_def online_state_def)
    from i1 assms(4) show ?thesis
    proof (cases rule: control_cases)
      case (online m' acc' org' hp' facts')
      then show ?thesis using dup first by auto
    qed (use first in auto)
  next
    case first: (offline m hp)
    from i1 assms(4) show ?thesis
      by (cases rule: control_cases) (use first in auto)
  qed
qed

end

text \<open>
  The same handler over a store that answers: a well-formed online message that is neither
  a duplicate nor old registers its client, with the tenant the resolver gave.
\<close>

locale live_handler =
  control_handler reg view ts inv resolver recorder sources +
  available_registrar reg view ts inv up
  for reg :: "'w ConnectionRegistrar" and view and ts and inv and resolver and recorder and sources and up +
  assumes resolver_up:
      "inv w \<Longrightarrow> up w \<Longrightarrow> resolver cid w = (r, w') \<Longrightarrow> up w' \<and> r \<noteq> Panic"
begin

lemma duplicate_check_up:
  assumes "inv w" and "up w" and "checkForDuplicateOnlineMessage reg cid m w = (r, w')"
    and "\<forall>v. view w cid = Some v \<longrightarrow> \<not> isDuplicateOrOldMessage v m"
  shows "r = None \<and> up w'"
proof -
  obtain c err where f: "reg_FindConnectionByClientID reg cid w = ((c, err), w')"
    using assms(3) by (auto simp: checkForDuplicateOnlineMessage_def Let_def
        split: prod.splits option.splits if_splits)
  have u: "up w'" using up_find_keeps [OF assms(1,2) f] .
  show ?thesis
  proof (cases err)
    case None
    then have "view w cid = Some (registration id c)" using find_ok [OF assms(1)] f by simp
    then have "\<not> isDuplicateOrOldMessage (registration id c) m" using assms(4) by simp
    then show ?thesis
      using None f assms(3) u by (auto simp: checkForDuplicateOnlineMessage_def split: if_splits)
  next
    case (Some e)
    then have "e = NotFoundError" using up_find [OF assms(1,2)] f by simp
    then show ?thesis using Some f assms(3) u by (auto simp: checkForDuplicateOnlineMessage_def)
  qed
qed

lemma online_registers:
  assumes "inv w" and "up w"
    and "handleOnlineMessage vu cid m resolver reg recorder sources w = (r, w')"
    and "cm_Content m = JObj hp"
    and "sanitizeCanonicalFacts vu (index_map hp ''canonical_facts'') = Ret facts"
    and "\<forall>v. view w cid = Some v \<longrightarrow> \<not> isDuplicateOrOldMessage v m"
  obtains w1 w2 ident acc org err where "inv w1" "view w1 = view w"
        "resolver cid w1 = (Ret (ident, acc, org, err), w2)" "inv w'"
        "view w' = (view w)(cid \<mapsto> registration (ts w) (online_state cid acc org hp facts m))"
        "r = Ret None \<or> r = Panic"
proof -
  obtain d w1 where d: "checkForDuplicateOnlineMessage reg cid m w = (d, w1)"
    by (cases "checkForDuplicateOnlineMessage reg cid m w") auto
  note w1 = duplicate_check [OF assms(1) d] and d1 = duplicate_check_up [OF assms(1,2) d assms(6)]
  obtain a w2 where res: "resolver cid w1 = (a, w2)" by (cases "resolver cid w1") auto
  have w2: "inv w2" "ts w2 = ts w" "view w2 = view w" "a \<noteq> Exit" "up w2" "a \<noteq> Panic"
    using resolver_keeps [OF _ res] resolver_returns [of w1 cid] resolver_up [OF _ _ res] res w1 d1
    by auto
  show thesis
  proof (cases a)
    case (Ret x)
    then obtain ident acc org err where x: "a = Ret (ident, acc, org, err)" by (cases x) auto
    let ?c = "online_state cid acc org hp facts m"
    obtain w5 where g: "reg_Register reg ?c w2 = (None, w5)"
      using up_register [OF w2(1,5), of ?c] by (cases "reg_Register reg ?c w2") auto
    have k5: "inv w5" "ts w5 = ts w" using register_keeps [OF w2(1) g] w2 by simp_all
    have v5: "view w5 = (view w)(cid \<mapsto> registration (ts w) ?c)"
      using register_ok [OF w2(1) g] w2 by (simp add: online_state_def)
    obtain rr w6 where rr: "recorder ident ?c w5 = (rr, w6)" by (cases "recorder ident ?c w5") auto
    have k6: "inv w6 \<and> view w6 = view w5 \<and> rr \<noteq> Exit"
      using recorder_keeps [OF _ rr] recorder_returns [of w5 ident ?c] k5 rr by simp
    obtain pd w7 where pd: "processDispatchers sources ident acc org cid hp w6 = (pd, w7)"
      by (cases "processDispatchers sources ident acc org cid hp w6") auto
    have k7: "inv w7 \<and> view w7 = view w5 \<and> pd \<noteq> Exit"
      using dispatchers_keep [OF _ pd] k6 by simp
    have "w' = w6 \<or> w' = w7" "r = Ret None \<or> r = Panic"
      using assms(3,4,5) d d1 res x g rr pd k6 k7
      by (auto simp: handleOnlineMessage_def Let_def and_then_pure split: go.splits option.splits)
    then show ?thesis using that [of w1 ident acc org err w2] w1 res x k6 k7 v5 by auto
  qed (use w2 in simp_all)
qed

lemma offline_removes:
  assumes "inv w" and "up w" and "handleOfflineMessage cid reg w = (r, w')"
  shows "r = Ret None \<and> view w' = (view w)(cid := None) \<and> inv w'"
  using assms up_unregister [OF assms(1,2), of cid] unregister_ok [OF assms(1), of cid]
    unregister_keeps [OF assms(1), of cid]
  by (cases "reg_Unregister reg cid w") (auto simp: handleOfflineMessage_def)

end

end
