(* ===== verification/Account_Resolver.thy ===== *)
theory Account_Resolver
  imports Message_Handlers
begin

text \<open>
  Finding the tenant of a client (\<^verbatim>\<open>internal/controller/account_resolver.go\<close>): the resolver
  that asks the authentication gateway, the one that reads a file, and the cache that can
  stand before either. The gateway's documents are decoded by \<^verbatim>\<open>encoding/json\<close> into
  structs, one of which belongs to a library, and the cache is a library; both are
  parameters. The interface is the locale \<open>account_resolver\<close>.
\<close>

section \<open>The authentication gateway\<close>

record authGwError =
  ge_ResponseBy :: string
  ge_Status :: int
  ge_Detail :: string

definition authGwErrorResponse_String :: "authGwError list \<Rightarrow> string" where
  "authGwErrorResponse_String errs =
     ''Gateway returned an error: ''
     @ concat (map (\<lambda>e. '' (response_by: '' @ ge_ResponseBy e @ '', status: '' @ Itoa (ge_Status e)
                         @ '', detail: '' @ ge_Detail e @ '')'') errs)"

text \<open>
  The struct \<^verbatim>\<open>identity.XRHID\<close> of \<^verbatim>\<open>platform-go-middlewares\<close>: the fields the program
  reads or writes, and the rest of it.
\<close>

record XRHID =
  xr_AccountNumber :: string
  xr_Internal_OrgID :: string
  xr_AuthType :: string
  xr_rest :: json

record gateway_codec =
  gw_decode_error :: "string \<Rightarrow> error + authGwError list"
  gw_decode_resp :: "string \<Rightarrow> error + string"
  gw_unmarshal_xrhid :: "string \<Rightarrow> error + XRHID"
  gw_marshal_xrhid :: "XRHID \<Rightarrow> error + string"

type_synonym lookup_result = "Identity \<times> AccountID \<times> OrgID \<times> error option"

definition lookup_failed :: "error \<Rightarrow> lookup_result" where
  "lookup_failed err = ('''', '''', '''', Some err)"

definition gateway_request :: "Config \<Rightarrow> string \<Rightarrow> ClientID \<Rightarrow> http_request" where
  "gateway_request cfg requestID clientID =
     \<lparr>rq_method = ''GET'', rq_url = AuthGatewayUrl cfg,
      rq_headers = [(''accept'', ''application/json''),
                    (''x-rh-certauth-cn'', ''/CN='' @ clientID),
                    (''x-rh-insights-request-id'', requestID)],
      rq_body = None\<rparr>"

text \<open>What the resolver makes of the gateway's answer.\<close>

definition gateway_answer :: "gateway_codec \<Rightarrow> http_response \<Rightarrow> lookup_result" where
  "gateway_answer gw r =
     (if rs_status r \<noteq> 200 then
        (case read_body (gw_decode_error gw) r of
           Inl err \<Rightarrow> lookup_failed (Wrapped ''Unable to find account: '' err)
         | Inr errResponse \<Rightarrow>
             lookup_failed (ErrorString (''Unable to find account: ''
                                         @ authGwErrorResponse_String errResponse)))
      else
        (case read_body (gw_decode_resp gw) r of
           Inl err \<Rightarrow> lookup_failed err
         | Inr respIdentity \<Rightarrow>
             (case DecodeString respIdentity of
                Inl err \<Rightarrow> lookup_failed err
              | Inr idRaw \<Rightarrow>
                  (case gw_unmarshal_xrhid gw idRaw of
                     Inl err \<Rightarrow> lookup_failed err
                   | Inr jsonData \<Rightarrow>
                       (if xr_AuthType jsonData = '''' then
                          (case gw_marshal_xrhid gw (jsonData\<lparr>xr_AuthType := ''cert-auth''\<rparr>) of
                             Inl err \<Rightarrow> lookup_failed err
                           | Inr updatedIdentity \<Rightarrow>
                               (EncodeToString updatedIdentity, xr_AccountNumber jsonData,
                                xr_Internal_OrgID jsonData, None))
                        else (respIdentity, xr_AccountNumber jsonData,
                              xr_Internal_OrgID jsonData, None))))))"

definition BOP_MapClientIdToAccountId ::
  "gateway_codec \<Rightarrow> Config \<Rightarrow> (('c, 'a) system_scheme) AccountIdResolver" where
  "BOP_MapClientIdToAccountId gw cfg clientID w =
     (case new_uuid w of
        (Inl err, w1) \<Rightarrow> (Panic, w1)
      | (Inr requestID, w1) \<Rightarrow>
          (case send_http (gateway_request cfg requestID clientID) w1 of
             (Inl err, w2) \<Rightarrow> (Ret (lookup_failed err), w2)
           | (Inr r, w2) \<Rightarrow> (Ret (gateway_answer gw r), w2)))"

section \<open>The resolver that reads a file\<close>

record account_entry =
  ae_AccountId :: AccountID
  ae_OrgId :: OrgID
  ae_Error :: string

record ConfigurableAccountIdResolver =
  clientIdToAccountIdMap :: "ClientID \<rightharpoonup> account_entry"
  defaultAccountId :: AccountID
  defaultOrgId :: OrgID

text \<open>\<open>file\<close> is what opening and reading the file gives, \<open>unmarshal\<close> is \<^verbatim>\<open>json.Unmarshal\<close>.\<close>

definition loadAccountIdMapFromFile ::
  "error + string \<Rightarrow> (string \<Rightarrow> error + (ClientID \<rightharpoonup> account_entry))
    \<Rightarrow> error + (ClientID \<rightharpoonup> account_entry)" where
  "loadAccountIdMapFromFile file unmarshal =
     (case file of Inl err \<Rightarrow> Inl err | Inr jsonBytes \<Rightarrow> unmarshal jsonBytes)"

definition init_resolver ::
  "error + string \<Rightarrow> (string \<Rightarrow> error + (ClientID \<rightharpoonup> account_entry)) \<Rightarrow> Config
    \<Rightarrow> error + ConfigurableAccountIdResolver" where
  "init_resolver file unmarshal cfg =
     (case loadAccountIdMapFromFile file unmarshal of
        Inl err \<Rightarrow> Inl err
      | Inr m \<Rightarrow>
          Inr \<lparr>clientIdToAccountIdMap = m,
               defaultAccountId = ClientIdToAccountIdDefaultAccountId cfg,
               defaultOrgId = ClientIdToAccountIdDefaultOrgId cfg\<rparr>)"

definition identity_lines :: "AccountID \<Rightarrow> OrgID \<Rightarrow> string list" where
  \<open>identity_lines account org_id =
     ['''',
      ''        {"identity":'',
      ''            {'',
      ''            "type": "User",'',
      ''            "auth_type": "cert-auth",'',
      ''            "account_number": "'' @ account @ ''",'',
      ''            "org_id": "'' @ org_id @ ''",'',
      ''            "internal":'',
      ''                {"org_id": "'' @ org_id @ ''"},'',
      ''            "user":'',
      ''                {"email": "fred@flintstone.com", "is_org_admin": true}'',
      ''            }'',
      ''        }'']\<close>

definition createIdentityHeader :: "AccountID \<Rightarrow> OrgID \<Rightarrow> Identity" where
  "createIdentityHeader account org_id =
     EncodeToString (join [CHR 0x0A] (identity_lines account org_id))"

definition Configurable_lookup ::
  "ConfigurableAccountIdResolver \<Rightarrow> ClientID \<Rightarrow> lookup_result" where
  "Configurable_lookup bar clientID =
     (let fallback = (createIdentityHeader (defaultAccountId bar) (defaultOrgId bar),
                      defaultAccountId bar, defaultOrgId bar, None)
      in case clientIdToAccountIdMap bar clientID of
           None \<Rightarrow> fallback
         | Some account \<Rightarrow>
             (if ae_OrgId account \<noteq> '''' then
                (createIdentityHeader (ae_AccountId account) (ae_OrgId account),
                 ae_AccountId account, ae_OrgId account, None)
              else if ae_Error account \<noteq> '''' then lookup_failed (ErrorString (ae_Error account))
              else fallback))"

definition Configurable_MapClientIdToAccountId ::
  "ConfigurableAccountIdResolver \<Rightarrow> 'w AccountIdResolver" where
  "Configurable_MapClientIdToAccountId bar clientID w = (Ret (Configurable_lookup bar clientID), w)"

section \<open>The cache\<close>

record cachedResult =
  cr_identity :: Identity
  cr_accountID :: AccountID
  cr_orgID :: OrgID
  cr_timestamp :: time
  cr_err :: "error option"

text \<open>
  The operations of \<^verbatim>\<open>golang-lru/v2/expirable\<close> the resolver calls. Reading can drop
  expired entries, adding can evict.
\<close>

record 'c lru =
  lru_New :: "int \<Rightarrow> duration \<Rightarrow> 'c option"
  lru_Get :: "ClientID \<Rightarrow> 'c \<Rightarrow> cachedResult option \<times> 'c"
  lru_Add :: "ClientID \<Rightarrow> cachedResult \<Rightarrow> 'c \<Rightarrow> 'c"

definition call_and_cache ::
  "'c lru \<Rightarrow> (('c, 'a) system_scheme) AccountIdResolver \<Rightarrow> (('c, 'a) system_scheme) AccountIdResolver" where
  "call_and_cache lru base clientID w =
     and_then (base clientID w) (\<lambda>(identity, accountID, orgID, err) w1.
       let (now, w2) = time_now w1;
           resultToCache = \<lparr>cr_identity = identity, cr_accountID = accountID, cr_orgID = orgID,
                            cr_timestamp = now, cr_err = err\<rparr>
       in (Ret (identity, accountID, orgID, err),
           w2\<lparr>cache := lru_Add lru clientID resultToCache (cache w2)\<rparr>))"

definition Cached_MapClientIdToAccountId ::
  "'c lru \<Rightarrow> duration \<Rightarrow> (('c, 'a) system_scheme) AccountIdResolver
    \<Rightarrow> (('c, 'a) system_scheme) AccountIdResolver" where
  "Cached_MapClientIdToAccountId lru errorTTL base clientID w =
     (case lru_Get lru clientID (cache w) of
        (got, c) \<Rightarrow>
          (let w1 = w\<lparr>cache := c\<rparr>
           in case got of
                None \<Rightarrow> call_and_cache lru base clientID w1
              | Some result \<Rightarrow>
                  (case cr_err result of
                     None \<Rightarrow> (Ret (cr_identity result, cr_accountID result, cr_orgID result, None), w1)
                   | Some err \<Rightarrow>
                       (let (now, w2) = time_now w1
                        in if sint (time_sub now (cr_timestamp result)) < sint errorTTL
                           then (Ret (lookup_failed err), w2)
                           else call_and_cache lru base clientID w2))))"

definition NewExpirableCachedAccountIdResolver ::
  "'c lru \<Rightarrow> (('c, 'a) system_scheme) AccountIdResolver \<Rightarrow> int \<Rightarrow> duration \<Rightarrow> duration
    \<Rightarrow> ('c, 'a) system_scheme
    \<Rightarrow> (error + (('c, 'a) system_scheme) AccountIdResolver) \<times> ('c, 'a) system_scheme" where
  "NewExpirableCachedAccountIdResolver lru baseResolver cacheSize cacheTTL errorTTL w =
     (case lru_New lru cacheSize cacheTTL of
        None \<Rightarrow> (Inl (ErrorString ''Unable to create LRU cache for caching AccountIdResolver results''), w)
      | Some c \<Rightarrow> (Inr (Cached_MapClientIdToAccountId lru errorTTL baseResolver), w\<lparr>cache := c\<rparr>))"

definition NewAccountIdResolver ::
  "string \<Rightarrow> gateway_codec \<Rightarrow> 'c lru \<Rightarrow> error + string
    \<Rightarrow> (string \<Rightarrow> error + (ClientID \<rightharpoonup> account_entry)) \<Rightarrow> Config \<Rightarrow> ('c, 'a) system_scheme
    \<Rightarrow> (error + (('c, 'a) system_scheme) AccountIdResolver) \<times> ('c, 'a) system_scheme" where
  "NewAccountIdResolver impl gw lru file unmarshal cfg w =
     (let with_cache = (\<lambda>wrappedResolver.
            NewExpirableCachedAccountIdResolver lru wrappedResolver (ClientIdToAccountIdCacheSize cfg)
              (ClientIdToAccountIdCacheValidRespTTL cfg) (ClientIdToAccountIdCacheErrorRespTTL cfg) w)
      in if impl = ''config_file_based'' then
           (case init_resolver file unmarshal cfg of
              Inl err \<Rightarrow> (Inl err, w)
            | Inr resolver \<Rightarrow> (Inr (Configurable_MapClientIdToAccountId resolver), w))
         else if impl = ''config_file_based_with_cache'' then
           (case init_resolver file unmarshal cfg of
              Inl err \<Rightarrow> (Inl err, w)
            | Inr resolver \<Rightarrow> with_cache (Configurable_MapClientIdToAccountId resolver))
         else if impl = ''bop'' then (Inr (BOP_MapClientIdToAccountId gw cfg), w)
         else if impl = ''bop_with_cache'' then with_cache (BOP_MapClientIdToAccountId gw cfg)
         else (Inl (ErrorString ''Invalid AccountIdResolver impl requested''), w))"

section \<open>The interface AccountIdResolver\<close>

text \<open>
  The contract of a resolver. \<open>says w cid ident acc org\<close> is what it means, in a given
  environment, that the source of the resolver's knowledge gives that tenant to that
  client; a resolver returns no tenant that its source did not give to the client, returns
  empty names beside an error, never ends the process, leaves the registrations alone and
  does not change what the source says.
\<close>

locale account_resolver =
  fixes resolver :: "(('c, 'a) system_scheme) AccountIdResolver"
    and says :: "('c, 'a) system_scheme \<Rightarrow> ClientID \<Rightarrow> Identity \<Rightarrow> AccountID \<Rightarrow> OrgID \<Rightarrow> bool"
    and rinv :: "('c, 'a) system_scheme \<Rightarrow> bool"
  assumes lookup_sound:
      "rinv w \<Longrightarrow> resolver cid w = (Ret (ident, acc, org, None), w') \<Longrightarrow> says w cid ident acc org"
    and lookup_error:
      "rinv w \<Longrightarrow> resolver cid w = (Ret (ident, acc, org, Some e), w') \<Longrightarrow>
         ident = '''' \<and> acc = '''' \<and> org = ''''"
    and lookup_returns: "rinv w \<Longrightarrow> resolver cid w = (r, w') \<Longrightarrow> r \<noteq> Exit"
    and lookup_keeps:
      "rinv w \<Longrightarrow> resolver cid w = (r, w') \<Longrightarrow> rinv w' \<and> same_store w w' \<and> says w' = says w"
begin

text \<open>
  A lookup ends in a tenant the source gave to this client, or in the empty tenant that
  makes a connection tenantless.
\<close>

lemma lookup_tenant:
  assumes "rinv w" and "resolver cid w = (Ret (ident, acc, org, err), w')"
  shows "says w cid ident acc org \<or> isTenantlessConnection (online_state cid acc org hp facts m)"
  using assms lookup_sound lookup_error
  by (cases err) (auto simp: isTenantlessConnection_def online_state_def)

end

section \<open>The resolvers meet the interface\<close>

text \<open>The gateway vouches for a tenant: one of its answers to a request with the client's name.\<close>

definition gateway_says ::
  "gateway_codec \<Rightarrow> Config \<Rightarrow> ('c, 'a) system_scheme \<Rightarrow> ClientID \<Rightarrow> Identity \<Rightarrow> AccountID \<Rightarrow> OrgID \<Rightarrow> bool" where
  "gateway_says gw cfg w cid ident acc org \<longleftrightarrow>
     (\<exists>n requestID r. http_do w n (gateway_request cfg requestID cid) = Inr r
        \<and> rs_status r = 200 \<and> gateway_answer gw r = (ident, acc, org, None))"

definition file_says ::
  "ConfigurableAccountIdResolver \<Rightarrow> 'w \<Rightarrow> ClientID \<Rightarrow> Identity \<Rightarrow> AccountID \<Rightarrow> OrgID \<Rightarrow> bool" where
  "file_says bar w cid ident acc org \<longleftrightarrow> Configurable_lookup bar cid = (ident, acc, org, None)"

lemma gateway_answer_ok: "gateway_answer gw r = (ident, acc, org, None) \<Longrightarrow> rs_status r = 200"
  by (auto simp: gateway_answer_def lookup_failed_def split: sum.splits if_splits)

lemma gateway_answer_error:
  "gateway_answer gw r = (ident, acc, org, Some e) \<Longrightarrow> ident = '''' \<and> acc = '''' \<and> org = ''''"
  by (auto simp: gateway_answer_def lookup_failed_def split: sum.splits if_splits)

lemma gateway_says_cong: "http_do w' = http_do w \<Longrightarrow> gateway_says gw cfg w' = gateway_says gw cfg w"
  by (simp add: gateway_says_def fun_eq_iff)

lemma BOP_frame [cc_frame]:
  "BOP_MapClientIdToAccountId gw cfg cid w = (r, w') \<Longrightarrow>
     same_store w w' \<and> http_do w' = http_do w \<and> cache w' = cache w"
  by (auto simp: BOP_MapClientIdToAccountId_def new_uuid_def send_http_def same_store_def
      split: prod.splits sum.splits option.splits)

interpretation bop: account_resolver "BOP_MapClientIdToAccountId gw cfg" "gateway_says gw cfg" "\<lambda>w. True"
  for gw cfg
proof (unfold_locales, goal_cases)
  case (1 w cid ident acc org w')
  then show ?case
    by (auto simp: BOP_MapClientIdToAccountId_def gateway_says_def new_uuid_def send_http_def
        lookup_failed_def split: prod.splits sum.splits option.splits
        intro: gateway_answer_ok)
next
  case (2 w cid ident acc org e w')
  then show ?case
    by (auto simp: BOP_MapClientIdToAccountId_def lookup_failed_def dest: gateway_answer_error
        split: prod.splits sum.splits)
next
  case (3 w cid r w')
  then show ?case
    by (auto simp: BOP_MapClientIdToAccountId_def split: prod.splits sum.splits)
next
  case (4 w cid r w')
  then show ?case using BOP_frame [OF 4(2)] gateway_says_cong [of w' w] by simp
qed

interpretation configurable: account_resolver
  "Configurable_MapClientIdToAccountId bar" "file_says bar" "\<lambda>w. True" for bar
  by unfold_locales
    (auto simp: Configurable_MapClientIdToAccountId_def file_says_def Configurable_lookup_def
      lookup_failed_def Let_def fun_eq_iff split: option.splits if_splits)

text \<open>
  What the cache library documents: a lookup returns a value that is held for the key and
  makes nothing new held; after adding, the value added and nothing else is new.
\<close>

definition lru_laws :: "'c lru \<Rightarrow> ('c \<Rightarrow> ClientID \<Rightarrow> cachedResult \<Rightarrow> bool) \<Rightarrow> bool" where
  "lru_laws lru holds \<longleftrightarrow>
     (\<forall>k c v c'. lru_Get lru k c = (v, c') \<longrightarrow>
        (\<forall>r. v = Some r \<longrightarrow> holds c k r) \<and> (\<forall>k' r. holds c' k' r \<longrightarrow> holds c k' r))
     \<and> (\<forall>k r c k' r'. holds (lru_Add lru k r c) k' r' \<longrightarrow> holds c k' r' \<or> (k' = k \<and> r' = r))"

text \<open>Every successful result the cache holds is one that the source gives to that client.\<close>

definition cache_inv ::
  "'c lru \<Rightarrow> ('c \<Rightarrow> ClientID \<Rightarrow> cachedResult \<Rightarrow> bool)
    \<Rightarrow> (('c, 'a) system_scheme \<Rightarrow> ClientID \<Rightarrow> Identity \<Rightarrow> AccountID \<Rightarrow> OrgID \<Rightarrow> bool)
    \<Rightarrow> ('c, 'a) system_scheme \<Rightarrow> bool" where
  "cache_inv lru holds says w \<longleftrightarrow>
     lru_laws lru holds
     \<and> (\<forall>k r. holds (cache w) k r \<longrightarrow> cr_err r = None \<longrightarrow>
          says w k (cr_identity r) (cr_accountID r) (cr_orgID r))"

lemma lru_lawsD:
  assumes "lru_laws lru holds"
  shows "lru_Get lru k c = (Some r, c') \<Longrightarrow> holds c k r"
    and "lru_Get lru k c = (v, c') \<Longrightarrow> holds c' k' r \<Longrightarrow> holds c k' r"
    and "holds (lru_Add lru k r c) k' r' \<Longrightarrow> holds c k' r' \<or> (k' = k \<and> r' = r)"
  using assms unfolding lru_laws_def by blast+

text \<open>
  One lookup that meets the contract: the invariant and the store are kept, the process
  goes on, a tenant is one the source gives, and an error comes with empty names.
\<close>

definition lookup_ok ::
  "(('c, 'a) system_scheme \<Rightarrow> ClientID \<Rightarrow> Identity \<Rightarrow> AccountID \<Rightarrow> OrgID \<Rightarrow> bool)
    \<Rightarrow> (('c, 'a) system_scheme \<Rightarrow> bool) \<Rightarrow> ClientID \<Rightarrow> ('c, 'a) system_scheme
    \<Rightarrow> lookup_result go \<Rightarrow> ('c, 'a) system_scheme \<Rightarrow> bool" where
  "lookup_ok says I cid w r w' \<longleftrightarrow>
     I w' \<and> same_store w w' \<and> says w' = says w
     \<and> (case r of
          Exit \<Rightarrow> False
        | Panic \<Rightarrow> True
        | Ret (ident, acc, org, None) \<Rightarrow> says w cid ident acc org
        | Ret (ident, acc, org, Some e) \<Rightarrow> ident = '''' \<and> acc = '''' \<and> org = '''')"

lemma Cached_cases:
  assumes "Cached_MapClientIdToAccountId lru errorTTL base cid w = (r, w')"
    and "lru_Get lru cid (cache w) = (got, c)"
  obtains (call) u where "u = w\<lparr>cache := c\<rparr> \<or> u = w\<lparr>cache := c, ticks := Suc (ticks w)\<rparr>"
      "call_and_cache lru base cid u = (r, w')"
    | (hit) res where "got = Some res" "cr_err res = None" "w' = w\<lparr>cache := c\<rparr>"
        "r = Ret (cr_identity res, cr_accountID res, cr_orgID res, None)"
    | (cached_error) res e where "got = Some res" "cr_err res = Some e"
        "sint (time_sub (clock w (ticks w)) (cr_timestamp res)) < sint errorTTL"
        "r = Ret (lookup_failed e)" "w' = w\<lparr>cache := c, ticks := Suc (ticks w)\<rparr>"
proof (cases got)
  case None
  then show ?thesis
    using assms call [of "w\<lparr>cache := c\<rparr>"] by (simp add: Cached_MapClientIdToAccountId_def)
next
  case (Some res)
  show ?thesis
  proof (cases "cr_err res")
    case None
    then show ?thesis
      using assms Some hit [of res] by (simp add: Cached_MapClientIdToAccountId_def)
  next
    case e: (Some e)
    show ?thesis
    proof (cases "sint (time_sub (clock w (ticks w)) (cr_timestamp res)) < sint errorTTL")
      case True
      then show ?thesis
        using assms Some e cached_error [of res e]
        by (simp add: Cached_MapClientIdToAccountId_def time_now_def)
    next
      case False
      then show ?thesis
        using assms Some e call [of "w\<lparr>cache := c, ticks := Suc (ticks w)\<rparr>"]
        by (simp add: Cached_MapClientIdToAccountId_def time_now_def)
    qed
  qed
qed

lemma lookup_ok_step:
  assumes "lookup_ok says I cid u r w'" and "same_store w u" and "says u = says w"
  shows "lookup_ok says I cid w r w'"
  using assms same_store_trans [of w u w']
  by (auto simp: lookup_ok_def split: go.splits option.splits)

locale cacheable_resolver = account_resolver base says rinv
  for base :: "(('c, 'a) system_scheme) AccountIdResolver" and says and rinv +
  fixes lru :: "'c lru"
    and holds :: "'c \<Rightarrow> ClientID \<Rightarrow> cachedResult \<Rightarrow> bool"
    and errorTTL :: duration
  assumes says_cache: "says (w\<lparr>cache := c\<rparr>) = says w"
    and says_ticks: "says (w\<lparr>ticks := n\<rparr>) = says w"
    and rinv_cache: "rinv (w\<lparr>cache := c\<rparr>) = rinv w"
    and rinv_ticks: "rinv (w\<lparr>ticks := n\<rparr>) = rinv w"
    and base_cache: "rinv w \<Longrightarrow> base cid w = (r, w') \<Longrightarrow> cache w' = cache w"
begin

abbreviation "cinv w \<equiv> rinv w \<and> cache_inv lru holds says w"

lemmas unaffected = says_cache says_ticks rinv_cache rinv_ticks

lemma cache_inv_cong: "cache w' = cache w \<Longrightarrow> says w' = says w \<Longrightarrow> cache_inv lru holds says w' = cache_inv lru holds says w"
  by (simp add: cache_inv_def)

lemma cache_inv_Get:
  assumes "cache_inv lru holds says w" and "lru_Get lru cid (cache w) = (v, c)"
  shows "cache_inv lru holds says (w\<lparr>cache := c\<rparr>)"
    and "v = Some r \<Longrightarrow> cr_err r = None \<Longrightarrow> says w cid (cr_identity r) (cr_accountID r) (cr_orgID r)"
  using assms by (auto simp: cache_inv_def unaffected dest: lru_lawsD)

lemma cache_inv_Add:
  assumes "cache_inv lru holds says w"
    and "cr_err r = None \<Longrightarrow> says w cid (cr_identity r) (cr_accountID r) (cr_orgID r)"
  shows "cache_inv lru holds says (w\<lparr>cache := lru_Add lru cid r (cache w)\<rparr>)"
  using assms by (auto simp: cache_inv_def unaffected dest: lru_lawsD)

lemma base_ok: "rinv w \<Longrightarrow> base cid w = (r, w') \<Longrightarrow> lookup_ok says rinv cid w r w'"
  using lookup_sound lookup_error lookup_returns lookup_keeps
  by (auto simp: lookup_ok_def split: go.splits option.splits)

lemma call_and_cache_ok:
  assumes "cinv w" and "call_and_cache lru base cid w = (r, w')"
  shows "lookup_ok says cinv cid w r w'"
proof -
  obtain b w1 where b: "base cid w = (b, w1)" by (cases "base cid w") auto
  have k: "lookup_ok says rinv cid w b w1" "cache w1 = cache w"
    using base_ok [OF _ b] base_cache [OF _ b] assms(1) by simp_all
  have c1: "cache_inv lru holds says w1"
    using cache_inv_cong [of w1 w] k assms(1) by (simp add: lookup_ok_def)
  show ?thesis
  proof (cases b)
    case (Ret x)
    obtain ident acc org err where x: "x = (ident, acc, org, err)" by (cases x) auto
    let ?res = "\<lparr>cr_identity = ident, cr_accountID = acc, cr_orgID = org,
                  cr_timestamp = clock w1 (ticks w1), cr_err = err\<rparr>"
    let ?w2 = "w1\<lparr>ticks := Suc (ticks w1)\<rparr>"
    have r: "r = b" "w' = ?w2\<lparr>cache := lru_Add lru cid ?res (cache ?w2)\<rparr>"
      using assms(2) b Ret x by (simp_all add: call_and_cache_def time_now_def)
    have "cache_inv lru holds says ?w2" using cache_inv_cong [of ?w2 w1] c1 by (simp add: unaffected)
    then have "cache_inv lru holds says w'"
      unfolding r(2) by (rule cache_inv_Add) (use k Ret x in \<open>simp add: lookup_ok_def unaffected\<close>)
    moreover have "same_store w w'" using k r by (simp add: same_store_def lookup_ok_def)
    moreover have "rinv w'" "says w' = says w"
      unfolding r(2) using k by (simp_all add: lookup_ok_def unaffected)
    ultimately show ?thesis using r(1) k(1) by (simp add: lookup_ok_def)
  qed (use assms b k c1 in \<open>auto simp: call_and_cache_def lookup_ok_def\<close>)
qed

lemma cached_lookup_ok:
  assumes "cinv w" and "Cached_MapClientIdToAccountId lru errorTTL base cid w = (r, w')"
  shows "lookup_ok says cinv cid w r w'"
proof -
  obtain got c where got: "lru_Get lru cid (cache w) = (got, c)" by (cases "lru_Get lru cid (cache w)") auto
  let ?w1 = "w\<lparr>cache := c\<rparr>" and ?w2 = "w\<lparr>cache := c, ticks := Suc (ticks w)\<rparr>"
  have c1: "cinv ?w1" "says ?w1 = says w"
    using cache_inv_Get(1) [OF _ got] assms(1) by (simp_all add: unaffected)
  have "says ?w2 = says w" "rinv ?w2 = rinv w" by (simp_all only: unaffected)
  then have c2: "cinv ?w2" "says ?w2 = says w" using cache_inv_cong [of ?w2 ?w1] c1 assms(1) by simp_all
  have s: "same_store w ?w1" "same_store w ?w2" by (simp_all add: same_store_def)
  from assms(2) got show ?thesis
  proof (cases rule: Cached_cases)
    case (call u)
    then have "lookup_ok says cinv cid u r w'" "same_store w u" "says u = says w"
      using call_and_cache_ok [of u] c1 c2 s by auto
    then show ?thesis by (rule lookup_ok_step)
  next
    case hit
    then show ?thesis
      using cache_inv_Get(2) [OF _ got] assms(1) c1 s by (simp add: lookup_ok_def)
  next
    case cached_error
    then show ?thesis using c2 s by (simp add: lookup_ok_def lookup_failed_def)
  qed
qed

end

sublocale cacheable_resolver \<subseteq> cached: account_resolver
  "Cached_MapClientIdToAccountId lru errorTTL base" says cinv
  by unfold_locales
    (drule (1) cached_lookup_ok, simp add: lookup_ok_def split: go.splits prod.splits option.splits)+

interpretation bop_cache: cacheable_resolver
  "BOP_MapClientIdToAccountId gw cfg" "gateway_says gw cfg" "\<lambda>w. True" lru holds errorTTL
  for gw cfg lru holds errorTTL
proof (unfold_locales, goal_cases)
  case (5 w cid r w')
  then show ?case using BOP_frame [OF 5(2)] by simp
qed (auto simp: gateway_says_def fun_eq_iff)

interpretation configurable_cache: cacheable_resolver
  "Configurable_MapClientIdToAccountId bar" "file_says bar" "\<lambda>w. True" lru holds errorTTL
  for bar lru holds errorTTL
proof (unfold_locales, goal_cases)
  case (1 w c)
  then show ?case by (rule ext)+ (simp only: file_says_def)
next
  case (2 w n)
  then show ?case by (rule ext)+ (simp only: file_says_def)
next
  case (3 w c)
  then show ?case by (rule refl)
next
  case (4 w n)
  then show ?case by (rule refl)
next
  case (5 w cid r w')
  then show ?case unfolding Configurable_MapClientIdToAccountId_def by blast
qed

section \<open>Properties\<close>

text \<open>
  C35: The gateway resolver behind the cache gives a client no tenant but one that the
  authentication gateway gave in answer to a request with that client's certificate name:
  neither the cache nor its expiry rules can hand one client's tenant to another. The
  invariant of the cache and the table are kept. The hypothesis contains what the cache
  library documents.
\<close>

theorem cached_gateway_lookup_sound:
  assumes "cache_inv lru holds (gateway_says gw cfg) w"
    and "Cached_MapClientIdToAccountId lru ttl (BOP_MapClientIdToAccountId gw cfg) cid w = (r, w')"
  shows "cache_inv lru holds (gateway_says gw cfg) w' \<and> connections w' = connections w \<and> r \<noteq> Exit
     \<and> (\<forall>ident acc org. r = Ret (ident, acc, org, None) \<longrightarrow> gateway_says gw cfg w cid ident acc org)
     \<and> (\<forall>ident acc org e. r = Ret (ident, acc, org, Some e) \<longrightarrow> ident = '''' \<and> acc = '''' \<and> org = '''')"
  using bop_cache.cached_lookup_ok [of lru holds gw cfg w ttl cid r w'] assms
  by (auto simp: lookup_ok_def same_store_def)

text \<open>
  A cache that keeps every entry meets the library's documentation, and the gateway that
  answers each certificate name with the tenant of that name serves the witness.
\<close>

definition keep_all :: "((ClientID \<times> cachedResult) list) lru" where
  "keep_all =
     \<lparr>lru_New = (\<lambda>n t. Some []), lru_Get = (\<lambda>k c. (map_of c k, c)),
      lru_Add = (\<lambda>k r c. put k r c)\<rparr>"

definition example_gateway :: gateway_codec where
  "example_gateway =
     \<lparr>gw_decode_error = (\<lambda>s. Inr []),
      gw_decode_resp = (\<lambda>s. Inr (EncodeToString s)),
      gw_unmarshal_xrhid = (\<lambda>s. Inr \<lparr>xr_AccountNumber = ''010101'', xr_Internal_OrgID = s,
                                     xr_AuthType = ''cert-auth'', xr_rest = JNull\<rparr>),
      gw_marshal_xrhid = (\<lambda>x. Inr (xr_Internal_OrgID x))\<rparr>"

definition example_config :: Config where
  "example_config =
     zero_Config\<lparr>AuthGatewayUrl := ''http://gateway'', ClientIdToAccountIdDefaultAccountId := ''111000'',
      ClientIdToAccountIdDefaultOrgId := ''000111'', ClientIdToAccountIdCacheSize := 10,
      ClientIdToAccountIdCacheValidRespTTL := 1000, ClientIdToAccountIdCacheErrorRespTTL := 100,
      InventoryStaleTimestampOffset := 1000, InventoryReporterName := ''cloud-connector'',
      InventoryStaleTimestampUpdaterChunkSize := 10, TenantlessConnectionTimestampOffset := 1000,
      TenantlessConnectionUpdaterChunkSize := 10, TenantlessConnectionMaxLookupFailures := 3,
      SourcesBaseUrl := ''http://sources''\<rparr>"

definition example_system :: "'c \<Rightarrow> 'c system" where
  "example_system c =
     \<lparr>clock = (\<lambda>n. 1000 * int n), ticks = 0, uuid_source = (\<lambda>n. Inr (Itoa (int n))), uuids = 0,
      connections = [], next_id = 1, db_fault = (\<lambda>n. None), db_calls = 0,
      sql_clock = (\<lambda>n. int n), pg_timestamp = (\<lambda>t. t div 1000 * 1000),
      parse_url = (\<lambda>u. None),
      http_do = (\<lambda>n req. Inr \<lparr>rs_status = 200, rs_body = Inr ''org-7''\<rparr>),
      http_log = [], kafka_fault = (\<lambda>n. None), kafka_calls = 0, kafka_log = [], cache = c\<rparr>"

theorem cached_gateway_lookup_sound_witness:
  "gateway_says example_gateway example_config
     (example_system ([] :: (ClientID \<times> cachedResult) list)) ''client-1''
     (EncodeToString ''org-7'') ''010101'' ''org-7''"
proof -
  have inv: "cache_inv keep_all (\<lambda>c k r. map_of c k = Some r)
      (gateway_says example_gateway example_config) (example_system [])"
    by (auto simp: cache_inv_def lru_laws_def keep_all_def example_system_def split: if_splits)
  let ?X = "Cached_MapClientIdToAccountId keep_all 100
        (BOP_MapClientIdToAccountId example_gateway example_config) ''client-1'' (example_system [])"
  have run: "fst ?X = Ret (EncodeToString ''org-7'', ''010101'', ''org-7'', None)"
    by (simp add: Cached_MapClientIdToAccountId_def call_and_cache_def BOP_MapClientIdToAccountId_def
        keep_all_def example_system_def new_uuid_def send_http_def time_now_def gateway_answer_def
        read_body_def example_gateway_def)
  have "?X = (fst ?X, snd ?X)" by (rule surjective_pairing)
  then have "?X = (Ret (EncodeToString ''org-7'', ''010101'', ''org-7'', None), snd ?X)"
    unfolding run .
  from cached_gateway_lookup_sound [OF inv this] show ?thesis by blast
qed

text \<open>
  A failed lookup is served from the cache only while it is younger than the error
  time-to-live. Once it is older, the lookup is the wrapped resolver's own answer.
\<close>

theorem cached_error_expires:
  assumes "lru_Get lru cid (cache w) = (Some res, c)" and "cr_err res \<noteq> None"
    and "sint ttl \<le> sint (time_sub (clock w (ticks w)) (cr_timestamp res))"
  shows "fst (Cached_MapClientIdToAccountId lru ttl base cid w)
     = fst (base cid (w\<lparr>cache := c, ticks := Suc (ticks w)\<rparr>))"
  using assms
  by (cases "base cid (w\<lparr>cache := c, ticks := Suc (ticks w)\<rparr>)")
    (auto simp: Cached_MapClientIdToAccountId_def call_and_cache_def time_now_def and_then_pure
      split: go.splits)

theorem cached_error_expires_witness:
  "fst (Cached_MapClientIdToAccountId keep_all 100
      (BOP_MapClientIdToAccountId example_gateway example_config) ''client-1''
      (example_system [(''client-1'', \<lparr>cr_identity = '''', cr_accountID = '''', cr_orgID = '''',
         cr_timestamp = - 100, cr_err = Some NotFoundError\<rparr>)]))
    = Ret (EncodeToString ''org-7'', ''010101'', ''org-7'', None)"
proof -
  let ?res = "\<lparr>cr_identity = '''', cr_accountID = '''', cr_orgID = '''',
                cr_timestamp = - 100, cr_err = Some NotFoundError\<rparr>"
  let ?w = "example_system [(''client-1'', ?res)]"
  have "sint (100 :: duration) \<le> sint (time_sub (clock ?w (ticks ?w)) (cr_timestamp ?res))"
    by (simp add: example_system_def time_sub_def)
  moreover have "lru_Get keep_all ''client-1'' (cache ?w) = (Some ?res, cache ?w)"
    by (simp add: keep_all_def example_system_def)
  ultimately show ?thesis
    using cached_error_expires [of keep_all "''client-1''" ?w ?res "cache ?w" 100
        "BOP_MapClientIdToAccountId example_gateway example_config"]
    by (simp add: BOP_MapClientIdToAccountId_def example_system_def new_uuid_def send_http_def
        gateway_answer_def read_body_def example_gateway_def)
qed

end
