(* ===== verification/Inventory_Recorder.thy ===== *)
theory Inventory_Recorder
  imports Account_Resolver
begin

text \<open>
  Reporting a connected client to the host inventory
  (\<^verbatim>\<open>internal/controller/connected_client_recorder.go\<close>): which clients are reported, how
  the host record is built from what the client sent, and the Kafka message. A client
  chooses its canonical facts and tags freely; the theorems say what it cannot choose.
\<close>

section \<open>Which hosts are reported\<close>

definition playbookWorkerDispatcherKey :: string where
  "playbookWorkerDispatcherKey = ''rhc-worker-playbook''"

definition packageManagerDispatcherKey :: string where
  "packageManagerDispatcherKey = ''package-manager''"

definition convert2RhelWorkerDispatcherKey :: string where
  "convert2RhelWorkerDispatcherKey = ''rhc-worker-script''"

definition inventoryTagNamespace :: string where
  "inventoryTagNamespace = ''rhc_client''"

definition isIdentityValid :: "Identity \<Rightarrow> bool" where
  "isIdentityValid identity \<longleftrightarrow> length identity > 0"

definition doesHostHaveCanonicalFacts :: "ConnectorClientState \<Rightarrow> bool go" where
  "doesHostHaveCanonicalFacts connectorClient =
     (if cs_CanonicalFacts connectorClient = JNull then Ret False
      else go_bind (as_object (cs_CanonicalFacts connectorClient)) (\<lambda>canonicalFactMap.
             Ret (length canonicalFactMap > 0)))"

definition doesHostHaveDispatcher :: "ConnectorClientState \<Rightarrow> string \<Rightarrow> bool go" where
  "doesHostHaveDispatcher connectorClient dispatcherName =
     (if cs_Dispatchers connectorClient = JNull then Ret False
      else go_bind (as_object (cs_Dispatchers connectorClient)) (\<lambda>dispatchersMap.
             Ret (map_of dispatchersMap dispatcherName \<noteq> None)))"

text \<open>The operators \<^verbatim>\<open>&&\<close> and \<^verbatim>\<open>||\<close> do not evaluate what they do not need.\<close>

definition go_and :: "bool go \<Rightarrow> bool go \<Rightarrow> bool go" where
  "go_and a b = go_bind a (\<lambda>x. if x then b else Ret False)"

definition go_or :: "bool go \<Rightarrow> bool go \<Rightarrow> bool go" where
  "go_or a b = go_bind a (\<lambda>x. if x then Ret True else b)"

definition shouldHostBeRegisteredWithInventory ::
  "ConnectorClientState \<Rightarrow> Identity \<Rightarrow> bool go" where
  "shouldHostBeRegisteredWithInventory connectorClient identity =
     go_and (Ret (isIdentityValid identity))
       (go_and (doesHostHaveCanonicalFacts connectorClient)
         (go_or (doesHostHaveDispatcher connectorClient playbookWorkerDispatcherKey)
           (go_or (doesHostHaveDispatcher connectorClient packageManagerDispatcherKey)
             (doesHostHaveDispatcher connectorClient convert2RhelWorkerDispatcherKey))))"

section \<open>Building the host record\<close>

text \<open>Nulls, empty arrays, empty strings and values of any other type are not passed on.\<close>

fun reportable :: "json \<Rightarrow> bool" where
  "reportable (JArr xs) \<longleftrightarrow> length xs > 0"
| "reportable (JStr s) \<longleftrightarrow> length s > 0"
| "reportable _ \<longleftrightarrow> False"

fun cleanup_entries :: "(string \<times> json) list \<Rightarrow> (string \<times> json) list \<Rightarrow> (string \<times> json) list" where
  "cleanup_entries [] hostData = hostData"
| "cleanup_entries ((key, val) # kvs) hostData =
     cleanup_entries kvs (if reportable val then put key val hostData else hostData)"

definition cleanupCanonicalFacts :: "(string \<times> json) list \<Rightarrow> (string \<times> json) list" where
  "cleanupCanonicalFacts canonicalFacts = cleanup_entries canonicalFacts []"

fun tag_entries :: "(string \<times> json) list \<Rightarrow> (string \<times> json) list \<Rightarrow> (string \<times> json) list go" where
  "tag_entries [] acc = Ret acc"
| "tag_entries ((k, v) # kvs) acc =
     go_bind (as_string v) (\<lambda>s. tag_entries kvs (put k (JArr [JStr s]) acc))"

text \<open>\<open>None\<close> is the nil map.\<close>

definition convertRHCTagsToInventoryTags :: "json \<Rightarrow> json option go" where
  "convertRHCTagsToInventoryTags rhcTags =
     (case rhcTags of
        JObj tags \<Rightarrow>
          (if tags = [] then Ret (Some (JObj []))
           else go_bind (tag_entries tags []) (\<lambda>t.
                  Ret (Some (JObj [(inventoryTagNamespace, JObj t)]))))
      | _ \<Rightarrow> Ret None)"

definition nil_uuid :: string where
  "nil_uuid = ''00000000-0000-0000-0000-000000000000''"

definition inventory_envelope :: "string \<Rightarrow> Identity \<Rightarrow> (string \<times> json) list \<Rightarrow> json" where
  "inventory_envelope requestID identity hostData =
     JObj [(''operation'', JStr ''add_host''),
           (''platform_metadata'', JObj [(''request_id'', JStr requestID),
                                         (''b64_identity'', JStr identity)]),
           (''data'', JObj hostData)]"

definition host_system_profile :: "ClientID \<Rightarrow> bool \<Rightarrow> json" where
  "host_system_profile clientID certAuth =
     JObj (let systemProfile = [(''rhc_client_id'', JStr clientID)]
           in if certAuth then put ''owner_id'' (JStr clientID) systemProfile else systemProfile)"

text \<open>The entries the program writes over the cleaned canonical facts.\<close>

definition host_data ::
  "string \<Rightarrow> ConnectorClientState \<Rightarrow> time \<Rightarrow> bool \<Rightarrow> json option
    \<Rightarrow> (string \<times> json) list \<Rightarrow> (string \<times> json) list" where
  "host_data reporter rhcClient staleTimestamp certAuth tags facts =
     (let h1 = put ''account'' (JStr (cs_Account rhcClient)) (cleanupCanonicalFacts facts);
          h2 = put ''org_id'' (JStr (cs_OrgID rhcClient)) h1;
          h3 = put ''stale_timestamp'' (JStr (format_rfc3339 staleTimestamp)) h2;
          h4 = put ''reporter'' (JStr reporter) h3;
          h5 = put ''system_profile'' (host_system_profile (cs_ClientID rhcClient) certAuth) h4
      in case tags of None \<Rightarrow> h5 | Some t \<Rightarrow> put ''tags'' t h5)"

definition InventoryMessageProducer ::
  "string \<Rightarrow> json \<Rightarrow> ('c, 'a) system_scheme \<Rightarrow> error option \<times> ('c, 'a) system_scheme" where
  "InventoryMessageProducer key msg w = kafka_write key msg w"

definition RecordConnectedClient ::
  "map_decoder \<Rightarrow> Config \<Rightarrow> (('c, 'a) system_scheme) ConnectedClientRecorder" where
  "RecordConnectedClient unmarshal cfg identity rhcClient w =
     and_then (shouldHostBeRegisteredWithInventory rhcClient identity, w) (\<lambda>should w0.
       if \<not> should then (Ret None, w0)
       else
         (let (now, w1) = time_now w0;
              staleTimestamp = time_add now (InventoryStaleTimestampOffset cfg)
          in and_then (as_object (cs_CanonicalFacts rhcClient), w1) (\<lambda>originalHostData w2.
               case AuthenticatedWithCertificate unmarshal identity of
                 Inl err \<Rightarrow> (Ret None, w2)
               | Inr certAuth \<Rightarrow>
                   and_then (convertRHCTagsToInventoryTags (cs_Tags rhcClient), w2) (\<lambda>tags w3.
                     let hostData = host_data (InventoryReporterName cfg) rhcClient staleTimestamp
                                      certAuth tags originalHostData;
                         (u, w4) = new_uuid w3;
                         requestID = (case u of Inl err \<Rightarrow> nil_uuid | Inr i \<Rightarrow> i);
                         (err, w5) = InventoryMessageProducer (cs_OrgID rhcClient)
                                       (inventory_envelope requestID identity hostData) w4
                     in (Ret err, w5)))))"

definition FakeRecordConnectedClient :: "'w ConnectedClientRecorder" where
  "FakeRecordConnectedClient identity rhcClient w = (Ret None, w)"

section \<open>Lemmas\<close>

lemma map_of_cleanup_entries:
  "distinct (map fst kvs) \<Longrightarrow>
     map_of (cleanup_entries kvs acc) k =
       (case map_of kvs k of
          Some v \<Rightarrow> if reportable v then Some v else map_of acc k
        | None \<Rightarrow> map_of acc k)"
proof (induction kvs acc rule: cleanup_entries.induct)
  case (2 key v kvs acc)
  then have "map_of kvs key = None" by (simp add: map_of_eq_None_iff)
  with 2 show ?case by (auto split: option.splits)
qed simp

lemma tag_entries_not_Exit [simp]: "tag_entries kvs acc \<noteq> Exit"
  by (induction kvs acc rule: tag_entries.induct) auto

lemma convertRHCTags_not_Exit [simp]: "convertRHCTagsToInventoryTags t \<noteq> Exit"
  by (auto simp: convertRHCTagsToInventoryTags_def split: json.splits)

lemma shouldHost_not_Exit [simp]: "shouldHostBeRegisteredWithInventory c ident \<noteq> Exit"
  by (auto simp: shouldHostBeRegisteredWithInventory_def go_and_def go_or_def
      doesHostHaveCanonicalFacts_def doesHostHaveDispatcher_def intro!: go_bind_not_Exit)

text \<open>A client is reported only when it has facts, so they are an object.\<close>

lemma shouldHost_facts:
  "shouldHostBeRegisteredWithInventory c ident = Ret True \<Longrightarrow>
     ident \<noteq> '''' \<and> (\<exists>facts. cs_CanonicalFacts c = JObj facts \<and> facts \<noteq> [])"
  by (auto simp: shouldHostBeRegisteredWithInventory_def go_and_def isIdentityValid_def
      doesHostHaveCanonicalFacts_def go_bind_Ret_iff split: if_splits)

lemma RecordConnectedClient_frame [cc_frame]:
  "RecordConnectedClient un cfg ident c w = (r, w') \<Longrightarrow> same_store w w' \<and> r \<noteq> Exit"
  by (auto simp: RecordConnectedClient_def and_then_pure time_now_def new_uuid_def Let_def
      InventoryMessageProducer_def kafka_write_def same_store_def
      split: go.splits if_splits sum.splits option.splits prod.splits)

text \<open>The record of a run that got as far as the producer.\<close>

lemma RecordConnectedClient_sends:
  assumes "shouldHostBeRegisteredWithInventory c ident = Ret True"
    and "cs_CanonicalFacts c = JObj facts"
    and "AuthenticatedWithCertificate un ident = Inr certAuth"
    and "convertRHCTagsToInventoryTags (cs_Tags c) = Ret tags"
  obtains requestID t w4 where
    "RecordConnectedClient un cfg ident c w =
       (let (err, w5) = kafka_write (cs_OrgID c)
              (inventory_envelope requestID ident
                 (host_data (InventoryReporterName cfg) c t certAuth tags facts)) w4
        in (Ret err, w5))"
    "kafka_log w4 = kafka_log w" "kafka_fault w4 = kafka_fault w" "kafka_calls w4 = kafka_calls w"
  using assms
  by (cases "uuid_source w (uuids w)")
    (auto simp: RecordConnectedClient_def time_now_def new_uuid_def InventoryMessageProducer_def Let_def)

lemma RecordConnectedClient_silent:
  assumes "\<not> (\<exists>certAuth tags. shouldHostBeRegisteredWithInventory c ident = Ret True
      \<and> AuthenticatedWithCertificate un ident = Inr certAuth
      \<and> convertRHCTagsToInventoryTags (cs_Tags c) = Ret tags)"
    and "RecordConnectedClient un cfg ident c w = (r, w')"
  shows "kafka_log w' = kafka_log w \<and> (r = Ret None \<or> r = Panic)"
proof (cases "shouldHostBeRegisteredWithInventory c ident = Ret True")
  case True
  then obtain facts where "cs_CanonicalFacts c = JObj facts" using shouldHost_facts by blast
  with assms True show ?thesis
    by (auto simp: RecordConnectedClient_def and_then_pure time_now_def
        split: go.splits sum.splits)
next
  case False
  then show ?thesis
    using assms(2) by (auto simp: RecordConnectedClient_def and_then_pure split: go.splits if_splits)
qed

section \<open>Properties\<close>

text \<open>
  C36: What a client controls of its host record. When a report goes out it is one message,
  under the organisation's key and with the identity the resolver returned; the account,
  the organisation, the reporter and the system profile in it are the program's own,
  whatever the client put under those names in its canonical facts, and the profile names
  an owner only when the identity is a certificate's. Any other entry but the tags is a
  non-empty string or array the client sent.
\<close>

theorem inventory_report_fields:
  assumes "RecordConnectedClient un cfg ident c w = (r, w')"
    and "cs_CanonicalFacts c = JObj facts" and "distinct (map fst facts)"
    and "kafka_log w' \<noteq> kafka_log w"
  shows "\<exists>requestID hostData certAuth.
     kafka_log w' = kafka_log w @ [(cs_OrgID c, inventory_envelope requestID ident hostData)]
     \<and> r = Ret None
     \<and> map_of hostData ''account'' = Some (JStr (cs_Account c))
     \<and> map_of hostData ''org_id'' = Some (JStr (cs_OrgID c))
     \<and> map_of hostData ''reporter'' = Some (JStr (InventoryReporterName cfg))
     \<and> map_of hostData ''system_profile'' = Some (host_system_profile (cs_ClientID c) certAuth)
     \<and> AuthenticatedWithCertificate un ident = Inr certAuth
     \<and> (\<forall>k v. k \<notin> {''account'', ''org_id'', ''stale_timestamp'', ''reporter'', ''system_profile'', ''tags''}
          \<longrightarrow> map_of hostData k = Some v \<longrightarrow> map_of facts k = Some v \<and> reportable v)"
proof -
  obtain certAuth tags where s: "shouldHostBeRegisteredWithInventory c ident = Ret True"
      "AuthenticatedWithCertificate un ident = Inr certAuth"
      "convertRHCTagsToInventoryTags (cs_Tags c) = Ret tags"
    using RecordConnectedClient_silent [OF _ assms(1)] assms(4) by blast
  obtain requestID t w4 where run: "RecordConnectedClient un cfg ident c w =
       (let (err, w5) = kafka_write (cs_OrgID c)
              (inventory_envelope requestID ident
                 (host_data (InventoryReporterName cfg) c t certAuth tags facts)) w4
        in (Ret err, w5))" "kafka_log w4 = kafka_log w"
    using RecordConnectedClient_sends [OF s(1) assms(2) s(2,3)] by metis
  let ?h = "host_data (InventoryReporterName cfg) c t certAuth tags facts"
  have sent: "kafka_log w' = kafka_log w @ [(cs_OrgID c, inventory_envelope requestID ident ?h)]"
      "r = Ret None"
    using run assms(1,4) by (auto simp: kafka_write_def Let_def split: option.splits)
  have fields: "map_of ?h ''account'' = Some (JStr (cs_Account c))"
      "map_of ?h ''org_id'' = Some (JStr (cs_OrgID c))"
      "map_of ?h ''reporter'' = Some (JStr (InventoryReporterName cfg))"
      "map_of ?h ''system_profile'' = Some (host_system_profile (cs_ClientID c) certAuth)"
    by (simp_all add: host_data_def Let_def split: option.splits)
  have rest: "map_of facts k = Some v \<and> reportable v"
    if "k \<notin> {''account'', ''org_id'', ''stale_timestamp'', ''reporter'', ''system_profile'', ''tags''}"
      and "map_of ?h k = Some v" for k v
    using that map_of_cleanup_entries [OF assms(3), of "[]" k]
    by (auto simp: host_data_def Let_def cleanupCanonicalFacts_def split: option.splits if_splits)
  show ?thesis using sent fields rest s(2) by blast
qed

definition example_client :: ConnectorClientState where
  "example_client =
     zero_ConnectorClientState
       \<lparr>cs_Account := ''010101'', cs_OrgID := ''org-7'', cs_ClientID := ''client-1'',
        cs_CanonicalFacts := JObj [(''org_id'', JStr ''org-8''), (''fqdn'', JStr ''host.example.com'')],
        cs_Dispatchers := JObj [(''rhc-worker-playbook'', JObj [])]\<rparr>"

definition example_unmarshal :: map_decoder where
  "example_unmarshal s = Inr [(''identity'', JObj [(''auth_type'', JStr ''cert-auth'')])]"

theorem inventory_report_fields_witness:
  "\<exists>requestID hostData.
     kafka_log (snd (RecordConnectedClient example_unmarshal example_config (EncodeToString ''id'')
                       example_client (example_system ())))
       = [(''org-7'', inventory_envelope requestID (EncodeToString ''id'') hostData)]
     \<and> map_of hostData ''org_id'' = Some (JStr ''org-7'')"
proof -
  let ?w = "example_system ()" and ?id = "EncodeToString ''id''"
  obtain r w' where run: "RecordConnectedClient example_unmarshal example_config ?id example_client ?w = (r, w')"
    by (cases "RecordConnectedClient example_unmarshal example_config ?id example_client ?w") simp
  have id: "length ?id > 0" by (simp add: EncodeToString_def)
  have facts: "cs_CanonicalFacts example_client
      = JObj [(''org_id'', JStr ''org-8''), (''fqdn'', JStr ''host.example.com'')]"
      "cs_OrgID example_client = ''org-7''"
    by (simp_all add: example_client_def)
  have should: "shouldHostBeRegisteredWithInventory example_client ?id = Ret True"
    using id
    by (simp add: shouldHostBeRegisteredWithInventory_def go_and_def go_or_def isIdentityValid_def
        doesHostHaveCanonicalFacts_def doesHostHaveDispatcher_def example_client_def
        playbookWorkerDispatcherKey_def)
  have "kafka_log w' \<noteq> kafka_log ?w"
    using run should
    by (auto simp: RecordConnectedClient_def facts AuthenticatedWithCertificate_def convertIdentityToMap_def
        example_unmarshal_def index_map_def convertRHCTagsToInventoryTags_def example_client_def
        zero_ConnectorClientState_def new_uuid_def time_now_def InventoryMessageProducer_def
        kafka_write_def Let_def example_system_def)
  from inventory_report_fields [OF run facts(1) _ this] show ?thesis
    unfolding run by (auto simp: facts example_system_def)
qed

text \<open>
  A connected client is reported to the inventory exactly when it is eligible (it has
  an identity, canonical facts and one of the three workers), its identity can be read,
  its tags are strings and the broker takes the message.
\<close>

lemma inventory_report_sent_iff:
  "kafka_log (snd (RecordConnectedClient un cfg ident c w)) \<noteq> kafka_log w \<longleftrightarrow>
     shouldHostBeRegisteredWithInventory c ident = Ret True
     \<and> (\<exists>certAuth. AuthenticatedWithCertificate un ident = Inr certAuth)
     \<and> (\<exists>tags. convertRHCTagsToInventoryTags (cs_Tags c) = Ret tags)
     \<and> kafka_fault w (kafka_calls w) = None"
proof (cases "\<exists>certAuth tags. shouldHostBeRegisteredWithInventory c ident = Ret True
      \<and> AuthenticatedWithCertificate un ident = Inr certAuth
      \<and> convertRHCTagsToInventoryTags (cs_Tags c) = Ret tags")
  case False
  then show ?thesis
    using RecordConnectedClient_silent [OF False, of cfg w] by (metis surjective_pairing)
next
  case True
  then obtain certAuth tags where s: "shouldHostBeRegisteredWithInventory c ident = Ret True"
      "AuthenticatedWithCertificate un ident = Inr certAuth"
      "convertRHCTagsToInventoryTags (cs_Tags c) = Ret tags" by blast
  then obtain facts where facts: "cs_CanonicalFacts c = JObj facts" using shouldHost_facts by blast
  obtain requestID t w4 where "RecordConnectedClient un cfg ident c w =
       (let (err, w5) = kafka_write (cs_OrgID c)
              (inventory_envelope requestID ident
                 (host_data (InventoryReporterName cfg) c t certAuth tags facts)) w4
        in (Ret err, w5))"
      "kafka_log w4 = kafka_log w" "kafka_fault w4 = kafka_fault w" "kafka_calls w4 = kafka_calls w"
    using RecordConnectedClient_sends [OF s(1) facts s(2,3)] by metis
  then show ?thesis
    using s by (auto simp: kafka_write_def Let_def split: option.splits prod.splits)
qed

end
