(* ===== verification/Sources_Recorder.thy ===== *)
theory Sources_Recorder
  imports Inventory_Recorder
begin

text \<open>
  Registering a catalog worker with the sources service
  (\<^verbatim>\<open>internal/controller/sources_recorder.go\<close>): a lookup by source reference, and a bulk
  creation when the lookup finds nothing or fails.
\<close>

section \<open>Definitions\<close>

text \<open>\<^verbatim>\<open>url.QueryEscape\<close>.\<close>

definition hex_digit :: "nat \<Rightarrow> char" where
  "hex_digit n = (if n < 10 then char_of (48 + n) else char_of (55 + n))"

definition query_unreserved :: "char \<Rightarrow> bool" where
  "query_unreserved c \<longleftrightarrow>
     (let n = (of_char c :: nat)
      in 65 \<le> n \<and> n \<le> 90 \<or> 97 \<le> n \<and> n \<le> 122 \<or> 48 \<le> n \<and> n \<le> 57)
     \<or> c \<in> set ''-_.~''"

definition escape_char :: "char \<Rightarrow> string" where
  "escape_char c =
     (if c = CHR '' '' then ''+''
      else if query_unreserved c then [c]
      else [CHR ''%'', hex_digit (of_char c div 16), hex_digit (of_char c mod 16)])"

definition QueryEscape :: "string \<Rightarrow> string" where
  "QueryEscape s = concat (map escape_char s)"

definition makeHttpRequest ::
  "Identity \<Rightarrow> string \<Rightarrow> string \<Rightarrow> string \<Rightarrow> json option \<Rightarrow> ('c, 'a) system_scheme
    \<Rightarrow> (error + http_response) \<times> ('c, 'a) system_scheme" where
  "makeHttpRequest identity requestID meth url body w =
     send_http \<lparr>rq_method = meth, rq_url = url,
                rq_headers = [(''x-rh-identity'', identity), (''Content-Type'', ''application/json''),
                              (''x-rh-insights-request-id'', requestID)],
                rq_body = body\<rparr> w"

definition bulk_operation :: "ClientID \<Rightarrow> string \<Rightarrow> string \<Rightarrow> string \<Rightarrow> string \<Rightarrow> json" where
  "bulk_operation clientID sourceRef sourceName sourceType applicationType =
     JObj [(''sources'', JArr [JObj [(''source_ref'', JStr sourceRef), (''name'', JStr sourceName),
                                     (''source_type_name'', JStr sourceType)]]),
           (''applications'', JArr [JObj [(''source_name'', JStr sourceName),
                                          (''application_type_name'', JStr applicationType)]]),
           (''endpoints'', JArr [JObj [(''source_name'', JStr sourceName),
                                       (''receptor_node'', JStr clientID)]])]"

definition createSourcesEntry ::
  "Config \<Rightarrow> Identity \<Rightarrow> ClientID \<Rightarrow> string \<Rightarrow> string \<Rightarrow> string \<Rightarrow> string
    \<Rightarrow> ('c, 'a) system_scheme \<Rightarrow> error option \<times> ('c, 'a) system_scheme" where
  "createSourcesEntry cfg identity clientID sourceRef sourceName sourceType applicationType w =
     (case new_uuid w of
        (Inl err, w1) \<Rightarrow> (Some err, w1)
      | (Inr requestID, w1) \<Rightarrow>
          (case makeHttpRequest identity requestID ''POST''
                  (SourcesBaseUrl cfg @ ''/api/sources/v3.1/bulk_create'')
                  (Some (bulk_operation clientID sourceRef sourceName sourceType applicationType)) w1 of
             (Inl err, w2) \<Rightarrow> (Some err, w2)
           | (Inr resp, w2) \<Rightarrow>
               (if rs_status resp = 400 then (None, w2)
                else if rs_status resp \<noteq> 201 then (Some (ErrorString ''Unable to create sources''), w2)
                else (None, w2))))"

text \<open>\<open>decode\<close> reads the list \<^verbatim>\<open>data\<close> of the answer.\<close>

definition checkForExistingSourcesEntry ::
  "(string \<Rightarrow> error + json list) \<Rightarrow> Config \<Rightarrow> Identity \<Rightarrow> string
    \<Rightarrow> ('c, 'a) system_scheme \<Rightarrow> (bool \<times> error option) \<times> ('c, 'a) system_scheme" where
  "checkForExistingSourcesEntry decode cfg identity sourceRef w =
     (case new_uuid w of
        (Inl err, w1) \<Rightarrow> ((False, Some err), w1)
      | (Inr requestID, w1) \<Rightarrow>
          (case makeHttpRequest identity requestID ''GET''
                  (SourcesBaseUrl cfg @ ''/api/sources/v3.0/sources?source_ref='' @ QueryEscape sourceRef)
                  None w1 of
             (Inl err, w2) \<Rightarrow> ((False, Some err), w2)
           | (Inr resp, w2) \<Rightarrow>
               (case read_body decode resp of
                  Inl err \<Rightarrow> ((False, Some (ErrorString ''Unable to parse sources GET response'')), w2)
                | Inr data \<Rightarrow> ((length data > 0, None), w2))))"

definition RegisterWithSources ::
  "(string \<Rightarrow> error + json list) \<Rightarrow> Config \<Rightarrow> (('c, 'a) system_scheme) SourcesRecorder" where
  "RegisterWithSources decode cfg identity account orgID clientID sourceRef sourceName sourceType
       applicationType w =
     (case checkForExistingSourcesEntry decode cfg identity sourceRef w of
        ((sourceEntryExists, err), w1) \<Rightarrow>
          (if sourceEntryExists then (None, w1)
           else createSourcesEntry cfg identity clientID sourceRef sourceName sourceType
                  applicationType w1))"

definition FakeRegisterWithSources :: "'w SourcesRecorder" where
  "FakeRegisterWithSources identity account orgID clientID sourceRef sourceName sourceType
       applicationType w = (None, w)"

section \<open>Lemmas\<close>

lemma makeHttpRequest_store [cc_frame]:
  "makeHttpRequest i rid m u b w = (r, w') \<Longrightarrow> same_store w w'"
  unfolding makeHttpRequest_def by (rule send_http_store)

lemma createSourcesEntry_store [cc_frame]:
  "createSourcesEntry cfg i cid a b c d w = (r, w') \<Longrightarrow> same_store w w'"
  by (auto simp: createSourcesEntry_def split: prod.splits sum.splits if_splits
      dest!: makeHttpRequest_store new_uuid_store intro: same_store_trans)

lemma checkForExistingSourcesEntry_store [cc_frame]:
  "checkForExistingSourcesEntry dec cfg i ref w = (r, w') \<Longrightarrow> same_store w w'"
  by (auto simp: checkForExistingSourcesEntry_def split: prod.splits sum.splits
      dest!: makeHttpRequest_store new_uuid_store intro: same_store_trans)

lemma RegisterWithSources_store [cc_frame]:
  "RegisterWithSources dec cfg i acc org cid a b c d w = (r, w') \<Longrightarrow> same_store w w'"
  by (auto simp: RegisterWithSources_def split: prod.splits if_splits
      dest!: createSourcesEntry_store checkForExistingSourcesEntry_store intro: same_store_trans)

lemma hex_digit_unreserved: "n < 16 \<Longrightarrow> query_unreserved (hex_digit n)"
  by (auto simp: hex_digit_def query_unreserved_def Let_def)

text \<open>An escaped reference has no character that ends or splits a query.\<close>

lemma QueryEscape_safe:
  "c \<in> set (QueryEscape s) \<Longrightarrow> query_unreserved c \<or> c = CHR ''+'' \<or> c = CHR ''%''"
proof -
  assume "c \<in> set (QueryEscape s)"
  then obtain x where x: "x \<in> set s" "c \<in> set (escape_char x)"
    by (auto simp: QueryEscape_def)
  have "of_char x div 16 < (16 :: nat)"
    by (rule less_mult_imp_div_less) (use of_char_less_256 [of x] in linarith)
  then show ?thesis
    using x(2) hex_digit_unreserved by (auto simp: escape_char_def split: if_splits)
qed

lemma makeHttpRequest_log:
  "makeHttpRequest ident rid meth u b w = (r, w') \<Longrightarrow>
     http_log w' = http_log w
     \<or> (\<exists>q. http_log w' = http_log w @ [q] \<and> rq_method q = meth \<and> rq_body q = b
          \<and> (''x-rh-identity'', ident) \<in> set (rq_headers q))"
  by (auto simp: makeHttpRequest_def send_http_def split: option.splits)

lemma new_uuid_log: "new_uuid w = (r, w') \<Longrightarrow> http_log w' = http_log w"
  by (auto simp: new_uuid_def)

lemma lookup_requests:
  assumes "checkForExistingSourcesEntry dec cfg ident ref w = (res, w')"
  shows "\<exists>g. http_log w' = http_log w @ g
     \<and> (g = [] \<or> (\<exists>q. g = [q] \<and> rq_method q = ''GET'' \<and> (''x-rh-identity'', ident) \<in> set (rq_headers q)))"
  using assms
  by (auto simp: checkForExistingSourcesEntry_def split: prod.splits sum.splits
      dest!: makeHttpRequest_log new_uuid_log)

lemma creation_requests:
  assumes "createSourcesEntry cfg ident cid ref name styp atyp w = (res, w')"
  shows "\<exists>p. http_log w' = http_log w @ p
     \<and> (p = [] \<or> (\<exists>q. p = [q] \<and> rq_method q = ''POST'' \<and> (''x-rh-identity'', ident) \<in> set (rq_headers q)
                    \<and> rq_body q = Some (bulk_operation cid ref name styp atyp)))"
  using assms
  by (auto simp: createSourcesEntry_def split: prod.splits sum.splits if_splits
      dest!: makeHttpRequest_log new_uuid_log)

section \<open>Properties\<close>

text \<open>
  A registration with the sources service sends at most one lookup and at most one
  creation, both with the client's identity. A creation carries the client's id, and none
  goes out when the lookup reported an existing entry.
\<close>

theorem RegisterWithSources_requests:
  assumes "RegisterWithSources dec cfg ident acc org cid ref name styp atyp w = (err, w')"
  shows "\<exists>reqs. http_log w' = http_log w @ reqs \<and> length reqs \<le> 2
     \<and> (\<forall>q\<in>set reqs. (''x-rh-identity'', ident) \<in> set (rq_headers q))
     \<and> length (filter (\<lambda>q. rq_method q = ''POST'') reqs) \<le> 1
     \<and> (\<forall>q\<in>set reqs. rq_method q = ''POST'' \<longrightarrow>
          rq_body q = Some (bulk_operation cid ref name styp atyp))
     \<and> (fst (fst (checkForExistingSourcesEntry dec cfg ident ref w)) \<longrightarrow>
          err = None \<and> (\<forall>q\<in>set reqs. rq_method q = ''GET''))"
proof -
  obtain b e w1 where look: "checkForExistingSourcesEntry dec cfg ident ref w = ((b, e), w1)"
    by (cases "checkForExistingSourcesEntry dec cfg ident ref w") auto
  from look obtain g where g: "http_log w1 = http_log w @ g"
      "g = [] \<or> (\<exists>q. g = [q] \<and> rq_method q = ''GET'' \<and> (''x-rh-identity'', ident) \<in> set (rq_headers q))"
    using lookup_requests by blast
  show ?thesis
  proof (cases b)
    case True
    then have "err = None" "w' = w1" using assms look by (simp_all add: RegisterWithSources_def)
    then show ?thesis using g look by auto
  next
    case False
    then have "createSourcesEntry cfg ident cid ref name styp atyp w1 = (err, w')"
      using assms look by (simp add: RegisterWithSources_def)
    then obtain p where p: "http_log w' = http_log w1 @ p"
        "p = [] \<or> (\<exists>q. p = [q] \<and> rq_method q = ''POST'' \<and> (''x-rh-identity'', ident) \<in> set (rq_headers q)
                    \<and> rq_body q = Some (bulk_operation cid ref name styp atyp))"
      using creation_requests by blast
    show ?thesis
      by (rule exI [of _ "g @ p"]) (use g p look False in auto)
  qed
qed

theorem RegisterWithSources_requests_witness:
  "\<exists>reqs. http_log (snd (RegisterWithSources (\<lambda>s. Inr []) example_config ''id'' ''010101'' ''org-7''
                          ''client-1'' ''ref'' ''name'' ''styp'' ''atyp'' (example_system ()))) = reqs
     \<and> length reqs \<le> 2 \<and> (\<forall>q\<in>set reqs. (''x-rh-identity'', ''id'') \<in> set (rq_headers q))"
proof -
  let ?run = "RegisterWithSources (\<lambda>s. Inr []) example_config ''id'' ''010101'' ''org-7''
                ''client-1'' ''ref'' ''name'' ''styp'' ''atyp'' (example_system ())"
  have "?run = (fst ?run, snd ?run)" by (rule surjective_pairing)
  from RegisterWithSources_requests [OF this] show ?thesis
    by (auto simp: example_system_def)
qed

end
