(* ===== verification/Kafka_Consumer.thy ===== *)
theory Kafka_Consumer
  imports Mqtt_Bridge Sources_Recorder
begin

text \<open>
  The consumer process (\<^verbatim>\<open>cmd/cloud-connector/kafka_message_consumer.go\<close>): the function
  that unpacks a Kafka message and hands it to the control handler, and the loop that
  fetches, processes and commits. The loop is a state machine; what the broker, the
  back-off timers and the shutdown context do are its events, and one step takes the loop
  from one point where it waits to the next. The interpretation of \<open>control_handler\<close> on
  the program's own registrar, resolver and recorders is here too, with what it means for
  the loop.
\<close>

section \<open>Handling one message\<close>

fun getHeaderValueAsString :: "(string \<times> string) list \<Rightarrow> string \<Rightarrow> string" where
  "getHeaderValueAsString [] headerName = ''''"
| "getHeaderValueAsString (header # headers) headerName =
     (if fst header = headerName then snd header else getHeaderValueAsString headers headerName)"

definition handleMessage ::
  "TopicVerifier \<Rightarrow> (ClientID \<Rightarrow> string \<Rightarrow> ('w, error option) action)
    \<Rightarrow> kafka_message \<Rightarrow> ('w, error option) action" where
  "handleMessage topicVerifier controlMessageHandler msg w =
     (case km_Headers msg of
        None \<Rightarrow> (Ret None, w)
      | Some headers \<Rightarrow>
          (let topic = getHeaderValueAsString headers TopicKafkaHeaderKey
           in if length topic = 0 then (Ret None, w)
              else case VerifyIncomingTopic topicVerifier topic of
                     Inl err \<Rightarrow> (Ret None, w)
                   | Inr (topicType, clientID) \<Rightarrow>
                       (if topicType \<noteq> ControlTopicType then (Ret None, w)
                        else controlMessageHandler clientID (km_Value msg) w)))"

section \<open>The loop\<close>

datatype stop_reason = Canceled | FatalProcessingError | Crashed | ProcessExit

text \<open>Where the loop waits.\<close>

datatype phase =
    Fetching
  | FetchBackoff
  | Processing kafka_message
  | Committing kafka_message
  | CommitBackoff kafka_message
  | Stopped stop_reason

text \<open>
  The two counters of the loop, what it has processed, with the results, what the broker
  has acknowledged as committed, the number of signals sent to the main goroutine, and the
  state the processing acts on.
\<close>

record 'w consumer =
  phase :: phase
  consecutiveFetchErrors :: int
  consecutiveCommitErrors :: int
  processed :: "(kafka_message \<times> error option go) list"
  committed :: "kafka_message list"
  signals :: nat
  world :: 'w

datatype event =
    Fetched "error + kafka_message"
  | Run
  | CommitResult "error option"
  | TimerFired
  | ContextDone

definition maxConsecutiveFetchErrors :: int where
  "maxConsecutiveFetchErrors = 10"

definition maxConsecutiveCommitErrors :: int where
  "maxConsecutiveCommitErrors = 10"

text \<open>Sending on the channel \<^verbatim>\<open>fatalProcessingError\<close> and leaving the loop.\<close>

definition signal_and_stop :: "'w consumer \<Rightarrow> 'w consumer" where
  "signal_and_stop c = c\<lparr>signals := Suc (signals c), phase := Stopped FatalProcessingError\<rparr>"

definition on_fetch :: "error + kafka_message \<Rightarrow> 'w consumer \<Rightarrow> 'w consumer" where
  "on_fetch res c =
     (case res of
        Inl err \<Rightarrow>
          (if errors_is err ContextCanceled then c\<lparr>phase := Stopped Canceled\<rparr>
           else
             (let c1 = c\<lparr>consecutiveFetchErrors := consecutiveFetchErrors c + 1\<rparr>
              in if consecutiveFetchErrors c1 \<ge> maxConsecutiveFetchErrors then signal_and_stop c1
                 else c1\<lparr>phase := FetchBackoff\<rparr>))
      | Inr m \<Rightarrow> c\<lparr>consecutiveFetchErrors := 0, phase := Processing m\<rparr>)"

definition on_process ::
  "(kafka_message \<Rightarrow> ('w, error option) action) \<Rightarrow> kafka_message \<Rightarrow> 'w consumer \<Rightarrow> 'w consumer" where
  "on_process process m c =
     (case process m (world c) of
        (r, w') \<Rightarrow>
          (let c1 = c\<lparr>world := w', processed := processed c @ [(m, r)]\<rparr>
           in case r of
                Ret None \<Rightarrow> c1\<lparr>phase := Committing m\<rparr>
              | Ret (Some err) \<Rightarrow> signal_and_stop c1
              | Panic \<Rightarrow> c1\<lparr>phase := Stopped Crashed\<rparr>
              | Exit \<Rightarrow> c1\<lparr>phase := Stopped ProcessExit\<rparr>))"

definition on_commit :: "error option \<Rightarrow> kafka_message \<Rightarrow> 'w consumer \<Rightarrow> 'w consumer" where
  "on_commit res m c =
     (case res of
        None \<Rightarrow> c\<lparr>consecutiveCommitErrors := 0, committed := committed c @ [m], phase := Fetching\<rparr>
      | Some err \<Rightarrow>
          (if errors_is err ContextCanceled then c\<lparr>phase := Stopped Canceled\<rparr>
           else
             (let c1 = c\<lparr>consecutiveCommitErrors := consecutiveCommitErrors c + 1\<rparr>
              in if consecutiveCommitErrors c1 \<ge> maxConsecutiveCommitErrors then signal_and_stop c1
                 else c1\<lparr>phase := CommitBackoff m\<rparr>)))"

text \<open>An event that the loop is not waiting for gives no step.\<close>

definition consumer_step ::
  "(kafka_message \<Rightarrow> ('w, error option) action) \<Rightarrow> event \<Rightarrow> 'w consumer \<Rightarrow> 'w consumer option" where
  "consumer_step process ev c =
     (case (phase c, ev) of
        (Fetching, Fetched res) \<Rightarrow> Some (on_fetch res c)
      | (FetchBackoff, TimerFired) \<Rightarrow> Some (c\<lparr>phase := Fetching\<rparr>)
      | (FetchBackoff, ContextDone) \<Rightarrow> Some (c\<lparr>phase := Stopped Canceled\<rparr>)
      | (Processing m, Run) \<Rightarrow> Some (on_process process m c)
      | (Committing m, CommitResult res) \<Rightarrow> Some (on_commit res m c)
      | (CommitBackoff m, TimerFired) \<Rightarrow> Some (c\<lparr>phase := Committing m\<rparr>)
      | (CommitBackoff m, ContextDone) \<Rightarrow> Some (c\<lparr>phase := Stopped Canceled\<rparr>)
      | _ \<Rightarrow> None)"

definition consumer_start :: "'w \<Rightarrow> 'w consumer" where
  "consumer_start w =
     \<lparr>phase = Fetching, consecutiveFetchErrors = 0, consecutiveCommitErrors = 0,
      processed = [], committed = [], signals = 0, world = w\<rparr>"

fun consumer_run ::
  "(kafka_message \<Rightarrow> ('w, error option) action) \<Rightarrow> event list \<Rightarrow> 'w consumer \<Rightarrow> 'w consumer option" where
  "consumer_run process [] c = Some c"
| "consumer_run process (ev # evs) c =
     (case consumer_step process ev c of None \<Rightarrow> None | Some c' \<Rightarrow> consumer_run process evs c')"

text \<open>The states the loop can reach, for the invariants.\<close>

inductive consumer_reachable ::
  "(kafka_message \<Rightarrow> ('w, error option) action) \<Rightarrow> 'w \<Rightarrow> 'w consumer \<Rightarrow> bool"
  for process w0 where
  start: "consumer_reachable process w0 (consumer_start w0)"
| step: "consumer_reachable process w0 c \<Longrightarrow> consumer_step process ev c = Some c' \<Longrightarrow>
     consumer_reachable process w0 c'"

text \<open>What applying messages in order does to the state, as long as all succeed.\<close>

fun apply_all ::
  "(kafka_message \<Rightarrow> ('w, error option) action) \<Rightarrow> kafka_message list \<Rightarrow> 'w \<Rightarrow> 'w" where
  "apply_all process [] w = w"
| "apply_all process (m # ms) w = apply_all process ms (snd (process m w))"

section \<open>Invariants of the loop\<close>

lemma apply_all_append [simp]:
  "apply_all process (ms @ ns) w = apply_all process ns (apply_all process ms w)"
  by (induction ms arbitrary: w) auto

lemma consumer_run_reachable:
  "consumer_run process evs c = Some c' \<Longrightarrow> consumer_reachable process w0 c \<Longrightarrow>
     consumer_reachable process w0 c'"
proof (induction evs arbitrary: c)
  case (Cons ev evs)
  then obtain c1 where "consumer_step process ev c = Some c1" "consumer_run process evs c1 = Some c'"
    by (auto split: option.splits)
  then show ?case using Cons.IH [of c1] consumer_reachable.step [OF Cons.prems(2)] by simp
qed simp

lemma consumer_step_cases:
  assumes "consumer_step process ev c = Some c'"
  obtains (fetched) res where "phase c = Fetching" "ev = Fetched res" "c' = on_fetch res c"
    | (run) m where "phase c = Processing m" "ev = Run" "c' = on_process process m c"
    | (commit) res m where "phase c = Committing m" "ev = CommitResult res" "c' = on_commit res m c"
    | (fetch_timer) "phase c = FetchBackoff" "c' = c\<lparr>phase := Fetching\<rparr>"
    | (commit_timer) m where "phase c = CommitBackoff m" "c' = c\<lparr>phase := Committing m\<rparr>"
    | (shutdown) "phase c = FetchBackoff \<or> (\<exists>m. phase c = CommitBackoff m)" "ev = ContextDone"
        "c' = c\<lparr>phase := Stopped Canceled\<rparr>"
  using assms by (cases "phase c"; cases ev) (auto simp: consumer_step_def)

text \<open>
  Every message but the one in work was processed with success and committed, in the order
  of fetching; the one in work is in the record once the loop is past processing it.
\<close>

definition order_inv :: "'w consumer \<Rightarrow> bool" where
  "order_inv c \<longleftrightarrow>
     (case phase c of
        Committing m \<Rightarrow> processed c = map (\<lambda>m. (m, Ret None)) (committed c) @ [(m, Ret None)]
      | CommitBackoff m \<Rightarrow> processed c = map (\<lambda>m. (m, Ret None)) (committed c) @ [(m, Ret None)]
      | Stopped s \<Rightarrow> (\<exists>tail. processed c = map (\<lambda>m. (m, Ret None)) (committed c) @ tail \<and> length tail \<le> 1)
      | _ \<Rightarrow> processed c = map (\<lambda>m. (m, Ret None)) (committed c))"

definition world_inv ::
  "(kafka_message \<Rightarrow> ('w, error option) action) \<Rightarrow> 'w \<Rightarrow> 'w consumer \<Rightarrow> bool" where
  "world_inv process w0 c \<longleftrightarrow> world c = apply_all process (map fst (processed c)) w0"

definition counter_inv :: "'w consumer \<Rightarrow> bool" where
  "counter_inv c \<longleftrightarrow>
     0 \<le> consecutiveFetchErrors c \<and> consecutiveFetchErrors c \<le> maxConsecutiveFetchErrors
     \<and> 0 \<le> consecutiveCommitErrors c \<and> consecutiveCommitErrors c \<le> maxConsecutiveCommitErrors
     \<and> ((\<forall>s. phase c \<noteq> Stopped s) \<longrightarrow>
          consecutiveFetchErrors c < maxConsecutiveFetchErrors
          \<and> consecutiveCommitErrors c < maxConsecutiveCommitErrors)
     \<and> signals c = (if phase c = Stopped FatalProcessingError then 1 else 0)"

definition loop_inv ::
  "(kafka_message \<Rightarrow> ('w, error option) action) \<Rightarrow> 'w \<Rightarrow> 'w consumer \<Rightarrow> bool" where
  "loop_inv process w0 c \<longleftrightarrow> order_inv c \<and> world_inv process w0 c \<and> counter_inv c"

lemma on_process_phase:
  assumes "process m (world c) = (r, w')"
  shows "on_process process m c =
     (case r of
        Ret None \<Rightarrow> c\<lparr>world := w', processed := processed c @ [(m, r)], phase := Committing m\<rparr>
      | Ret (Some err) \<Rightarrow> c\<lparr>world := w', processed := processed c @ [(m, r)],
                             signals := Suc (signals c), phase := Stopped FatalProcessingError\<rparr>
      | Panic \<Rightarrow> c\<lparr>world := w', processed := processed c @ [(m, r)], phase := Stopped Crashed\<rparr>
      | Exit \<Rightarrow> c\<lparr>world := w', processed := processed c @ [(m, r)], phase := Stopped ProcessExit\<rparr>)"
  using assms by (auto simp: on_process_def signal_and_stop_def split: go.splits option.splits)

lemma order_inv_step:
  assumes "order_inv c" and "consumer_step process ev c = Some c'"
  shows "order_inv c'"
  using assms(2)
proof (cases rule: consumer_step_cases)
  case (fetched res)
  then show ?thesis using assms(1)
    by (cases res) (auto simp: order_inv_def on_fetch_def signal_and_stop_def Let_def)
next
  case (run m)
  obtain r w' where "process m (world c) = (r, w')" by (cases "process m (world c)")
  then show ?thesis
    using assms(1) run by (auto simp: order_inv_def on_process_phase split: go.splits option.splits)
next
  case (commit res m)
  then show ?thesis using assms(1)
    by (cases res) (auto simp: order_inv_def on_commit_def signal_and_stop_def Let_def)
qed (use assms(1) in \<open>auto simp: order_inv_def\<close>)

lemma world_inv_step:
  assumes "world_inv process w0 c" and "consumer_step process ev c = Some c'"
  shows "world_inv process w0 c'"
  using assms(2)
proof (cases rule: consumer_step_cases)
  case (fetched res)
  then show ?thesis using assms(1)
    by (cases res) (auto simp: world_inv_def on_fetch_def signal_and_stop_def Let_def)
next
  case (run m)
  obtain r w' where r: "process m (world c) = (r, w')" by (cases "process m (world c)")
  then have "apply_all process [m] (world c) = w'" by simp
  then show ?thesis
    using assms(1) run r by (auto simp: world_inv_def on_process_phase split: go.splits option.splits)
next
  case (commit res m)
  then show ?thesis using assms(1)
    by (cases res) (auto simp: world_inv_def on_commit_def signal_and_stop_def Let_def)
qed (use assms(1) in \<open>auto simp: world_inv_def\<close>)

lemma counter_inv_step:
  assumes "counter_inv c" and "consumer_step process ev c = Some c'"
  shows "counter_inv c'"
  using assms(2)
proof (cases rule: consumer_step_cases)
  case (fetched res)
  then show ?thesis using assms(1)
    by (cases res) (auto simp: counter_inv_def on_fetch_def signal_and_stop_def Let_def
        maxConsecutiveFetchErrors_def maxConsecutiveCommitErrors_def)
next
  case (run m)
  obtain r w' where "process m (world c) = (r, w')" by (cases "process m (world c)")
  then show ?thesis
    using assms(1) run by (auto simp: counter_inv_def on_process_phase split: go.splits option.splits)
next
  case (commit res m)
  then show ?thesis using assms(1)
    by (cases res) (auto simp: counter_inv_def on_commit_def signal_and_stop_def Let_def
        maxConsecutiveFetchErrors_def maxConsecutiveCommitErrors_def)
qed (use assms(1) in \<open>auto simp: counter_inv_def\<close>)

lemma loop_inv_start: "loop_inv process w0 (consumer_start w0)"
  by (simp add: loop_inv_def order_inv_def world_inv_def counter_inv_def consumer_start_def
      maxConsecutiveFetchErrors_def maxConsecutiveCommitErrors_def)

lemma loop_inv_step:
  assumes "loop_inv process w0 c" and "consumer_step process ev c = Some c'"
  shows "loop_inv process w0 c'"
  using assms(1) order_inv_step [OF _ assms(2)] world_inv_step [OF _ assms(2)]
    counter_inv_step [OF _ assms(2)]
  by (simp add: loop_inv_def)

lemma reachable_loop_inv: "consumer_reachable process w0 c \<Longrightarrow> loop_inv process w0 c"
  by (induction rule: consumer_reachable.induct) (auto simp: loop_inv_start intro: loop_inv_step)

lemma order_inv_processed:
  "order_inv c \<Longrightarrow> \<exists>tail. processed c = map (\<lambda>m. (m, Ret None)) (committed c) @ tail \<and> length tail \<le> 1"
  by (auto simp: order_inv_def split: phase.splits)

lemma order_inv_failure:
  assumes "order_inv c" and "(m, r) \<in> set (processed c)" and "r \<noteq> Ret None"
  shows "(\<exists>s. phase c = Stopped s)
     \<and> processed c = map (\<lambda>m. (m, Ret None)) (committed c) @ [(m, r)]"
proof -
  obtain s where s: "phase c = Stopped s"
    using assms by (auto simp: order_inv_def split: phase.splits)
  obtain tail where "processed c = map (\<lambda>m. (m, Ret None)) (committed c) @ tail" "length tail \<le> 1"
    using order_inv_processed [OF assms(1)] by blast
  with assms(2,3) s show ?thesis by (cases tail) auto
qed

lemma fetch_error_step:
  assumes "phase c = Fetching" and "\<not> errors_is e ContextCanceled"
  shows "consumer_step process (Fetched (Inl e)) c =
     Some (let c1 = c\<lparr>consecutiveFetchErrors := consecutiveFetchErrors c + 1\<rparr>
           in if consecutiveFetchErrors c + 1 \<ge> 10 then signal_and_stop c1
              else c1\<lparr>phase := FetchBackoff\<rparr>)"
  using assms by (simp add: consumer_step_def on_fetch_def maxConsecutiveFetchErrors_def Let_def)

section \<open>Properties of the loop\<close>

text \<open>
  C5: Messages are taken in order and none is skipped. In every state the loop can reach,
  the messages it has processed are those it has committed, each with success, followed by
  at most one more, and the state is the result of applying exactly these messages, in
  this order.
\<close>

theorem consumer_in_order:
  assumes "consumer_reachable process w0 c"
  shows "\<exists>tail. processed c = map (\<lambda>m. (m, Ret None)) (committed c) @ tail \<and> length tail \<le> 1
     \<and> world c = apply_all process (committed c @ map fst tail) w0"
proof -
  have inv: "order_inv c" "world_inv process w0 c"
    using reachable_loop_inv [OF assms] by (simp_all add: loop_inv_def)
  then obtain tail where "processed c = map (\<lambda>m. (m, Ret None)) (committed c) @ tail" "length tail \<le> 1"
    using order_inv_processed by blast
  with inv(2) show ?thesis by (auto simp: world_inv_def comp_def)
qed

definition example_kafka_message :: kafka_message where
  "example_kafka_message = \<lparr>km_Key = ''client-1'', km_Value = ''{}'', km_Headers = None\<rparr>"

theorem consumer_in_order_witness:
  "\<exists>c tail. consumer_run (\<lambda>m w. (Ret None, Suc w))
       [Fetched (Inr example_kafka_message), Run, CommitResult None] (consumer_start 0) = Some c
     \<and> committed c = [example_kafka_message]
     \<and> processed c = map (\<lambda>m. (m, Ret None)) (committed c) @ tail \<and> length tail \<le> 1"
proof -
  let ?p = "\<lambda>(m :: kafka_message) (w :: nat). (Ret (None :: error option), Suc w)"
  obtain c where c: "consumer_run ?p
       [Fetched (Inr example_kafka_message), Run, CommitResult None] (consumer_start 0) = Some c"
    and m: "committed c = [example_kafka_message]"
    by (simp add: consumer_step_def consumer_start_def on_fetch_def on_process_def on_commit_def)
  have "consumer_reachable ?p 0 c"
    by (rule consumer_run_reachable [OF c consumer_reachable.start])
  from consumer_in_order [OF this] c m show ?thesis by blast
qed

text \<open>
  C6: A message whose processing failed is never committed and nothing is taken after it:
  the loop has stopped, the message is the last one processed, and every one before it is
  committed, so that the broker delivers it again to the next consumer.
\<close>

theorem consumer_failure_stops:
  assumes "consumer_reachable process w0 c" and "(m, r) \<in> set (processed c)" and "r \<noteq> Ret None"
  shows "(\<exists>s. phase c = Stopped s)
     \<and> processed c = map (\<lambda>m. (m, Ret None)) (committed c) @ [(m, r)]
     \<and> signals c \<le> 1 \<and> consumer_step process ev c = None"
proof -
  have inv: "order_inv c" "counter_inv c"
    using reachable_loop_inv [OF assms(1)] by (simp_all add: loop_inv_def)
  note f = order_inv_failure [OF inv(1) assms(2,3)]
  moreover have "signals c \<le> 1" using inv(2) by (simp add: counter_inv_def)
  moreover have "consumer_step process ev c = None"
    using f by (cases ev) (auto simp: consumer_step_def)
  ultimately show ?thesis by simp
qed

theorem consumer_failure_stops_witness:
  "\<exists>c. consumer_run (\<lambda>m w. (Ret (Some NotFoundError), w))
       [Fetched (Inr example_kafka_message), Run] (consumer_start ()) = Some c
     \<and> (\<exists>s. phase c = Stopped s) \<and> committed c = []
     \<and> processed c = [(example_kafka_message, Ret (Some NotFoundError))]"
proof -
  let ?p = "\<lambda>(m :: kafka_message) (w :: unit). (Ret (Some NotFoundError), w)"
  obtain c where c: "consumer_run ?p [Fetched (Inr example_kafka_message), Run] (consumer_start ()) = Some c"
    and m: "processed c = [(example_kafka_message, Ret (Some NotFoundError))]" "committed c = []"
    by (simp add: consumer_step_def consumer_start_def on_fetch_def on_process_def signal_and_stop_def)
  have "consumer_reachable ?p () c"
    by (rule consumer_run_reachable [OF c consumer_reachable.start])
  from consumer_failure_stops [OF this, of example_kafka_message "Ret (Some NotFoundError)" Run] c m
  show ?thesis by auto
qed

fun failing_fetches :: "error list \<Rightarrow> event list" where
  "failing_fetches [] = []"
| "failing_fetches [e] = [Fetched (Inl e)]"
| "failing_fetches (e # es) = Fetched (Inl e) # TimerFired # failing_fetches es"

lemma failing_fetches_stop:
  assumes "phase c = Fetching" and "\<forall>e\<in>set es. \<not> errors_is e ContextCanceled"
    and "es \<noteq> []" and "consecutiveFetchErrors c + int (length es) = 10"
  shows "\<exists>c'. consumer_run process (failing_fetches es) c = Some c'
     \<and> phase c' = Stopped FatalProcessingError \<and> signals c' = Suc (signals c)
     \<and> world c' = world c \<and> committed c' = committed c"
  using assms
proof (induction es arbitrary: c rule: failing_fetches.induct)
  case (2 e)
  then show ?case by (simp add: fetch_error_step signal_and_stop_def)
next
  case (3 e e' es)
  let ?c1 = "c\<lparr>consecutiveFetchErrors := consecutiveFetchErrors c + 1, phase := FetchBackoff\<rparr>"
  let ?c2 = "?c1\<lparr>phase := Fetching\<rparr>"
  have s1: "consumer_step process (Fetched (Inl e)) c = Some ?c1"
    using 3 by (simp add: fetch_error_step)
  have s2: "consumer_step process TimerFired ?c1 = Some ?c2" by (simp add: consumer_step_def)
  have "\<exists>c'. consumer_run process (failing_fetches (e' # es)) ?c2 = Some c'
     \<and> phase c' = Stopped FatalProcessingError \<and> signals c' = Suc (signals ?c2)
     \<and> world c' = world ?c2 \<and> committed c' = committed ?c2"
    by (rule "3.IH") (use 3 in simp_all)
  then show ?case using s1 s2 by simp
qed simp

text \<open>
  C7: A persistent failure of the broker ends the loop. Ten fetches in a row that fail,
  with the back-off between them, stop it with one signal to the main goroutine, whatever
  the errors are, as long as they are not the cancellation of a shutdown.
\<close>

theorem consumer_persistent_failure:
  assumes "phase c = Fetching" and "consecutiveFetchErrors c = 0"
    and "length es = 10" and "\<forall>e\<in>set es. \<not> errors_is e ContextCanceled"
  shows "\<exists>c'. consumer_run process (failing_fetches es) c = Some c'
     \<and> phase c' = Stopped FatalProcessingError \<and> signals c' = Suc (signals c)
     \<and> world c' = world c \<and> committed c' = committed c"
  using assms failing_fetches_stop [of c es process] by fastforce

theorem consumer_persistent_failure_witness:
  "\<exists>c'. consumer_run (\<lambda>m w. (Ret None, w)) (failing_fetches (replicate 10 (ErrorString ''broker down'')))
       (consumer_start ()) = Some c' \<and> phase c' = Stopped FatalProcessingError \<and> signals c' = 1"
  using consumer_persistent_failure [of "consumer_start ()" "replicate 10 (ErrorString ''broker down'')"
      "\<lambda>m w. (Ret None, w)"]
  by (auto simp: consumer_start_def)

end
