(* ===== verification/Control_Pipeline.thy ===== *)
theory Control_Pipeline
  imports Kafka_Consumer
begin

text \<open>
  The consumer process put together the way \<^verbatim>\<open>startKafkaMessageConsumer\<close> does it in
  production: the SQL registrar, the gateway resolver behind the cache, the inventory and
  the sources recorder. The handler's contract is interpreted on them, and the properties
  of control messages are stated of Kafka messages and the table.
\<close>

section \<open>Wiring\<close>

text \<open>The libraries a consumer process uses.\<close>

record 'c libraries =
  lib_pq :: pq_driver
  lib_gateway :: gateway_codec
  lib_lru :: "'c lru"
  lib_control :: "string \<Rightarrow> error + ControlMessage"
  lib_validUUID :: "string \<Rightarrow> bool"
  lib_map :: map_decoder
  lib_sources :: "string \<Rightarrow> error + json list"

definition gatewayResolver :: "'c libraries \<Rightarrow> Config \<Rightarrow> (('c, 'a) system_scheme) AccountIdResolver" where
  "gatewayResolver lib cfg =
     Cached_MapClientIdToAccountId (lib_lru lib) (ClientIdToAccountIdCacheErrorRespTTL cfg)
       (BOP_MapClientIdToAccountId (lib_gateway lib) cfg)"

definition controlMessageHandler ::
  "'c libraries \<Rightarrow> Config \<Rightarrow> ClientID \<Rightarrow> string \<Rightarrow> (('c, 'a) system_scheme, error option) action" where
  "controlMessageHandler lib cfg =
     HandleControlMessage (lib_control lib) (lib_validUUID lib) (SqlConnectionRegistrar (lib_pq lib))
       (gatewayResolver lib cfg) (RecordConnectedClient (lib_map lib) cfg)
       (RegisterWithSources (lib_sources lib) cfg)"

definition messageProcessor ::
  "'c libraries \<Rightarrow> Config \<Rightarrow> TopicVerifier \<Rightarrow> kafka_message
    \<Rightarrow> (('c, 'a) system_scheme, error option) action" where
  "messageProcessor lib cfg topicVerifier =
     handleMessage topicVerifier (controlMessageHandler lib cfg)"

definition pipeline_inv ::
  "'c libraries \<Rightarrow> ('c \<Rightarrow> ClientID \<Rightarrow> cachedResult \<Rightarrow> bool) \<Rightarrow> Config \<Rightarrow> ('c, 'a) system_scheme \<Rightarrow> bool" where
  "pipeline_inv lib holds cfg w \<longleftrightarrow>
     db_inv w \<and> cache_inv (lib_lru lib) holds (gateway_says (lib_gateway lib) cfg) w"

text \<open>The same, with the gateway's answers fixed, and the conditions under which nothing fails.\<close>

definition pipeline_at ::
  "'c libraries \<Rightarrow> ('c \<Rightarrow> ClientID \<Rightarrow> cachedResult \<Rightarrow> bool) \<Rightarrow> Config
    \<Rightarrow> (nat \<Rightarrow> http_request \<Rightarrow> error + http_response) \<Rightarrow> ('c, 'a) system_scheme \<Rightarrow> bool" where
  "pipeline_at lib holds cfg H w \<longleftrightarrow> pipeline_inv lib holds cfg w \<and> http_do w = H"

definition system_up :: "('c, 'a) system_scheme \<Rightarrow> bool" where
  "system_up w \<longleftrightarrow> db_up w \<and> (\<forall>n. \<exists>u. uuid_source w n = Inr u)"

section \<open>The registrar leaves the rest of the system alone\<close>

lemma more_eq:
  "db_state.more (w' :: ('c, 'a) system_scheme) = db_state.more w \<Longrightarrow>
     cache w' = cache w \<and> http_do w' = http_do w"
  by (cases w; cases w') simp

lemma upsert_more: "db_state.more (upsert c t now w) = db_state.more w"
  by (simp add: upsert_def)

lemma Register_more: "Register pq c w = (r, w') \<Longrightarrow> db_state.more w' = db_state.more w"
  by (auto simp: Register_def db_call_def time_now_def Let_def upsert_more
      split: prod.splits option.splits error.splits if_splits)

lemma Unregister_more: "Unregister cid w = (r, w') \<Longrightarrow> db_state.more w' = db_state.more w"
  by (auto simp: Unregister_def db_call_def split: prod.splits option.splits)

lemma Find_more: "FindConnectionByClientID cid w = (r, w') \<Longrightarrow> db_state.more w' = db_state.more w"
  by (auto simp: FindConnectionByClientID_def db_call_def split: prod.splits option.splits if_splits)

lemma cache_inv_frame:
  assumes "cache w' = cache w" and "http_do w' = http_do w"
  shows "cache_inv lru holds (gateway_says gw cfg) w' = cache_inv lru holds (gateway_says gw cfg) w"
  using assms gateway_says_cong [of w' w gw cfg] by (simp add: cache_inv_def)

lemma cache_inv_more:
  "db_state.more (w' :: ('c, 'a) system_scheme) = db_state.more w \<Longrightarrow>
     cache_inv lru holds (gateway_says gw cfg) w' = cache_inv lru holds (gateway_says gw cfg) w"
  using more_eq [of w' w] by (intro cache_inv_frame) simp_all

lemma RecordConnectedClient_rest:
  "RecordConnectedClient un cfg ident c w = (r, w') \<Longrightarrow> cache w' = cache w \<and> http_do w' = http_do w"
  by (auto simp: RecordConnectedClient_def and_then_pure time_now_def new_uuid_def Let_def
      InventoryMessageProducer_def kafka_write_def
      split: go.splits if_splits sum.splits option.splits prod.splits)

lemma makeHttpRequest_rest:
  "makeHttpRequest i rid m u b w = (r, w') \<Longrightarrow> cache w' = cache w \<and> http_do w' = http_do w"
  by (auto simp: makeHttpRequest_def send_http_def split: option.splits)

lemma new_uuid_rest:
  "new_uuid (w :: ('c, 'a) system_scheme) = (r, w') \<Longrightarrow> cache w' = cache w \<and> http_do w' = http_do w"
  by (auto simp: new_uuid_def)

lemma RegisterWithSources_rest:
  "RegisterWithSources dec cfg i acc org cid a b c d w = (r, w') \<Longrightarrow>
     cache w' = cache w \<and> http_do w' = http_do w"
  by (auto simp: RegisterWithSources_def checkForExistingSourcesEntry_def createSourcesEntry_def
      split: prod.splits sum.splits if_splits dest!: makeHttpRequest_rest new_uuid_rest)

section \<open>The interpretation\<close>

lemma pipeline_inv_more:
  assumes "pipeline_inv lib holds cfg w" and "db_inv w'" and "db_state.more w' = db_state.more w"
  shows "pipeline_inv lib holds cfg w'"
  using assms cache_inv_more [of w' w] by (simp add: pipeline_inv_def)

lemma pipeline_inv_rest:
  assumes "pipeline_inv lib holds cfg w" and "same_store w w'"
    and "cache w' = cache w" and "http_do w' = http_do w"
  shows "pipeline_inv lib holds cfg w' \<and> pg_timestamp w' = pg_timestamp w \<and> conn_view w' = conn_view w"
  using assms same_storeD [OF assms(2)] cache_inv_frame [OF assms(3,4)] by (simp add: pipeline_inv_def)

lemma gatewayResolver_ok:
  assumes "pipeline_inv lib holds cfg w" and "gatewayResolver lib cfg cid w = (r, w')"
  shows "pipeline_inv lib holds cfg w' \<and> same_store w w' \<and> r \<noteq> Exit"
  using bop_cache.cached_lookup_ok [of "lib_lru lib" holds "lib_gateway lib" cfg w
      "ClientIdToAccountIdCacheErrorRespTTL cfg" cid r w'] assms
  by (auto simp: pipeline_inv_def gatewayResolver_def lookup_ok_def same_storeD)

lemma BOP_source:
  "BOP_MapClientIdToAccountId gw cfg cid w = (r, w') \<Longrightarrow>
     http_do w' = http_do w \<and> uuid_source w' = uuid_source w
     \<and> (uuid_source w (uuids w) = Inr u \<longrightarrow> r \<noteq> Panic)"
  by (auto simp: BOP_MapClientIdToAccountId_def new_uuid_def send_http_def
      split: prod.splits sum.splits option.splits)

lemma call_and_cache_source:
  assumes "call_and_cache lru (BOP_MapClientIdToAccountId gw cfg) cid w = (r, w')"
  shows "http_do w' = http_do w \<and> uuid_source w' = uuid_source w
     \<and> (uuid_source w (uuids w) = Inr u \<longrightarrow> r \<noteq> Panic)"
proof -
  obtain b w1 where b: "BOP_MapClientIdToAccountId gw cfg cid w = (b, w1)"
    by (cases "BOP_MapClientIdToAccountId gw cfg cid w")
  show ?thesis
    using BOP_source [OF b, of u] b assms
    by (cases b) (auto simp: call_and_cache_def time_now_def Let_def split: prod.splits)
qed

lemma gatewayResolver_source:
  assumes "gatewayResolver lib cfg cid w = (r, w')"
  shows "http_do w' = http_do w \<and> uuid_source w' = uuid_source w
     \<and> ((\<forall>n. \<exists>u. uuid_source w n = Inr u) \<longrightarrow> r \<noteq> Panic)"
proof -
  obtain got c where got: "lru_Get (lib_lru lib) cid (cache w) = (got, c)"
    by (cases "lru_Get (lib_lru lib) cid (cache w)")
  from assms [unfolded gatewayResolver_def] got show ?thesis
  proof (cases rule: Cached_cases)
    case (call u)
    then have "http_do u = http_do w" "uuid_source u = uuid_source w" by auto
    then show ?thesis using call_and_cache_source [OF call(2)] by metis
  qed auto
qed

lemma register_law:
  "reg_Register (SqlConnectionRegistrar pq) c w = (r, w') \<Longrightarrow> db_state.more w' = db_state.more w"
  using Register_more by (simp add: SqlConnectionRegistrar_def)

lemma unregister_law:
  "reg_Unregister (SqlConnectionRegistrar pq) cid w = (r, w') \<Longrightarrow> db_state.more w' = db_state.more w"
  using Unregister_more by (simp add: SqlConnectionRegistrar_def)

lemma find_law:
  "reg_FindConnectionByClientID (SqlConnectionRegistrar pq) cid w = (r, w') \<Longrightarrow>
     db_state.more w' = db_state.more w \<and> uuid_source w' = uuid_source w"
  using Find_more [of cid w r w']
  by (auto simp: SqlConnectionRegistrar_def FindConnectionByClientID_def db_call_def
      split: prod.splits option.splits if_splits)

lemma pipeline_at_more:
  assumes "pipeline_at lib holds cfg H w" and "db_inv w'" and "db_state.more w' = db_state.more w"
  shows "pipeline_at lib holds cfg H w'"
  using assms pipeline_inv_more [OF _ assms(2,3)] more_eq [OF assms(3)] by (simp add: pipeline_at_def)

lemma pipeline_at_db: "pipeline_at lib holds cfg H w \<Longrightarrow> db_inv w"
  by (simp add: pipeline_at_def pipeline_inv_def)

interpretation pipeline: live_handler
  "SqlConnectionRegistrar (lib_pq lib)" conn_view pg_timestamp "pipeline_at lib holds cfg H"
  "gatewayResolver lib cfg" "RecordConnectedClient (lib_map lib) cfg"
  "RegisterWithSources (lib_sources lib) cfg" system_up
  for lib :: "'c libraries" and holds cfg H
proof (unfold_locales, goal_cases)
  case (1 w c w')
  then show ?case by (intro sql.register_ok) (auto dest: pipeline_at_db)
next
  case (2 w c e w')
  then show ?case by (intro sql.register_err) (auto dest: pipeline_at_db)
next
  case (3 w c r w')
  then show ?case
    using sql.register_keeps [OF pipeline_at_db 3(2)] pipeline_at_more [OF _ _ register_law] by blast
next
  case (4 w cid w')
  then show ?case by (intro sql.unregister_ok) (auto dest: pipeline_at_db)
next
  case (5 w cid e w')
  then show ?case by (intro sql.unregister_err) (auto dest: pipeline_at_db)
next
  case (6 w cid r w')
  then show ?case
    using sql.unregister_keeps [OF pipeline_at_db 6(2)] pipeline_at_more [OF _ _ unregister_law] by blast
next
  case (7 w cid c w')
  then show ?case by (intro sql.find_ok) (auto dest: pipeline_at_db)
next
  case (8 w cid c w')
  then show ?case by (intro sql.find_missing) (auto dest: pipeline_at_db)
next
  case (9 w cid c e w')
  then show ?case by (intro sql.find_err) (auto dest: pipeline_at_db)
next
  case (10 w cid res w')
  then show ?case
    using sql.find_keeps [OF pipeline_at_db 10(2)] pipeline_at_more [of lib holds cfg H w w']
      find_law [OF 10(2)] by simp
next
  case (11 w cid v)
  then show ?case by (intro sql.view_client) (auto dest: pipeline_at_db)
next
  case (12 w cid v)
  then show ?case by (intro sql.view_time) (auto dest: pipeline_at_db)
next
  case (13 w t u)
  then show ?case by (intro sql.ts_mono) (auto dest: pipeline_at_db)
next
  case (14 w cid ra w')
  then show ?case
    using gatewayResolver_ok [of lib holds cfg w cid ra w'] gatewayResolver_source [OF 14(2)]
    by (simp add: same_storeD pipeline_at_def)
next
  case (15 w cid)
  then show ?case
    using gatewayResolver_ok [of lib holds cfg w cid "fst (gatewayResolver lib cfg cid w)"
        "snd (gatewayResolver lib cfg cid w)"] by (simp add: pipeline_at_def)
next
  case (16 w ident c rb w')
  then show ?case
    using pipeline_inv_rest [of lib holds cfg w w'] RecordConnectedClient_frame [OF 16(2)]
      RecordConnectedClient_rest [OF 16(2)] by (simp add: pipeline_at_def)
next
  case (17 w ident c)
  then show ?case
    using RecordConnectedClient_frame [of "lib_map lib" cfg ident c w] by (metis prod.collapse)
next
  case (18 w ident acc org cid s1 s2 s3 s4 rc w')
  then show ?case
    using pipeline_inv_rest [of lib holds cfg w w'] RegisterWithSources_store [OF 18(2)]
      RegisterWithSources_rest [OF 18(2)] by (simp add: pipeline_at_def)
next
  case (19 w c)
  then show ?case by (intro sql_up.up_register) (auto simp: system_up_def dest: pipeline_at_db)
next
  case (20 w cid)
  then show ?case by (intro sql_up.up_unregister) (auto simp: system_up_def dest: pipeline_at_db)
next
  case (21 w cid c e w')
  then show ?case
    using sql_up.up_find [OF pipeline_at_db [OF 21(1)] _ 21(3)] by (simp add: system_up_def)
next
  case (22 w cid res w')
  then show ?case
    using sql_up.up_find_keeps [OF pipeline_at_db [OF 22(1)] _ 22(3)] find_law [OF 22(3)]
    by (simp add: system_up_def)
next
  case (23 w cid r w')
  then show ?case
    using gatewayResolver_ok [of lib holds cfg w cid r w'] gatewayResolver_source [OF 23(3)]
    by (simp add: same_store_def db_up_def system_up_def pipeline_at_def)
qed

lemma pipeline_atI: "pipeline_inv lib holds cfg w \<Longrightarrow> pipeline_at lib holds cfg (http_do w) w"
  by (simp add: pipeline_at_def)
section \<open>Which client a message is about\<close>

definition message_client :: "TopicVerifier \<Rightarrow> kafka_message \<Rightarrow> ClientID option" where
  "message_client tv msg =
     (case km_Headers msg of
        None \<Rightarrow> None
      | Some headers \<Rightarrow>
          (case VerifyIncomingTopic tv (getHeaderValueAsString headers TopicKafkaHeaderKey) of
             Inr (ControlTopicType, cid) \<Rightarrow> Some cid
           | _ \<Rightarrow> None))"

lemma handleMessage_client:
  "handleMessage tv h msg w =
     (case message_client tv msg of None \<Rightarrow> (Ret None, w) | Some cid \<Rightarrow> h cid (km_Value msg) w)"
  by (auto simp: handleMessage_def message_client_def Let_def VerifyIncomingTopic_def
      split: option.splits sum.splits TopicType.splits)

lemma messageProcessor_cases:
  assumes "messageProcessor lib cfg tv msg w = (r, w')"
  obtains (ignored) "message_client tv msg = None" "r = Ret None" "w' = w"
    | (handled) cid where "message_client tv msg = Some cid"
        "controlMessageHandler lib cfg cid (km_Value msg) w = (r, w')"
  using assms by (auto simp: messageProcessor_def handleMessage_client split: option.splits)


section \<open>Properties of one message\<close>

text \<open>
  C1: The effect of a Kafka message is confined to the client its topic names. Whatever
  the payload says, the invariant of the table and of the cache is kept and no other
  client's registration changes; the processing never ends the process, and if it returns
  an error, the error is fatal and no registration changed at all.
\<close>

theorem control_message_confined:
  assumes "pipeline_inv lib holds cfg w" and "messageProcessor lib cfg tv msg w = (r, w')"
  shows "pipeline_inv lib holds cfg w' \<and> r \<noteq> Exit
     \<and> (\<forall>cid. message_client tv msg \<noteq> Some cid \<longrightarrow> conn_view w' cid = conn_view w cid)
     \<and> (\<forall>e. r = Ret (Some e) \<longrightarrow> errors_as_fatal e \<and> conn_view w' = conn_view w)"
  using assms(2)
proof (cases rule: messageProcessor_cases)
  case ignored
  then show ?thesis using assms(1) by simp
next
  case (handled cid)
  note h = handled(2) [unfolded controlMessageHandler_def] and i = pipeline_atI [OF assms(1)]
  show ?thesis
    using pipeline.control_keeps [OF i h] pipeline.control_result [OF i h]
      pipeline.control_other_clients [OF i h] pipeline.control_error_no_effect [OF i] h handled(1)
    by (auto simp: pipeline_at_def)
qed

text \<open>
  C2: The time of the latest message of a client never goes back while the client stays
  registered, whatever messages arrive in whatever order.
\<close>

theorem control_time_never_decreases:
  assumes "pipeline_inv lib holds cfg w" and "messageProcessor lib cfg tv msg w = (r, w')"
    and "conn_view w cid = Some v" and "conn_view w' cid = Some v'"
  shows "LatestTimestamp (cs_MessageMetadata v) \<le> LatestTimestamp (cs_MessageMetadata v')"
  using assms(2)
proof (cases rule: messageProcessor_cases)
  case ignored
  then show ?thesis using assms(3,4) by simp
next
  case (handled c)
  show ?thesis
    by (rule pipeline.control_time_mono [OF pipeline_atI [OF assms(1)]
          handled(2) [unfolded controlMessageHandler_def] assms(3,4)])
qed


section \<open>Progress\<close>

lemma gatewayResolver_tenant:
  assumes "pipeline_inv lib holds cfg w"
    and "gatewayResolver lib cfg cid w = (Ret (ident, acc, org, err), w')"
  shows "gateway_says (lib_gateway lib) cfg w cid ident acc org \<or> (acc = '''' \<and> org = '''')"
  using bop_cache.cached_lookup_ok [of "lib_lru lib" holds "lib_gateway lib" cfg w
      "ClientIdToAccountIdCacheErrorRespTTL cfg" cid "Ret (ident, acc, org, err)" w'] assms
  by (auto simp: pipeline_inv_def gatewayResolver_def lookup_ok_def split: option.splits)

text \<open>The payloads that register and unregister a client.\<close>

definition online_payload ::
  "'c libraries \<Rightarrow> string \<Rightarrow> ControlMessage \<Rightarrow> (string \<times> json) list \<Rightarrow> json \<Rightarrow> bool" where
  "online_payload lib p m hp facts \<longleftrightarrow>
     p \<noteq> '''' \<and> lib_control lib p = Inr m \<and> cm_MessageType m = ''connection-status''
     \<and> cm_Content m = JObj hp \<and> map_of hp ''state'' = Some (JStr ''online'')
     \<and> (\<forall>v. map_of hp ''client_name'' = Some v \<longrightarrow> (\<exists>s. v = JStr s))
     \<and> (\<forall>v. map_of hp ''client_version'' = Some v \<longrightarrow> (\<exists>s. v = JStr s))
     \<and> sanitizeCanonicalFacts (lib_validUUID lib) (index_map hp ''canonical_facts'') = Ret facts"

definition offline_payload :: "'c libraries \<Rightarrow> string \<Rightarrow> bool" where
  "offline_payload lib p \<longleftrightarrow>
     p \<noteq> '''' \<and> (\<exists>m hp. lib_control lib p = Inr m \<and> cm_MessageType m = ''connection-status''
        \<and> cm_Content m = JObj hp \<and> map_of hp ''state'' = Some (JStr ''offline'')
        \<and> (\<forall>v. map_of hp ''client_name'' = Some v \<longrightarrow> (\<exists>s. v = JStr s))
        \<and> (\<forall>v. map_of hp ''client_version'' = Some v \<longrightarrow> (\<exists>s. v = JStr s)))"

lemma client_strings:
  assumes "\<forall>v. map_of hp ''client_name'' = Some v \<longrightarrow> (\<exists>s. v = JStr s)"
    and "\<forall>v. map_of hp ''client_version'' = Some v \<longrightarrow> (\<exists>s. v = JStr s)"
  shows "\<exists>a. GetClientVersionFromConnectionStatusContent hp = Ret a"
    and "\<exists>b. GetClientNameFromConnectionStatusContent hp = Ret b"
  using assms getStringFromContentPayload_total getStringFromContentPayload_not_Exit
  unfolding GetClientVersionFromConnectionStatusContent_def GetClientNameFromConnectionStatusContent_def
  by (metis go.exhaust)+

lemma online_dispatch:
  assumes "online_payload lib p m hp facts"
    and "handleOnlineMessage (lib_validUUID lib) cid m (gatewayResolver lib cfg)
           (SqlConnectionRegistrar (lib_pq lib)) (RecordConnectedClient (lib_map lib) cfg)
           (RegisterWithSources (lib_sources lib) cfg) w = (r, w')"
  shows "snd (controlMessageHandler lib cfg cid p w) = w'"
proof -
  obtain a b where "GetClientVersionFromConnectionStatusContent hp = Ret a"
      "GetClientNameFromConnectionStatusContent hp = Ret b"
    using assms(1) client_strings [of hp] by (auto simp: online_payload_def)
  then show ?thesis
    using assms
    by (cases r) (auto simp: online_payload_def controlMessageHandler_def HandleControlMessage_def
        handleConnectionStatusMessage_def)
qed

lemma offline_dispatch:
  assumes "offline_payload lib p"
  shows "controlMessageHandler lib cfg cid p w =
     and_then (handleOfflineMessage cid (SqlConnectionRegistrar (lib_pq lib)) w)
       (\<lambda>err w'. if err = Some DuplicateOrOldMQTTMessage then (Ret None, w') else (Ret err, w'))"
proof -
  obtain m hp where m: "p \<noteq> ''''" "lib_control lib p = Inr m" "cm_MessageType m = ''connection-status''"
      "cm_Content m = JObj hp" "map_of hp ''state'' = Some (JStr ''offline'')"
    and s: "\<exists>a. GetClientVersionFromConnectionStatusContent hp = Ret a"
      "\<exists>b. GetClientNameFromConnectionStatusContent hp = Ret b"
    using assms client_strings unfolding offline_payload_def by metis
  then show ?thesis
    by (auto simp: controlMessageHandler_def HandleControlMessage_def handleConnectionStatusMessage_def)
qed

lemma online_message:
  assumes "pipeline_inv lib holds cfg w" and "system_up w"
    and "message_client tv msg = Some cid" and "online_payload lib (km_Value msg) m hp facts"
    and "\<forall>v. conn_view w cid = Some v \<longrightarrow> \<not> isDuplicateOrOldMessage v m"
  shows "\<exists>ident acc org.
     conn_view (snd (messageProcessor lib cfg tv msg w))
       = (conn_view w)(cid \<mapsto> registration (pg_timestamp w) (online_state cid acc org hp facts m))
     \<and> (gateway_says (lib_gateway lib) cfg w cid ident acc org \<or> acc = '''' \<and> org = '''')"
proof -
  let ?on = "handleOnlineMessage (lib_validUUID lib) cid m (gatewayResolver lib cfg)
           (SqlConnectionRegistrar (lib_pq lib)) (RecordConnectedClient (lib_map lib) cfg)
           (RegisterWithSources (lib_sources lib) cfg) w"
  obtain r w' where run: "?on = (r, w')" by (cases ?on)
  have hp: "cm_Content m = JObj hp"
      "sanitizeCanonicalFacts (lib_validUUID lib) (index_map hp ''canonical_facts'') = Ret facts"
    using assms(4) by (simp_all add: online_payload_def)
  show ?thesis
  proof (rule pipeline.online_registers [OF pipeline_atI [OF assms(1)] assms(2) run hp assms(5)])
    fix w1 w2 ident acc org err
    assume w1: "pipeline_at lib holds cfg (http_do w) w1"
      and res: "gatewayResolver lib cfg cid w1 = (Ret (ident, acc, org, err), w2)"
      and v: "conn_view w' = (conn_view w)(cid \<mapsto> registration (pg_timestamp w) (online_state cid acc org hp facts m))"
    have "snd (messageProcessor lib cfg tv msg w) = w'"
      using online_dispatch [OF assms(4) run] assms(3)
      by (simp add: messageProcessor_def handleMessage_client)
    moreover have "gateway_says (lib_gateway lib) cfg w cid ident acc org \<or> acc = '''' \<and> org = ''''"
      using gatewayResolver_tenant [OF _ res] w1 gateway_says_cong [of w1 w]
      by (auto simp: pipeline_at_def)
    ultimately show ?thesis using v by auto
  qed
qed

text \<open>
  C4: Going online registers the client. When nothing fails, a well-formed online message
  on a client's control topic that is neither a duplicate nor older than what is stored
  makes the client's row say what the message says, under the tenant the gateway gave for
  the client's certificate name, or with no tenant when the gateway gave none.
\<close>

theorem online_message_registers:
  assumes "pipeline_inv lib holds cfg w" and "system_up w"
    and "message_client tv msg = Some cid" and "online_payload lib (km_Value msg) m hp facts"
    and "\<forall>v. conn_view w cid = Some v \<longrightarrow> \<not> isDuplicateOrOldMessage v m"
  shows "\<exists>ident acc org.
     conn_view (snd (messageProcessor lib cfg tv msg w))
       = (conn_view w)(cid \<mapsto> registration (pg_timestamp w) (online_state cid acc org hp facts m))
     \<and> (gateway_says (lib_gateway lib) cfg w cid ident acc org \<or> acc = '''' \<and> org = '''')"
  using assms by (rule online_message)

lemma offline_message:
  assumes "pipeline_inv lib holds cfg w" and "db_up w"
    and "message_client tv msg = Some cid" and "offline_payload lib (km_Value msg)"
    and "messageProcessor lib cfg tv msg w = (r, w')"
  shows "r = Ret None \<and> conn_view w' = (conn_view w)(cid := None)"
proof -
  have inv: "db_inv w" using assms(1) by (simp add: pipeline_inv_def)
  obtain q u where q: "handleOfflineMessage cid (SqlConnectionRegistrar (lib_pq lib)) w = (q, u)"
    by (cases "handleOfflineMessage cid (SqlConnectionRegistrar (lib_pq lib)) w")
  obtain e w1 where e: "reg_Unregister (SqlConnectionRegistrar (lib_pq lib)) cid w = (e, w1)"
    by (cases "reg_Unregister (SqlConnectionRegistrar (lib_pq lib)) cid w")
  have "e = None" using sql_up.up_unregister [OF inv assms(2), of "lib_pq lib" cid] e by simp
  then have "conn_view w1 = (conn_view w)(cid := None)" "q = Ret None" "u = w1"
    using sql.unregister_ok [OF inv] e q by (auto simp: handleOfflineMessage_def)
  then show ?thesis
    using assms(3,5) q offline_dispatch [OF assms(4), of cfg cid w]
    by (simp add: messageProcessor_def handleMessage_client)
qed

section \<open>Properties of the whole loop\<close>

lemma apply_all_confined:
  assumes "pipeline_inv lib holds cfg w"
  shows "pipeline_inv lib holds cfg (apply_all (messageProcessor lib cfg tv) ms w)
     \<and> (\<forall>cid. (\<forall>m\<in>set ms. message_client tv m \<noteq> Some cid) \<longrightarrow>
          conn_view (apply_all (messageProcessor lib cfg tv) ms w) cid = conn_view w cid)"
  using assms
proof (induction ms arbitrary: w)
  case (Cons m ms)
  obtain r w' where run: "messageProcessor lib cfg tv m w = (r, w')"
    by (cases "messageProcessor lib cfg tv m w")
  have "pipeline_inv lib holds cfg w'
      \<and> (\<forall>cid. message_client tv m \<noteq> Some cid \<longrightarrow> conn_view w' cid = conn_view w cid)"
    using run
  proof (cases rule: messageProcessor_cases)
    case ignored
    then show ?thesis using Cons.prems by simp
  next
    case (handled c)
    note h = handled(2) [unfolded controlMessageHandler_def] and i = pipeline_atI [OF Cons.prems]
    show ?thesis
      using pipeline.control_keeps [OF i h] pipeline.control_other_clients [OF i h] handled(1)
      by (auto simp: pipeline_at_def)
  qed
  then show ?case using Cons.IH [of w'] run by simp
qed simp

text \<open>
  C9: Over the whole life of a consumer, with any broker and any messages, the table keeps
  its invariant (no client has two rows), the cache stays sound, and a client that none of
  the messages names on its control topic keeps the registration it had.
\<close>

theorem consumer_keeps_registrations:
  assumes "consumer_reachable (messageProcessor lib cfg tv) w0 c" and "pipeline_inv lib holds cfg w0"
  shows "pipeline_inv lib holds cfg (world c) \<and> unique_clients (world c)
     \<and> (\<forall>cid. (\<forall>p\<in>set (processed c). message_client tv (fst p) \<noteq> Some cid) \<longrightarrow>
          conn_view (world c) cid = conn_view w0 cid)"
proof -
  have w: "world c = apply_all (messageProcessor lib cfg tv) (map fst (processed c)) w0"
    using reachable_loop_inv [OF assms(1)] by (simp add: loop_inv_def world_inv_def)
  have a: "pipeline_inv lib holds cfg (world c)"
      "\<And>cid. (\<forall>m\<in>set (map fst (processed c)). message_client tv m \<noteq> Some cid) \<Longrightarrow>
          conn_view (world c) cid = conn_view w0 cid"
    using apply_all_confined [OF assms(2), of tv "map fst (processed c)"] w by auto
  then show ?thesis by (auto simp: pipeline_inv_def db_inv_def)
qed

section \<open>Witnesses\<close>

text \<open>
  A consumer with a cache that keeps everything, and a client that goes online and offline.
\<close>

definition example_pq :: pq_driver where
  "example_pq =
     \<lparr>IsConnectionException = (\<lambda>c. take 2 c = ''08''), CodeName = (\<lambda>c. ''connection_failure'')\<rparr>"

definition example_online :: ControlMessage where
  "example_online =
     \<lparr>cm_MessageType = ''connection-status'', cm_MessageID = ''m-1'', cm_Version = 1, cm_Sent = 5000,
      cm_Content = JObj [(''state'', JStr ''online'')]\<rparr>"

definition example_offline :: ControlMessage where
  "example_offline =
     \<lparr>cm_MessageType = ''connection-status'', cm_MessageID = ''m-2'', cm_Version = 1, cm_Sent = 6000,
      cm_Content = JObj [(''state'', JStr ''offline'')]\<rparr>"

definition example_lib :: "((ClientID \<times> cachedResult) list) libraries" where
  "example_lib =
     \<lparr>lib_pq = example_pq, lib_gateway = example_gateway, lib_lru = keep_all,
      lib_control = (\<lambda>p. Inr (if p = ''online'' then example_online else example_offline)),
      lib_validUUID = (\<lambda>s. True), lib_map = example_unmarshal, lib_sources = (\<lambda>s. Inr [])\<rparr>"

definition example_message :: "string \<Rightarrow> kafka_message" where
  "example_message p =
     \<lparr>km_Key = ''client-1'', km_Value = p,
      km_Headers = Some [(''topic'', ''redhat/insights/client-1/control/out'')]\<rparr>"

definition example_row :: row where
  "example_row =
     register_insert 1 (zero_ConnectorClientState\<lparr>cs_ClientID := ''client-1'', cs_OrgID := ''org-7'',
       cs_MessageMetadata := \<lparr>LatestMessageID = ''m-0'', LatestTimestamp = 1000\<rparr>\<rparr>) None 0 (\<lambda>t. t)"

definition example_empty :: "((ClientID \<times> cachedResult) list) system" where
  "example_empty = example_system []"

definition example_registered :: "((ClientID \<times> cachedResult) list) system" where
  "example_registered = (example_system [])\<lparr>connections := [example_row], next_id := 2\<rparr>"

definition example_holds :: "(ClientID \<times> cachedResult) list \<Rightarrow> ClientID \<Rightarrow> cachedResult \<Rightarrow> bool" where
  "example_holds c k r \<longleftrightarrow> map_of c k = Some r"

lemma example_cache:
  "cache_inv keep_all example_holds (gateway_says example_gateway example_config) (w :: (_, 'a) system_scheme)"
  if "cache w = []"
  using that by (auto simp: cache_inv_def lru_laws_def keep_all_def example_holds_def split: if_splits)

lemma example_pg: "pg_timestamp_ok (\<lambda>t. t div 1000 * 1000)"
  by (auto simp: pg_timestamp_ok_def intro!: monoI zdiv_mono1 mult_right_mono)

lemma example_row_simps:
  "r_client_id example_row = ''client-1''" "r_message_sent example_row = 1000"
  by (simp_all add: example_row_def)

lemma example_inv:
  "pipeline_inv example_lib example_holds example_config example_empty"
  "pipeline_inv example_lib example_holds example_config example_registered"
  using example_cache [of example_empty] example_cache [of example_registered] example_pg
  by (simp_all add: pipeline_inv_def example_lib_def db_inv_def unique_clients_def example_system_def
      example_empty_def example_registered_def example_row_simps)

lemma example_up: "system_up example_empty" "system_up example_registered" "db_up example_registered"
  by (simp_all add: system_up_def db_up_def example_empty_def example_registered_def example_system_def)

lemma example_topic: "message_client (NewTopicVerifier '''') (example_message p) = Some ''client-1''"
  by (simp add: message_client_def example_message_def TopicKafkaHeaderKey_def VerifyIncomingTopic_def
      NewTopicVerifier_def defaultTopicPrefix_def)

lemma example_online_payload:
  "online_payload example_lib (km_Value (example_message ''online'')) example_online
     [(''state'', JStr ''online'')] (JObj [])"
  by (simp add: online_payload_def example_lib_def example_message_def example_online_def index_map_def
      sanitizeCanonicalFacts_def)

lemma example_views:
  "conn_view example_empty cid = None"
  "conn_view example_registered ''client-1'' = Some (registration id (row_state example_row))"
  by (simp_all add: conn_view_def example_empty_def example_registered_def example_system_def
      example_row_simps)

lemma example_not_old: "\<not> isDuplicateOrOldMessage (registration id (row_state example_row)) example_online"
  by (simp add: isDuplicateOrOldMessage_def example_online_def example_row_def time_before_def
      register_insert_def nullstring_value_def)

theorem control_message_confined_witness:
  "pipeline_inv example_lib example_holds example_config
     (snd (messageProcessor example_lib example_config (NewTopicVerifier '''') (example_message ''online'')
             example_registered))"
  using control_message_confined [OF example_inv(2) surjective_pairing] by blast

theorem control_time_never_decreases_witness:
  "\<exists>v'. conn_view (snd (messageProcessor example_lib example_config (NewTopicVerifier '''')
                          (example_message ''online'') example_registered)) ''client-1'' = Some v'
     \<and> 1000 \<le> LatestTimestamp (cs_MessageMetadata v')"
proof -
  let ?run = "messageProcessor example_lib example_config (NewTopicVerifier '''')
                (example_message ''online'') example_registered"
  have old: "\<forall>v. conn_view example_registered ''client-1'' = Some v \<longrightarrow> \<not> isDuplicateOrOldMessage v example_online"
    using example_not_old by (simp add: example_views)
  obtain v' where v': "conn_view (snd ?run) ''client-1'' = Some v'"
    using online_message [OF example_inv(2) example_up(2) example_topic example_online_payload old] by auto
  have "LatestTimestamp (cs_MessageMetadata (registration id (row_state example_row))) = 1000"
    by (simp add: example_row_simps)
  then show ?thesis
    using control_time_never_decreases [OF example_inv(2) surjective_pairing example_views(2) v'] v' by simp
qed


theorem online_message_registers_witness:
  "\<exists>v. conn_view (snd (messageProcessor example_lib example_config (NewTopicVerifier '''')
                          (example_message ''online'') example_registered)) ''client-1'' = Some v
     \<and> LatestMessageID (cs_MessageMetadata v) = ''m-1'' \<and> LatestTimestamp (cs_MessageMetadata v) = 5000"
proof -
  have old: "\<forall>v. conn_view example_registered ''client-1'' = Some v \<longrightarrow> \<not> isDuplicateOrOldMessage v example_online"
    using example_not_old by (simp add: example_views)
  have ts: "pg_timestamp example_registered 5000 = 5000"
    by (simp add: example_registered_def example_system_def)
  from online_message_registers [OF example_inv(2) example_up(2) example_topic example_online_payload old]
  show ?thesis by (auto simp: online_state_def example_online_def ts)
qed

theorem consumer_keeps_registrations_witness:
  "\<exists>c. consumer_run (messageProcessor example_lib example_config (NewTopicVerifier ''''))
       [Fetched (Inr (example_message ''online'')), Run] (consumer_start example_registered) = Some c
     \<and> unique_clients (world c) \<and> conn_view (world c) ''client-2'' = conn_view example_registered ''client-2''"
proof -
  let ?p = "messageProcessor example_lib example_config (NewTopicVerifier '''')"
  let ?c1 = "(consumer_start example_registered)\<lparr>phase := Processing (example_message ''online'')\<rparr>"
  let ?c = "on_process ?p (example_message ''online'') ?c1"
  have c1: "consumer_run ?p [Fetched (Inr (example_message ''online'')), Run]
      (consumer_start example_registered) = Some ?c"
    by (simp add: consumer_step_def consumer_start_def on_fetch_def)
  have r: "consumer_reachable ?p example_registered ?c"
    by (rule consumer_run_reachable [OF c1 consumer_reachable.start])
  have m: "map fst (processed ?c) = [example_message ''online'']"
    by (simp add: on_process_def consumer_start_def signal_and_stop_def Let_def
        split: prod.splits go.splits option.splits)
  have "\<forall>p\<in>set (processed ?c). message_client (NewTopicVerifier '''') (fst p) \<noteq> Some ''client-2''"
  proof
    fix p assume "p \<in> set (processed ?c)"
    then have "fst p \<in> set (map fst (processed ?c))" by (simp only: set_map) (rule imageI)
    then have "fst p = example_message ''online''" unfolding m by simp
    then show "message_client (NewTopicVerifier '''') (fst p) \<noteq> Some ''client-2''"
      by (simp only: example_topic) simp
  qed
  then show ?thesis using consumer_keeps_registrations [OF r example_inv(2)] c1 by blast
qed

end
