(* ===== verification/Lifecycle.thy ===== *)
theory Lifecycle
  imports CC_Prelude
begin

text \<open>
  What the step relations of the development have in common, as two interfaces: a system with
  an invariant, and a process whose main thread can always go on to its end. The processes of
  the service interpret them: the jobs in \<open>Job_Processes\<close>, the main threads in
  \<open>Consumer_Process\<close>, \<open>Bridge_Process\<close> and \<open>Api_Process\<close>.
\<close>

locale step_system =
  fixes step :: "'s \<Rightarrow> 's \<Rightarrow> bool" and init :: "'s \<Rightarrow> bool" and inv :: "'s \<Rightarrow> bool"
  assumes init_inv: "init s \<Longrightarrow> inv s"
    and step_inv: "inv s \<Longrightarrow> step s s' \<Longrightarrow> inv s'"
begin

lemma steps_inv:
  assumes "step\<^sup>*\<^sup>* s s'" and "inv s"
  shows "inv s'"
  using assms by (induction rule: rtranclp_induct) (auto intro: step_inv)

lemma reachable_inv: "init s \<Longrightarrow> step\<^sup>*\<^sup>* s s' \<Longrightarrow> inv s'"
  by (rule steps_inv [OF _ init_inv])

end

text \<open>The rank counts the steps the main thread has left.\<close>

locale lifecycle = step_system step init inv
  for step :: "'s \<Rightarrow> 's \<Rightarrow> bool" and init inv +
  fixes rank :: "'s \<Rightarrow> nat" and ended :: "'s \<Rightarrow> bool"
  assumes progress: "inv s \<Longrightarrow> \<not> ended s \<Longrightarrow> \<exists>s'. step s s' \<and> rank s' < rank s"
begin

lemma ends_within:
  assumes "inv s"
  shows "\<exists>n s'. n \<le> rank s \<and> (step ^^ n) s s' \<and> ended s'"
  using assms
proof (induction "rank s" arbitrary: s rule: less_induct)
  case less
  show ?case
  proof (cases "ended s")
    case False
    obtain s1 where s1: "step s s1" "rank s1 < rank s" using progress [OF less.prems False] by blast
    obtain n s' where n: "n \<le> rank s1" "(step ^^ n) s1 s'" "ended s'"
      using less.hyps [OF s1(2) step_inv [OF less.prems s1(1)]] by blast
    have "(step ^^ Suc n) s s'" by (rule relpowp_Suc_I2 [OF s1(1) n(2)])
    moreover have "Suc n \<le> rank s" using n(1) s1(2) by simp
    ultimately show ?thesis using n(3) by blast
  next
    case True
    then show ?thesis by (intro exI [of _ 0] exI [of _ s]) simp
  qed
qed

lemma can_end:
  assumes "init s0" and "step\<^sup>*\<^sup>* s0 s"
  shows "\<exists>s'. step\<^sup>*\<^sup>* s s' \<and> ended s'"
  using ends_within [OF reachable_inv [OF assms]] by (blast dest: relpowp_imp_rtranclp)

end

end
