(* ===== verification/Consumer_Process.thy ===== *)
theory Consumer_Process
  imports Kafka_Consumer Lifecycle
begin

text \<open>
  The consumer process at run time (\<^verbatim>\<open>startKafkaMessageConsumer\<close> in
  \<^verbatim>\<open>cmd/cloud-connector/kafka_message_consumer.go\<close>, after the components are built): the
  loop of the theory \<open>Kafka_Consumer\<close> runs in a goroutine, the main thread waits for a
  signal, a fatal error of the loop or the loss of the broker connection and then shuts the
  process down, and the management server runs beside them. The three interleave in a step
  relation. The process never waits for a loop that has stopped.
\<close>

section \<open>The main thread\<close>

text \<open>
  The main thread waits in the \<^verbatim>\<open>select\<close>, closes the management server, disconnects from the
  MQTT broker and returns. \<open>Killed\<close> is a process ended from another goroutine, by a panic or
  by \<^verbatim>\<open>Fatal\<close>.
\<close>

datatype main_phase = Selecting | ClosingServer | Disconnecting | Returned | Killed

record 'w consumer_process =
  cp_loop :: "'w consumer"
  shutdownCtx_done :: bool
  signals_received :: nat
  cp_main :: main_phase

datatype wakeup = SignalChan | FatalProcessing | MqttConnectionFailed error

definition on_wakeup :: "wakeup \<Rightarrow> 'w consumer_process \<Rightarrow> 'w consumer_process" where
  "on_wakeup ev p =
     (case ev of
        SignalChan \<Rightarrow> p\<lparr>shutdownCtx_done := True, cp_main := ClosingServer\<rparr>
      | FatalProcessing \<Rightarrow> p\<lparr>signals_received := Suc (signals_received p), cp_main := ClosingServer\<rparr>
      | MqttConnectionFailed err \<Rightarrow> p\<lparr>shutdownCtx_done := True, cp_main := ClosingServer\<rparr>)"

text \<open>
  Which wakeups can come: a fatal error when the loop is at its send, a failed connection
  only when the handler that sends it is installed (see \<open>buildOnConnectionLostMqttOptions\<close>
  in \<open>Mqtt_Setup\<close>), an interrupt at any time.
\<close>

definition wakeup_ready :: "Config \<Rightarrow> wakeup \<Rightarrow> 'w consumer_process \<Rightarrow> bool" where
  "wakeup_ready cfg ev p \<longleftrightarrow>
     (case ev of
        SignalChan \<Rightarrow> True
      | FatalProcessing \<Rightarrow> signals_received p < signals (cp_loop p)
      | MqttConnectionFailed err \<Rightarrow> ShutdownOnMqttConnectionLost cfg)"

definition main_ended :: "'w consumer_process \<Rightarrow> bool" where
  "main_ended p \<longleftrightarrow> cp_main p = Returned \<or> cp_main p = Killed"

section \<open>The loop beside it\<close>

text \<open>
  Which errors the Kafka reader returns, for a context that is (not) done, is an argument;
  the context itself is done only once it is cancelled.
\<close>

definition loop_event_possible :: "(bool \<Rightarrow> error \<Rightarrow> bool) \<Rightarrow> bool \<Rightarrow> event \<Rightarrow> bool" where
  "loop_event_possible kafka_returns ctx_done ev \<longleftrightarrow>
     (case ev of
        Fetched (Inl err) \<Rightarrow> kafka_returns ctx_done err
      | CommitResult (Some err) \<Rightarrow> kafka_returns ctx_done err
      | ContextDone \<Rightarrow> ctx_done
      | _ \<Rightarrow> True)"

text \<open>The reader reports a cancellation only for a context that was cancelled.\<close>

definition cancellation_is_real :: "(bool \<Rightarrow> error \<Rightarrow> bool) \<Rightarrow> bool" where
  "cancellation_is_real kafka_returns \<longleftrightarrow>
     (\<forall>err. kafka_returns False err \<longrightarrow> \<not> errors_is err ContextCanceled)"

text \<open>A panic or an exit in the loop's goroutine takes the process with it.\<close>

definition with_loop :: "'w consumer \<Rightarrow> 'w consumer_process \<Rightarrow> 'w consumer_process" where
  "with_loop c p =
     p\<lparr>cp_loop := c,
       cp_main := (if phase c = Stopped Crashed \<or> phase c = Stopped ProcessExit then Killed
                   else cp_main p)\<rparr>"

text \<open>
  The steps of the process. The error of closing the server is only logged. The server
  itself ends the process when it fails for another reason than being closed.
\<close>

inductive process_step ::
  "(bool \<Rightarrow> error \<Rightarrow> bool) \<Rightarrow> Config \<Rightarrow> (kafka_message \<Rightarrow> ('w, error option) action)
    \<Rightarrow> 'w consumer_process \<Rightarrow> 'w consumer_process \<Rightarrow> bool"
  for kafka_returns cfg process where
  loop: "\<not> main_ended p \<Longrightarrow> loop_event_possible kafka_returns (shutdownCtx_done p) ev \<Longrightarrow>
     consumer_step process ev (cp_loop p) = Some c \<Longrightarrow>
     process_step kafka_returns cfg process p (with_loop c p)"
| wakeup: "cp_main p = Selecting \<Longrightarrow> wakeup_ready cfg ev p \<Longrightarrow>
     process_step kafka_returns cfg process p (on_wakeup ev p)"
| server_closed: "cp_main p = ClosingServer \<Longrightarrow>
     process_step kafka_returns cfg process p (p\<lparr>cp_main := Disconnecting\<rparr>)"
| disconnected: "cp_main p = Disconnecting \<Longrightarrow>
     process_step kafka_returns cfg process p (p\<lparr>cp_main := Returned\<rparr>)"
| server_failed: "cp_main p = Selecting \<or> cp_main p = ClosingServer \<Longrightarrow>
     process_step kafka_returns cfg process p (p\<lparr>cp_main := Killed\<rparr>)"

inductive_cases process_stepE: "process_step kafka_returns cfg process p p'"

definition process_start :: "'w \<Rightarrow> 'w consumer_process" where
  "process_start w =
     \<lparr>cp_loop = consumer_start w, shutdownCtx_done = False, signals_received = 0, cp_main = Selecting\<rparr>"

inductive process_reachable ::
  "(bool \<Rightarrow> error \<Rightarrow> bool) \<Rightarrow> Config \<Rightarrow> (kafka_message \<Rightarrow> ('w, error option) action)
    \<Rightarrow> 'w \<Rightarrow> 'w consumer_process \<Rightarrow> bool"
  for kafka_returns cfg process w0 where
  start: "process_reachable kafka_returns cfg process w0 (process_start w0)"
| step: "process_reachable kafka_returns cfg process w0 p \<Longrightarrow>
     process_step kafka_returns cfg process p p' \<Longrightarrow>
     process_reachable kafka_returns cfg process w0 p'"

section \<open>Invariants\<close>

text \<open>
  The loop of a reachable process is a reachable loop, so all that is proved of the loop
  alone holds in the process, at every moment of a shutdown.
\<close>

lemma process_reachable_loop:
  "process_reachable kafka_returns cfg process w0 p \<Longrightarrow> consumer_reachable process w0 (cp_loop p)"
proof (induction rule: process_reachable.induct)
  case start
  show ?case by (simp add: process_start_def consumer_reachable.start)
next
  case (step p p')
  from step.hyps(2) step.IH show ?case
    by (cases rule: process_stepE)
      (auto simp: with_loop_def on_wakeup_def split: wakeup.splits intro: consumer_reachable.step)
qed

text \<open>
  While the main thread waits it has received nothing and the context is not done; the loop
  stops for the context only when it is done, and its crash ends the process.
\<close>

definition process_inv :: "'w consumer_process \<Rightarrow> bool" where
  "process_inv p \<longleftrightarrow>
     (cp_main p = Selecting \<longrightarrow> \<not> shutdownCtx_done p \<and> signals_received p = 0)
     \<and> (phase (cp_loop p) = Stopped Canceled \<longrightarrow> shutdownCtx_done p)
     \<and> (phase (cp_loop p) = Stopped Crashed \<or> phase (cp_loop p) = Stopped ProcessExit \<longrightarrow> main_ended p)"

lemma canceled_needs_done:
  assumes "cancellation_is_real kafka_returns" and "loop_event_possible kafka_returns d ev"
    and "consumer_step process ev c = Some c'" and "phase c' = Stopped Canceled"
  shows d
proof (rule ccontr)
  assume d: "\<not> d"
  from assms(3) show False
  proof (cases rule: consumer_step_cases)
    case (fetched res)
    with d assms(1,2,4) show False
      by (cases res)
        (auto simp: on_fetch_def signal_and_stop_def Let_def loop_event_possible_def
          cancellation_is_real_def split: if_splits)
  next
    case (run m)
    with assms(4) show False
      by (auto simp: on_process_def signal_and_stop_def Let_def split: prod.splits go.splits option.splits)
  next
    case (commit res m)
    with d assms(1,2,4) show False
      by (cases res)
        (auto simp: on_commit_def signal_and_stop_def Let_def loop_event_possible_def
          cancellation_is_real_def split: if_splits)
  next
    case shutdown
    with assms(2) d show False by (simp add: loop_event_possible_def)
  qed (use assms(4) in simp_all)
qed

lemma process_inv_step:
  assumes "cancellation_is_real kafka_returns" and "process_inv p"
    and "process_step kafka_returns cfg process p p'"
  shows "process_inv p'"
  using assms(3)
proof (cases rule: process_step.cases)
  case (loop ev c)
  then show ?thesis
    using assms(2) canceled_needs_done [OF assms(1)]
    by (auto simp: process_inv_def with_loop_def main_ended_def)
next
  case (wakeup ev)
  then show ?thesis
    using assms(2) by (auto simp: process_inv_def on_wakeup_def main_ended_def split: wakeup.splits)
qed (use assms(2) in \<open>auto simp: process_inv_def main_ended_def\<close>)

lemma process_reachable_iff:
  "process_reachable kafka_returns cfg process w0 p
     \<longleftrightarrow> (process_step kafka_returns cfg process)\<^sup>*\<^sup>* (process_start w0) p"
proof
  assume "process_reachable kafka_returns cfg process w0 p"
  then show "(process_step kafka_returns cfg process)\<^sup>*\<^sup>* (process_start w0) p"
    by (induction rule: process_reachable.induct) auto
next
  assume "(process_step kafka_returns cfg process)\<^sup>*\<^sup>* (process_start w0) p"
  then show "process_reachable kafka_returns cfg process w0 p"
    by (induction rule: rtranclp_induct) (auto intro: process_reachable.intros)
qed

lemma process_inv_start: "process_inv (process_start w)"
  by (simp add: process_inv_def process_start_def consumer_start_def)

text \<open>How many steps the main thread has left.\<close>

fun main_rank :: "main_phase \<Rightarrow> nat" where
  "main_rank Selecting = 3"
| "main_rank ClosingServer = 2"
| "main_rank Disconnecting = 1"
| "main_rank Returned = 0"
| "main_rank Killed = 0"

lemma main_rank_le: "main_rank m \<le> 3"
  by (cases m) simp_all

text \<open>A signal ends the process at any moment.\<close>

lemma process_progress:
  assumes "\<not> main_ended p"
  shows "\<exists>p'. process_step kafka_returns cfg process p p' \<and> main_rank (cp_main p') < main_rank (cp_main p)"
  using assms process_step.wakeup [of p cfg SignalChan kafka_returns process]
    process_step.server_closed [of p kafka_returns cfg process]
    process_step.disconnected [of p kafka_returns cfg process]
  by (cases "cp_main p") (force simp: main_ended_def wakeup_ready_def on_wakeup_def)+

interpretation consumer: lifecycle "process_step kafka_returns cfg process"
    "\<lambda>p. cancellation_is_real kafka_returns \<and> p = process_start w0"
    "\<lambda>p. cancellation_is_real kafka_returns \<and> process_inv p" "\<lambda>p. main_rank (cp_main p)" main_ended
  for kafka_returns cfg process w0
  by unfold_locales (auto intro: process_inv_start process_inv_step process_progress)

lemma reachable_process_inv:
  assumes "cancellation_is_real kafka_returns" and "process_reachable kafka_returns cfg process w0 p"
  shows "process_inv p"
  using consumer.reachable_inv [of kafka_returns "process_start w0" w0 cfg process p] assms
  by (simp add: process_reachable_iff)

text \<open>A loop that stopped under a waiting main thread is at its send.\<close>

lemma waiting_main_stopped_loop:
  assumes "cancellation_is_real kafka_returns" and "process_reachable kafka_returns cfg process w0 p"
    and "cp_main p = Selecting" and "phase (cp_loop p) = Stopped s"
  shows "s = FatalProcessingError \<and> wakeup_ready cfg FatalProcessing p"
proof -
  have inv: "process_inv p" by (rule reachable_process_inv [OF assms(1,2)])
  with assms(3,4) have s: "s = FatalProcessingError"
    by (cases s) (auto simp: process_inv_def main_ended_def)
  have "signals (cp_loop p) = 1"
    using reachable_loop_inv [OF process_reachable_loop [OF assms(2)]] assms(4) s
    by (simp add: loop_inv_def counter_inv_def)
  with inv assms(3) s show ?thesis by (simp add: process_inv_def wakeup_ready_def)
qed

section \<open>The shutdown ends\<close>

text \<open>Once the loop has stopped, every step is one of the main thread.\<close>

lemma stopped_loop_step:
  assumes "process_step kafka_returns cfg process p p'" and "phase (cp_loop p) = Stopped s"
  shows "phase (cp_loop p') = Stopped s \<and> main_rank (cp_main p') < main_rank (cp_main p)"
  using assms(1)
proof (cases rule: process_step.cases)
  case (loop ev c)
  then show ?thesis using assms(2) by (cases ev) (auto simp: consumer_step_def)
next
  case (wakeup ev)
  then show ?thesis using assms(2) by (cases ev) (auto simp: on_wakeup_def)
qed (use assms(2) in auto)

lemma stopped_loop_bound:
  assumes "(process_step kafka_returns cfg process ^^ n) p p'" and "phase (cp_loop p) = Stopped s"
  shows "n + main_rank (cp_main p') \<le> main_rank (cp_main p)"
  using assms
proof (induction n arbitrary: p)
  case (Suc n)
  obtain q where q: "process_step kafka_returns cfg process p q"
    "(process_step kafka_returns cfg process ^^ n) q p'"
    using Suc.prems(1) by (rule relpowp_Suc_E2)
  note stopped_loop_step [OF q(1) Suc.prems(2)]
  with Suc.IH [OF q(2)] show ?case by simp
qed simp

text \<open>
  C8: The process does not outlive its consumer. When the loop has stopped, for whatever
  reason, a process that has not ended can always go on, so that it never waits for a
  message that nobody sends, and it has ended after at most three steps. If the main thread
  was still waiting, the loop has stopped on a fatal error and its notice is there to be
  taken. The one thing asked of the Kafka reader is that it reports a cancellation only for
  a context that was cancelled.
\<close>

theorem consumer_process_ends:
  assumes "cancellation_is_real kafka_returns" and "process_reachable kafka_returns cfg process w0 p"
    and "phase (cp_loop p) = Stopped s"
  shows "(main_ended p \<or> (\<exists>p'. process_step kafka_returns cfg process p p'))
     \<and> (cp_main p = Selecting \<longrightarrow> s = FatalProcessingError \<and> wakeup_ready cfg FatalProcessing p)
     \<and> (\<forall>n p'. (process_step kafka_returns cfg process ^^ n) p p' \<longrightarrow> n \<le> 3)"
proof (intro conjI allI impI)
  show "main_ended p \<or> (\<exists>p'. process_step kafka_returns cfg process p p')"
    using process_progress by blast
next
  assume "cp_main p = Selecting"
  with waiting_main_stopped_loop [OF assms(1,2) _ assms(3)]
  show "s = FatalProcessingError" and "wakeup_ready cfg FatalProcessing p" by auto
next
  fix n p'
  assume "(process_step kafka_returns cfg process ^^ n) p p'"
  from stopped_loop_bound [OF this assms(3)] main_rank_le [of "cp_main p"] show "n \<le> 3" by simp
qed

text \<open>A reader that tells the truth, and a loop that fails on its first message.\<close>

definition example_kafka_returns :: "bool \<Rightarrow> error \<Rightarrow> bool" where
  "example_kafka_returns ctx_done err \<longleftrightarrow> ctx_done \<or> \<not> errors_is err ContextCanceled"

definition example_failing :: "kafka_message \<Rightarrow> (unit, error option) action" where
  "example_failing m w = (Ret (Some NotFoundError), w)"

lemma example_failing_reachable:
  "\<exists>p. process_reachable example_kafka_returns cfg example_failing () p
     \<and> cp_main p = Selecting \<and> phase (cp_loop p) = Stopped FatalProcessingError"
proof -
  let ?step = "process_step example_kafka_returns cfg example_failing"
  let ?c1 = "on_fetch (Inr example_kafka_message) (consumer_start ())"
  let ?c2 = "on_process example_failing example_kafka_message ?c1"
  let ?p1 = "with_loop ?c1 (process_start ())"
  have "?step (process_start ()) ?p1"
    by (rule process_step.loop [where ev = "Fetched (Inr example_kafka_message)"])
      (simp_all add: main_ended_def process_start_def loop_event_possible_def consumer_step_def consumer_start_def)
  moreover have "?step ?p1 (with_loop ?c2 ?p1)"
    by (rule process_step.loop [where ev = Run])
      (simp_all add: main_ended_def process_start_def loop_event_possible_def consumer_step_def
        consumer_start_def with_loop_def on_fetch_def)
  ultimately have "process_reachable example_kafka_returns cfg example_failing () (with_loop ?c2 ?p1)"
    by (blast intro: process_reachable.intros)
  moreover have "cp_main (with_loop ?c2 ?p1) = Selecting"
      "phase (cp_loop (with_loop ?c2 ?p1)) = Stopped FatalProcessingError"
    by (simp_all add: with_loop_def process_start_def on_fetch_def consumer_start_def on_process_def
        example_failing_def signal_and_stop_def)
  ultimately show ?thesis by blast
qed

theorem consumer_process_ends_witness:
  "\<exists>p. process_reachable example_kafka_returns example_config example_failing () p \<and> cp_main p = Selecting
     \<and> wakeup_ready example_config FatalProcessing p
     \<and> (\<forall>n p'. (process_step example_kafka_returns example_config example_failing ^^ n) p p' \<longrightarrow> n \<le> 3)"
proof -
  obtain p where p: "process_reachable example_kafka_returns example_config example_failing () p"
    "cp_main p = Selecting" "phase (cp_loop p) = Stopped FatalProcessingError"
    using example_failing_reachable by blast
  have "cancellation_is_real example_kafka_returns"
    by (simp add: cancellation_is_real_def example_kafka_returns_def)
  from consumer_process_ends [OF this p(1,3)] p(1,2) show ?thesis by blast
qed

end
