(* ===== verification/Connection_Locator.thy ===== *)
theory Connection_Locator
  imports Connection_Store "HOL-Library.Multiset"
begin

text \<open>
  The readers of the table that serve the REST API
  (\<^verbatim>\<open>sql_connection_locator_v2.go\<close>): the lookup of one client for a tenant, strict or
  relaxed, and the two paged listings. The function type \<^verbatim>\<open>GetConnectionByClientID\<close> is
  the locale \<open>connection_lookup\<close>, interpreted on both lookups. A result set is read to
  its end once the query has succeeded.
\<close>

section \<open>Lookup of one client\<close>

type_synonym 'w GetConnectionByClientID =
  "OrgID \<Rightarrow> ClientID \<Rightarrow> 'w \<Rightarrow> (ConnectorClientState \<times> error option) \<times> 'w"

definition satelliteWorker :: string where
  "satelliteWorker = ''foreman_rh_cloud''"

definition strictConnectionLookupQuery :: "OrgID \<Rightarrow> ClientID \<Rightarrow> row \<Rightarrow> bool" where
  "strictConnectionLookupQuery orgId clientId r \<longleftrightarrow>
     r_org_id r = orgId \<and> r_client_id r = clientId \<and> r_org_id r \<noteq> ''''"

definition relaxedConnectionLookupQuery :: "OrgID \<Rightarrow> ClientID \<Rightarrow> row \<Rightarrow> bool" where
  "relaxedConnectionLookupQuery orgId clientId r \<longleftrightarrow>
     (r_org_id r = orgId \<or> jsonb_exists (r_dispatchers r) satelliteWorker)
     \<and> r_org_id r \<noteq> '''' \<and> r_client_id r = clientId"

text \<open>The struct the locators fill; they leave the message metadata zero.\<close>

definition located_state :: "ClientID \<Rightarrow> row \<Rightarrow> ConnectorClientState" where
  "located_state clientId r =
     zero_ConnectorClientState
       \<lparr>cs_OrgID := r_org_id r,
        cs_ClientID := clientId,
        cs_CanonicalFacts := deserializeCanonicalFacts (Some (r_canonical_facts r)),
        cs_Dispatchers := deserializeDispatchers (Some (r_dispatchers r)),
        cs_Tags := deserializeTags (r_tags r),
        cs_Account := nullstring_value (r_account r)\<rparr>"

definition createGetConnectionByClientIDImpl ::
  "(OrgID \<Rightarrow> ClientID \<Rightarrow> row \<Rightarrow> bool) \<Rightarrow> ('a db_state_scheme) GetConnectionByClientID" where
  "createGetConnectionByClientIDImpl sqlQuery orgId clientId w =
     (case verifyOrgId orgId of
        Some err \<Rightarrow> ((zero_ConnectorClientState, Some err), w)
      | None \<Rightarrow>
          (case verifyClientId clientId of
             Some err \<Rightarrow> ((zero_ConnectorClientState, Some err), w)
           | None \<Rightarrow>
               (case db_call w of
                  (Some err, w1) \<Rightarrow> ((zero_ConnectorClientState, Some err), w1)
                | (None, w1) \<Rightarrow>
                    (case db_call w1 of
                       (Some err, w2) \<Rightarrow>
                         (if err = ErrNoRows then ((zero_ConnectorClientState, Some NotFoundError), w2)
                          else ((zero_ConnectorClientState, Some err), w2))
                     | (None, w2) \<Rightarrow>
                         (case find (sqlQuery orgId clientId) (connections w2) of
                            None \<Rightarrow> ((zero_ConnectorClientState, Some NotFoundError), w2)
                          | Some r \<Rightarrow> ((located_state clientId r, None), w2))))))"

definition SqlGetConnectionByClientID :: "('a db_state_scheme) GetConnectionByClientID" where
  "SqlGetConnectionByClientID = createGetConnectionByClientIDImpl strictConnectionLookupQuery"

text \<open>The relaxed lookup only adds a log line when the owner is another tenant.\<close>

definition PermittedTenantSqlGetConnectionByClientID :: "('a db_state_scheme) GetConnectionByClientID" where
  "PermittedTenantSqlGetConnectionByClientID =
     createGetConnectionByClientIDImpl relaxedConnectionLookupQuery"

section \<open>Listings\<close>

text \<open>
  \<^verbatim>\<open>ORDER BY\<close> a column by the collation of the database, given as its test for not
  greater; \<^verbatim>\<open>OFFSET\<close> and \<^verbatim>\<open>LIMIT\<close>, which refuse negative numbers.
\<close>

fun insert_by :: "('r \<Rightarrow> 'r \<Rightarrow> bool) \<Rightarrow> 'r \<Rightarrow> 'r list \<Rightarrow> 'r list" where
  "insert_by le x [] = [x]"
| "insert_by le x (y # ys) = (if le x y then x # y # ys else y # insert_by le x ys)"

definition order_by :: "('r \<Rightarrow> 'r \<Rightarrow> bool) \<Rightarrow> 'r list \<Rightarrow> 'r list" where
  "order_by le rs = foldr (insert_by le) rs []"

definition sql_page :: "int \<Rightarrow> int \<Rightarrow> 'r list \<Rightarrow> error + 'r list" where
  "sql_page offset limit rs =
     (if offset < 0 then Inl (PqError ''2201X'')
      else if limit < 0 then Inl (PqError ''2201W'')
      else Inr (take (nat limit) (drop (nat offset) rs)))"

type_synonym collation = "string \<Rightarrow> string \<Rightarrow> bool"

text \<open>The result: the map of clients, the total the last row carried, and the error.\<close>

definition SqlGetConnectionsByOrgID ::
  "collation \<Rightarrow> OrgID \<Rightarrow> int \<Rightarrow> int \<Rightarrow> 'a db_state_scheme
    \<Rightarrow> ((ClientID \<times> ConnectorClientState) list \<times> int \<times> error option) \<times> 'a db_state_scheme" where
  "SqlGetConnectionsByOrgID coll orgId offset limit w =
     (case verifyOrgId orgId of
        Some err \<Rightarrow> (([], 0, Some err), w)
      | None \<Rightarrow>
          (case db_call w of
             (Some err, w1) \<Rightarrow> (([], 0, Some err), w1)
           | (None, w1) \<Rightarrow>
               (case db_call w1 of
                  (Some err, w2) \<Rightarrow> (([], 0, Some err), w2)
                | (None, w2) \<Rightarrow>
                    (let matching = filter (\<lambda>r. r_org_id r = orgId) (connections w2)
                     in case sql_page offset limit
                               (order_by (\<lambda>r s. coll (r_client_id r) (r_client_id s)) matching) of
                          Inl err \<Rightarrow> (([], 0, Some err), w2)
                        | Inr page \<Rightarrow>
                            ((fold (\<lambda>r m. put (r_client_id r) (located_state (r_client_id r) r) m) page [],
                              if page = [] then 0 else int (length matching), None), w2)))))"

text \<open>
  The listing of all tenants groups by account. The account column is scanned into a plain
  string, which fails on NULL and skips the row, its total included.
\<close>

fun group_by_account ::
  "row list \<Rightarrow> (AccountID \<times> (ClientID \<times> ConnectorClientState) list) list
    \<Rightarrow> (AccountID \<times> (ClientID \<times> ConnectorClientState) list) list" where
  "group_by_account [] m = m"
| "group_by_account (r # rs) m =
     (case r_account r of
        None \<Rightarrow> group_by_account rs m
      | Some account \<Rightarrow>
          (let old = (case map_of m account of None \<Rightarrow> [] | Some clients \<Rightarrow> clients)
           in group_by_account rs
                (put account (put (r_client_id r) (located_state (r_client_id r) r) old) m)))"

definition GetAllConnections ::
  "collation \<Rightarrow> int \<Rightarrow> int \<Rightarrow> 'a db_state_scheme
    \<Rightarrow> ((AccountID \<times> (ClientID \<times> ConnectorClientState) list) list \<times> int \<times> error option)
       \<times> 'a db_state_scheme" where
  "GetAllConnections coll offset limit w =
     (case db_call w of
        (Some err, w1) \<Rightarrow> (([], 0, Some err), w1)
      | (None, w1) \<Rightarrow>
          (case db_call w1 of
             (Some err, w2) \<Rightarrow> (([], 0, Some err), w2)
           | (None, w2) \<Rightarrow>
               (let matching = filter (\<lambda>r. r_org_id r \<noteq> '''') (connections w2);
                    le = (\<lambda>r s. if r_org_id r = r_org_id s then coll (r_client_id r) (r_client_id s)
                                else coll (r_org_id r) (r_org_id s))
                in case sql_page offset limit (order_by le matching) of
                     Inl err \<Rightarrow> (([], 0, Some err), w2)
                   | Inr page \<Rightarrow>
                       ((group_by_account page [],
                         if \<exists>r\<in>set page. r_account r \<noteq> None then int (length matching) else 0, None), w2))))"

section \<open>The interface GetConnectionByClientID\<close>

text \<open>
  A lookup on behalf of a tenant. \<open>permitted org r\<close> is the access rule the implementation
  promises: what it returns comes from a row of that client with an owner, under the rule,
  and it reports a missing connection only when there is no such row.
\<close>

definition visible :: "(OrgID \<Rightarrow> row \<Rightarrow> bool) \<Rightarrow> OrgID \<Rightarrow> ClientID \<Rightarrow> row \<Rightarrow> bool" where
  "visible permitted org cid r \<longleftrightarrow> permitted org r \<and> r_org_id r \<noteq> '''' \<and> r_client_id r = cid"

locale connection_lookup =
  fixes lookup :: "('a db_state_scheme) GetConnectionByClientID"
    and permitted :: "OrgID \<Rightarrow> row \<Rightarrow> bool"
  assumes lookup_found:
      "lookup org cid w = ((c, None), w') \<Longrightarrow>
         org \<noteq> '''' \<and> cid \<noteq> ''''
         \<and> (\<exists>r\<in>set (connections w). visible permitted org cid r \<and> c = located_state cid r)"
    and lookup_missing:
      "db_up w \<Longrightarrow> lookup org cid w = ((c, Some NotFoundError), w') \<Longrightarrow>
         \<forall>r\<in>set (connections w). \<not> visible permitted org cid r"
    and lookup_up:
      "db_up w \<Longrightarrow> org \<noteq> '''' \<Longrightarrow> cid \<noteq> '''' \<Longrightarrow> lookup org cid w = ((c, Some e), w') \<Longrightarrow>
         e = NotFoundError"
    and lookup_keeps: "lookup org cid w = (res, w') \<Longrightarrow> connections w' = connections w"
begin

lemma lookup_decides:
  assumes "db_up w" and "org \<noteq> ''''" and "cid \<noteq> ''''"
  shows "snd (fst (lookup org cid w)) = None \<longleftrightarrow> (\<exists>r\<in>set (connections w). visible permitted org cid r)"
proof -
  obtain c e w' where l: "lookup org cid w = ((c, e), w')" by (cases "lookup org cid w") auto
  show ?thesis
  proof (cases e)
    case None
    then show ?thesis using l lookup_found [of org cid w c w'] by auto
  next
    case (Some x)
    then have "x = NotFoundError" using l lookup_up [OF assms] by simp
    then show ?thesis using l Some lookup_missing [OF assms(1)] by auto
  qed
qed

lemma lookup_owner:
  assumes "lookup org cid w = ((c, None), w')"
  shows "cs_ClientID c = cid \<and> cs_OrgID c \<noteq> ''''
     \<and> (\<exists>r\<in>set (connections w). r_client_id r = cid \<and> r_org_id r = cs_OrgID c
          \<and> cs_Dispatchers c = r_dispatchers r \<and> permitted org r)"
  using lookup_found [OF assms]
  by (auto simp: located_state_def visible_def deserializeDispatchers_def)

end

lemma find_Some_set: "find P xs = Some x \<Longrightarrow> x \<in> set xs \<and> P x"
  by (induction xs) (auto split: if_splits)

lemma find_None_set: "find P xs = None \<longleftrightarrow> (\<forall>x\<in>set xs. \<not> P x)"
  by (induction xs) auto

lemma impl_found:
  assumes "createGetConnectionByClientIDImpl q org cid w = ((c, None), w')"
  shows "org \<noteq> '''' \<and> cid \<noteq> '''' \<and> (\<exists>r\<in>set (connections w). q org cid r \<and> c = located_state cid r)"
  using assms
  by (auto simp: createGetConnectionByClientIDImpl_def verifyOrgId_def verifyClientId_def db_call_def
      split: option.splits if_splits dest!: find_Some_set)

lemma impl_missing:
  assumes "db_up w" and "createGetConnectionByClientIDImpl q org cid w = ((c, Some NotFoundError), w')"
  shows "\<forall>r\<in>set (connections w). \<not> q org cid r"
  using assms
  by (auto simp: createGetConnectionByClientIDImpl_def verifyOrgId_def verifyClientId_def find_None_set
      split: option.splits if_splits)

lemma impl_up:
  assumes "db_up w" and "org \<noteq> ''''" and "cid \<noteq> ''''"
    and "createGetConnectionByClientIDImpl q org cid w = ((c, Some e), w')"
  shows "e = NotFoundError"
  using assms
  by (auto simp: createGetConnectionByClientIDImpl_def verifyOrgId_def verifyClientId_def split: option.splits)

lemma impl_frame:
  "createGetConnectionByClientIDImpl q org cid w = (res, w') \<Longrightarrow> connections w' = connections w"
  by (auto simp: createGetConnectionByClientIDImpl_def db_call_def split: option.splits prod.splits if_splits)

interpretation strict: connection_lookup SqlGetConnectionByClientID "\<lambda>org r. r_org_id r = org"
  unfolding SqlGetConnectionByClientID_def
proof (unfold_locales, goal_cases)
  case (1 org cid w c w')
  then show ?case by (auto dest!: impl_found simp: visible_def strictConnectionLookupQuery_def)
next
  case (2 w org cid c w')
  then show ?case by (auto dest!: impl_missing simp: visible_def strictConnectionLookupQuery_def)
qed (auto dest: impl_up impl_frame)

interpretation relaxed: connection_lookup PermittedTenantSqlGetConnectionByClientID
  "\<lambda>org r. r_org_id r = org \<or> jsonb_exists (r_dispatchers r) satelliteWorker"
  unfolding PermittedTenantSqlGetConnectionByClientID_def
proof (unfold_locales, goal_cases)
  case (1 org cid w c w')
  then show ?case by (auto dest!: impl_found simp: visible_def relaxedConnectionLookupQuery_def)
next
  case (2 w org cid c w')
  then show ?case
    using impl_missing [OF 2] by (auto simp: visible_def relaxedConnectionLookupQuery_def)
qed (auto dest: impl_up impl_frame)

section \<open>Lemmas on the listings\<close>

lemma mset_insert_by: "mset (insert_by le x xs) = add_mset x (mset xs)"
  by (induction xs) auto

lemma mset_order_by [simp]: "mset (order_by le xs) = mset xs"
proof -
  have "mset (foldr (insert_by le) xs []) = mset xs" by (induction xs) (auto simp: mset_insert_by)
  then show ?thesis by (simp add: order_by_def)
qed

lemma set_order_by [simp]: "set (order_by le xs) = set xs"
  using mset_order_by by (metis set_mset_mset)

lemma length_order_by [simp]: "length (order_by le xs) = length xs"
  using mset_order_by by (metis size_mset)

lemma map_of_fold_put:
  "map_of (fold (\<lambda>r m. put (f r) (g r) m) rs acc) k =
     (if k \<in> f ` set rs then Some (g (last (filter (\<lambda>r. f r = k) rs))) else map_of acc k)"
proof (induction rs arbitrary: acc)
  case (Cons r rs)
  show ?case
  proof (cases "k \<in> f ` set rs")
    case True
    then have "filter (\<lambda>r. f r = k) rs \<noteq> []" by (auto simp: filter_empty_conv)
    with True Cons show ?thesis by simp
  next
    case False
    then have "filter (\<lambda>r. f r = k) rs = []" by (auto simp: filter_empty_conv)
    with False Cons show ?thesis by auto
  qed
qed simp

lemma pages_cover:
  assumes "n > 0"
  shows "x \<in> set xs \<longleftrightarrow> (\<exists>k. x \<in> set (take n (drop (k * n) xs)))"
proof
  assume "x \<in> set xs"
  then obtain i where i: "i < length xs" "xs ! i = x" by (auto simp: in_set_conv_nth)
  let ?k = "i div n"
  have "i mod n < n" using assms by simp
  moreover have d: "?k * n + i mod n = i" by simp
  moreover have "i mod n < length xs - ?k * n" using d i(1) by linarith
  ultimately have "i mod n < length (take n (drop (?k * n) xs))" by simp
  moreover have "take n (drop (?k * n) xs) ! (i mod n) = x"
  proof -
    have "?k * n \<le> length xs" using d i(1) by linarith
    then show ?thesis using \<open>i mod n < n\<close> d i(2) nth_drop [of "?k * n" xs "i mod n"] by simp
  qed
  ultimately show "\<exists>k. x \<in> set (take n (drop (k * n) xs))" using nth_mem by blast
next
  assume "\<exists>k. x \<in> set (take n (drop (k * n) xs))"
  then show "x \<in> set xs" by (auto dest: in_set_takeD in_set_dropD)
qed

lemma unique_client_rows:
  "unique_clients w \<Longrightarrow> r \<in> set (connections w) \<Longrightarrow> s \<in> set (connections w) \<Longrightarrow>
     r_client_id r = r_client_id s \<Longrightarrow> r = s"
  by (auto simp: unique_clients_def distinct_map inj_on_def)

lemma org_page:
  assumes "db_up w" and "org \<noteq> ''''" and "0 \<le> offset" and "0 \<le> limit"
  shows "fst (SqlGetConnectionsByOrgID coll org offset limit w) =
     (let matching = filter (\<lambda>r. r_org_id r = org) (connections w);
          page = take (nat limit) (drop (nat offset)
                   (order_by (\<lambda>r s. coll (r_client_id r) (r_client_id s)) matching))
      in (fold (\<lambda>r m. put (r_client_id r) (located_state (r_client_id r) r) m) page [],
          if page = [] then 0 else int (length matching), None))"
  using assms by (simp add: SqlGetConnectionsByOrgID_def verifyOrgId_def sql_page_def Let_def)

lemma page_entries:
  assumes "unique_clients w" and "set page \<subseteq> set (connections w)"
  shows "map_of (fold (\<lambda>r m. put (r_client_id r) (located_state (r_client_id r) r) m) page []) cid = Some c
     \<longleftrightarrow> (\<exists>r\<in>set page. r_client_id r = cid \<and> c = located_state cid r)"
proof (cases "cid \<in> r_client_id ` set page")
  case True
  then obtain r where r: "r \<in> set page" "r_client_id r = cid" by auto
  have "filter (\<lambda>r. r_client_id r = cid) page \<noteq> []" using r by (auto simp: filter_empty_conv)
  then have "last (filter (\<lambda>r. r_client_id r = cid) page) \<in> set (filter (\<lambda>r. r_client_id r = cid) page)"
    by (rule last_in_set)
  moreover have only: "s = r" if "s \<in> set page" "r_client_id s = cid" for s
    by (rule unique_client_rows [OF assms(1)]) (use that r assms(2) in auto)
  ultimately have "last (filter (\<lambda>r. r_client_id r = cid) page) = r" by simp
  then have "map_of (fold (\<lambda>r m. put (r_client_id r) (located_state (r_client_id r) r) m) page []) cid
      = Some (located_state cid r)"
    using True r by (simp add: map_of_fold_put)
  moreover have "(\<exists>s\<in>set page. r_client_id s = cid \<and> c = located_state cid s) \<longleftrightarrow> c = located_state cid r"
    using r only by blast
  ultimately show ?thesis by auto
next
  case False
  then show ?thesis by (auto simp: map_of_fold_put)
qed

section \<open>Properties\<close>

text \<open>
  C15: Tenant isolation of the strict lookup. When the database answers, a tenant finds a
  client exactly when the client has a row that the tenant owns; what it gets carries the
  tenant's own organisation, and no lookup changes the table.
\<close>

theorem strict_lookup_isolation:
  assumes "db_up w" and "org \<noteq> ''''" and "cid \<noteq> ''''"
    and "SqlGetConnectionByClientID org cid w = ((c, err), w')"
  shows "(err = None \<longleftrightarrow> (\<exists>r\<in>set (connections w). r_client_id r = cid \<and> r_org_id r = org))
     \<and> (err = None \<longrightarrow> cs_OrgID c = org \<and> cs_ClientID c = cid)
     \<and> connections w' = connections w"
proof -
  have "err = None \<longrightarrow> cs_OrgID c = org \<and> cs_ClientID c = cid"
    using strict.lookup_owner [of org cid w c w'] assms(4) by auto
  then show ?thesis
    using strict.lookup_decides [OF assms(1-3)] strict.lookup_keeps [OF assms(4)] assms(2,4)
    by (auto simp: visible_def)
qed

definition example_row1 :: row where
  "example_row1 =
     register_insert 1 (zero_ConnectorClientState\<lparr>cs_ClientID := ''c1'', cs_OrgID := ''o1''\<rparr>) None 0 (\<lambda>t. t)"

definition example_row2 :: row where
  "example_row2 =
     register_insert 2 (zero_ConnectorClientState\<lparr>cs_ClientID := ''c2'', cs_OrgID := ''o2'',
        cs_Dispatchers := JObj [(''foreman_rh_cloud'', JObj [])]\<rparr>) None 0 (\<lambda>t. t)"

definition example_table :: db_state where
  "example_table = example_db\<lparr>connections := [example_row1, example_row2], next_id := 3\<rparr>"

lemma example_table_rows: "set (connections example_table) = {example_row1, example_row2}"
  by (simp add: example_table_def)

lemma example_rows_simps:
  "r_client_id example_row1 = ''c1''" "r_org_id example_row1 = ''o1''"
  "r_client_id example_row2 = ''c2''" "r_org_id example_row2 = ''o2''"
  "r_dispatchers example_row1 = JNull"
  "r_dispatchers example_row2 = JObj [(''foreman_rh_cloud'', JObj [])]"
  by (simp_all add: example_row1_def example_row2_def register_insert_def zero_ConnectorClientState_def)

lemma example_table_up: "db_up example_table" "unique_clients example_table"
  by (simp_all add: db_up_def example_table_def example_db_def unique_clients_def example_rows_simps)
theorem strict_lookup_isolation_witness:
  "snd (fst (SqlGetConnectionByClientID ''o1'' ''c1'' example_table)) = None
     \<and> snd (fst (SqlGetConnectionByClientID ''o2'' ''c1'' example_table)) \<noteq> None"
  using strict_lookup_isolation [OF example_table_up(1), of "''o1''" "''c1''"
      "fst (fst (SqlGetConnectionByClientID ''o1'' ''c1'' example_table))"
      "snd (fst (SqlGetConnectionByClientID ''o1'' ''c1'' example_table))"
      "snd (SqlGetConnectionByClientID ''o1'' ''c1'' example_table)"]
    strict_lookup_isolation [OF example_table_up(1), of "''o2''" "''c1''"
      "fst (fst (SqlGetConnectionByClientID ''o2'' ''c1'' example_table))"
      "snd (fst (SqlGetConnectionByClientID ''o2'' ''c1'' example_table))"
      "snd (SqlGetConnectionByClientID ''o2'' ''c1'' example_table)"]
  by (auto simp: example_table_rows example_rows_simps)

text \<open>
  C16: Relaxed access. The relaxed lookup gives a tenant its own connections and, of other
  tenants, exactly those with the Satellite worker; a connection without a tenant is given
  to nobody. The state returned names the owner, not the caller.
\<close>

theorem relaxed_lookup_access:
  assumes "db_up w" and "org \<noteq> ''''" and "cid \<noteq> ''''"
    and "PermittedTenantSqlGetConnectionByClientID org cid w = ((c, err), w')"
  shows "(err = None \<longleftrightarrow> (\<exists>r\<in>set (connections w). r_client_id r = cid \<and> r_org_id r \<noteq> ''''
              \<and> (r_org_id r = org \<or> jsonb_exists (r_dispatchers r) satelliteWorker)))
     \<and> (err = None \<longrightarrow> cs_OrgID c \<noteq> ''''
          \<and> (cs_OrgID c = org \<or> jsonb_exists (cs_Dispatchers c) satelliteWorker)
          \<and> (\<exists>r\<in>set (connections w). r_client_id r = cid \<and> r_org_id r = cs_OrgID c))"
proof -
  have "err = None \<longrightarrow> cs_OrgID c \<noteq> ''''
          \<and> (cs_OrgID c = org \<or> jsonb_exists (cs_Dispatchers c) satelliteWorker)
          \<and> (\<exists>r\<in>set (connections w). r_client_id r = cid \<and> r_org_id r = cs_OrgID c)"
    using relaxed.lookup_owner [of org cid w c w'] assms(4) by auto
  then show ?thesis
    using relaxed.lookup_decides [OF assms(1-3)] assms(4) by (auto simp: visible_def)
qed

theorem relaxed_lookup_access_witness:
  "snd (fst (PermittedTenantSqlGetConnectionByClientID ''o1'' ''c2'' example_table)) = None
     \<and> snd (fst (PermittedTenantSqlGetConnectionByClientID ''o2'' ''c1'' example_table)) \<noteq> None"
  using relaxed_lookup_access [OF example_table_up(1), of "''o1''" "''c2''"
      "fst (fst (PermittedTenantSqlGetConnectionByClientID ''o1'' ''c2'' example_table))"
      "snd (fst (PermittedTenantSqlGetConnectionByClientID ''o1'' ''c2'' example_table))"
      "snd (PermittedTenantSqlGetConnectionByClientID ''o1'' ''c2'' example_table)"]
    relaxed_lookup_access [OF example_table_up(1), of "''o2''" "''c1''"
      "fst (fst (PermittedTenantSqlGetConnectionByClientID ''o2'' ''c1'' example_table))"
      "snd (fst (PermittedTenantSqlGetConnectionByClientID ''o2'' ''c1'' example_table))"
      "snd (PermittedTenantSqlGetConnectionByClientID ''o2'' ''c1'' example_table)"]
  by (auto simp: example_table_rows example_rows_simps satelliteWorker_def)

text \<open>
  C28: Walking the pages of a tenant's connections with a positive limit shows each of the
  tenant's clients, with its row's data, and nothing else, whatever the collation; every
  page that is not empty carries the true total.
\<close>

theorem org_listing_pages:
  assumes "db_up w" and "unique_clients w" and "org \<noteq> ''''" and "0 < limit"
  shows "((\<exists>k. map_of (fst (fst (SqlGetConnectionsByOrgID coll org (int k * limit) limit w))) cid = Some c)
       \<longleftrightarrow> (\<exists>r\<in>set (connections w). r_org_id r = org \<and> r_client_id r = cid \<and> c = located_state cid r))
     \<and> (\<forall>k. fst (fst (SqlGetConnectionsByOrgID coll org (int k * limit) limit w)) \<noteq> [] \<longrightarrow>
          snd (fst (SqlGetConnectionsByOrgID coll org (int k * limit) limit w))
            = (int (length (filter (\<lambda>r. r_org_id r = org) (connections w))), None))"
proof -
  let ?m = "filter (\<lambda>r. r_org_id r = org) (connections w)"
  let ?s = "order_by (\<lambda>r s. coll (r_client_id r) (r_client_id s)) ?m"
  let ?page = "\<lambda>k. take (nat limit) (drop (k * nat limit) ?s)"
  have off: "nat (int k * limit) = k * nat limit" for k
    using assms(4) by (simp add: nat_mult_distrib)
  have pg: "fst (SqlGetConnectionsByOrgID coll org (int k * limit) limit w) =
      (fold (\<lambda>r m. put (r_client_id r) (located_state (r_client_id r) r) m) (?page k) [],
       if ?page k = [] then 0 else int (length ?m), None)" for k
    using org_page [OF assms(1,3), of "int k * limit" limit coll] assms(4) by (simp add: off Let_def)
  have sub: "set (?page k) \<subseteq> set (connections w)" for k
    by (auto dest!: in_set_takeD in_set_dropD)
  have "(\<exists>k. map_of (fst (fst (SqlGetConnectionsByOrgID coll org (int k * limit) limit w))) cid = Some c)
      \<longleftrightarrow> (\<exists>k. \<exists>r\<in>set (?page k). r_client_id r = cid \<and> c = located_state cid r)"
    by (simp only: pg fst_conv page_entries [OF assms(2) sub])
  also have "\<dots> \<longleftrightarrow> (\<exists>r\<in>set ?s. r_client_id r = cid \<and> c = located_state cid r)"
    using pages_cover [of "nat limit" _ ?s] assms(4) by auto
  finally have "(\<exists>k. map_of (fst (fst (SqlGetConnectionsByOrgID coll org (int k * limit) limit w))) cid = Some c)
       \<longleftrightarrow> (\<exists>r\<in>set (connections w). r_org_id r = org \<and> r_client_id r = cid \<and> c = located_state cid r)"
    by auto
  moreover have "\<forall>k. fst (fst (SqlGetConnectionsByOrgID coll org (int k * limit) limit w)) \<noteq> [] \<longrightarrow>
      snd (fst (SqlGetConnectionsByOrgID coll org (int k * limit) limit w)) = (int (length ?m), None)"
    by (auto simp: pg)
  ultimately show ?thesis by blast
qed

theorem org_listing_pages_witness:
  "\<exists>k. map_of (fst (fst (SqlGetConnectionsByOrgID (\<lambda>a b. True) ''o1'' (int k * 5) 5 example_table))) ''c1''
     = Some (located_state ''c1'' example_row1)"
  using org_listing_pages [OF example_table_up, of "''o1''" 5 "\<lambda>a b. True" "''c1''"
      "located_state ''c1'' example_row1"]
  by (auto simp: example_table_rows example_rows_simps)

end
