(* ===== verification/Connection_Maintenance.thy ===== *)
theory Connection_Maintenance
  imports Connection_Locator Sources_Recorder
begin

text \<open>
  The two periodic jobs: the one that reports hosts to the inventory again before their
  record goes stale (\<^verbatim>\<open>stale_connection_locator.go\<close>,
  \<^verbatim>\<open>inventory_stale_timestamp_updater.go\<close>), and the one that looks up tenants that could
  not be found (\<^verbatim>\<open>tenantless_connection_locator.go\<close>,
  \<^verbatim>\<open>tenantless_connection_updater.go\<close>). Each selects a chunk of rows and hands the
  resulting states to a callback, one after the other.
\<close>

section \<open>Selecting rows\<close>

type_synonym 'w ConnectionProcessor = "ConnectorClientState \<Rightarrow> ('w, error option) action"

text \<open>The loop over the rows ignores the errors of the callback.\<close>

fun process_all :: "'w ConnectionProcessor \<Rightarrow> ConnectorClientState list \<Rightarrow> ('w, error option) action" where
  "process_all processConnection [] w = (Ret None, w)"
| "process_all processConnection (c # cs) w =
     and_then (processConnection c w) (\<lambda>err w1. process_all processConnection cs w1)"

text \<open>
  Preparing, querying and reading a chunk. A failing call ends the process
  (\<^verbatim>\<open>LogFatalError\<close>). A row whose counter is NULL fails to scan and is skipped.
\<close>

definition process_chunk ::
  "(row \<Rightarrow> bool) \<Rightarrow> (row \<Rightarrow> row \<Rightarrow> bool) \<Rightarrow> int \<Rightarrow> (row \<Rightarrow> ConnectorClientState option)
    \<Rightarrow> ('a db_state_scheme) ConnectionProcessor \<Rightarrow> ('a db_state_scheme, error option) action" where
  "process_chunk cond le chunkSize scan processConnection w =
     (case db_call w of
        (Some err, w1) \<Rightarrow> (Exit, w1)
      | (None, w1) \<Rightarrow>
          (case db_call w1 of
             (Some err, w2) \<Rightarrow> (Exit, w2)
           | (None, w2) \<Rightarrow>
               (case sql_page 0 chunkSize (order_by le (filter cond (connections w2))) of
                  Inl err \<Rightarrow> (Exit, w2)
                | Inr rows \<Rightarrow> process_all processConnection (List.map_filter scan rows) w2)))"

definition stale_query :: "time \<Rightarrow> row \<Rightarrow> bool" where
  "stale_query cutoff r \<longleftrightarrow>
     r_org_id r \<noteq> '''' \<and> r_canonical_facts r \<noteq> JObj []
     \<and> (jsonb_exists (r_dispatchers r) ''rhc-worker-playbook''
        \<or> jsonb_exists (r_dispatchers r) ''package-manager'')
     \<and> r_stale_timestamp r < cutoff"

definition stale_scan :: "row \<Rightarrow> ConnectorClientState option" where
  "stale_scan r =
     map_option (\<lambda>count. (located_state (r_client_id r) r)\<lparr>cs_TenantLookupFailureCount := count\<rparr>)
       (r_tenant_lookup_failure_count r)"

definition ProcessStaleConnections ::
  "time \<Rightarrow> int \<Rightarrow> ('a db_state_scheme) ConnectionProcessor \<Rightarrow> ('a db_state_scheme, error option) action" where
  "ProcessStaleConnections staleTimeCutoff chunkSize processConnection w =
     process_chunk (stale_query (pg_timestamp w staleTimeCutoff))
       (\<lambda>r s. r_stale_timestamp r \<le> r_stale_timestamp s) chunkSize stale_scan processConnection w"

definition tenantless_query :: "time \<Rightarrow> int \<Rightarrow> row \<Rightarrow> bool" where
  "tenantless_query cutoff maxFailures r \<longleftrightarrow>
     r_org_id r = ''''
     \<and> (case r_tenant_lookup_timestamp r of None \<Rightarrow> False | Some t \<Rightarrow> t < cutoff)
     \<and> (case r_tenant_lookup_failure_count r of None \<Rightarrow> False | Some n \<Rightarrow> n < maxFailures)"

definition lookup_time :: "row \<Rightarrow> time" where
  "lookup_time r = (case r_tenant_lookup_timestamp r of None \<Rightarrow> zero_time | Some t \<Rightarrow> t)"

definition tenantless_scan :: "row \<Rightarrow> ConnectorClientState option" where
  "tenantless_scan r =
     (if r_tenant_lookup_failure_count r = None then None
      else map_option (\<lambda>t. (located_state (r_client_id r) r)\<lparr>cs_TenantLookupTimestamp := t\<rparr>)
             (r_tenant_lookup_timestamp r))"

definition ProcessTenantlessConnections ::
  "time \<Rightarrow> int \<Rightarrow> int \<Rightarrow> ('a db_state_scheme) ConnectionProcessor
    \<Rightarrow> ('a db_state_scheme, error option) action" where
  "ProcessTenantlessConnections staleTimeCutoff chunkSize maxTenantLookupFailures processConnection w =
     process_chunk (tenantless_query (pg_timestamp w staleTimeCutoff) maxTenantLookupFailures)
       (\<lambda>r s. lookup_time r \<le> lookup_time s) chunkSize tenantless_scan processConnection w"

section \<open>Recording outcomes\<close>

text \<open>Prepare and execute an UPDATE; \<open>f\<close> gets the time \<^verbatim>\<open>NOW()\<close> of the statement.\<close>

definition exec_update ::
  "(row \<Rightarrow> bool) \<Rightarrow> (time \<Rightarrow> row \<Rightarrow> row) \<Rightarrow> 'a db_state_scheme \<Rightarrow> error option \<times> 'a db_state_scheme" where
  "exec_update cond f w =
     (case db_call w of
        (Some err, w1) \<Rightarrow> (Some err, w1)
      | (None, w1) \<Rightarrow>
          (case db_call w1 of
             (Some err, w2) \<Rightarrow> (Some err, w2)
           | (None, w2) \<Rightarrow>
               (None, w2\<lparr>connections := sql_update cond (f (sql_now w1)) (connections w2)\<rparr>)))"

definition RecordUpdatedStaleTimestamp ::
  "ConnectorClientState \<Rightarrow> ('a db_state_scheme, unit) action" where
  "RecordUpdatedStaleTimestamp rhcClient w =
     (case exec_update (\<lambda>r. r_org_id r = cs_OrgID rhcClient \<and> r_client_id r = cs_ClientID rhcClient)
             (\<lambda>now r. r\<lparr>r_stale_timestamp := now, r_tenant_lookup_timestamp := None,
                        r_tenant_lookup_failure_count := Some 0\<rparr>) w of
        (Some err, w1) \<Rightarrow> (Exit, w1)
      | (None, w1) \<Rightarrow> (Ret (), w1))"

definition RecordFailedTenantLookup ::
  "ConnectorClientState \<Rightarrow> 'a db_state_scheme \<Rightarrow> error option \<times> 'a db_state_scheme" where
  "RecordFailedTenantLookup rhcClient w =
     exec_update (\<lambda>r. r_client_id r = cs_ClientID rhcClient)
       (\<lambda>now r. r\<lparr>r_org_id := '''', r_account := Some '''', r_tenant_lookup_timestamp := Some now,
                  r_tenant_lookup_failure_count :=
                    map_option (\<lambda>n. n + 1) (r_tenant_lookup_failure_count r)\<rparr>) w"

definition RecordSuccessfulTenantLookup ::
  "ConnectorClientState \<Rightarrow> 'a db_state_scheme \<Rightarrow> error option \<times> 'a db_state_scheme" where
  "RecordSuccessfulTenantLookup rhcClient w =
     exec_update (\<lambda>r. r_client_id r = cs_ClientID rhcClient)
       (\<lambda>now r. r\<lparr>r_org_id := cs_OrgID rhcClient, r_account := Some (cs_Account rhcClient),
                  r_tenant_lookup_failure_count := Some 0, r_tenant_lookup_timestamp := None\<rparr>) w"

section \<open>The jobs\<close>

definition one_hour :: duration where
  "one_hour = 3600000000000"

definition calculateStaleCutoffTime ::
  "duration \<Rightarrow> 'a runtime_scheme \<Rightarrow> time \<times> 'a runtime_scheme" where
  "calculateStaleCutoffTime staleTimeOffset w =
     (let offset = staleTimeOffset - one_hour; (now, w1) = time_now w
      in (time_add now (- offset), w1))"

definition tenantless_callback ::
  "('a db_state_scheme) AccountIdResolver \<Rightarrow> ('a db_state_scheme) ConnectionProcessor" where
  "tenantless_callback accountResolver rhcClient w =
     and_then (accountResolver (cs_ClientID rhcClient) w) (\<lambda>(identity, account, orgId, err) w1.
       case err of
         Some e \<Rightarrow> (let (dberr, w2) = RecordFailedTenantLookup rhcClient w1 in (Ret (Some e), w2))
       | None \<Rightarrow>
           (let (dberr, w2) = RecordSuccessfulTenantLookup
                                (rhcClient\<lparr>cs_Account := account, cs_OrgID := orgId\<rparr>) w1
            in (Ret None, w2)))"

definition stale_callback ::
  "('a db_state_scheme) AccountIdResolver \<Rightarrow> ('a db_state_scheme) ConnectedClientRecorder
    \<Rightarrow> ('a db_state_scheme) ConnectionProcessor" where
  "stale_callback accountResolver connectedClientRecorder rhcClient w =
     and_then (accountResolver (cs_ClientID rhcClient) w) (\<lambda>(identity, account, orgId, err) w1.
       case err of
         Some e \<Rightarrow> (let (dberr, w2) = RecordFailedTenantLookup rhcClient w1 in (Ret (Some e), w2))
       | None \<Rightarrow>
           and_then (connectedClientRecorder identity rhcClient w1) (\<lambda>recErr w2.
             case recErr of
               Some e \<Rightarrow> (Ret (Some e), w2)
             | None \<Rightarrow> and_then (RecordUpdatedStaleTimestamp rhcClient w2) (\<lambda>u w3. (Ret None, w3))))"

definition TenantlessConnectionUpdater ::
  "Config \<Rightarrow> ('a db_state_scheme) AccountIdResolver \<Rightarrow> ('a db_state_scheme, error option) action" where
  "TenantlessConnectionUpdater cfg accountResolver w =
     (let (now, w1) = time_now w;
          tooOldIfBeforeThisTime = time_add now (- TenantlessConnectionTimestampOffset cfg)
      in ProcessTenantlessConnections tooOldIfBeforeThisTime (TenantlessConnectionUpdaterChunkSize cfg)
           (TenantlessConnectionMaxLookupFailures cfg) (tenantless_callback accountResolver) w1)"

definition InventoryStaleTimestampUpdater ::
  "Config \<Rightarrow> ('a db_state_scheme) AccountIdResolver \<Rightarrow> ('a db_state_scheme) ConnectedClientRecorder
    \<Rightarrow> ('a db_state_scheme, error option) action" where
  "InventoryStaleTimestampUpdater cfg accountResolver connectedClientRecorder w =
     (let (tooOldIfBeforeThisTime, w1) = calculateStaleCutoffTime (InventoryStaleTimestampOffset cfg) w
      in ProcessStaleConnections tooOldIfBeforeThisTime (InventoryStaleTimestampUpdaterChunkSize cfg)
           (stale_callback accountResolver connectedClientRecorder) w1)"

section \<open>Lemmas on the chunk loop\<close>

lemma exec_update_cases:
  assumes "exec_update cond f w = (r, w')"
  obtains (failed) e where "r = Some e" "connections w' = connections w"
    | (updated) now where "r = None" "connections w' = sql_update cond (f now) (connections w)"
proof (cases "db_fault w (db_calls w)")
  case (Some e)
  then show ?thesis using assms failed [of e] by (auto simp: exec_update_def db_call_def)
next
  case None
  show ?thesis
  proof (cases "db_fault w (Suc (db_calls w))")
    case (Some e)
    then show ?thesis using None assms failed [of e] by (auto simp: exec_update_def db_call_def)
  next
    case none: None
    then show ?thesis
      using None assms updated [of "sql_now (w\<lparr>db_calls := Suc (db_calls w)\<rparr>)"]
      by (auto simp: exec_update_def db_call_def)
  qed
qed

lemma exec_update_frame:
  "exec_update cond f w = (r, w') \<Longrightarrow>
     pg_timestamp w' = pg_timestamp w \<and> db_fault w' = db_fault w \<and> next_id w' = next_id w"
  by (auto simp: exec_update_def db_call_def split: option.splits prod.splits)

text \<open>
  A property of the states still to process and of the table that every callback hands on
  holds, for what is left, when the loop ends, however it ends.
\<close>

lemma process_all_rule:
  assumes step: "\<And>c cs w r w'. P (c # cs) w \<Longrightarrow> cb c w = (r, w') \<Longrightarrow> P cs w'"
    and "P cs w" and "process_all cb cs w = (r, w')"
  shows "\<exists>rest. P rest w'"
  using assms(2,3)
proof (induction cs arbitrary: w)
  case (Cons c cs)
  obtain b w1 where b: "cb c w = (b, w1)" by (cases "cb c w")
  have p: "P cs w1" using step [OF Cons.prems(1) b] .
  show ?case
  proof (cases b)
    case (Ret x)
    then show ?thesis using Cons.IH [OF p] Cons.prems(2) b by simp
  qed (use p Cons.prems(2) b in auto)
qed auto

lemma process_chunk_rule:
  assumes step: "\<And>c cs w r w'. P (c # cs) w \<Longrightarrow> cb c w = (r, w') \<Longrightarrow> P cs w'"
    and start: "\<And>rows u. set rows \<subseteq> {r \<in> set (connections w). cond r} \<Longrightarrow>
        (unique_clients w \<Longrightarrow> distinct (map r_client_id rows)) \<Longrightarrow> connections u = connections w \<Longrightarrow>
        P (List.map_filter scan rows) u"
    and run: "process_chunk cond le chunk scan cb w = (r, w')"
  shows "\<exists>rest. P rest w'"
proof -
  have empty: "P [] u" if "connections u = connections w" for u
    using start [of "[]" u] that by (simp add: map_filter_simps)
  let ?o = "order_by le (filter cond (connections w))"
  let ?rows = "take (nat chunk) ?o"
  have sub: "set ?rows \<subseteq> {r \<in> set (connections w). cond r}"
    using set_take_subset [of "nat chunk" ?o] by auto
  have dist: "distinct (map r_client_id ?rows)" if "unique_clients w"
  proof -
    have "mset (map r_client_id ?o) = mset (map r_client_id (filter cond (connections w)))" by simp
    moreover have "distinct (map r_client_id (filter cond (connections w)))"
      using that by (simp add: unique_clients_def distinct_map_filter)
    ultimately have "distinct (map r_client_id ?o)" by (metis mset_eq_imp_distinct_iff)
    then show ?thesis by (metis distinct_take take_map)
  qed
  obtain u where u: "connections u = connections w"
      "w' = u \<or> process_all cb (List.map_filter scan ?rows) u = (r, w')"
  proof (cases "db_fault w (db_calls w) = None \<and> db_fault w (Suc (db_calls w)) = None \<and> 0 \<le> chunk")
    case True
    then show ?thesis
      using run that [of "w\<lparr>db_calls := Suc (Suc (db_calls w))\<rparr>"]
      by (simp add: process_chunk_def db_call_def sql_page_def)
  next
    case False
    then have "connections w' = connections w"
      using run by (auto simp: process_chunk_def db_call_def sql_page_def split: option.splits if_splits)
    then show ?thesis using that by blast
  qed
  have p: "P (List.map_filter scan ?rows) u" by (rule start [OF sub dist u(1)])
  from u(2) show ?thesis
  proof
    assume "w' = u"
    then show ?thesis using empty [OF u(1)] by blast
  next
    assume loop: "process_all cb (List.map_filter scan ?rows) u = (r, w')"
    show ?thesis by (rule process_all_rule [of P cb, OF _ p loop]) (rule step)
  qed
qed

lemma map_filter_clients:
  assumes "\<And>r c. scan r = Some c \<Longrightarrow> cs_ClientID c = r_client_id r"
  shows "set (map cs_ClientID (List.map_filter scan rows)) \<subseteq> set (map r_client_id rows)"
    and "distinct (map r_client_id rows) \<Longrightarrow> distinct (map cs_ClientID (List.map_filter scan rows))"
proof -
  show s: "set (map cs_ClientID (List.map_filter scan rows)) \<subseteq> set (map r_client_id rows)" for rows
    by (induction rows) (auto simp: map_filter_simps dest: assms split: option.splits)
  show "distinct (map r_client_id rows) \<Longrightarrow> distinct (map cs_ClientID (List.map_filter scan rows))"
  proof (induction rows)
    case (Cons r rows)
    show ?case
    proof (cases "scan r")
      case None
      then show ?thesis using Cons by (simp add: map_filter_simps)
    next
      case (Some c)
      then have "cs_ClientID c \<notin> set (map cs_ClientID (List.map_filter scan rows))"
        using assms [OF Some] s [of rows] Cons.prems by auto
      then show ?thesis using Some Cons by (simp add: map_filter_simps)
    qed
  qed (simp add: map_filter_simps)
qed

lemma scan_clients:
  "stale_scan r = Some c \<Longrightarrow> cs_ClientID c = r_client_id r"
  "tenantless_scan r = Some c \<Longrightarrow> cs_ClientID c = r_client_id r"
  by (auto simp: stale_scan_def tenantless_scan_def located_state_def split: if_splits)

section \<open>The lookup budget\<close>

text \<open>
  The invariant of the tenant lookup columns: a row with a tenant has no failures, and no
  row has more failures than the limit. \<open>room\<close> says which rows may still fail.
\<close>

definition within_budget :: "int \<Rightarrow> row \<Rightarrow> bool" where
  "within_budget limit r \<longleftrightarrow>
     (\<exists>n. r_tenant_lookup_failure_count r = Some n \<and> 0 \<le> n \<and> n \<le> limit \<and> (r_org_id r \<noteq> '''' \<longrightarrow> n = 0))"

definition budget_inv :: "int \<Rightarrow> 'a db_state_scheme \<Rightarrow> bool" where
  "budget_inv limit w \<longleftrightarrow> unique_clients w \<and> (\<forall>r\<in>set (connections w). within_budget limit r)"

definition room :: "int \<Rightarrow> row \<Rightarrow> bool" where
  "room limit r \<longleftrightarrow> (\<exists>n. r_tenant_lookup_failure_count r = Some n \<and> n < limit)"

definition todo :: "int \<Rightarrow> ConnectorClientState list \<Rightarrow> 'a db_state_scheme \<Rightarrow> bool" where
  "todo limit cs w \<longleftrightarrow>
     budget_inv limit w \<and> distinct (map cs_ClientID cs)
     \<and> (\<forall>r\<in>set (connections w). r_client_id r \<in> cs_ClientID ` set cs \<longrightarrow> room limit r)"

lemma todo_cong: "connections w' = connections w \<Longrightarrow> todo limit cs w' = todo limit cs w"
  by (simp add: todo_def budget_inv_def unique_clients_def)

lemma todo_update:
  assumes "todo limit (c # cs) w"
    and "connections w' = sql_update cond f (connections w)"
    and "\<And>r. cond r \<Longrightarrow> r_client_id r = cs_ClientID c"
    and "\<And>r. r_client_id (f r) = r_client_id r"
    and "\<And>r. within_budget limit r \<Longrightarrow> room limit r \<Longrightarrow> within_budget limit (f r)"
  shows "todo limit cs w'"
proof -
  have u: "unique_clients w'"
    using assms(1,2,4) by (simp add: unique_clients_def sql_update_clients todo_def budget_inv_def)
  have "within_budget limit r' \<and> (r_client_id r' \<in> cs_ClientID ` set cs \<longrightarrow> room limit r')"
    if r': "r' \<in> set (connections w')" for r'
  proof -
    obtain r where r: "r \<in> set (connections w)" "r' = (if cond r then f r else r)"
      using r' unfolding assms(2) sql_update_set by blast
    have b: "within_budget limit r" "r_client_id r \<in> cs_ClientID ` set (c # cs) \<Longrightarrow> room limit r"
      using assms(1) r(1) by (auto simp: todo_def budget_inv_def)
    show ?thesis
    proof (cases "cond r")
      case True
      then have cl: "r_client_id r = cs_ClientID c" using assms(3) by blast
      then have "r_client_id r' \<notin> cs_ClientID ` set cs"
        using assms(1,4) r(2) True by (auto simp: todo_def)
      moreover have "within_budget limit r'" using b cl assms(5) r(2) True by simp
      ultimately show ?thesis by blast
    next
      case False
      then show ?thesis using b r(2) by auto
    qed
  qed
  then show ?thesis using u assms(1) by (auto simp: todo_def budget_inv_def)
qed

lemma todo_drop: "todo limit (c # cs) w \<Longrightarrow> todo limit cs w"
  by (auto simp: todo_def)

lemma RecordFailed_todo:
  assumes "todo limit (c # cs) w" and "RecordFailedTenantLookup c w = (e, w')"
  shows "todo limit cs w'"
  using assms(2) [unfolded RecordFailedTenantLookup_def]
proof (cases rule: exec_update_cases)
  case (failed err)
  then show ?thesis using todo_drop [OF assms(1)] todo_cong [of w' w] by simp
next
  case (updated now)
  show ?thesis
    by (rule todo_update [OF assms(1) updated(2)]) (auto simp: within_budget_def room_def)
qed

lemma RecordSuccessful_todo:
  assumes "todo limit (c # cs) w" and "cs_ClientID c' = cs_ClientID c" and "0 \<le> limit"
    and "RecordSuccessfulTenantLookup c' w = (e, w')"
  shows "todo limit cs w'"
  using assms(4) [unfolded RecordSuccessfulTenantLookup_def]
proof (cases rule: exec_update_cases)
  case (failed err)
  then show ?thesis using todo_drop [OF assms(1)] todo_cong [of w' w] by simp
next
  case (updated now)
  show ?thesis
    by (rule todo_update [OF assms(1) updated(2)]) (use assms(2,3) in \<open>auto simp: within_budget_def\<close>)
qed

lemma RecordUpdated_todo:
  assumes "todo limit (c # cs) w" and "0 \<le> limit"
    and "RecordUpdatedStaleTimestamp c w = (r, w')"
  shows "todo limit cs w'"
proof -
  obtain e where "exec_update (\<lambda>r. r_org_id r = cs_OrgID c \<and> r_client_id r = cs_ClientID c)
             (\<lambda>now r. r\<lparr>r_stale_timestamp := now, r_tenant_lookup_timestamp := None,
                        r_tenant_lookup_failure_count := Some 0\<rparr>) w = (e, w')"
    using assms(3) by (auto simp: RecordUpdatedStaleTimestamp_def split: prod.splits option.splits)
  then show ?thesis
  proof (cases rule: exec_update_cases)
    case (failed err)
    then show ?thesis using todo_drop [OF assms(1)] todo_cong [of w' w] by simp
  next
    case (updated now)
    show ?thesis
      by (rule todo_update [OF assms(1) updated(2)]) (use assms(2) in \<open>auto simp: within_budget_def\<close>)
  qed
qed

definition keeps_table :: "('a db_state_scheme \<Rightarrow> 'r \<times> 'a db_state_scheme) \<Rightarrow> bool" where
  "keeps_table f \<longleftrightarrow> (\<forall>w r w'. f w = (r, w') \<longrightarrow> connections w' = connections w)"

lemma keeps_tableD: "keeps_table f \<Longrightarrow> f w = (r, w') \<Longrightarrow> connections w' = connections w"
  by (simp add: keeps_table_def)

lemma tenantless_callback_todo:
  assumes "keeps_table (resolver (cs_ClientID c))" and "0 \<le> limit"
    and "todo limit (c # cs) w" and "tenantless_callback resolver c w = (r, w')"
  shows "todo limit cs w'"
proof -
  obtain a w1 where a: "resolver (cs_ClientID c) w = (a, w1)" by (cases "resolver (cs_ClientID c) w")
  have t1: "todo limit (c # cs) w1"
    using assms(3) todo_cong [of w1 w] keeps_tableD [OF assms(1) a] by simp
  show ?thesis
  proof (cases a)
    case (Ret x)
    obtain ident acc org err where x: "x = (ident, acc, org, err)" by (cases x) auto
    show ?thesis
    proof (cases err)
      case None
      let ?c' = "c\<lparr>cs_Account := acc, cs_OrgID := org\<rparr>"
      obtain e where "RecordSuccessfulTenantLookup ?c' w1 = (e, w')"
        using assms(4) a Ret x None by (auto simp: tenantless_callback_def split: prod.splits)
      then show ?thesis using RecordSuccessful_todo [OF t1 _ assms(2), of ?c'] by simp
    next
      case (Some y)
      obtain e where "RecordFailedTenantLookup c w1 = (e, w')"
        using assms(4) a Ret x Some by (auto simp: tenantless_callback_def split: prod.splits)
      then show ?thesis by (rule RecordFailed_todo [OF t1])
    qed
  qed (use assms(4) a todo_drop [OF t1] in \<open>auto simp: tenantless_callback_def\<close>)
qed

lemma stale_callback_todo:
  assumes "keeps_table (resolver (cs_ClientID c))" and "\<forall>i. keeps_table (recorder i c)" and "0 \<le> limit"
    and "todo limit (c # cs) w" and "stale_callback resolver recorder c w = (r, w')"
  shows "todo limit cs w'"
proof -
  obtain a w1 where a: "resolver (cs_ClientID c) w = (a, w1)" by (cases "resolver (cs_ClientID c) w")
  have t1: "todo limit (c # cs) w1"
    using assms(4) todo_cong [of w1 w] keeps_tableD [OF assms(1) a] by simp
  show ?thesis
  proof (cases a)
    case (Ret x)
    obtain ident acc org err where x: "x = (ident, acc, org, err)" by (cases x) auto
    show ?thesis
    proof (cases err)
      case None
      obtain b w2 where b: "recorder ident c w1 = (b, w2)" by (cases "recorder ident c w1")
      have t2: "todo limit (c # cs) w2"
        using t1 todo_cong [of w2 w1] keeps_tableD [OF assms(2) [rule_format] b] by simp
      obtain u w3 where u: "RecordUpdatedStaleTimestamp c w2 = (u, w3)"
        by (cases "RecordUpdatedStaleTimestamp c w2")
      have "todo limit cs w3" by (rule RecordUpdated_todo [OF t2 assms(3) u])
      moreover have "w' = w2 \<or> w' = w3"
        using assms(5) a Ret x None b u
        by (auto simp: stale_callback_def and_then_pure split: go.splits option.splits)
      ultimately show ?thesis using todo_drop [OF t2] by auto
    next
      case (Some y)
      obtain e where "RecordFailedTenantLookup c w1 = (e, w')"
        using assms(5) a Ret x Some by (auto simp: stale_callback_def split: prod.splits)
      then show ?thesis by (rule RecordFailed_todo [OF t1])
    qed
  qed (use assms(5) a todo_drop [OF t1] in \<open>auto simp: stale_callback_def\<close>)
qed

lemma todo_start:
  assumes "budget_inv limit w" and "connections u = connections w"
    and "\<And>r c. scan r = Some c \<Longrightarrow> cs_ClientID c = r_client_id r"
    and "set rows \<subseteq> {r \<in> set (connections w). cond r}" and "distinct (map r_client_id rows)"
    and "\<And>r. within_budget limit r \<Longrightarrow> cond r \<Longrightarrow> room limit r"
  shows "todo limit (List.map_filter scan rows) u"
proof -
  have "room limit r" if "r \<in> set (connections w)"
      "r_client_id r \<in> cs_ClientID ` set (List.map_filter scan rows)" for r
  proof -
    have "r_client_id r \<in> set (map r_client_id rows)"
      using map_filter_clients(1) [OF assms(3), where rows = rows] that(2) by auto
    then obtain s where s: "s \<in> set rows" "r_client_id s = r_client_id r" by auto
    then have "s \<in> set (connections w)" "cond s" using assms(4) by auto
    then have "s = r"
      using unique_client_rows [of w s r] assms(1) that(1) s(2) by (simp add: budget_inv_def)
    then show ?thesis using assms(1,6) \<open>cond s\<close> that(1) by (auto simp: budget_inv_def)
  qed
  then show ?thesis
    using assms(1,2) map_filter_clients(2) [OF assms(3,5)]
    by (auto simp: todo_def budget_inv_def unique_clients_def)
qed

lemma ProcessTenantless_budget:
  assumes "\<forall>cid. keeps_table (resolver cid)" and "0 \<le> limit" and "budget_inv limit w"
    and "ProcessTenantlessConnections cutoff chunk limit (tenantless_callback resolver) w = (r, w')"
  shows "budget_inv limit w'"
proof -
  have "\<exists>rest. todo limit rest w'"
  proof (rule process_chunk_rule [where P = "todo limit", OF _ _ assms(4) [unfolded ProcessTenantlessConnections_def]])
    fix c cs u r u' assume "todo limit (c # cs) u" "tenantless_callback resolver c u = (r, u')"
    then show "todo limit cs u'" by (rule tenantless_callback_todo [OF assms(1) [rule_format] assms(2)])
  next
    fix rows u
    assume rows: "set rows \<subseteq> {r \<in> set (connections w). tenantless_query (pg_timestamp w cutoff) limit r}"
      and d: "unique_clients w \<Longrightarrow> distinct (map r_client_id rows)" and u: "connections u = connections w"
    show "todo limit (List.map_filter tenantless_scan rows) u"
    proof (rule todo_start [OF assms(3) u scan_clients(2) rows])
      show "distinct (map r_client_id rows)" using d assms(3) by (simp add: budget_inv_def)
      show "room limit r" if "tenantless_query (pg_timestamp w cutoff) limit r" for r
        using that by (auto simp: tenantless_query_def room_def split: option.splits)
    qed
  qed
  then show ?thesis by (auto simp: todo_def)
qed

lemma ProcessStale_budget:
  assumes "\<forall>cid. keeps_table (resolver cid)" and "\<forall>i c. keeps_table (recorder i c)" and "1 \<le> limit"
    and "budget_inv limit w"
    and "ProcessStaleConnections cutoff chunk (stale_callback resolver recorder) w = (r, w')"
  shows "budget_inv limit w'"
proof -
  have "\<exists>rest. todo limit rest w'"
  proof (rule process_chunk_rule [where P = "todo limit", OF _ _ assms(5) [unfolded ProcessStaleConnections_def]])
    fix c cs u r u' assume "todo limit (c # cs) u" "stale_callback resolver recorder c u = (r, u')"
    moreover have "0 \<le> limit" using assms(3) by simp
    ultimately show "todo limit cs u'"
      using stale_callback_todo [of resolver c recorder limit cs u r u'] assms(1,2) by blast
  next
    fix rows u
    assume rows: "set rows \<subseteq> {r \<in> set (connections w). stale_query (pg_timestamp w cutoff) r}"
      and d: "unique_clients w \<Longrightarrow> distinct (map r_client_id rows)" and u: "connections u = connections w"
    show "todo limit (List.map_filter stale_scan rows) u"
    proof (rule todo_start [OF assms(4) u scan_clients(1) rows])
      show "distinct (map r_client_id rows)" using d assms(4) by (simp add: budget_inv_def)
      show "room limit r" if "within_budget limit r" "stale_query (pg_timestamp w cutoff) r" for r
        using that assms(3) by (auto simp: stale_query_def room_def within_budget_def)
    qed
  qed
  then show ?thesis by (auto simp: todo_def)
qed

lemma Register_budget:
  assumes "budget_inv limit w" and "0 \<le> limit" and "Register pq c w = (res, w')"
  shows "budget_inv limit w'"
  using assms(3)
proof (cases rule: Register_cases)
  case (failed e)
  then show ?thesis using assms(1) by (simp add: budget_inv_def unique_clients_def)
next
  case (stored u t now)
  have "within_budget limit (register_update c t now ts r)" if "within_budget limit r" for ts r
    using that assms(2)
    by (auto simp: within_budget_def register_update_def isTenantlessConnection_def)
  moreover have "within_budget limit (register_insert i c t now ts)" for i ts
    using assms(2) by (simp add: within_budget_def register_insert_def)
  ultimately show ?thesis
    using assms(1) stored
    by (auto simp: budget_inv_def unique_clients_def upsert_def sql_update_set sql_update_clients)
qed

lemma Unregister_budget:
  assumes "budget_inv limit w" and "Unregister cid w = (res, w')"
  shows "budget_inv limit w'"
  using assms(2)
  by (cases rule: Unregister_cases)
    (use assms(1) in \<open>auto simp: budget_inv_def unique_clients_def sql_delete_def distinct_map_filter\<close>)

section \<open>The jobs keep the budget\<close>

lemma BOP_keeps_table: "\<forall>cid. keeps_table (BOP_MapClientIdToAccountId gw cfg cid)"
  using BOP_frame unfolding keeps_table_def same_store_def by blast

lemma RecordConnectedClient_keeps_table: "\<forall>ident c. keeps_table (RecordConnectedClient un cfg ident c)"
  using RecordConnectedClient_frame unfolding keeps_table_def same_store_def by blast

lemma budget_inv_cong: "connections w' = connections w \<Longrightarrow> budget_inv limit w' = budget_inv limit w"
  by (simp add: budget_inv_def unique_clients_def)

lemma Configurable_keeps_table: "\<forall>cid. keeps_table (Configurable_MapClientIdToAccountId bar cid)"
  by (simp add: keeps_table_def Configurable_MapClientIdToAccountId_def)

lemma call_and_cache_keeps_table:
  assumes "\<forall>cid. keeps_table (base cid)"
  shows "keeps_table (call_and_cache lru base cid)"
  unfolding keeps_table_def
proof (intro allI impI)
  fix w r w' assume run: "call_and_cache lru base cid w = (r, w')"
  obtain g w1 where g: "base cid w = (g, w1)" by (cases "base cid w")
  have "connections w1 = connections w" by (rule keeps_tableD [OF assms [rule_format] g])
  then show "connections w' = connections w"
    using run g by (cases g) (auto simp: call_and_cache_def time_now_def Let_def)
qed

lemma Cached_keeps_table:
  assumes "\<forall>cid. keeps_table (base cid)"
  shows "\<forall>cid. keeps_table (Cached_MapClientIdToAccountId lru ttl base cid)"
  by (auto simp: keeps_table_def Cached_MapClientIdToAccountId_def time_now_def Let_def
      split: prod.splits option.splits if_splits
      dest: keeps_tableD [OF call_and_cache_keeps_table [OF assms]])

text \<open>Whatever resolver is configured, building it and asking it leave the table alone.\<close>

lemma NewAccountIdResolver_keeps_table:
  assumes "NewAccountIdResolver impl gw lru file unmarshal cfg w = (r, w')"
  shows "connections w' = connections w" and "r = Inr resolver \<Longrightarrow> \<forall>cid. keeps_table (resolver cid)"
  using assms
  by (auto simp: NewAccountIdResolver_def NewExpirableCachedAccountIdResolver_def Let_def
      split: if_splits sum.splits option.splits
      intro: Cached_keeps_table [rule_format] BOP_keeps_table [rule_format]
        Configurable_keeps_table [rule_format])

lemma TenantlessConnectionUpdater_budget:
  assumes "\<forall>cid. keeps_table (resolver cid)" and "0 \<le> TenantlessConnectionMaxLookupFailures cfg"
    and "budget_inv (TenantlessConnectionMaxLookupFailures cfg) w"
    and "TenantlessConnectionUpdater cfg resolver w = (r, w')"
  shows "budget_inv (TenantlessConnectionMaxLookupFailures cfg) w'"
proof -
  let ?w1 = "w\<lparr>ticks := Suc (ticks w)\<rparr>"
  have inv: "budget_inv (TenantlessConnectionMaxLookupFailures cfg) ?w1"
    using assms(3) budget_inv_cong [of ?w1 w] by simp
  have "ProcessTenantlessConnections
        (time_add (clock w (ticks w)) (- TenantlessConnectionTimestampOffset cfg))
        (TenantlessConnectionUpdaterChunkSize cfg) (TenantlessConnectionMaxLookupFailures cfg)
        (tenantless_callback resolver) ?w1 = (r, w')"
    using assms(4) by (simp add: TenantlessConnectionUpdater_def time_now_def)
  then show ?thesis by (rule ProcessTenantless_budget [OF assms(1,2) inv])
qed

lemma InventoryStaleTimestampUpdater_budget:
  assumes "\<forall>cid. keeps_table (resolver cid)" and "\<forall>i c. keeps_table (recorder i c)" and "1 \<le> limit"
    and "budget_inv limit w" and "InventoryStaleTimestampUpdater cfg resolver recorder w = (r, w')"
  shows "budget_inv limit w'"
proof -
  let ?w1 = "w\<lparr>ticks := Suc (ticks w)\<rparr>"
  have "budget_inv limit ?w1" using assms(4) budget_inv_cong [of ?w1 w] by simp
  then show ?thesis
    using ProcessStale_budget [OF assms(1-3)] assms(5)
    by (simp add: InventoryStaleTimestampUpdater_def calculateStaleCutoffTime_def time_now_def Let_def)
qed

section \<open>Properties\<close>

lemma find_after_update:
  assumes "db_up w" and "exec_update (\<lambda>r. r_client_id r = cid) f w = (e, w')"
    and "\<And>now r. r_client_id (f now r) = r_client_id r"
  shows "db_up w' \<and> (\<exists>now. connections w' = sql_update (\<lambda>r. r_client_id r = cid) (f now) (connections w))"
proof -
  have "db_up w'" using exec_update_frame [OF assms(2)] assms(1) by (simp add: db_up_def)
  moreover have "e = None"
    using assms(1,2) by (auto simp: exec_update_def)
  ultimately show ?thesis using assms(2) by (auto elim!: exec_update_cases)
qed



end
