(* ===== verification/Platform_Setup.thy ===== *)
theory Platform_Setup
  imports Configuration
begin

text \<open>
  How a process reaches the platform: TLS (\<^verbatim>\<open>internal/platform/utils/tls_utils/tls_utils.go\<close>),
  Kafka (\<^verbatim>\<open>internal/platform/queue/\<close>) and the database
  (\<^verbatim>\<open>internal/platform/db/connection.go\<close>), with the functions of the commands that pick the
  settings out of the configuration. Files, certificates and the SCRAM implementation are
  parameters.
\<close>

section \<open>Functional options\<close>

text \<open>
  An option function changes a settings struct or fails; both \<^verbatim>\<open>NewTlsConfig\<close> and
  \<^verbatim>\<open>NewBrokerOptions\<close> apply a list of them in order and give up at the first error. The
  functions may read the runtime \<open>'w\<close>.
\<close>

type_synonym ('s, 'w) option_func = "'s \<Rightarrow> 'w \<Rightarrow> (error + 's) \<times> 'w"

fun apply_options :: "('s, 'w) option_func list \<Rightarrow> ('s, 'w) option_func" where
  "apply_options [] s w = (Inr s, w)"
| "apply_options (opt # opts) s w =
     (case opt s w of
        (Inl err, w1) \<Rightarrow> (Inl err, w1)
      | (Inr s1, w1) \<Rightarrow> apply_options opts s1 w1)"

text \<open>An option that cannot fail and sets what it sets.\<close>

definition setting :: "('s \<Rightarrow> 's) \<Rightarrow> ('s, 'w) option_func" where
  "setting f s w = (Inr (f s), w)"

lemma apply_options_append:
  "apply_options (xs @ ys) s w =
     (case apply_options xs s w of
        (Inl err, w1) \<Rightarrow> (Inl err, w1)
      | (Inr s1, w1) \<Rightarrow> apply_options ys s1 w1)"
  by (induction xs arbitrary: s w) (auto split: prod.splits sum.splits)

lemma apply_options_setting [simp]:
  "apply_options (setting f # opts) s w = apply_options opts (f s) w"
  by (simp add: setting_def)

text \<open>What every option of a list leaves alone, the list leaves alone.\<close>

lemma apply_options_keeps:
  assumes "\<And>opt s w s' w'. opt \<in> set opts \<Longrightarrow> opt s w = (Inr s', w') \<Longrightarrow> f s' = f s"
    and "apply_options opts s w = (Inr s', w')"
  shows "f s' = f s"
  using assms
proof (induction opts arbitrary: s w)
  case Nil
  then show ?case by simp
next
  case (Cons opt opts)
  then obtain s1 w1 where 1: "opt s w = (Inr s1, w1)" "apply_options opts s1 w1 = (Inr s', w')"
    by (auto split: prod.splits sum.splits)
  have "f s' = f s1"
    by (rule Cons.IH [OF _ 1(2)]) (auto intro: Cons.prems(1))
  then show ?case
    using Cons.prems(1) [of opt, OF _ 1(1)] by simp
qed

section \<open>File names\<close>

text \<open>\<^verbatim>\<open>filepath.Clean\<close>: the shortest equivalent name, by purely lexical processing.\<close>

fun clean_step :: "bool \<Rightarrow> string \<Rightarrow> string list \<Rightarrow> string list" where
  "clean_step rooted c st =
     (if c = ''..'' then
        (case st of
           [] \<Rightarrow> (if rooted then [] else [''..''])
         | t # ts \<Rightarrow> (if t = ''..'' then ''..'' # st else ts))
      else c # st)"

definition Clean :: "string \<Rightarrow> string" where
  "Clean path =
     (let rooted = (path \<noteq> [] \<and> hd path = CHR ''/'');
          parts = filter (\<lambda>c. c \<noteq> [] \<and> c \<noteq> ''.'') (split_on CHR ''/'' path);
          body = join ''/'' (rev (fold (clean_step rooted) parts []))
      in if rooted then ''/'' @ body else if body = [] then ''.'' else body)"

section \<open>TLS\<close>

record tls_config =
  tls_MinVersion :: "16 word"
  tls_Certificates :: "string list"
  tls_RootCAs :: "string list option"
  tls_InsecureSkipVerify :: bool

text \<open>
  The files a process reads: \<^verbatim>\<open>ioutil.ReadFile\<close>, \<^verbatim>\<open>tls.LoadX509KeyPair\<close>, and the
  certificates \<^verbatim>\<open>AppendCertsFromPEM\<close> finds in the bytes of a file.
\<close>

record files =
  fs_ReadFile :: "string \<Rightarrow> error + string"
  fs_LoadX509KeyPair :: "string \<Rightarrow> string \<Rightarrow> error + string"
  fs_pem_certs :: "string \<Rightarrow> string list"

definition VersionTLS12 :: "16 word" where
  "VersionTLS12 = 0x0303"

type_synonym 'w TlsConfigFunc = "(tls_config, 'w) option_func"

definition WithCert :: "files \<Rightarrow> string \<Rightarrow> string \<Rightarrow> 'w TlsConfigFunc" where
  "WithCert fs certFilePath certKeyPath tlsConfig w =
     (case fs_LoadX509KeyPair fs certFilePath certKeyPath of
        Inl err \<Rightarrow> (Inl err, w)
      | Inr cert \<Rightarrow> (Inr (tlsConfig\<lparr>tls_Certificates := [cert]\<rparr>), w))"

definition WithCACerts :: "files \<Rightarrow> string \<Rightarrow> 'w TlsConfigFunc" where
  "WithCACerts fs caCertFilePath tlsConfig w =
     (case fs_ReadFile fs (Clean caCertFilePath) of
        Inl err \<Rightarrow> (Inl err, w)
      | Inr pemCerts \<Rightarrow> (Inr (tlsConfig\<lparr>tls_RootCAs := Some (fs_pem_certs fs pemCerts)\<rparr>), w))"

definition WithSkipVerify :: "'w TlsConfigFunc" where
  "WithSkipVerify = setting (\<lambda>tlsConfig. tlsConfig\<lparr>tls_InsecureSkipVerify := True\<rparr>)"

definition NewTlsConfig :: "'w TlsConfigFunc list \<Rightarrow> 'w \<Rightarrow> (error + tls_config) \<times> 'w" where
  "NewTlsConfig configOpts w =
     apply_options configOpts
       \<lparr>tls_MinVersion = VersionTLS12, tls_Certificates = [], tls_RootCAs = None,
        tls_InsecureSkipVerify = False\<rparr> w"

text \<open>The TLS settings of the MQTT connection.\<close>

definition buildBrokerTlsConfigFuncList :: "files \<Rightarrow> Config \<Rightarrow> error + 'w TlsConfigFunc list" where
  "buildBrokerTlsConfigFuncList fs cfg =
     (let cert = MqttBrokerTlsCertFile cfg; key = MqttBrokerTlsKeyFile cfg;
          with_cert = (if cert \<noteq> '''' \<and> key \<noteq> '''' then [WithCert fs cert key] else []);
          with_ca = (if MqttBrokerTlsCACertFile cfg \<noteq> ''''
                     then [WithCACerts fs (MqttBrokerTlsCACertFile cfg)] else []);
          with_skip = (if MqttBrokerTlsSkipVerify cfg then [WithSkipVerify] else [])
      in if \<not> (cert \<noteq> '''' \<and> key \<noteq> '''') \<and> (cert \<noteq> '''' \<or> key \<noteq> '''')
         then Inl (ErrorString ''Cert or key file specified without the other'')
         else Inr (with_cert @ with_ca @ with_skip))"

section \<open>Kafka\<close>

record SaslConfig =
  SaslMechanism :: string
  SaslUsername :: string
  SaslPassword :: string
  sc_KafkaCA :: string

record ProducerConfig =
  pc_Brokers :: "string list"
  pc_SaslConfig :: "SaslConfig option"
  pc_Topic :: string
  pc_BatchSize :: int
  pc_BatchBytes :: int
  pc_Balancer :: string

record ConsumerConfig =
  cc_Brokers :: "string list"
  cc_SaslConfig :: "SaslConfig option"
  cc_Topic :: string
  cc_GroupID :: string
  cc_ConsumerOffset :: int

text \<open>\<^verbatim>\<open>fmt\<close> writes a nil pointer to a struct with a \<^verbatim>\<open>String\<close> method as below.\<close>

definition SaslConfig_String :: "SaslConfig \<Rightarrow> string" where
  "SaslConfig_String this = fmt_line ''SaslMechanism'' (SaslMechanism this)"

definition fmt_sasl :: "SaslConfig option \<Rightarrow> string" where
  "fmt_sasl p = (case p of None \<Rightarrow> ''<nil>'' | Some s \<Rightarrow> SaslConfig_String s)"

definition ProducerConfig_String :: "ProducerConfig \<Rightarrow> string" where
  "ProducerConfig_String this =
     concat
      [fmt_line ''Brokers'' (fmt_strings (pc_Brokers this)),
       fmt_line ''SaslConfig'' (fmt_sasl (pc_SaslConfig this)),
       fmt_line ''Topic'' (pc_Topic this),
       fmt_line ''BatchSize'' (fmt_d (pc_BatchSize this)),
       fmt_line ''BatchBytes'' (fmt_d (pc_BatchBytes this)),
       fmt_line ''Balancer'' (pc_Balancer this)]"

definition ConsumerConfig_String :: "ConsumerConfig \<Rightarrow> string" where
  "ConsumerConfig_String this =
     concat
      [fmt_line ''Brokers'' (fmt_strings (cc_Brokers this)),
       fmt_line ''SaslConfig'' (fmt_sasl (cc_SaslConfig this)),
       fmt_line ''Topic'' (cc_Topic this),
       fmt_line ''GroupID'' (cc_GroupID this),
       fmt_line ''ConsumerOffset'' (fmt_d (cc_ConsumerOffset this))]"

text \<open>The mechanisms, and a SCRAM library that may refuse the credentials.\<close>

datatype scram_hash = SHA256 | SHA512

datatype mechanism = Plain string string | Scram scram_hash string string

record kafka_dialer =
  kd_Timeout :: duration
  kd_DualStack :: bool
  kd_SASLMechanism :: mechanism
  kd_TLS :: tls_config

text \<open>
  A process sees its files and the check of the SCRAM library (preparation of user name
  and password). \<open>None\<close> for a dialer is \<^verbatim>\<open>kafka.DefaultDialer\<close>.
\<close>

record kafka_env = files +
  ke_scram :: "scram_hash \<Rightarrow> string \<Rightarrow> string \<Rightarrow> error option"

text \<open>
  \<^verbatim>\<open>strings.ToLower\<close> on ASCII letters. A configured name with the letter U+0130, which Go
  lowers to an ASCII i, is outside the model.
\<close>

definition ascii_lower :: "char \<Rightarrow> char" where
  "ascii_lower c =
     (let n = of_char c :: nat in if 65 \<le> n \<and> n \<le> 90 then char_of (n + 32) else c)"

definition createSaslMechanism ::
  "kafka_env \<Rightarrow> string \<Rightarrow> string \<Rightarrow> string \<Rightarrow> error + mechanism" where
  "createSaslMechanism env saslMechanismName username password =
     (let name = map ascii_lower saslMechanismName;
          scram = (\<lambda>h text. case ke_scram env h username password of
                     Some err \<Rightarrow> Inl (Wrapped text err)
                   | None \<Rightarrow> Inr (Scram h username password))
      in if name = ''plain'' then Inr (Plain username password)
         else if name = ''scram-sha-512'' then scram SHA512 ''unable to create scram-sha-512 mechanism''
         else if name = ''scram-sha-256'' then scram SHA256 ''unable to create scram-sha-256 mechanism''
         else Inl (ErrorString (''unable to configure sasl mechanism ('' @ saslMechanismName @ '')'')))"

text \<open>A certificate file that cannot be read ends the process.\<close>

definition createTLSConfig :: "kafka_env \<Rightarrow> string \<Rightarrow> tls_config go" where
  "createTLSConfig env pathToCert =
     (case fst (NewTlsConfig
                 (if pathToCert \<noteq> '''' then [WithCACerts (files.truncate env) pathToCert] else []) ()) of
        Inl err \<Rightarrow> Exit
      | Inr tlsConfig \<Rightarrow> Ret tlsConfig)"

definition createDialer :: "kafka_env \<Rightarrow> SaslConfig option \<Rightarrow> (error + kafka_dialer option) go" where
  "createDialer env cfg =
     (case cfg of
        None \<Rightarrow> Ret (Inr None)
      | Some c \<Rightarrow>
          go_bind (createTLSConfig env (sc_KafkaCA c)) (\<lambda>tlsConfig.
            case createSaslMechanism env (SaslMechanism c) (SaslUsername c) (SaslPassword c) of
              Inl err \<Rightarrow> Ret (Inl err)
            | Inr saslMechanism \<Rightarrow>
                Ret (Inr (Some \<lparr>kd_Timeout = 10 * Second, kd_DualStack = True,
                               kd_SASLMechanism = saslMechanism, kd_TLS = tlsConfig\<rparr>))))"

text \<open>How the writer spreads messages over partitions; \<open>RoundRobin\<close> is the library's default.\<close>

datatype balancer = RoundRobin | Hash | CRC32Balancer

record kafka_writer =
  kw_Brokers :: "string list"
  kw_Topic :: string
  kw_BatchSize :: int
  kw_BatchBytes :: int
  kw_Dialer :: "kafka_dialer option"
  kw_Balancer :: balancer

record kafka_reader =
  kr_Brokers :: "string list"
  kr_Topic :: string
  kr_GroupID :: string
  kr_StartOffset :: int
  kr_Dialer :: "kafka_dialer option"

definition StartProducer :: "kafka_env \<Rightarrow> ProducerConfig \<Rightarrow> (error + kafka_writer) go" where
  "StartProducer env cfg =
     go_bind (createDialer env (pc_SaslConfig cfg)) (\<lambda>r.
       case r of
         Inl err \<Rightarrow> Ret (Inl (Wrapped ''unable to create kafka dialer'' err))
       | Inr kafkaDialer \<Rightarrow>
           Ret (Inr \<lparr>kw_Brokers = pc_Brokers cfg, kw_Topic = pc_Topic cfg,
                     kw_BatchSize = pc_BatchSize cfg, kw_BatchBytes = pc_BatchBytes cfg,
                     kw_Dialer = kafkaDialer,
                     kw_Balancer = (if pc_Balancer cfg = ''hash'' then Hash
                                    else if pc_Balancer cfg = ''crc32'' then CRC32Balancer
                                    else RoundRobin)\<rparr>))"

definition StartConsumer :: "kafka_env \<Rightarrow> ConsumerConfig \<Rightarrow> (error + kafka_reader) go" where
  "StartConsumer env cfg =
     go_bind (createDialer env (cc_SaslConfig cfg)) (\<lambda>r.
       case r of
         Inl err \<Rightarrow> Ret (Inl (Wrapped ''unable to create kafka dialer'' err))
       | Inr kafkaDialer \<Rightarrow>
           Ret (Inr \<lparr>kr_Brokers = cc_Brokers cfg, kr_Topic = cc_Topic cfg, kr_GroupID = cc_GroupID cfg,
                     kr_StartOffset = cc_ConsumerOffset cfg, kr_Dialer = kafkaDialer\<rparr>))"

text \<open>The settings of the producers and of the consumer, from the configuration.\<close>

definition kafka_sasl_config :: "Config \<Rightarrow> SaslConfig option" where
  "kafka_sasl_config cfg =
     (if KafkaSASLMechanism cfg \<noteq> ''''
      then Some \<lparr>SaslMechanism = KafkaSASLMechanism cfg, SaslUsername = KafkaUsername cfg,
                 SaslPassword = KafkaPassword cfg, sc_KafkaCA = KafkaCA cfg\<rparr>
      else None)"

definition buildRhcMessageKafkaProducerConfig :: "Config \<Rightarrow> ProducerConfig" where
  "buildRhcMessageKafkaProducerConfig cfg =
     \<lparr>pc_Brokers = RhcMessageKafkaBrokers cfg, pc_SaslConfig = kafka_sasl_config cfg,
      pc_Topic = RhcMessageKafkaTopic cfg, pc_BatchSize = RhcMessageKafkaBatchSize cfg,
      pc_BatchBytes = RhcMessageKafkaBatchBytes cfg, pc_Balancer = ''hash''\<rparr>"

definition buildRhcMessageKafkaConsumerConfig :: "Config \<Rightarrow> ConsumerConfig" where
  "buildRhcMessageKafkaConsumerConfig cfg =
     \<lparr>cc_Brokers = RhcMessageKafkaBrokers cfg, cc_SaslConfig = kafka_sasl_config cfg,
      cc_Topic = RhcMessageKafkaTopic cfg, cc_GroupID = RhcMessageKafkaConsumerGroup cfg,
      cc_ConsumerOffset = 0\<rparr>"

text \<open>
  The producer of the inventory reports, as the control message consumer configures it and
  as the job that refreshes stale hosts does: the second has no balancer.
\<close>

definition inventory_producer_config :: "Config \<Rightarrow> ProducerConfig" where
  "inventory_producer_config cfg =
     \<lparr>pc_Brokers = InventoryKafkaBrokers cfg, pc_SaslConfig = kafka_sasl_config cfg,
      pc_Topic = InventoryKafkaTopic cfg, pc_BatchSize = InventoryKafkaBatchSize cfg,
      pc_BatchBytes = InventoryKafkaBatchBytes cfg, pc_Balancer = ''crc32''\<rparr>"

definition stale_updater_producer_config :: "Config \<Rightarrow> ProducerConfig" where
  "stale_updater_producer_config cfg =
     \<lparr>pc_Brokers = InventoryKafkaBrokers cfg, pc_SaslConfig = kafka_sasl_config cfg,
      pc_Topic = InventoryKafkaTopic cfg, pc_BatchSize = InventoryKafkaBatchSize cfg,
      pc_BatchBytes = InventoryKafkaBatchBytes cfg, pc_Balancer = ''''\<rparr>"

section \<open>The database\<close>

definition buildPostgresSslConfigString :: "Config \<Rightarrow> error + string" where
  "buildPostgresSslConfigString cfg =
     (if ConnectionDatabaseSslMode cfg = ''disable'' then Inr ''sslmode=disable''
      else if ConnectionDatabaseSslMode cfg = ''verify-full''
      then Inr (''sslmode=verify-full sslrootcert='' @ ConnectionDatabaseSslRootCert cfg)
      else Inl (ErrorString (''Invalid SSL configuration for database connection: ''
                  @ ConnectionDatabaseSslMode cfg)))"

text \<open>\<^verbatim>\<open>sql.Open\<close> with the driver \<^verbatim>\<open>postgres\<close> is a library; the model gives what it is handed.\<close>

definition initializePostgresConnection :: "Config \<Rightarrow> error + string \<times> string" where
  "initializePostgresConnection cfg =
     (let psqlConnectionInfo =
            ''host='' @ ConnectionDatabaseHost cfg @ '' port='' @ fmt_d (ConnectionDatabasePort cfg)
            @ '' user='' @ ConnectionDatabaseUser cfg @ '' password='' @ ConnectionDatabasePassword cfg
            @ '' dbname='' @ ConnectionDatabaseName cfg @ '' TimeZone=UTC''
      in case buildPostgresSslConfigString cfg of
           Inl err \<Rightarrow> Inl err
         | Inr sslSettings \<Rightarrow> Inr (''postgres'', psqlConnectionInfo @ '' '' @ sslSettings))"

definition InitializeDatabaseConnection :: "Config \<Rightarrow> error + string \<times> string" where
  "InitializeDatabaseConnection cfg =
     (if ConnectionDatabaseImpl cfg = ''postgres'' then initializePostgresConnection cfg
      else Inl (ErrorString ''Invalid SQL database impl requested''))"


section \<open>Lemmas\<close>

lemmas tls_option_defs = WithCert_def WithCACerts_def WithSkipVerify_def setting_def
lemma createTLSConfig_policy:
  "createTLSConfig env ca = Ret t \<Longrightarrow> tls_MinVersion t = VersionTLS12 \<and> \<not> tls_InsecureSkipVerify t"
  by (auto simp: createTLSConfig_def NewTlsConfig_def WithCACerts_def split: sum.splits if_splits)

lemma createDialer_Some:
  assumes "createDialer env (Some c) = Ret (Inr d)"
  shows "\<exists>m t. d = Some \<lparr>kd_Timeout = 10 * Second, kd_DualStack = True, kd_SASLMechanism = m, kd_TLS = t\<rparr>
     \<and> createSaslMechanism env (SaslMechanism c) (SaslUsername c) (SaslPassword c) = Inr m
     \<and> createTLSConfig env (sc_KafkaCA c) = Ret t"
  using assms
  by (cases "createSaslMechanism env (SaslMechanism c) (SaslUsername c) (SaslPassword c)";
      cases "createTLSConfig env (sc_KafkaCA c)")
    (auto simp: createDialer_def)

lemma StartProducer_Ret_iff:
  "StartProducer env cfg = Ret (Inr writer) \<longleftrightarrow>
     (\<exists>d. createDialer env (pc_SaslConfig cfg) = Ret (Inr d)
        \<and> writer = \<lparr>kw_Brokers = pc_Brokers cfg, kw_Topic = pc_Topic cfg,
             kw_BatchSize = pc_BatchSize cfg, kw_BatchBytes = pc_BatchBytes cfg, kw_Dialer = d,
             kw_Balancer = (if pc_Balancer cfg = ''hash'' then Hash
                            else if pc_Balancer cfg = ''crc32'' then CRC32Balancer else RoundRobin)\<rparr>)"
proof (cases "createDialer env (pc_SaslConfig cfg)")
  case (Ret r)
  then show ?thesis by (cases r) (auto simp: StartProducer_def)
qed (simp_all add: StartProducer_def)

text \<open>
  The job that refreshes stale hosts writes to the inventory topic without regard to the
  key, unlike the consumer of control messages: reports on one host from the two processes
  can end up in different partitions.
\<close>

lemma stale_updater_ignores_key:
  assumes "StartProducer env (inventory_producer_config cfg) = Ret (Inr w1)"
    and "StartProducer env (stale_updater_producer_config cfg) = Ret (Inr w2)"
  shows "kw_Topic w1 = kw_Topic w2 \<and> kw_Balancer w1 = CRC32Balancer \<and> kw_Balancer w2 = RoundRobin"
  using assms
  by (auto simp: StartProducer_Ret_iff inventory_producer_config_def stale_updater_producer_config_def)

lemma Itoa_no_space: "CHR '' '' \<notin> set (Itoa i)"
proof -
  have "set (itoa_nat n) \<subseteq> digit_char ` {..<10}" for n
    by (induction n rule: itoa_nat.induct) (subst itoa_nat.simps, auto)
  moreover have "CHR '' '' \<notin> digit_char ` {..<10}"
  proof
    assume "CHR '' '' \<in> digit_char ` {..<10}"
    then obtain d where "d < 10" "CHR '' '' = digit_char d" by auto
    then have "of_char CHR '' '' = 48 + d"
      by (simp only: of_char_digit_char)
    then show False by simp
  qed
  ultimately show ?thesis
    by (auto simp: Itoa_def)
qed

section \<open>Properties\<close>

text \<open>
  C40: The TLS policy of the MQTT connection. Half a key pair is refused. When the settings
  can be built they ask for TLS 1.2 at least, verification of the broker is off only when
  the configuration says so, and client certificate and own certificate authorities are
  used exactly when they are configured.
\<close>

theorem broker_tls_policy:
  assumes "buildBrokerTlsConfigFuncList fs cfg = Inr opts" and "NewTlsConfig opts w = (Inr t, w')"
  shows "(MqttBrokerTlsCertFile cfg = '''' \<longleftrightarrow> MqttBrokerTlsKeyFile cfg = '''')
     \<and> tls_MinVersion t = VersionTLS12
     \<and> (tls_InsecureSkipVerify t \<longleftrightarrow> MqttBrokerTlsSkipVerify cfg)
     \<and> (tls_Certificates t = [] \<longleftrightarrow> MqttBrokerTlsCertFile cfg = '''')
     \<and> (tls_RootCAs t = None \<longleftrightarrow> MqttBrokerTlsCACertFile cfg = '''')"
  using assms
  by (cases "MqttBrokerTlsCertFile cfg = ''''"; cases "MqttBrokerTlsCACertFile cfg = ''''")
    (auto simp: buildBrokerTlsConfigFuncList_def NewTlsConfig_def Let_def tls_option_defs
      split: if_splits sum.splits)

definition example_files :: files where
  "example_files =
     \<lparr>fs_ReadFile = (\<lambda>f. if f = ''etc/ca.pem'' then Inr ''pem'' else Inl (ErrorString ''no such file'')),
      fs_LoadX509KeyPair = (\<lambda>c k. Inr c), fs_pem_certs = (\<lambda>s. [s])\<rparr>"

definition example_tls_config :: Config where
  "example_tls_config =
     zero_Config\<lparr>MqttBrokerTlsCACertFile := ''./etc//ca.pem'', KafkaSASLMechanism := ''SCRAM-SHA-512'',
       KafkaCA := ''etc/x/../ca.pem'', RhcMessageKafkaTopic := ''rhc'', RhcMessageKafkaBrokers := [''k1'']\<rparr>"

theorem broker_tls_policy_witness:
  "\<exists>t. fst (NewTlsConfig [WithCACerts example_files ''./etc//ca.pem''] ()) = Inr t
     \<and> tls_MinVersion t = VersionTLS12 \<and> \<not> tls_InsecureSkipVerify t \<and> tls_RootCAs t \<noteq> None"
proof -
  have b: "buildBrokerTlsConfigFuncList example_files example_tls_config =
      Inr [WithCACerts example_files ''./etc//ca.pem'' :: unit TlsConfigFunc]"
    by (simp add: buildBrokerTlsConfigFuncList_def example_tls_config_def zero_Config_def)
  have "Clean ''./etc//ca.pem'' = ''etc/ca.pem''" by code_simp
  then obtain t where t: "NewTlsConfig [WithCACerts example_files ''./etc//ca.pem''] () = (Inr t, ())"
    by (auto simp: NewTlsConfig_def WithCACerts_def example_files_def)
  from broker_tls_policy [OF b t] show ?thesis
    using t by (simp add: example_tls_config_def zero_Config_def)
qed

text \<open>
  What a process writes to its log at the start, the configuration and the settings of
  its Kafka producer or consumer, does not depend on the secrets: the keys of the other
  services, the passwords of the MQTT broker, the database and Kafka, the Kafka user and
  the Pendo key.
\<close>

theorem start_log_hides_secrets:
  fixes c :: Config
  assumes "c' = with_secrets keys mqtt database user kafka pendo c"
  shows "Config_String verb_s c' = Config_String verb_s c
     \<and> ProducerConfig_String (buildRhcMessageKafkaProducerConfig c')
         = ProducerConfig_String (buildRhcMessageKafkaProducerConfig c)
     \<and> ConsumerConfig_String (buildRhcMessageKafkaConsumerConfig c')
         = ConsumerConfig_String (buildRhcMessageKafkaConsumerConfig c)
     \<and> ProducerConfig_String (inventory_producer_config c')
         = ProducerConfig_String (inventory_producer_config c)
     \<and> ProducerConfig_String (stale_updater_producer_config c')
         = ProducerConfig_String (stale_updater_producer_config c)"
  unfolding assms
  by (intro conjI Config_String_with_secrets)
    (simp_all add: with_secrets_def ProducerConfig_String_def
      ConsumerConfig_String_def buildRhcMessageKafkaProducerConfig_def
      buildRhcMessageKafkaConsumerConfig_def inventory_producer_config_def
      stale_updater_producer_config_def kafka_sasl_config_def fmt_sasl_def SaslConfig_String_def)

theorem start_log_hides_secrets_witness:
  "ProducerConfig_String (buildRhcMessageKafkaProducerConfig
       (with_secrets [] ''a'' ''b'' ''c'' ''d'' ''e'' example_tls_config))
     = ProducerConfig_String (buildRhcMessageKafkaProducerConfig example_tls_config)"
  using start_log_hides_secrets [OF refl] by blast

text \<open>
  C0: The connection string handed to the database driver. A mode other than
  \<^verbatim>\<open>disable\<close> and \<^verbatim>\<open>verify-full\<close> is refused; otherwise, when no value has a space in it, the
  string has one word per setting, each with the configured value, the mode last.
\<close>

theorem database_settings:
  assumes "\<forall>v\<in>{ConnectionDatabaseHost cfg, ConnectionDatabaseUser cfg, ConnectionDatabasePassword cfg,
              ConnectionDatabaseName cfg, ConnectionDatabaseSslRootCert cfg}. CHR '' '' \<notin> set v"
    and "ConnectionDatabaseImpl cfg = ''postgres''"
  shows "case InitializeDatabaseConnection cfg of
       Inl err \<Rightarrow> ConnectionDatabaseSslMode cfg \<noteq> ''disable'' \<and> ConnectionDatabaseSslMode cfg \<noteq> ''verify-full''
     | Inr (driver, settings) \<Rightarrow>
         driver = ''postgres''
         \<and> split_on CHR '' '' settings =
             [''host='' @ ConnectionDatabaseHost cfg, ''port='' @ Itoa (ConnectionDatabasePort cfg),
              ''user='' @ ConnectionDatabaseUser cfg, ''password='' @ ConnectionDatabasePassword cfg,
              ''dbname='' @ ConnectionDatabaseName cfg, ''TimeZone=UTC'',
              ''sslmode='' @ ConnectionDatabaseSslMode cfg]
             @ (if ConnectionDatabaseSslMode cfg = ''disable'' then []
                else [''sslrootcert='' @ ConnectionDatabaseSslRootCert cfg])"
  using assms
  by (auto simp: InitializeDatabaseConnection_def initializePostgresConnection_def
      buildPostgresSslConfigString_def fmt_d_def split_on_append_sep split_on_no_sep Itoa_no_space Let_def)

definition example_db_config :: Config where
  "example_db_config =
     zero_Config\<lparr>ConnectionDatabaseImpl := ''postgres'', ConnectionDatabaseHost := ''db'',
       ConnectionDatabasePort := 5432, ConnectionDatabaseUser := ''u'', ConnectionDatabasePassword := ''p'',
       ConnectionDatabaseName := ''cc'', ConnectionDatabaseSslMode := ''disable''\<rparr>"

theorem database_settings_witness:
  "\<exists>s. InitializeDatabaseConnection example_db_config = Inr (''postgres'', s)
     \<and> last (split_on CHR '' '' s) = ''sslmode=disable''"
proof -
  have "ConnectionDatabaseImpl example_db_config = ''postgres''"
    by (simp add: example_db_config_def zero_Config_def)
  from database_settings [OF _ this] show ?thesis
    by (simp add: example_db_config_def zero_Config_def split: sum.splits prod.splits)
qed

text \<open>The values are not quoted: a password with a space in it sets another setting.\<close>

lemma database_password_injects:
  "\<exists>s. InitializeDatabaseConnection (example_db_config\<lparr>ConnectionDatabasePassword := ''p host=evil''\<rparr>)
       = Inr (''postgres'', s) \<and> ''host=evil'' \<in> set (split_on CHR '' '' s)"
  by (simp add: InitializeDatabaseConnection_def initializePostgresConnection_def
      buildPostgresSslConfigString_def example_db_config_def zero_Config_def fmt_d_def
      split_on_append_sep Itoa_no_space)

end
