(* ===== verification/Job_Processes.thy ===== *)
theory Job_Processes
  imports Control_Pipeline Connection_Maintenance Platform_Setup Lifecycle
begin

text \<open>
  The two periodic jobs as processes (\<^verbatim>\<open>startTenantlessConnectionUpdater\<close> and
  \<^verbatim>\<open>startInventoryStaleTimestampUpdater\<close> in \<^verbatim>\<open>cmd/cloud-connector/\<close>), built from the
  configuration, and what all processes together do to the table: the budget of tenant
  lookups is kept whatever the order of their operations and whatever resolver is chosen.
\<close>

section \<open>The processes\<close>

definition new_resolver ::
  "'c libraries \<Rightarrow> error + string \<Rightarrow> (string \<Rightarrow> error + (ClientID \<rightharpoonup> account_entry)) \<Rightarrow> Config
    \<Rightarrow> (('c, 'a) system_scheme, (('c, 'a) system_scheme) AccountIdResolver) action" where
  "new_resolver lib file unmarshal cfg w =
     (case NewAccountIdResolver (ClientIdToAccountIdImpl cfg) (lib_gateway lib) (lib_lru lib)
             file unmarshal cfg w of (r, w') \<Rightarrow> (must r, w'))"

text \<open>The error of the run is dropped.\<close>

definition startTenantlessConnectionUpdater ::
  "'c libraries \<Rightarrow> error + string \<Rightarrow> (string \<Rightarrow> error + (ClientID \<rightharpoonup> account_entry)) \<Rightarrow> Config
    \<Rightarrow> (('c, 'a) system_scheme, unit) action" where
  "startTenantlessConnectionUpdater lib file unmarshal cfg w =
     and_then (must (InitializeDatabaseConnection cfg), w) (\<lambda>databaseConn w1.
     and_then (new_resolver lib file unmarshal cfg w1) (\<lambda>accountResolver w2.
     and_then (TenantlessConnectionUpdater cfg accountResolver w2) (\<lambda>err w3. (Ret (), w3))))"

text \<open>
  Closing the producer flushes what it has buffered; its outcome is an argument, and a
  failure ends the process.
\<close>

definition startInventoryStaleTimestampUpdater ::
  "kafka_env \<Rightarrow> 'c libraries \<Rightarrow> error + string \<Rightarrow> (string \<Rightarrow> error + (ClientID \<rightharpoonup> account_entry))
    \<Rightarrow> error option \<Rightarrow> Config \<Rightarrow> (('c, 'a) system_scheme, unit) action" where
  "startInventoryStaleTimestampUpdater env lib file unmarshal closeErr cfg w =
     and_then (must (InitializeDatabaseConnection cfg), w) (\<lambda>databaseConn w1.
     and_then (new_resolver lib file unmarshal cfg w1) (\<lambda>accountResolver w2.
     and_then (go_bind (StartProducer env (stale_updater_producer_config cfg)) must, w2)
       (\<lambda>kafkaProducer w3.
     and_then (InventoryStaleTimestampUpdater cfg accountResolver
                 (RecordConnectedClient (lib_map lib) cfg) w3) (\<lambda>err w4.
       case closeErr of
         Some e \<Rightarrow> (Exit, w4)
       | None \<Rightarrow> (Ret (), w4)))))"

section \<open>Sequences of operations\<close>

text \<open>
  What the processes do to the table, one operation after the other: the consumer registers
  and unregisters, the two jobs are started and run.
\<close>

inductive store_step ::
  "Config \<Rightarrow> ('c, 'a) system_scheme \<Rightarrow> ('c, 'a) system_scheme \<Rightarrow> bool" for cfg where
  register: "Register pq c w = (e, w') \<Longrightarrow> store_step cfg w w'"
| unregister: "Unregister cid w = (e, w') \<Longrightarrow> store_step cfg w w'"
| tenantless_job:
    "startTenantlessConnectionUpdater lib file unmarshal cfg w = (r, w') \<Longrightarrow> store_step cfg w w'"
| stale_job:
    "startInventoryStaleTimestampUpdater env lib file unmarshal closeErr cfg w = (r, w') \<Longrightarrow>
       store_step cfg w w'"

inductive_cases store_stepE: "store_step cfg w w'"

text \<open>A property of the state that every call keeps is kept by calls in sequence.\<close>

lemma snd_and_then:
  assumes "P (snd p)" and "\<And>x w. p = (Ret x, w) \<Longrightarrow> P (snd (f x w))"
  shows "P (snd (and_then p f))"
  using assms by (cases "(p, f)" rule: and_then.cases) auto

lemma snd_and_then_Ret: "snd (and_then p (\<lambda>x w. (Ret (), w))) = snd p"
  by (cases p rule: prod.exhaust; cases "fst p") auto

lemma new_resolver_keeps:
  assumes "new_resolver lib file unmarshal cfg w = (r, w')"
  shows "connections w' = connections w" and "r = Ret resolver \<Longrightarrow> \<forall>cid. keeps_table (resolver cid)"
  using assms
  by (auto simp: new_resolver_def dest: NewAccountIdResolver_keeps_table split: prod.splits)

text \<open>
  Both jobs begin alike: after the start, the table is as it was and the resolver leaves it
  alone, so what remains is to look at the run.
\<close>

lemma job_start:
  assumes "\<And>resolver w2. \<forall>cid. keeps_table (resolver cid) \<Longrightarrow> connections w2 = connections w \<Longrightarrow>
      budget_inv limit (snd (run resolver w2))"
    and "budget_inv limit w"
  shows "budget_inv limit (snd (and_then (must (InitializeDatabaseConnection cfg), w) (\<lambda>databaseConn w1.
     and_then (new_resolver lib file unmarshal cfg w1) run)))"
proof (rule snd_and_then)
  fix d w1 assume "(must (InitializeDatabaseConnection cfg), w) = (Ret d, w1)"
  then have w1: "w1 = w" by simp
  have inv: "budget_inv limit (snd (new_resolver lib file unmarshal cfg w))"
    by (rule budget_inv_cong [THEN iffD2, OF new_resolver_keeps(1) [OF surjective_pairing] assms(2)])
  show "budget_inv limit (snd (and_then (new_resolver lib file unmarshal cfg w1) run))"
    unfolding w1
  proof (rule snd_and_then [where P = "budget_inv limit", OF inv])
    fix resolver w2 assume new: "new_resolver lib file unmarshal cfg w = (Ret resolver, w2)"
    show "budget_inv limit (snd (run resolver w2))"
      by (rule assms(1) [OF new_resolver_keeps(2) [OF new refl] new_resolver_keeps(1) [OF new]])
  qed
qed (use assms(2) in simp)

lemma startTenantless_budget:
  fixes w :: "('c, 'a) system_scheme"
  assumes "0 \<le> TenantlessConnectionMaxLookupFailures cfg"
    and "budget_inv (TenantlessConnectionMaxLookupFailures cfg) w"
  shows "budget_inv (TenantlessConnectionMaxLookupFailures cfg)
           (snd (startTenantlessConnectionUpdater lib file unmarshal cfg w))"
  unfolding startTenantlessConnectionUpdater_def
proof (rule job_start [OF _ assms(2)])
  fix resolver :: "(('c, 'a) system_scheme) AccountIdResolver" and w2 :: "('c, 'a) system_scheme"
  assume keeps: "\<forall>cid. keeps_table (resolver cid)" and w2: "connections w2 = connections w"
  have "budget_inv (TenantlessConnectionMaxLookupFailures cfg) w2"
    using assms(2) budget_inv_cong [OF w2] by simp
  note run = TenantlessConnectionUpdater_budget [OF keeps assms(1) this]
  show "budget_inv (TenantlessConnectionMaxLookupFailures cfg)
      (snd (and_then (TenantlessConnectionUpdater cfg resolver w2) (\<lambda>err w3. (Ret (), w3))))"
    by (rule snd_and_then) (use run [OF surjective_pairing] run in auto)
qed

lemma startInventoryStale_budget:
  fixes w :: "('c, 'a) system_scheme"
  assumes "1 \<le> limit" and "budget_inv limit w"
  shows "budget_inv limit (snd (startInventoryStaleTimestampUpdater env lib file unmarshal closeErr cfg w))"
  unfolding startInventoryStaleTimestampUpdater_def
proof (rule job_start [OF _ assms(2)], rule snd_and_then)
  fix resolver :: "(('c, 'a) system_scheme) AccountIdResolver" and w2 w3 :: "('c, 'a) system_scheme" and producer
  assume keeps: "\<forall>cid. keeps_table (resolver cid)" and w2: "connections w2 = connections w"
    and w3: "(go_bind (StartProducer env (stale_updater_producer_config cfg)) must, w2) = (Ret producer, w3)"
  have "budget_inv limit w3"
    using assms(2) budget_inv_cong [OF w2] w3 by simp
  note run = InventoryStaleTimestampUpdater_budget [OF keeps RecordConnectedClient_keeps_table assms(1) this]
  show "budget_inv limit (snd (and_then (InventoryStaleTimestampUpdater cfg resolver
      (RecordConnectedClient (lib_map lib) cfg) w3)
      (\<lambda>err w4. case closeErr of Some e \<Rightarrow> (Exit, w4) | None \<Rightarrow> (Ret (), w4))))"
    by (rule snd_and_then) (use run [OF surjective_pairing] run in \<open>auto split: option.splits\<close>)
next
  fix resolver w2 assume w2: "connections w2 = connections w"
  show "budget_inv limit (snd (go_bind (StartProducer env (stale_updater_producer_config cfg)) must, w2))"
    using assms(2) budget_inv_cong [OF w2] by simp
qed

lemma store_step_budget:
  assumes "store_step cfg w w'" and "1 \<le> TenantlessConnectionMaxLookupFailures cfg"
    and "budget_inv (TenantlessConnectionMaxLookupFailures cfg) w"
  shows "budget_inv (TenantlessConnectionMaxLookupFailures cfg) w'"
proof -
  have limit: "0 \<le> TenantlessConnectionMaxLookupFailures cfg" using assms(2) by simp
  from assms(1) show ?thesis
    using Register_budget [OF assms(3) limit] Unregister_budget [OF assms(3)]
      startTenantless_budget [OF limit assms(3)] startInventoryStale_budget [OF assms(2,3)]
    by (cases rule: store_step.cases) (auto simp: prod_eq_iff)
qed

interpretation store: step_system "store_step cfg"
    "\<lambda>w. 1 \<le> TenantlessConnectionMaxLookupFailures cfg \<and> budget_inv (TenantlessConnectionMaxLookupFailures cfg) w"
    "\<lambda>w. 1 \<le> TenantlessConnectionMaxLookupFailures cfg \<and> budget_inv (TenantlessConnectionMaxLookupFailures cfg) w"
  for cfg
  by unfold_locales (auto intro: store_step_budget)

section \<open>Properties\<close>

text \<open>
  C31: The budget of tenant lookups. Whatever sequence of registrations, removals and job
  processes happens, with whatever resolver they are configured, no client has two rows, a
  row with a tenant has no failures, and no row has more failures than the configured limit:
  a client whose tenant cannot be found is asked about at most that often.
\<close>

theorem tenant_lookup_budget:
  assumes "(store_step cfg)\<^sup>*\<^sup>* w w'" and "1 \<le> TenantlessConnectionMaxLookupFailures cfg"
    and "budget_inv (TenantlessConnectionMaxLookupFailures cfg) w"
  shows "budget_inv (TenantlessConnectionMaxLookupFailures cfg) w'"
  using store.reachable_inv [OF conjI [OF assms(2,3)] assms(1)] by simp

definition example_job_config :: Config where
  "example_job_config =
     example_config\<lparr>ConnectionDatabaseImpl := ''postgres'', ConnectionDatabaseSslMode := ''disable'',
                    ClientIdToAccountIdImpl := ''bop''\<rparr>"

lemma example_job_starts:
  "startTenantlessConnectionUpdater example_lib file unmarshal example_job_config w =
     and_then (TenantlessConnectionUpdater example_job_config
         (BOP_MapClientIdToAccountId example_gateway example_job_config) w) (\<lambda>err w3. (Ret (), w3))"
proof -
  have "\<exists>d. InitializeDatabaseConnection example_job_config = Inr d"
    by (simp add: InitializeDatabaseConnection_def initializePostgresConnection_def
        buildPostgresSslConfigString_def example_job_config_def)
  moreover have "ClientIdToAccountIdImpl example_job_config = ''bop''" "lib_gateway example_lib = example_gateway"
    by (simp_all add: example_job_config_def example_lib_def)
  ultimately show ?thesis
    by (auto simp: startTenantlessConnectionUpdater_def new_resolver_def NewAccountIdResolver_def must_def)
qed

theorem tenant_lookup_budget_witness:
  "\<exists>w1 w2. snd (Register example_pq (zero_ConnectorClientState\<lparr>cs_ClientID := ''c''\<rparr>) example_empty) = w1
     \<and> snd (startTenantlessConnectionUpdater example_lib (Inl NotFoundError) (\<lambda>s. Inr Map.empty)
              example_job_config w1) = w2
     \<and> snd (TenantlessConnectionUpdater example_job_config
              (BOP_MapClientIdToAccountId example_gateway example_job_config) w1) = w2
     \<and> budget_inv 3 w2"
proof -
  let ?w1 = "snd (Register example_pq (zero_ConnectorClientState\<lparr>cs_ClientID := ''c''\<rparr>) example_empty)"
  let ?job = "startTenantlessConnectionUpdater example_lib (Inl NotFoundError) (\<lambda>s. Inr Map.empty)
              example_job_config ?w1"
  have "store_step example_job_config example_empty ?w1"
    by (rule store_step.register [OF surjective_pairing])
  moreover have "store_step example_job_config ?w1 (snd ?job)"
    by (rule store_step.tenantless_job [OF surjective_pairing])
  ultimately have steps: "(store_step example_job_config)\<^sup>*\<^sup>* example_empty (snd ?job)"
    by (meson converse_rtranclp_into_rtranclp r_into_rtranclp)
  have limit: "TenantlessConnectionMaxLookupFailures example_job_config = 3"
    by (simp add: example_job_config_def example_config_def)
  have "budget_inv 3 example_empty"
    by (simp add: budget_inv_def unique_clients_def example_empty_def example_system_def)
  then have "budget_inv 3 (snd ?job)"
    using tenant_lookup_budget [OF steps] by (simp add: limit)
  moreover have "snd ?job = snd (TenantlessConnectionUpdater example_job_config
              (BOP_MapClientIdToAccountId example_gateway example_job_config) ?w1)"
    unfolding example_job_starts by (rule snd_and_then_Ret)
  ultimately show ?thesis by simp
qed

end
