(* ===== verification/Mqtt_Proxy.thy ===== *)
theory Mqtt_Proxy
  imports Topic Services
begin

text \<open>
  The way out to a client: the interface \<^verbatim>\<open>ConnectorClient\<close>
  (\<^verbatim>\<open>internal/controller/types.go\<close>) and its implementation over MQTT
  (\<^verbatim>\<open>internal/mqtt/connector_client_proxy.go\<close>, \<^verbatim>\<open>connector_client_proxy_factory.go\<close>,
  \<^verbatim>\<open>utils.go\<close>). The interface is the locale \<open>connector_client\<close>, interpreted on the MQTT
  proxy: a client object speaks on the topics of its own client only.
\<close>

section \<open>The API server's state\<close>

text \<open>
  The API server reads the database, asks the tenant translator (a service), hands
  messages to the MQTT client library and answers requests. \<open>published\<close> is every message
  handed to the library; the token it gives back completes, with or without an error, or
  is still open when the publish timeout ends. \<open>responses\<close> is what was written to the
  response of the request at hand.
\<close>

datatype token = TokenOpen | TokenDone "error option"

record publication =
  pub_topic :: string
  pub_qos :: "8 word"
  pub_payload :: json

datatype body = NoBody | TextBody string | JsonBody json

record server = db_state +
  ean_to_org :: "nat \<Rightarrow> AccountID \<Rightarrow> error + OrgID"
  ean_calls :: nat
  publish_token :: "nat \<Rightarrow> token"
  published :: "publication list"
  responses :: "(int \<times> body) list"

definition Publish :: "publication \<Rightarrow> 'a server_scheme \<Rightarrow> token \<times> 'a server_scheme" where
  "Publish p w = (publish_token w (length (published w)), w\<lparr>published := published w @ [p]\<rparr>)"

section \<open>Encoding\<close>

text \<open>
  The JSON of a message by its struct tags. \<^verbatim>\<open>Time.MarshalJSON\<close> refuses years outside 0 to
  9999, and then nothing is encoded; a nil pointer encodes as null. The local time zone of
  the process is taken to be UTC.
\<close>

definition time_json :: "time \<Rightarrow> json option" where
  "time_json t =
     (let (y, m, d) = civil_from_days (t div 86400000000000)
      in if 0 \<le> y \<and> y \<le> 9999 then Some (JStr (format_rfc3339nano t)) else None)"

definition ControlMessage_json :: "ControlMessage \<Rightarrow> json option" where
  "ControlMessage_json m =
     map_option (\<lambda>sent. JObj
       [(''type'', JStr (cm_MessageType m)), (''message_id'', JStr (cm_MessageID m)),
        (''version'', JNum (of_int (cm_Version m))), (''sent'', sent),
        (''content'', cm_Content m)]) (time_json (cm_Sent m))"

definition DataMessage_json :: "DataMessage \<Rightarrow> json option" where
  "DataMessage_json m =
     map_option (\<lambda>sent. JObj
       [(''type'', JStr (dm_MessageType m)), (''message_id'', JStr (dm_MessageID m)),
        (''response_to'', JStr (dm_ResponseTo m)), (''version'', JNum (of_int (dm_Version m))),
        (''sent'', sent), (''directive'', JStr (dm_Directive m)),
        (''metadata'', dm_Metadata m), (''content'', dm_Content m)]) (time_json (dm_Sent m))"

definition ErrMarshalTime :: error where
  "ErrMarshalTime = ErrorString ''json: error calling MarshalJSON for type time.Time''"

section \<open>Sending\<close>

text \<open>The argument is the encoding of the message, \<open>None\<close> when the encoder fails.\<close>

definition sendMessage ::
  "string \<Rightarrow> 8 word \<Rightarrow> json option \<Rightarrow> 'a server_scheme \<Rightarrow> error option \<times> 'a server_scheme" where
  "sendMessage topic qos message w =
     (case message of
        None \<Rightarrow> (Some ErrMarshalTime, w)
      | Some payload \<Rightarrow>
          (case Publish \<lparr>pub_topic = topic, pub_qos = qos, pub_payload = payload\<rparr> w of
             (TokenDone (Some err), w1) \<Rightarrow> (Some err, w1)
           | (_, w1) \<Rightarrow> (None, w1)))"

definition sendControlMessage ::
  "string \<Rightarrow> 8 word \<Rightarrow> string \<Rightarrow> CommandMessageContent \<Rightarrow> 'a server_scheme
    \<Rightarrow> (string option \<times> error option) \<times> 'a server_scheme" where
  "sendControlMessage topic qos messageType content w =
     (case BuildControlMessage messageType content w of
        (Inl err, w1) \<Rightarrow> ((None, Some err), w1)
      | (Inr (messageID, message), w1) \<Rightarrow>
          (let (err, w2) = sendMessage topic qos (ControlMessage_json message) w1
           in ((Some messageID, err), w2)))"

definition SendReconnectMessageToClient ::
  "TopicBuilder \<Rightarrow> 8 word \<Rightarrow> ClientID \<Rightarrow> int \<Rightarrow> 'a server_scheme \<Rightarrow> error option \<times> 'a server_scheme" where
  "SendReconnectMessageToClient topicBuilder qos clientID delay w =
     (case BuildReconnectMessage delay w of
        (Inl err, w1) \<Rightarrow> (Some err, w1)
      | (Inr (messageID, message), w1) \<Rightarrow>
          (let topic = BuildOutgoingControlTopic topicBuilder clientID
           in sendMessage topic qos (ControlMessage_json message) w1))"

section \<open>The proxy\<close>

record ConnectorClientMQTTProxy =
  px_Config :: Config
  px_OrgID :: OrgID
  px_AccountID :: AccountID
  px_ClientID :: ClientID
  px_TopicBuilder :: TopicBuilder
  px_Dispatchers :: json
  px_CanonicalFacts :: json
  px_Tags :: json

text \<open>
  The error of \<^verbatim>\<open>BuildDataMessage\<close> is overwritten: when there is no random id, the nil
  message is encoded and sent, and the id returned is nil.
\<close>

definition Proxy_SendMessage ::
  "ConnectorClientMQTTProxy \<Rightarrow> string \<Rightarrow> json \<Rightarrow> json \<Rightarrow> 'a server_scheme
    \<Rightarrow> (string option \<times> error option) \<times> 'a server_scheme" where
  "Proxy_SendMessage cc directive metadata payload w =
     (let (built, w1) = BuildDataMessage directive metadata payload w;
          messageID = (case built of Inl err \<Rightarrow> None | Inr (i, m) \<Rightarrow> Some i);
          message = (case built of Inl err \<Rightarrow> Some JNull | Inr (i, m) \<Rightarrow> DataMessage_json m);
          topic = BuildOutgoingDataTopic (px_TopicBuilder cc) (px_ClientID cc);
          (err, w2) = sendMessage topic (MqttDataPublishQoS (px_Config cc)) message w1
      in ((messageID, err), w2))"

definition Proxy_Ping ::
  "ConnectorClientMQTTProxy \<Rightarrow> 'a server_scheme \<Rightarrow> error option \<times> 'a server_scheme" where
  "Proxy_Ping cc w =
     (let content = \<lparr>cc_Command = ''ping'', cc_Arguments = JNull, cc_Message = ''''\<rparr>;
          topic = BuildOutgoingControlTopic (px_TopicBuilder cc) (px_ClientID cc);
          qos = MqttControlPublishQoS (px_Config cc);
          ((_, err), w1) = sendControlMessage topic qos ''command'' content w
      in (err, w1))"

definition Proxy_Reconnect ::
  "ConnectorClientMQTTProxy \<Rightarrow> string \<Rightarrow> int \<Rightarrow> 'a server_scheme \<Rightarrow> error option \<times> 'a server_scheme" where
  "Proxy_Reconnect cc message delay w =
     SendReconnectMessageToClient (px_TopicBuilder cc) (MqttControlPublishQoS (px_Config cc))
       (px_ClientID cc) delay w"

definition Proxy_Disconnect ::
  "ConnectorClientMQTTProxy \<Rightarrow> string \<Rightarrow> 'a server_scheme \<Rightarrow> error option \<times> 'a server_scheme" where
  "Proxy_Disconnect cc message w =
     (let content = \<lparr>cc_Command = ''disconnect'', cc_Arguments = JNull, cc_Message = ''''\<rparr>;
          topic = BuildOutgoingControlTopic (px_TopicBuilder cc) (px_ClientID cc);
          qos = MqttControlPublishQoS (px_Config cc);
          ((_, err), w1) = sendControlMessage topic qos ''command'' content w
      in (err, w1))"

definition Proxy_GetDispatchers :: "ConnectorClientMQTTProxy \<Rightarrow> json \<times> error option" where
  "Proxy_GetDispatchers cc = (px_Dispatchers cc, None)"

definition Proxy_GetCanonicalFacts :: "ConnectorClientMQTTProxy \<Rightarrow> json \<times> error option" where
  "Proxy_GetCanonicalFacts cc = (px_CanonicalFacts cc, None)"

definition Proxy_GetTags :: "ConnectorClientMQTTProxy \<Rightarrow> json \<times> error option" where
  "Proxy_GetTags cc = (px_Tags cc, None)"

section \<open>The interface ConnectorClient and the factory\<close>

record 'w ConnectorClient =
  cli_SendMessage :: "string \<Rightarrow> json \<Rightarrow> json \<Rightarrow> 'w \<Rightarrow> (string option \<times> error option) \<times> 'w"
  cli_Ping :: "'w \<Rightarrow> error option \<times> 'w"
  cli_Reconnect :: "string \<Rightarrow> int \<Rightarrow> 'w \<Rightarrow> error option \<times> 'w"
  cli_GetDispatchers :: "json \<times> error option"
  cli_GetCanonicalFacts :: "json \<times> error option"
  cli_GetTags :: "json \<times> error option"
  cli_Disconnect :: "string \<Rightarrow> 'w \<Rightarrow> error option \<times> 'w"

text \<open>Arguments: org id, account, client id, canonical facts, dispatchers, tags.\<close>

type_synonym 'w ConnectorClientProxyFactory =
  "OrgID \<Rightarrow> AccountID \<Rightarrow> ClientID \<Rightarrow> json \<Rightarrow> json \<Rightarrow> json \<Rightarrow> error + 'w ConnectorClient"

definition MQTTProxy_client :: "ConnectorClientMQTTProxy \<Rightarrow> ('a server_scheme) ConnectorClient" where
  "MQTTProxy_client cc =
     \<lparr>cli_SendMessage = Proxy_SendMessage cc,
      cli_Ping = Proxy_Ping cc,
      cli_Reconnect = Proxy_Reconnect cc,
      cli_GetDispatchers = Proxy_GetDispatchers cc,
      cli_GetCanonicalFacts = Proxy_GetCanonicalFacts cc,
      cli_GetTags = Proxy_GetTags cc,
      cli_Disconnect = Proxy_Disconnect cc\<rparr>"

record ConnectorClientMQTTProxyFactory =
  pf_topicBuilder :: TopicBuilder
  pf_config :: Config

definition NewConnectorClientMQTTProxyFactory ::
  "Config \<Rightarrow> TopicBuilder \<Rightarrow> error + ConnectorClientMQTTProxyFactory" where
  "NewConnectorClientMQTTProxyFactory cfg topicBuilder =
     Inr \<lparr>pf_topicBuilder = topicBuilder, pf_config = cfg\<rparr>"

definition CreateProxy ::
  "ConnectorClientMQTTProxyFactory \<Rightarrow> ('a server_scheme) ConnectorClientProxyFactory" where
  "CreateProxy ccpf orgID account client_id canonicalFacts dispatchers tags =
     Inr (MQTTProxy_client
       \<lparr>px_Config = pf_config ccpf, px_OrgID = orgID, px_AccountID = account,
        px_ClientID = client_id, px_TopicBuilder = pf_topicBuilder ccpf,
        px_Dispatchers = dispatchers, px_CanonicalFacts = canonicalFacts, px_Tags = tags\<rparr>)"


text \<open>
  What a client object promises its user. \<open>spoke T w w'\<close>: at most one message was handed
  to the MQTT library, on a topic of \<open>T\<close>, and neither the table nor the response changed.
\<close>

definition spoke :: "string set \<Rightarrow> 'a server_scheme \<Rightarrow> 'a server_scheme \<Rightarrow> bool" where
  "spoke T w w' \<longleftrightarrow>
     (\<exists>ps. published w' = published w @ ps \<and> length ps \<le> 1 \<and> pub_topic ` set ps \<subseteq> T)
     \<and> connections w' = connections w \<and> responses w' = responses w"

locale connector_client =
  fixes client :: "('a server_scheme) ConnectorClient"
    and data_topic :: string
    and control_topic :: string
  assumes SendMessage_spoke:
      "cli_SendMessage client d md p w = (r, w') \<Longrightarrow> spoke {data_topic} w w'"
    and SendMessage_sent:
      "cli_SendMessage client d md p w = ((Some i, None), w') \<Longrightarrow>
         \<exists>pub m sent. published w' = published w @ [pub] \<and> pub_topic pub = data_topic
           \<and> pub_payload pub = JObj m \<and> distinct (map fst m)
           \<and> map_of m ''message_id'' = Some (JStr i) \<and> map_of m ''sent'' = Some (JStr sent)
           \<and> map_of m ''directive'' = Some (JStr d) \<and> map_of m ''metadata'' = Some md
           \<and> map_of m ''content'' = Some p"
    and Ping_spoke: "cli_Ping client w = (e, w') \<Longrightarrow> spoke {control_topic} w w'"
    and Reconnect_spoke: "cli_Reconnect client msg delay w = (e, w') \<Longrightarrow> spoke {control_topic} w w'"
    and Disconnect_spoke: "cli_Disconnect client msg w = (e, w') \<Longrightarrow> spoke {control_topic} w w'"

locale proxy_factory =
  fixes factory :: "('a server_scheme) ConnectorClientProxyFactory"
    and data_topics :: "ClientID \<Rightarrow> string"
    and control_topics :: "ClientID \<Rightarrow> string"
  assumes factory_client:
      "factory org acct cid facts disp tags = Inr cl \<Longrightarrow>
         connector_client cl (data_topics cid) (control_topics cid)"

section \<open>The MQTT proxy meets the interface\<close>

lemma spoke_refl [simp]: "spoke T w w"
  by (simp add: spoke_def)

lemma BuildControlMessage_server:
  "BuildControlMessage ty c w = (r, w') \<Longrightarrow>
     published w' = published w \<and> connections w' = connections w \<and> responses w' = responses w"
  for w :: "'a server_scheme"
  by (auto simp: BuildControlMessage_def new_uuid_def time_now_def split: sum.splits)

lemma BuildDataMessage_server:
  "BuildDataMessage d md p w = (r, w') \<Longrightarrow>
     published w' = published w \<and> connections w' = connections w \<and> responses w' = responses w"
  for w :: "'a server_scheme"
  by (auto simp: BuildDataMessage_def new_uuid_def time_now_def split: sum.splits)

lemma sendMessage_spoke: "sendMessage topic qos m w = (e, w') \<Longrightarrow> spoke {topic} w w'"
  by (auto simp: sendMessage_def Publish_def spoke_def split: option.splits token.splits)

lemma sendMessage_sent:
  "sendMessage topic qos m w = (None, w') \<Longrightarrow>
     \<exists>j. m = Some j \<and> published w' = published w @ [\<lparr>pub_topic = topic, pub_qos = qos, pub_payload = j\<rparr>]"
  by (auto simp: sendMessage_def Publish_def split: option.splits token.splits)

lemma spoke_after:
  assumes "published w1 = published w \<and> connections w1 = connections w \<and> responses w1 = responses w"
    and "spoke T w1 w2"
  shows "spoke T w w2"
  using assms by (simp add: spoke_def)

lemma sendControlMessage_spoke:
  assumes "sendControlMessage topic qos ty c w = (r, w')"
  shows "spoke {topic} w w'"
proof -
  obtain b w1 where b: "BuildControlMessage ty c w = (b, w1)" by fastforce
  show ?thesis
  proof (rule spoke_after [OF BuildControlMessage_server [OF b]])
    show "spoke {topic} w1 w'"
      using assms b
      by (auto simp: sendControlMessage_def split: sum.splits prod.splits dest: sendMessage_spoke)
  qed
qed

lemma Proxy_Ping_spoke:
  "Proxy_Ping cc w = (e, w') \<Longrightarrow>
     spoke {BuildOutgoingControlTopic (px_TopicBuilder cc) (px_ClientID cc)} w w'"
  by (auto simp: Proxy_Ping_def Let_def split: prod.splits dest: sendControlMessage_spoke)

lemma Proxy_Disconnect_spoke:
  "Proxy_Disconnect cc msg w = (e, w') \<Longrightarrow>
     spoke {BuildOutgoingControlTopic (px_TopicBuilder cc) (px_ClientID cc)} w w'"
  by (auto simp: Proxy_Disconnect_def Let_def split: prod.splits dest: sendControlMessage_spoke)

lemma Proxy_Reconnect_spoke:
  assumes "Proxy_Reconnect cc msg delay w = (e, w')"
  shows "spoke {BuildOutgoingControlTopic (px_TopicBuilder cc) (px_ClientID cc)} w w'"
proof -
  obtain b w1 where b: "BuildReconnectMessage delay w = (b, w1)" by fastforce
  show ?thesis
  proof (rule spoke_after)
    show "published w1 = published w \<and> connections w1 = connections w \<and> responses w1 = responses w"
      using b by (auto simp: BuildReconnectMessage_def dest: BuildControlMessage_server)
    show "spoke {BuildOutgoingControlTopic (px_TopicBuilder cc) (px_ClientID cc)} w1 w'"
      using assms b
      by (auto simp: Proxy_Reconnect_def SendReconnectMessageToClient_def
          split: sum.splits prod.splits dest: sendMessage_spoke)
  qed
qed

lemma Proxy_SendMessage_spoke:
  assumes "Proxy_SendMessage cc d md p w = (r, w')"
  shows "spoke {BuildOutgoingDataTopic (px_TopicBuilder cc) (px_ClientID cc)} w w'"
proof -
  obtain b w1 where b: "BuildDataMessage d md p w = (b, w1)" by fastforce
  show ?thesis
    by (rule spoke_after [OF BuildDataMessage_server [OF b]])
      (use assms b in \<open>auto simp: Proxy_SendMessage_def Let_def split: prod.splits dest: sendMessage_spoke\<close>)
qed

lemma Proxy_SendMessage_sent:
  assumes "Proxy_SendMessage cc d md p w = ((Some i, None), w')"
  shows "\<exists>pub m sent. published w' = published w @ [pub]
     \<and> pub_topic pub = BuildOutgoingDataTopic (px_TopicBuilder cc) (px_ClientID cc)
     \<and> pub_payload pub = JObj m \<and> distinct (map fst m)
     \<and> map_of m ''message_id'' = Some (JStr i) \<and> map_of m ''sent'' = Some (JStr sent)
     \<and> map_of m ''directive'' = Some (JStr d) \<and> map_of m ''metadata'' = Some md
     \<and> map_of m ''content'' = Some p"
proof -
  obtain b w1 where b: "BuildDataMessage d md p w = (b, w1)" by fastforce
  with assms obtain m where m: "b = Inr (i, m)"
    by (auto simp: Proxy_SendMessage_def Let_def split: prod.splits sum.splits)
  let ?t = "BuildOutgoingDataTopic (px_TopicBuilder cc) (px_ClientID cc)"
  have "sendMessage ?t (MqttDataPublishQoS (px_Config cc)) (DataMessage_json m) w1 = (None, w')"
    using assms b m by (auto simp: Proxy_SendMessage_def Let_def split: prod.splits)
  from sendMessage_sent [OF this] obtain j where j: "DataMessage_json m = Some j"
    and p: "published w' = published w1 @ [\<lparr>pub_topic = ?t, pub_qos = MqttDataPublishQoS (px_Config cc), pub_payload = j\<rparr>]"
    by blast
  have f: "dm_MessageID m = i" "dm_Directive m = d" "dm_Metadata m = md" "dm_Content m = p"
    using BuildDataMessage_Inr [of d md p w i m w1] b m by auto
  show ?thesis
    using j p f BuildDataMessage_server [OF b]
    by (auto simp: DataMessage_json_def time_json_def split: prod.splits if_splits)
qed

interpretation mqtt_client: connector_client "MQTTProxy_client cc"
    "BuildOutgoingDataTopic (px_TopicBuilder cc) (px_ClientID cc)"
    "BuildOutgoingControlTopic (px_TopicBuilder cc) (px_ClientID cc)" for cc
proof (unfold_locales, goal_cases)
  case (1 d md p w r w')
  then show ?case by (auto simp: MQTTProxy_client_def dest: Proxy_SendMessage_spoke)
next
  case (2 d md p w i w')
  then show ?case using Proxy_SendMessage_sent [of cc d md p w i w'] by (simp add: MQTTProxy_client_def)
qed (auto simp: MQTTProxy_client_def dest: Proxy_Ping_spoke Proxy_Reconnect_spoke Proxy_Disconnect_spoke)

interpretation mqtt_factory: proxy_factory "CreateProxy ccpf"
    "BuildOutgoingDataTopic (pf_topicBuilder ccpf)" "BuildOutgoingControlTopic (pf_topicBuilder ccpf)" for ccpf
proof (rule proxy_factory.intro, goal_cases)
  case (1 org acct cid facts disp tags cl)
  then show ?case
    using mqtt_client.connector_client_axioms
      [of "\<lparr>px_Config = pf_config ccpf, px_OrgID = org, px_AccountID = acct, px_ClientID = cid,
            px_TopicBuilder = pf_topicBuilder ccpf, px_Dispatchers = disp,
            px_CanonicalFacts = facts, px_Tags = tags\<rparr>"]
    by (auto simp: CreateProxy_def)
qed


section \<open>Properties\<close>

definition example_publish_config :: Config where
  "example_publish_config = zero_Config\<lparr>MqttDataPublishQoS := 1, MqttControlPublishQoS := 1\<rparr>"

definition example_factory :: ConnectorClientMQTTProxyFactory where
  "example_factory = \<lparr>pf_topicBuilder = NewTopicBuilder '''', pf_config = example_publish_config\<rparr>"

definition example_server :: "row list \<Rightarrow> server" where
  "example_server rs =
     \<lparr>clock = (\<lambda>n. 0), ticks = 0, uuid_source = (\<lambda>n. Inr ''id''), uuids = 0,
      connections = rs, next_id = 9, db_fault = (\<lambda>n. None), db_calls = 0,
      sql_clock = (\<lambda>n. 0), pg_timestamp = (\<lambda>t. t),
      ean_to_org = (\<lambda>n a. if a = ''a1'' then Inr ''o1'' else Inl (ErrorString ''unknown tenant'')),
      ean_calls = 0, publish_token = (\<lambda>n. TokenDone None), published = [], responses = []\<rparr>"

definition example_proxy :: ConnectorClientMQTTProxy where
  "example_proxy =
     \<lparr>px_Config = example_publish_config, px_OrgID = ''o1'', px_AccountID = ''a1'',
      px_ClientID = ''c1'', px_TopicBuilder = NewTopicBuilder '''', px_Dispatchers = JNull,
      px_CanonicalFacts = JNull, px_Tags = JNull\<rparr>"

lemma time_json_epoch: "time_json 0 = Some (JStr (format_rfc3339nano 0))"
proof -
  have "civil_from_days 0 = (1970, 1, 1)" by code_simp
  then show ?thesis by (simp add: time_json_def)
qed

lemma example_server_simps [simp]:
  "clock (example_server rs) = (\<lambda>n. 0)" "uuid_source (example_server rs) = (\<lambda>n. Inr ''id'')"
  "connections (example_server rs) = rs" "published (example_server rs) = []"
  "responses (example_server rs) = []" "publish_token (example_server rs) = (\<lambda>n. TokenDone None)"
  "db_fault (example_server rs) = (\<lambda>n. None)"
  "ean_to_org (example_server rs)
     = (\<lambda>n a. if a = ''a1'' then Inr ''o1'' else Inl (ErrorString ''unknown tenant''))"
  by (simp_all add: example_server_def)

lemma send_returns:
  fixes w :: "'a server_scheme"
  assumes "uuid_source w (uuids w) = Inr i" and "clock w (ticks w) = 0"
    and "publish_token w (length (published w)) = TokenDone None"
  shows "\<exists>w'. Proxy_SendMessage cc d md p w = ((Some i, None), w')"
  using assms
  by (simp add: Proxy_SendMessage_def BuildDataMessage_def new_uuid_def time_now_def
      sendMessage_def DataMessage_json_def time_json_epoch Let_def Publish_def)

lemma example_send:
  "\<exists>w'. Proxy_SendMessage example_proxy ''d'' JNull (JStr ''x'') (example_server rs) = ((Some ''id'', None), w')"
  by (rule send_returns) simp_all
text \<open>
  A message accepted for a client is handed to the broker once, on the data topic of
  that client, with the id the caller is given and the directive, metadata and content the
  caller passed.
\<close>

theorem data_message_sent_once:
  assumes "Proxy_SendMessage cc directive metadata payload w = ((Some mid, None), w')"
  shows "\<exists>pub m. published w' = published w @ [pub]
     \<and> pub_topic pub = BuildOutgoingDataTopic (px_TopicBuilder cc) (px_ClientID cc)
     \<and> pub_payload pub = JObj m
     \<and> map_of m ''message_id'' = Some (JStr mid)
     \<and> map_of m ''directive'' = Some (JStr directive)
     \<and> map_of m ''metadata'' = Some metadata
     \<and> map_of m ''content'' = Some payload"
  using mqtt_client.SendMessage_sent [of cc directive metadata payload w mid w'] assms
  by (auto simp: MQTTProxy_client_def)

theorem data_message_sent_once_witness:
  "\<exists>w' pub. Proxy_SendMessage example_proxy ''d'' JNull (JStr ''x'') (example_server [])
       = ((Some ''id'', None), w')
     \<and> published w' = [pub] \<and> pub_topic pub = ''redhat/insights/c1/data/in''"
proof -
  obtain w' where w': "Proxy_SendMessage example_proxy ''d'' JNull (JStr ''x'') (example_server [])
      = ((Some ''id'', None), w')"
    using example_send by blast
  have "BuildOutgoingDataTopic (px_TopicBuilder example_proxy) (px_ClientID example_proxy)
      = ''redhat/insights/c1/data/in''"
    by (simp add: example_proxy_def BuildOutgoingDataTopic_eq defaultTopicPrefix_def)
  then show ?thesis
    using data_message_sent_once [OF w'] w' by (auto simp: example_server_def)
qed


text \<open>
  When no random id can be had, a data message is sent all the same, as a JSON null without
  an id.
\<close>

lemma data_message_without_id:
  assumes "uuid_source w (uuids w) = Inl e" and "publish_token w (length (published w)) = TokenDone None"
  shows "\<exists>w' pub. Proxy_SendMessage cc d md p w = ((None, None), w')
     \<and> published w' = published w @ [pub] \<and> pub_payload pub = JNull"
  using assms
  by (simp add: Proxy_SendMessage_def BuildDataMessage_def new_uuid_def sendMessage_def Publish_def Let_def)

text \<open>A publication the broker has not confirmed when the timeout ends counts as sent.\<close>

lemma open_token_is_success:
  assumes "publish_token w (length (published w)) = TokenOpen"
  shows "fst (sendMessage topic qos (Some payload) w) = None"
  using assms by (simp add: sendMessage_def Publish_def)

end
