(* ===== verification/Pagination.thy ===== *)
theory Pagination
  imports CC_Prelude "HOL-Library.Char_ord" "HOL-Library.List_Lexorder" "HOL-Library.Log_Nat"
begin

text \<open>
  Paging of the listings: the query parameters \<^verbatim>\<open>offset\<close> and \<^verbatim>\<open>limit\<close>
  (\<^verbatim>\<open>internal/controller/api/utils.go\<close>), the navigation links
  (\<^verbatim>\<open>internal/controller/api/pagination.go\<close>), and what they use of the packages
  \<^verbatim>\<open>net/url\<close> and \<^verbatim>\<open>math\<close>. A link is read back by the same functions that read a
  request, so the theorems at the end say where a client that follows a link arrives.
\<close>

section \<open>The query of a URL\<close>

text \<open>
  The URL of a request: what \<^verbatim>\<open>URL.String\<close> prints before the question mark, and the raw
  query. The target of a request carries no fragment.
\<close>

record url =
  u_path :: string
  u_RawQuery :: string

definition hex_digit :: "nat \<Rightarrow> char" where
  "hex_digit n = (if n < 10 then char_of (48 + n) else char_of (55 + n))"

definition unhex :: "char \<Rightarrow> nat option" where
  "unhex c =
     (let n = of_char c
      in if 48 \<le> n \<and> n \<le> (57 :: nat) then Some (n - 48)
         else if 97 \<le> n \<and> n \<le> 102 then Some (n - 87)
         else if 65 \<le> n \<and> n \<le> 70 then Some (n - 55)
         else None)"

text \<open>The characters \<^verbatim>\<open>QueryEscape\<close> leaves as they are.\<close>

definition unreserved :: "char \<Rightarrow> bool" where
  "unreserved c \<longleftrightarrow>
     (let n = of_char c
      in (48 \<le> n \<and> n \<le> (57 :: nat)) \<or> (65 \<le> n \<and> n \<le> 90) \<or> (97 \<le> n \<and> n \<le> 122)
         \<or> n = 45 \<or> n = 95 \<or> n = 46 \<or> n = 126)"

fun QueryEscape :: "string \<Rightarrow> string" where
  "QueryEscape [] = []"
| "QueryEscape (c # cs) =
     (if unreserved c then [c]
      else if c = CHR '' '' then ''+''
      else [CHR ''%'', hex_digit (of_char c div 16), hex_digit (of_char c mod 16)]) @ QueryEscape cs"

fun QueryUnescape :: "string \<Rightarrow> string option" where
  "QueryUnescape [] = Some []"
| "QueryUnescape (c # cs) =
     (if c = CHR ''%'' then
        (case cs of
           a # b # ds \<Rightarrow>
             (case (unhex a, unhex b) of
                (Some h, Some l) \<Rightarrow> map_option ((#) (char_of (16 * h + l))) (QueryUnescape ds)
              | _ \<Rightarrow> None)
         | _ \<Rightarrow> None)
      else map_option ((#) (if c = CHR ''+'' then CHR '' '' else c)) (QueryUnescape cs))"

text \<open>\<^verbatim>\<open>strings.Cut\<close> at the first occurrence of a character.\<close>

definition cut :: "char \<Rightarrow> string \<Rightarrow> string \<times> string" where
  "cut c s = (takeWhile (\<lambda>x. x \<noteq> c) s, drop 1 (dropWhile (\<lambda>x. x \<noteq> c) s))"

text \<open>\<^verbatim>\<open>url.Values\<close>, a map from a key to the list of its values.\<close>

type_synonym url_values = "(string \<times> string list) list"

definition values_of :: "url_values \<Rightarrow> string \<Rightarrow> string list" where
  "values_of m k = (case map_of m k of None \<Rightarrow> [] | Some vs \<Rightarrow> vs)"

definition add_value :: "string \<times> string \<Rightarrow> url_values \<Rightarrow> url_values" where
  "add_value kv m = put (fst kv) (values_of m (fst kv) @ [snd kv]) m"

text \<open>One parameter of a query; a malformed one is dropped.\<close>

definition parse_pair :: "string \<Rightarrow> (string \<times> string) option" where
  "parse_pair seg =
     (if CHR '';'' \<in> set seg \<or> seg = '''' then None
      else
        (let (k, v) = cut (CHR ''='') seg
         in case (QueryUnescape k, QueryUnescape v) of
              (Some k', Some v') \<Rightarrow> Some (k', v')
            | _ \<Rightarrow> None))"

definition Query :: "url \<Rightarrow> url_values" where
  "Query u = fold add_value (List.map_filter parse_pair (split_on CHR ''&'' (u_RawQuery u))) []"

definition Values_Get :: "url_values \<Rightarrow> string \<Rightarrow> string" where
  "Values_Get m k = (case values_of m k of [] \<Rightarrow> '''' | v # _ \<Rightarrow> v)"

definition Values_Set :: "string \<Rightarrow> string \<Rightarrow> url_values \<Rightarrow> url_values" where
  "Values_Set k v m = put k [v] m"

text \<open>\<^verbatim>\<open>Values.Encode\<close> writes the parameters in the order of their keys.\<close>

definition value_pairs :: "url_values \<Rightarrow> (string \<times> string) list" where
  "value_pairs m = concat (map (\<lambda>(k, vs). map (\<lambda>v. (k, v)) vs) m)"

definition encode_pair :: "string \<times> string \<Rightarrow> string" where
  "encode_pair kv = QueryEscape (fst kv) @ ''='' @ QueryEscape (snd kv)"

definition Values_Encode :: "url_values \<Rightarrow> string" where
  "Values_Encode m = join ''&'' (map encode_pair (value_pairs (sort_key fst m)))"

definition url_String :: "url \<Rightarrow> string" where
  "url_String u = u_path u @ (if u_RawQuery u = '''' then '''' else ''?'' @ u_RawQuery u)"

text \<open>How the server reads a request target.\<close>

definition ParseRequestURI :: "string \<Rightarrow> url" where
  "ParseRequestURI s = (let (p, q) = cut (CHR ''?'') s in \<lparr>u_path = p, u_RawQuery = q\<rparr>)"

section \<open>Reading offset and limit\<close>

definition getIntFromQueryParams :: "url \<Rightarrow> string \<Rightarrow> int \<Rightarrow> error + int" where
  "getIntFromQueryParams u paramName defaultValue =
     (let value = Values_Get (Query u) paramName
      in if value = '''' then Inr defaultValue else Atoi value)"

text \<open>The text of an error of \<^verbatim>\<open>strconv.Atoi\<close> is a parameter of no consequence here.\<close>

definition getLimitFromQueryParams :: "(error \<Rightarrow> string) \<Rightarrow> url \<Rightarrow> error + int" where
  "getLimitFromQueryParams error_text u =
     (case getIntFromQueryParams u ''limit'' 1000 of
        Inl err \<Rightarrow> Inl (ErrorString (''limit: '' @ error_text err))
      | Inr limit \<Rightarrow>
          (if limit < 0 then Inl (ErrorString ''limit: must be > 0'') else Inr limit))"

definition getOffsetFromQueryParams :: "(error \<Rightarrow> string) \<Rightarrow> url \<Rightarrow> error + int" where
  "getOffsetFromQueryParams error_text u =
     (case getIntFromQueryParams u ''offset'' 0 of
        Inl err \<Rightarrow> Inl (ErrorString (''offset: '' @ error_text err))
      | Inr offset \<Rightarrow>
          (if offset < 0 then Inl (ErrorString ''offset: must be >= 0'') else Inr offset))"

definition getOffsetAndLimitFromQueryParams :: "(error \<Rightarrow> string) \<Rightarrow> url \<Rightarrow> error + int \<times> int" where
  "getOffsetAndLimitFromQueryParams error_text u =
     (case getLimitFromQueryParams error_text u of
        Inl err \<Rightarrow> Inl err
      | Inr limit \<Rightarrow>
          (case getOffsetFromQueryParams error_text u of
             Inl err \<Rightarrow> Inl err
           | Inr offset \<Rightarrow> Inr (offset, limit)))"

section \<open>Floating point\<close>

text \<open>
  Rounding a rational to float64, to nearest with ties to even, for the magnitudes that
  occur here (no subnormal number, no overflow): 53 binary digits from the leading one.
\<close>

definition exponent :: "rat \<Rightarrow> int" where
  "exponent x =
     (let (p, q) = quotient_of x;
          e = int (floorlog 2 (nat p)) - int (floorlog 2 (nat q))
      in if 2 powi e \<le> x then e else e - 1)"

definition round_even :: "rat \<Rightarrow> int" where
  "round_even y =
     (let f = \<lfloor>y\<rfloor>; d = y - of_int f
      in if d < 1 / 2 then f else if d > 1 / 2 then f + 1 else if even f then f else f + 1)"

definition round_pos :: "rat \<Rightarrow> rat" where
  "round_pos x =
     (let u = 2 powi (exponent x - 52) in of_int (round_even (x / u)) * u)"

definition float64 :: "rat \<Rightarrow> rat" where
  "float64 x = (if x = 0 then 0 else if x < 0 then - round_pos (- x) else round_pos x)"

text \<open>The 64-bit \<^verbatim>\<open>int\<close> of Go.\<close>

definition wrap64 :: "int \<Rightarrow> int" where
  "wrap64 i = sint (word_of_int i :: 64 word)"

section \<open>Navigation links\<close>

record navigationLinks =
  First :: string
  Last :: string
  Next :: string
  Prev :: string

text \<open>
  For the limit 0 the quotient is not a number or infinite and what it converts to depends
  on the machine; the product with the limit is 0 all the same.
\<close>

definition calculateOffsetOfLastPage :: "int \<Rightarrow> int \<Rightarrow> int" where
  "calculateOffsetOfLastPage ntotal limit =
     (let top = max (float64 (of_int (wrap64 (ntotal - 1)))) 0;
          bottom = float64 (of_int limit)
      in if limit = 0 then 0
         else let lastPage = wrap64 \<lfloor>float64 (top / bottom)\<rfloor> in wrap64 (lastPage * limit))"

definition buildNavigationLink :: "url \<Rightarrow> int \<Rightarrow> int \<Rightarrow> string" where
  "buildNavigationLink originalUrl offset limit =
     (let copiedUrl = originalUrl;
          vals = Query copiedUrl;
          vals1 = Values_Set ''offset'' (Itoa offset) vals;
          vals2 = Values_Set ''limit'' (Itoa limit) vals1
      in url_String (copiedUrl\<lparr>u_RawQuery := Values_Encode vals2\<rparr>))"

definition buildNavigationLinks :: "url \<Rightarrow> int \<Rightarrow> int \<Rightarrow> int \<Rightarrow> navigationLinks" where
  "buildNavigationLinks u offset limit ntotal =
     (let firstOffset = 0;
          lastOffset = calculateOffsetOfLastPage ntotal limit;
          nextOffset = wrap64 (offset + limit);
          previousOffset = (if wrap64 (offset - limit) < 0 then 0 else wrap64 (offset - limit))
      in if ntotal = 0 then \<lparr>First = '''', Last = '''', Next = '''', Prev = ''''\<rparr>
         else \<lparr>First = buildNavigationLink u firstOffset limit,
               Last = buildNavigationLink u lastOffset limit,
               Next = (if nextOffset < ntotal then buildNavigationLink u nextOffset limit else ''''),
               Prev = (if offset > 0 then buildNavigationLink u previousOffset limit else '''')\<rparr>)"

section \<open>The response\<close>

text \<open>The option \<^verbatim>\<open>omitempty\<close> on a string field: the field is left out when empty.\<close>

definition omit_empty :: "string \<Rightarrow> string \<Rightarrow> (string \<times> json) list" where
  "omit_empty k s = (if s = '''' then [] else [(k, JStr s)])"

definition navigationLinks_json :: "navigationLinks \<Rightarrow> json" where
  "navigationLinks_json l =
     JObj (omit_empty ''first'' (First l) @ omit_empty ''last'' (Last l)
           @ omit_empty ''next'' (Next l) @ omit_empty ''prev'' (Prev l))"

definition buildPaginatedResponse :: "url \<Rightarrow> int \<Rightarrow> int \<Rightarrow> int \<Rightarrow> json \<Rightarrow> json" where
  "buildPaginatedResponse u offset limit ntotal data =
     JObj [(''meta'', JObj [(''count'', JNum (of_int ntotal))]),
           (''links'', navigationLinks_json (buildNavigationLinks u offset limit ntotal)),
           (''data'', data)]"

section \<open>Escaping\<close>

lemma unhex_hex_digit: "n < 16 \<Longrightarrow> unhex (hex_digit n) = Some n"
  by (auto simp: unhex_def hex_digit_def Let_def)

lemma unreserved_not_special:
  "unreserved c \<Longrightarrow> c \<noteq> CHR ''%'' \<and> c \<noteq> CHR ''+'' \<and> c \<noteq> CHR ''&'' \<and> c \<noteq> CHR ''='' \<and> c \<noteq> CHR '';''"
  by (auto simp: unreserved_def)

lemma unreserved_hex_digit: "n < 16 \<Longrightarrow> unreserved (hex_digit n)"
  by (auto simp: unreserved_def hex_digit_def Let_def)

lemma char_nibbles: "of_char c div 16 < (16 :: nat)" "of_char c mod 16 < (16 :: nat)"
  using of_char_less_256 [of c] by (simp_all add: less_mult_imp_div_less)

lemma QueryUnescape_QueryEscape [simp]: "QueryUnescape (QueryEscape s) = Some s"
proof (induction s)
  case (Cons c s)
  consider "unreserved c" | "c = CHR '' ''" "\<not> unreserved c" | "\<not> unreserved c" "c \<noteq> CHR '' ''" by blast
  then show ?case
  proof cases
    case 1
    then show ?thesis using Cons unreserved_not_special [OF 1] by simp
  next
    case 3
    have "char_of (16 * (of_char c div 16) + of_char c mod 16 :: nat) = c" by simp
    then show ?thesis
      using 3 Cons char_nibbles [of c] by (simp only: QueryEscape.simps) (simp add: unhex_hex_digit)
  qed (simp add: Cons)
qed simp

lemma QueryEscape_no_special:
  "CHR ''&'' \<notin> set (QueryEscape s)" "CHR ''='' \<notin> set (QueryEscape s)" "CHR '';'' \<notin> set (QueryEscape s)"
proof (induction s)
  case (Cons c s)
  note u = char_nibbles [of c, THEN unreserved_hex_digit, THEN unreserved_not_special]
  { case 1 then show ?case using Cons u by (auto dest: unreserved_not_special) }
  { case 2 then show ?case using Cons u by (auto dest: unreserved_not_special) }
  { case 3 then show ?case using Cons u by (auto dest: unreserved_not_special) }
qed simp_all


section \<open>Queries\<close>

lemma cut_no_sep: "c \<notin> set k \<Longrightarrow> cut c (k @ c # v) = (k, v)"
  by (induction k) (auto simp: cut_def)

lemma cut_absent: "c \<notin> set s \<Longrightarrow> cut c s = (s, [])"
  by (induction s) (auto simp: cut_def)

lemma parse_encode_pair: "parse_pair (encode_pair kv) = Some kv"
  by (cases kv) (simp add: parse_pair_def encode_pair_def QueryEscape_no_special cut_no_sep)

lemma encode_pair_no_amp: "CHR ''&'' \<notin> set (encode_pair kv)"
  by (simp add: encode_pair_def QueryEscape_no_special)

lemma split_on_join:
  "xs \<noteq> [] \<Longrightarrow> \<forall>x\<in>set xs. c \<notin> set x \<Longrightarrow> split_on c (join [c] xs) = xs"
proof (induction xs)
  case (Cons x xs)
  then show ?case by (cases xs) (simp_all add: split_on_no_sep split_on_append_sep)
qed simp

lemma parse_encoded_pairs:
  "List.map_filter parse_pair (split_on CHR ''&'' (join ''&'' (map encode_pair kvs))) = kvs"
proof (cases kvs)
  case Nil
  then show ?thesis by (simp add: parse_pair_def List.map_filter_def)
next
  case (Cons kv rest)
  then have "split_on CHR ''&'' (join ''&'' (map encode_pair kvs)) = map encode_pair kvs"
    by (intro split_on_join) (auto simp: encode_pair_no_amp)
  moreover have "List.map_filter parse_pair (map encode_pair kvs) = kvs"
    by (induction kvs) (simp_all add: List.map_filter_def parse_encode_pair)
  ultimately show ?thesis by simp
qed

lemma values_of_add_values:
  "values_of (fold add_value kvs m) k = values_of m k @ map snd (filter (\<lambda>kv. fst kv = k) kvs)"
  by (induction kvs arbitrary: m) (auto simp: add_value_def values_of_def)

lemma value_pairs_select:
  "distinct (map fst m) \<Longrightarrow> map snd (filter (\<lambda>kv. fst kv = k) (value_pairs m)) = values_of m k"
proof (induction m)
  case (Cons e m)
  obtain k' vs where e: "e = (k', vs)" by (cases e)
  have "map_of m k = None" if "k = k'"
    using Cons.prems that by (auto simp: e map_of_eq_None_iff)
  then show ?case using Cons by (auto simp: e value_pairs_def values_of_def filter_map o_def)
qed (simp add: value_pairs_def values_of_def)

lemma map_of_sort_key:
  assumes "distinct (map fst m)"
  shows "map_of (sort_key fst m) = map_of m"
  by (rule map_of_inject_set [THEN iffD2]) (use assms in \<open>auto simp: distinct_map\<close>)

text \<open>Reading back an encoded query gives the same values.\<close>

lemma Query_Encode:
  assumes "distinct (map fst m)"
  shows "values_of (Query (u\<lparr>u_RawQuery := Values_Encode m\<rparr>)) k = values_of m k"
proof -
  have "distinct (map fst (sort_key fst m))" using assms by (simp add: distinct_map)
  then show ?thesis
    using map_of_sort_key [OF assms]
    by (simp add: Query_def Values_Encode_def parse_encoded_pairs values_of_add_values
        value_pairs_select) (simp add: values_of_def)
qed

lemma distinct_Query: "distinct (map fst (Query u))"
proof -
  have "distinct (map fst m) \<Longrightarrow> distinct (map fst (fold add_value kvs m))" for kvs m
    by (induction kvs arbitrary: m) (auto simp: add_value_def)
  then show ?thesis by (simp add: Query_def)
qed


section \<open>Rounding\<close>

lemma exponent_le:
  assumes "x > 0"
  shows "2 powi exponent x \<le> x"
proof -
  obtain p q where pq: "quotient_of x = (p, q)" by fastforce
  have q: "q > 0" using quotient_of_denom_pos [OF pq] .
  have x: "x = of_int p / of_int q" using quotient_of_div [OF pq] .
  have p: "p > 0" using assms q by (simp add: x zero_less_divide_iff)
  let ?fp = "floorlog 2 (nat p)" and ?fq = "floorlog 2 (nat q)"
  have fp: "?fp > 0" using p floorlog_eq_zero_iff [of 2 "nat p"] by simp
  have "int (2 ^ (?fp - 1)) \<le> p" using floorlog_bounds [of "nat p" 2] p by linarith
  then have lo: "(2 :: rat) ^ (?fp - 1) \<le> of_int p" by (metis of_int_le_iff of_int_of_nat_eq of_nat_numeral of_nat_power)
  have "q \<le> int (2 ^ ?fq)" using floorlog_bounds [of "nat q" 2] q by linarith
  then have hi: "(of_int q :: rat) \<le> 2 ^ ?fq" by (metis of_int_le_iff of_int_of_nat_eq of_nat_numeral of_nat_power)
  have "(2 :: rat) powi (int ?fp - int ?fq - 1) = 2 ^ (?fp - 1) / 2 ^ ?fq"
  proof -
    have e: "int ?fp - int ?fq - 1 = int (?fp - 1) - int ?fq" using fp by linarith
    show ?thesis unfolding e by (subst power_int_diff) simp_all
  qed
  also have "\<dots> \<le> of_int p / of_int q"
    by (rule frac_le) (use lo hi p q in auto)
  finally show ?thesis using pq by (auto simp: exponent_def Let_def x)
qed

lemma round_even_bounds:
  "of_int (round_even y) \<le> y + 1 / 2" and round_even_ge: "of_int m \<le> y \<Longrightarrow> m \<le> round_even y"
proof -
  have f: "of_int \<lfloor>y\<rfloor> \<le> y" by simp
  show "of_int (round_even y) \<le> y + 1 / 2"
    using f by (auto simp: round_even_def Let_def field_simps) linarith
  assume "of_int m \<le> y"
  then have "m \<le> \<lfloor>y\<rfloor>" by (simp add: le_floor_iff)
  then show "m \<le> round_even y" by (auto simp: round_even_def Let_def)
qed

lemma round_even_int [simp]: "round_even (of_int n) = n"
  by (simp add: round_even_def)

lemma exponent_unit:
  assumes "0 < x" and "x < 2 ^ 53"
  shows "\<exists>k. 2 powi (exponent x - 52) = (1 :: rat) / 2 ^ k"
proof -
  have "(2 :: rat) powi exponent x < 2 powi 53"
    using exponent_le [OF assms(1)] assms(2) by simp
  then have "exponent x \<le> 52" using power_int_increasing [of 53 "exponent x" "2 :: rat"] by linarith
  then have "(2 :: rat) powi (exponent x - 52) = 1 / 2 ^ nat (52 - exponent x)"
    by (auto simp: power_int_def power_one_over)
  then show ?thesis by blast
qed

lemma rat_less_2_53:
  assumes "n < 2 ^ 53"
  shows "(of_int n :: rat) < 2 ^ 53"
proof -
  have "(of_int n :: rat) < of_int (2 ^ 53)" using assms by (simp only: of_int_less_iff)
  then show ?thesis by simp
qed

lemma float64_int:
  assumes "0 \<le> n" and "n < 2 ^ 53"
  shows "float64 (of_int n) = of_int n"
proof (cases "n = 0")
  case False
  then have n: "(0 :: rat) < of_int n" "(of_int n :: rat) < 2 ^ 53"
    using assms rat_less_2_53 by simp_all
  obtain k where k: "2 powi (exponent (of_int n) - 52) = (1 :: rat) / 2 ^ k"
    using exponent_unit [OF n] by blast
  have "round_pos (of_int n) = of_int (round_even (of_int (n * 2 ^ k))) / 2 ^ k"
    by (simp add: round_pos_def k Let_def)
  then have "round_pos (of_int n) = of_int n" by (simp only: round_even_int) simp
  with n show ?thesis by (simp add: float64_def)
qed (simp add: float64_def)

text \<open>Dividing two small whole numbers in float64 and rounding down is whole division.\<close>

lemma float64_quotient:
  fixes a b :: int
  assumes "0 \<le> a" and "a < 2 ^ 53" and "0 < b"
  shows "\<lfloor>float64 (of_int a / of_int b)\<rfloor> = a div b"
proof (cases "a = 0")
  case False
  define x :: rat where "x = of_int a / of_int b"
  have b: "(0 :: rat) < of_int b" "(1 :: rat) \<le> of_int b" using assms by simp_all
  have a: "(of_int a :: rat) < 2 ^ 53" using assms(2) by (rule rat_less_2_53)
  have x0: "x > 0" using False assms by (simp add: x_def)
  have "x \<le> of_int a" using b assms(1) mult_left_mono [of 1 "of_int b :: rat" "of_int a"]
    by (simp add: x_def divide_le_eq)
  then have x53: "x < 2 ^ 53" using a by simp
  obtain k where k: "2 powi (exponent x - 52) = (1 :: rat) / 2 ^ k"
    using exponent_unit [OF x0 x53] by blast
  let ?q = "a div b"
  have fl: "float64 x = of_int (round_even (x * 2 ^ k)) / 2 ^ k"
    using x0 by (simp add: float64_def round_pos_def k Let_def)
  have "of_int ?q \<le> x"
    using floor_divide_of_int_eq [of a b, where ?'a = rat] of_int_floor_le [of x] by (simp add: x_def)
  then have "of_int (?q * 2 ^ k) \<le> x * 2 ^ k" by simp
  from round_even_ge [OF this] have "(of_int (?q * 2 ^ k) :: rat) \<le> of_int (round_even (x * 2 ^ k))"
    by (simp only: of_int_le_iff)
  then have lo: "of_int ?q \<le> float64 x" by (simp add: fl le_divide_eq)
  have "2 ^ 52 / 2 ^ k = (2 :: rat) powi exponent x"
    using k by (simp add: power_int_diff field_simps)
  then have "2 ^ 52 / 2 ^ k \<le> x" using exponent_le [OF x0] by simp
  then have "1 / 2 / 2 ^ k \<le> x / 2 ^ 53" by (simp add: field_simps)
  also have "\<dots> < 1 / of_int b" using a b by (simp add: x_def divide_less_eq less_divide_eq)
  finally have u: "1 / 2 / 2 ^ k < 1 / (of_int b :: rat)" .
  have "a + 1 \<le> (?q + 1) * b"
    using pos_mod_bound [OF assms(3), of a] div_mult_mod_eq [of a b] unfolding distrib_right by linarith
  then have "(of_int a :: rat) + 1 \<le> (of_int ?q + 1) * of_int b"
    by (metis of_int_1 of_int_add of_int_le_iff of_int_mult)
  then have "x + 1 / of_int b \<le> of_int ?q + 1" using b by (simp add: x_def field_simps)
  moreover have "float64 x \<le> x + 1 / 2 / 2 ^ k"
    using round_even_bounds [of "x * 2 ^ k"] by (simp add: fl field_simps)
  ultimately have "float64 x < of_int ?q + 1" using u by linarith
  with lo show ?thesis by (simp add: x_def floor_eq_iff)
qed (simp add: float64_def)

lemma wrap64_id: "in_int64 i \<Longrightarrow> wrap64 i = i"
  by (simp add: wrap64_def in_int64_def sint_sbintrunc' signed_take_bit_int_eq_self)


section \<open>Links\<close>

lemma calculateOffsetOfLastPage_eq:
  assumes "0 < n" and "n \<le> 2 ^ 53" and "0 < limit" and "limit < 2 ^ 53"
  shows "calculateOffsetOfLastPage n limit = (n - 1) div limit * limit"
proof -
  let ?q = "(n - 1) div limit"
  have q0: "0 \<le> ?q" using assms by (simp add: pos_imp_zdiv_nonneg_iff)
  have m: "?q * limit \<le> n - 1"
    using div_mult_mod_eq [of "n - 1" limit] pos_mod_sign [OF assms(3), of "n - 1"] by linarith
  have q: "0 \<le> ?q" "?q \<le> n - 1" "?q * limit \<le> n - 1" "0 \<le> ?q * limit"
    using q0 m assms(3) mult_left_mono [of 1 limit ?q] by simp_all
  have r: "in_int64 (n - 1)" "in_int64 ?q" "in_int64 (?q * limit)"
    using assms(1,2) q by (auto simp: in_int64_def)
  have "max (float64 (of_int (wrap64 (n - 1)))) 0 = of_int (n - 1)"
    using assms(1,2) r(1) float64_int [of "n - 1"] by (simp add: wrap64_id del: of_int_diff)
  then have "\<lfloor>float64 (max (float64 (of_int (wrap64 (n - 1)))) 0 / float64 (of_int limit))\<rfloor> = ?q"
    using assms float64_quotient [of "n - 1" limit] by (simp add: float64_int del: of_int_diff)
  then show ?thesis
    using assms(3) r by (simp add: calculateOffsetOfLastPage_def Let_def wrap64_id)
qed

lemma join_ne: "x \<in> set xs \<Longrightarrow> x \<noteq> [] \<Longrightarrow> join sep xs \<noteq> []"
proof (induction xs)
  case (Cons y ys)
  then show ?case by (cases ys) auto
qed simp

lemma Values_Encode_ne: "values_of m k \<noteq> [] \<Longrightarrow> Values_Encode m \<noteq> ''''"
proof
  assume v: "values_of m k \<noteq> []" and e: "Values_Encode m = ''''"
  obtain vs where "(k, vs) \<in> set (sort_key fst m)" "vs \<noteq> []"
    using v by (auto simp: values_of_def split: option.splits dest: map_of_SomeD)
  then obtain kv where "kv \<in> set (value_pairs (sort_key fst m))"
    by (cases vs) (fastforce simp: value_pairs_def)+
  then have "encode_pair kv \<in> set (map encode_pair (value_pairs (sort_key fst m)))" by simp
  moreover have "encode_pair kv \<noteq> []" by (simp add: encode_pair_def)
  ultimately show False
    using e join_ne unfolding Values_Encode_def by blast
qed

lemma ParseRequestURI_String:
  assumes "CHR ''?'' \<notin> set (u_path u)"
  shows "ParseRequestURI (url_String u) = \<lparr>u_path = u_path u, u_RawQuery = u_RawQuery u\<rparr>"
proof (cases "u_RawQuery u = ''''")
  case True
  then show ?thesis using cut_absent [OF assms] by (simp add: ParseRequestURI_def url_String_def)
next
  case False
  then show ?thesis using cut_no_sep [OF assms] by (simp add: ParseRequestURI_def url_String_def)
qed

lemma link_values:
  assumes "CHR ''?'' \<notin> set (u_path u)"
  shows "values_of (Query (ParseRequestURI (buildNavigationLink u offset limit))) k =
     (if k = ''limit'' then [Itoa limit] else if k = ''offset'' then [Itoa offset]
      else values_of (Query u) k)"
proof -
  define m where "m = Values_Set ''limit'' (Itoa limit) (Values_Set ''offset'' (Itoa offset) (Query u))"
  have d: "distinct (map fst m)" by (simp add: m_def Values_Set_def distinct_Query)
  have "ParseRequestURI (buildNavigationLink u offset limit)
      = \<lparr>u_path = u_path u, u_RawQuery = Values_Encode m\<rparr>"
    using assms ParseRequestURI_String [of "u\<lparr>u_RawQuery := Values_Encode m\<rparr>"]
    by (simp add: buildNavigationLink_def m_def Let_def)
  then show ?thesis
    using Query_Encode [OF d, of "\<lparr>u_path = u_path u, u_RawQuery = []\<rparr>" k]
    by (simp add: m_def Values_Set_def) (simp add: values_of_def)
qed

lemma Itoa_ne [simp]: "Itoa i \<noteq> ''''"
  by (simp add: Itoa_def)

text \<open>A link, requested, asks for the page it was made for.\<close>

lemma link_followed:
  assumes "CHR ''?'' \<notin> set (u_path u)" and "in_int64 offset" and "0 \<le> offset"
    and "in_int64 limit" and "0 \<le> limit"
  shows "getOffsetAndLimitFromQueryParams etext (ParseRequestURI (buildNavigationLink u offset limit))
     = Inr (offset, limit)"
  using assms
  by (simp add: getOffsetAndLimitFromQueryParams_def getLimitFromQueryParams_def
      getOffsetFromQueryParams_def getIntFromQueryParams_def Values_Get_def link_values Atoi_Itoa)

lemma buildNavigationLink_ne: "buildNavigationLink u offset limit \<noteq> ''''"
proof -
  have "Values_Encode (Values_Set ''limit'' (Itoa limit) m) \<noteq> ''''" for m
    by (rule Values_Encode_ne [of _ "''limit''"]) (simp add: values_of_def Values_Set_def)
  then show ?thesis by (simp add: buildNavigationLink_def url_String_def Let_def)
qed


section \<open>Properties\<close>

text \<open>The page a link asks for when a client requests it.\<close>

definition linked_page :: "(error \<Rightarrow> string) \<Rightarrow> string \<Rightarrow> error + int \<times> int" where
  "linked_page etext link = getOffsetAndLimitFromQueryParams etext (ParseRequestURI link)"

text \<open>
  C38: The navigation links of a page lead where their names say, for totals and limits
  float64 holds exactly and while offset and limit add without overflow. Requested as they
  are, the first link gives offset 0 and the last link the greatest multiple of the limit
  below the total; there is a next link exactly when the next page is not empty, and a
  previous link exactly when this page is not the first. Every link keeps the limit.
\<close>

theorem navigation_links_lead:
  assumes "CHR ''?'' \<notin> set (u_path u)" and "0 \<le> offset" and "0 < limit" and "limit < 2 ^ 53"
    and "offset + limit < 2 ^ 63" and "0 < n" and "n \<le> 2 ^ 53"
    and "l = buildNavigationLinks u offset limit n"
  shows "linked_page etext (First l) = Inr (0, limit)
     \<and> linked_page etext (Last l) = Inr ((n - 1) div limit * limit, limit)
     \<and> (Next l \<noteq> '''' \<longleftrightarrow> offset + limit < n)
     \<and> (Next l \<noteq> '''' \<longrightarrow> linked_page etext (Next l) = Inr (offset + limit, limit))
     \<and> (Prev l \<noteq> '''' \<longleftrightarrow> 0 < offset)
     \<and> (Prev l \<noteq> '''' \<longrightarrow> linked_page etext (Prev l) = Inr (max 0 (offset - limit), limit))"
proof -
  have r: "in_int64 (offset + limit)" "in_int64 (offset - limit)" "in_int64 limit" "in_int64 0"
    "in_int64 (max 0 (offset - limit))"
    using assms(2-5) by (auto simp: in_int64_def)
  have q: "0 \<le> (n - 1) div limit * limit" "in_int64 ((n - 1) div limit * limit)"
  proof -
    have "0 \<le> (n - 1) div limit" using assms by (simp add: pos_imp_zdiv_nonneg_iff)
    then show "0 \<le> (n - 1) div limit * limit" using assms(3) by simp
    moreover have "(n - 1) div limit * limit \<le> n - 1"
      using div_mult_mod_eq [of "n - 1" limit] pos_mod_sign [OF assms(3), of "n - 1"] by linarith
    ultimately show "in_int64 ((n - 1) div limit * limit)" using assms(7) by (simp add: in_int64_def)
  qed
  have page: "linked_page etext (buildNavigationLink u p limit) = Inr (p, limit)" if "0 \<le> p" "in_int64 p" for p
    using link_followed [OF assms(1) that(2,1) r(3)] assms(3) by (simp add: linked_page_def)
  have prev: "(if offset - limit < 0 then 0 else offset - limit) = max 0 (offset - limit)" by simp
  show ?thesis
    using assms(2,3,6) page q r
    by (simp add: assms(8) buildNavigationLinks_def Let_def wrap64_id [OF r(1)] wrap64_id [OF r(2)] prev
        buildNavigationLink_ne calculateOffsetOfLastPage_eq [OF assms(6,7,3,4)])
qed

theorem navigation_links_lead_witness:
  "linked_page (\<lambda>e. '''')
     (Last (buildNavigationLinks \<lparr>u_path = ''/v2/connections'', u_RawQuery = ''limit=5&x=a+b''\<rparr> 5 5 12))
     = Inr (10, 5)"
  using navigation_links_lead [where u = "\<lparr>u_path = ''/v2/connections'', u_RawQuery = ''limit=5&x=a+b''\<rparr>"
      and offset = "5" and limit = "5" and n = "12" and etext = "\<lambda>e. ''''"]
  by simp

end
