(* ===== verification/Http_Auth.thy ===== *)
theory Http_Auth
  imports Mqtt_Proxy Pagination
begin

text \<open>
  Who may call the REST API: the requests and handlers of \<^verbatim>\<open>net/http\<close> as far as the
  program uses them, and the authentication middleware (\<^verbatim>\<open>internal/middlewares\<close>:
  \<^verbatim>\<open>auth.go\<close>, \<^verbatim>\<open>service_credentials.go\<close>, \<^verbatim>\<open>principal.go\<close>, \<^verbatim>\<open>turnpike_auth.go\<close>). The
  identity middleware of the platform is a library and a parameter.
\<close>

section \<open>Requests and handlers\<close>

record serviceToServicePrincipal =
  sp_account :: string
  sp_clientID :: string
  sp_orgID :: string

text \<open>
  A request. Header names are stored in their canonical form, as the server reads them.
  The context holds the principal of a service and, in \<open>req_identity\<close>, whatever the
  identity library put there.
\<close>

record 'k request =
  req_Header :: "(string \<times> string list) list"
  req_URL :: url
  req_Vars :: "(string \<times> string) list"
  req_Body :: string
  req_identity :: 'k
  req_principal :: "serviceToServicePrincipal option"

type_synonym ('k, 'w) handler = "'k request \<Rightarrow> ('w, unit) action"

text \<open>
  \<^verbatim>\<open>textproto.CanonicalMIMEHeaderKey\<close> on the names used here, made of letters and hyphens:
  capitals at the start and after a hyphen, small letters elsewhere.
\<close>

definition to_upper :: "char \<Rightarrow> char" where
  "to_upper c = (let n = of_char c in if 97 \<le> n \<and> n \<le> (122 :: nat) then char_of (n - 32) else c)"

definition to_lower :: "char \<Rightarrow> char" where
  "to_lower c = (let n = of_char c in if 65 \<le> n \<and> n \<le> (90 :: nat) then char_of (n + 32) else c)"

fun canonical_key :: "bool \<Rightarrow> string \<Rightarrow> string" where
  "canonical_key upper [] = []"
| "canonical_key upper (c # cs) =
     (if upper then to_upper c else to_lower c) # canonical_key (c = CHR ''-'') cs"

definition Header_Get :: "(string \<times> string list) list \<Rightarrow> string \<Rightarrow> string" where
  "Header_Get h key =
     (case map_of h (canonical_key True key) of
        Some (v # vs) \<Rightarrow> v
      | _ \<Rightarrow> '''')"

text \<open>\<^verbatim>\<open>http.Error\<close>: a status and a line of text.\<close>

definition http_Error :: "string \<Rightarrow> int \<Rightarrow> ('a server_scheme, unit) action" where
  "http_Error msg code w = (Ret (), w\<lparr>responses := responses w @ [(code, TextBody (msg @ [CHR 0x0A]))]\<rparr>)"

section \<open>The middleware\<close>

definition authErrorMessage :: string where
  "authErrorMessage = ''Authentication failed''"

definition authErrorLogHeader :: string where
  "authErrorLogHeader = ''Authentication error: ''"

definition identityHeader :: string where
  "identityHeader = ''x-rh-identity''"

definition PSKClientIdHeader :: string where
  "PSKClientIdHeader = ''x-rh-cloud-connector-client-id''"

definition PSKOrgIdHeader :: string where
  "PSKOrgIdHeader = ''x-rh-cloud-connector-org-id''"

definition PSKAccountHeader :: string where
  "PSKAccountHeader = ''x-rh-cloud-connector-account''"

definition PSKHeader :: string where
  "PSKHeader = ''x-rh-cloud-connector-psk''"

datatype RequiredTenantIdentifier = Account | OrgID_required

record serviceCredentials =
  sc_clientID :: string
  sc_orgID :: string
  sc_account :: string
  sc_psk :: string

definition newServiceCredentials :: "string \<Rightarrow> string \<Rightarrow> string \<Rightarrow> string \<Rightarrow> serviceCredentials" where
  "newServiceCredentials clientID orgID account psk =
     \<lparr>sc_clientID = clientID, sc_orgID = orgID, sc_account = account, sc_psk = psk\<rparr>"

text \<open>The known credentials are decoded configuration, a \<^verbatim>\<open>map[string]interface{}\<close>.\<close>

record serviceCredentialsValidator =
  knownServiceCredentials :: "(string \<times> json) list"

definition validate :: "serviceCredentialsValidator \<Rightarrow> serviceCredentials \<Rightarrow> error option" where
  "validate scv sc =
     (if index_map (knownServiceCredentials scv) (sc_clientID sc) = JNull
      then Some (ErrorString (authErrorLogHeader @ ''Provided ClientID not attached to any known keys''))
      else if JStr (sc_psk sc) \<noteq> index_map (knownServiceCredentials scv) (sc_clientID sc)
      then Some (ErrorString (authErrorLogHeader @ ''Provided PSK does not match known key for this client''))
      else None)"

definition verifyHeader :: "'k request \<Rightarrow> string \<Rightarrow> bool \<Rightarrow> error + string" where
  "verifyHeader r header required =
     (let value = Header_Get (req_Header r) header
      in if required \<and> value = ''''
         then Inl (ErrorString (authErrorLogHeader @ ''Missing '' @ header @ '' header''))
         else Inr value)"

text \<open>The values in the order client id, org id, account, pre-shared key.\<close>

definition retrieveHeaderValues ::
  "'k request \<Rightarrow> RequiredTenantIdentifier \<Rightarrow> error + string \<times> string \<times> string \<times> string" where
  "retrieveHeaderValues r requiredTenant =
     (case verifyHeader r PSKClientIdHeader True of
        Inl err \<Rightarrow> Inl err
      | Inr clientID \<Rightarrow>
          (case verifyHeader r PSKOrgIdHeader (requiredTenant = OrgID_required) of
             Inl err \<Rightarrow> Inl err
           | Inr orgID \<Rightarrow>
               (case verifyHeader r PSKAccountHeader (requiredTenant = Account) of
                  Inl err \<Rightarrow> Inl err
                | Inr account \<Rightarrow>
                    (case verifyHeader r PSKHeader True of
                       Inl err \<Rightarrow> Inl err
                     | Inr psk \<Rightarrow> Inr (clientID, orgID, account, psk)))))"

definition handlePSKAuthentication ::
  "('k, 'a server_scheme) handler \<Rightarrow> 'k request \<Rightarrow> (string \<times> json) list
    \<Rightarrow> RequiredTenantIdentifier \<Rightarrow> ('a server_scheme, unit) action" where
  "handlePSKAuthentication next_handler r secrets requiredTenant w =
     (case retrieveHeaderValues r requiredTenant of
        Inl err \<Rightarrow> http_Error authErrorMessage 401 w
      | Inr (clientID, orgID, account, psk) \<Rightarrow>
          (let sr = newServiceCredentials clientID orgID account psk;
               validator = \<lparr>knownServiceCredentials = secrets\<rparr>
           in case validate validator sr of
                Some err \<Rightarrow> http_Error authErrorMessage 401 w
              | None \<Rightarrow>
                  (let p = \<lparr>sp_account = sc_account sr, sp_clientID = sc_clientID sr,
                            sp_orgID = sc_orgID sr\<rparr>
                   in next_handler (r\<lparr>req_principal := Some p\<rparr>) w)))"

record ('k, 'w) AuthMiddleware =
  Secrets :: "(string \<times> json) list"
  IdentityAuth :: "('k, 'w) handler \<Rightarrow> ('k, 'w) handler"
  Required :: RequiredTenantIdentifier

definition Authenticate ::
  "('k, 'a server_scheme) AuthMiddleware \<Rightarrow> ('k, 'a server_scheme) handler
    \<Rightarrow> ('k, 'a server_scheme) handler" where
  "Authenticate amw next_handler r w =
     (if Header_Get (req_Header r) identityHeader \<noteq> ''''
      then IdentityAuth amw next_handler r w
      else handlePSKAuthentication next_handler r (Secrets amw) (Required amw) w)"

section \<open>Identities\<close>

text \<open>The fields of a platform identity that the program reads.\<close>

record XRHID =
  id_AccountNumber :: string
  id_OrgID :: string
  id_Type :: string

text \<open>
  The identity library: \<open>enforce\<close> is the middleware \<^verbatim>\<open>identity.EnforceIdentity\<close>, which
  answers a request it refuses (a status and a text) or passes it on with an identity in
  its context; \<open>GetIdentity\<close> reads the context.
\<close>

record 'k identity_lib =
  enforce :: "'k request \<Rightarrow> (int \<times> string) + 'k"
  GetIdentity :: "'k \<Rightarrow> XRHID"

definition EnforceIdentity ::
  "'k identity_lib \<Rightarrow> ('k, 'a server_scheme) handler \<Rightarrow> ('k, 'a server_scheme) handler" where
  "EnforceIdentity lib next_handler r w =
     (case enforce lib r of
        Inl (status, msg) \<Rightarrow> http_Error msg status w
      | Inr ctx \<Rightarrow> next_handler (r\<lparr>req_identity := ctx\<rparr>) w)"

definition EnforceTurnpikeAuthentication ::
  "'k identity_lib \<Rightarrow> ('k, 'a server_scheme) handler \<Rightarrow> ('k, 'a server_scheme) handler" where
  "EnforceTurnpikeAuthentication lib next_handler r w =
     (let xrhID = GetIdentity lib (req_identity r)
      in if id_Type xrhID \<noteq> ''Associate'' then http_Error authErrorMessage 401 w
         else next_handler r w)"

datatype Principal =
    ServiceToServicePrincipal serviceToServicePrincipal
  | IdentityPrincipal (ip_account: string) (ip_orgID: string)

fun GetAccount :: "Principal \<Rightarrow> string" where
  "GetAccount (ServiceToServicePrincipal sp) = sp_account sp"
| "GetAccount (IdentityPrincipal account orgID) = account"

fun GetOrgID :: "Principal \<Rightarrow> string" where
  "GetOrgID (ServiceToServicePrincipal sp) = sp_orgID sp"
| "GetOrgID (IdentityPrincipal account orgID) = orgID"

definition GetPrincipal :: "'k identity_lib \<Rightarrow> 'k request \<Rightarrow> Principal option" where
  "GetPrincipal lib r =
     (case req_principal r of
        Some p \<Rightarrow> Some (ServiceToServicePrincipal p)
      | None \<Rightarrow>
          (let i = GetIdentity lib (req_identity r)
           in if id_OrgID i = '''' then None
              else Some (IdentityPrincipal (id_AccountNumber i) (id_OrgID i))))"

text \<open>A method call on the nil interface panics; every handler begins with one.\<close>

definition with_principal ::
  "'k identity_lib \<Rightarrow> (Principal \<Rightarrow> ('k, 'w) handler) \<Rightarrow> ('k, 'w) handler" where
  "with_principal lib h r w =
     (case GetPrincipal lib r of None \<Rightarrow> (Panic, w) | Some p \<Rightarrow> h p r w)"

section \<open>Lemmas\<close>

text \<open>The credentials a request presents, and when the service accepts them.\<close>

definition presented :: "'k request \<Rightarrow> serviceToServicePrincipal" where
  "presented r =
     \<lparr>sp_account = Header_Get (req_Header r) PSKAccountHeader,
      sp_clientID = Header_Get (req_Header r) PSKClientIdHeader,
      sp_orgID = Header_Get (req_Header r) PSKOrgIdHeader\<rparr>"

definition psk_accepted :: "(string \<times> json) list \<Rightarrow> RequiredTenantIdentifier \<Rightarrow> 'k request \<Rightarrow> bool" where
  "psk_accepted secrets tenant r \<longleftrightarrow>
     (let p = presented r; psk = Header_Get (req_Header r) PSKHeader
      in sp_clientID p \<noteq> '''' \<and> psk \<noteq> ''''
         \<and> map_of secrets (sp_clientID p) = Some (JStr psk)
         \<and> (case tenant of Account \<Rightarrow> sp_account p \<noteq> '''' | OrgID_required \<Rightarrow> sp_orgID p \<noteq> ''''))"


lemma handlePSKAuthentication_eq:
  "handlePSKAuthentication h r secrets tenant w =
     (if psk_accepted secrets tenant r
      then h (r\<lparr>req_principal := Some (presented r)\<rparr>) w
      else http_Error authErrorMessage 401 w)"
proof -
  have t: "tenant = Account \<or> tenant = OrgID_required" by (cases tenant) auto
  show ?thesis
    using t
    by (auto simp: handlePSKAuthentication_def retrieveHeaderValues_def verifyHeader_def Let_def
        psk_accepted_def presented_def newServiceCredentials_def
        validate_def index_map_def split: option.splits)
qed


section \<open>Properties\<close>

text \<open>
  C30: Without an identity header, a request reaches the handler exactly when it names a
  known service, carries that service's key and states the tenant identifier the interface
  requires; the handler then sees the tenant of the headers. Any other such request is
  answered with 401 and changes nothing else.
\<close>

theorem psk_authentication_decides:
  assumes "Header_Get (req_Header r) identityHeader = ''''"
  shows "Authenticate amw h r w =
     (if psk_accepted (Secrets amw) (Required amw) r
      then h (r\<lparr>req_principal := Some (presented r)\<rparr>) w
      else (Ret (), w\<lparr>responses := responses w @ [(401, TextBody (authErrorMessage @ [CHR 0x0A]))]\<rparr>))"
  using assms by (simp add: Authenticate_def handlePSKAuthentication_eq http_Error_def)

definition example_request :: "unit request" where
  "example_request =
     \<lparr>req_Header = [(''X-Rh-Cloud-Connector-Client-Id'', [''svc'']),
                    (''X-Rh-Cloud-Connector-Org-Id'', [''o1'']),
                    (''X-Rh-Cloud-Connector-Account'', [''a1'']),
                    (''X-Rh-Cloud-Connector-Psk'', [''key''])],
      req_URL = \<lparr>u_path = ''/v2/connections'', u_RawQuery = ''''\<rparr>,
      req_Vars = [(''id'', ''c1'')], req_Body = ''{}'', req_identity = (), req_principal = None\<rparr>"

definition example_secrets :: "(string \<times> json) list" where
  "example_secrets = [(''svc'', JStr ''key'')]"

lemma example_request_headers:
  "Header_Get (req_Header example_request) identityHeader = ''''"
  "Header_Get (req_Header example_request) PSKClientIdHeader = ''svc''"
  "Header_Get (req_Header example_request) PSKOrgIdHeader = ''o1''"
  "Header_Get (req_Header example_request) PSKAccountHeader = ''a1''"
  "Header_Get (req_Header example_request) PSKHeader = ''key''"
  by code_simp+

lemma example_request_accepted: "psk_accepted example_secrets tenant example_request"
  by (cases tenant) (simp_all add: psk_accepted_def presented_def example_request_headers example_secrets_def)

theorem psk_authentication_decides_witness:
  "Authenticate \<lparr>Secrets = example_secrets, IdentityAuth = id, Required = Account\<rparr>
       (\<lambda>r. http_Error (sp_account (the (req_principal r))) 200) example_request (example_server [])
     = http_Error ''a1'' 200 (example_server [])"
  using psk_authentication_decides [OF example_request_headers(1), where amw =
      "\<lparr>Secrets = example_secrets, IdentityAuth = id, Required = Account\<rparr>"
      and h = "\<lambda>r. http_Error (sp_account (the (req_principal r))) 200" and w = "example_server []"]
  by (simp add: example_request_accepted presented_def example_request_headers)

end
