(* ===== verification/Rest_Api.thy ===== *)
theory Rest_Api
  imports Http_Auth Connection_Locator
begin

text \<open>
  The handlers of the REST API (\<^verbatim>\<open>internal/controller/api\<close>): the message receiver of
  version 1 (\<^verbatim>\<open>message_receiver.go\<close>), the connection mediator of version 2
  (\<^verbatim>\<open>connection_mediator_v2.go\<close>) and the management server (\<^verbatim>\<open>management.go\<close>), with the
  helpers they share (\<^verbatim>\<open>utils.go\<close>) and their routes behind the authentication middleware.
  A handler is written for any lookup of connections and any proxy factory, as in the
  code; the locale \<open>client_api\<close> states what it relies on, and the interpretations are the
  two lookups and the MQTT factory the API server is wired with.
\<close>

section \<open>Writing responses, reading bodies\<close>

text \<open>
  Every payload is a JSON value, which always encodes. The first write decides the status
  the client sees; later ones add to the body.
\<close>

definition writeJSONResponse :: "int \<Rightarrow> json option \<Rightarrow> ('a server_scheme, unit) action" where
  "writeJSONResponse status payload w =
     (Ret (), w\<lparr>responses := responses w
        @ [(status, case payload of None \<Rightarrow> NoBody | Some j \<Rightarrow> JsonBody j)]\<rparr>)"

definition errorResponse_json :: "string \<Rightarrow> int \<Rightarrow> string \<Rightarrow> json" where
  "errorResponse_json title status detail =
     JObj [(''title'', JStr title), (''status'', JNum (of_int status)), (''detail'', JStr detail)]"

text \<open>\<open>writeErrorResponse\<close> is the pair of lines each error branch has.\<close>

definition writeErrorResponse :: "string \<Rightarrow> int \<Rightarrow> string \<Rightarrow> ('a server_scheme, unit) action" where
  "writeErrorResponse title status detail =
     writeJSONResponse status (Some (errorResponse_json title status detail))"

text \<open>
  The libraries a handler calls: the platform identity, and \<^verbatim>\<open>err.Error()\<close>, the text of an
  error.
\<close>

record 'k api_libs =
  al_identity :: "'k identity_lib"
  al_Error :: "error \<Rightarrow> string"

text \<open>
  Reading a body into a struct. \<open>bd_decode\<close> is the JSON decoder on at most a mebibyte; it
  leaves the interface variable nil (\<open>None\<close>) when the body is null, and then the struct
  keeps its zero value. \<open>bd_more\<close> says whether input follows. \<open>bd_Struct\<close> is the
  validator, which tells a violated tag from an argument that is not a struct.
\<close>

datatype validation = Valid | ValidationErrors | InvalidValidationError

record 'r body_decoder =
  bd_decode :: "string \<Rightarrow> error + 'r option"
  bd_more :: "string \<Rightarrow> bool"
  bd_Struct :: "'r option \<Rightarrow> validation"
  bd_zero :: 'r

definition decodeJSON :: "'r body_decoder \<Rightarrow> string \<Rightarrow> (error + 'r) go" where
  "decodeJSON d body =
     (case bd_decode d body of
        Inl err \<Rightarrow> Ret (Inl (ErrorString ''Request body includes malformed json''))
      | Inr data \<Rightarrow>
          (case bd_Struct d data of
             InvalidValidationError \<Rightarrow> Panic
           | ValidationErrors \<Rightarrow> Ret (Inl (ErrorString ''Request body is missing required fields''))
           | Valid \<Rightarrow>
               (if bd_more d body
                then Ret (Inl (ErrorString ''Request body must only contain one json object''))
                else Ret (Inr (case data of None \<Rightarrow> bd_zero d | Some r \<Rightarrow> r)))))"

definition writeInvalidInputResponse :: "'k api_libs \<Rightarrow> error \<Rightarrow> ('a server_scheme, unit) action" where
  "writeInvalidInputResponse libs err =
     writeErrorResponse ''Unable to process input parameters'' 400 (al_Error libs err)"

definition writeConnectionFailureResponse :: "('a server_scheme, unit) action" where
  "writeConnectionFailureResponse =
     writeErrorResponse ''No connection to the rhc client'' 404 ''No connection to the rhc client''"

text \<open>The tenant translator.\<close>

definition EANToOrgID :: "AccountID \<Rightarrow> 'a server_scheme \<Rightarrow> (error + OrgID) \<times> 'a server_scheme" where
  "EANToOrgID account w = (ean_to_org w (ean_calls w) account, w\<lparr>ean_calls := Suc (ean_calls w)\<rparr>)"

definition createConnectorClientProxy ::
  "('a server_scheme) GetConnectionByClientID \<Rightarrow> ('a server_scheme) ConnectorClientProxyFactory
    \<Rightarrow> AccountID \<Rightarrow> ClientID \<Rightarrow> 'a server_scheme
    \<Rightarrow> (error + ('a server_scheme) ConnectorClient) \<times> 'a server_scheme" where
  "createConnectorClientProxy getConnectionByClientID proxyFactory account clientId w =
     (case EANToOrgID account w of
        (Inl err, w1) \<Rightarrow> (Inl err, w1)
      | (Inr resolvedOrgId, w1) \<Rightarrow>
          (case getConnectionByClientID resolvedOrgId clientId w1 of
             ((clientState, Some err), w2) \<Rightarrow> (Inl err, w2)
           | ((clientState, None), w2) \<Rightarrow>
               (proxyFactory (cs_OrgID clientState) (cs_Account clientState) (cs_ClientID clientState)
                  (cs_CanonicalFacts clientState) (cs_Dispatchers clientState) (cs_Tags clientState),
                w2)))"

section \<open>Version 1: the message receiver\<close>

record messageRequest =
  mr_Account :: string
  mr_Recipient :: string
  mr_Payload :: json
  mr_Metadata :: json
  mr_Directive :: string

definition messageResponse_json :: "string \<Rightarrow> json" where
  "messageResponse_json jobID = JObj [(''id'', JStr jobID)]"

definition accountMismatchErrorMsg :: string where
  "accountMismatchErrorMsg = ''Account mismatch''"

definition emptyDirectictiveErrorMsg :: string where
  "emptyDirectictiveErrorMsg = ''Directive field is empty''"

text \<open>
  What both versions do with a client object: send, and answer. The id of a message that
  was sent without one is a nil pointer, and printing it panics.
\<close>

definition sendToClient ::
  "'k api_libs \<Rightarrow> ('a server_scheme) ConnectorClient \<Rightarrow> string \<Rightarrow> json \<Rightarrow> json
    \<Rightarrow> ('a server_scheme, unit) action" where
  "sendToClient libs client directive metadata payload w =
     (case cli_SendMessage client directive metadata payload w of
        ((jobID, Some err), w1) \<Rightarrow>
          (if err = ErrDisconnectedNode then writeConnectionFailureResponse w1
           else writeErrorResponse ''Error passing message to rhc client'' 500 (al_Error libs err) w1)
      | ((None, None), w1) \<Rightarrow> (Panic, w1)
      | ((Some jobID, None), w1) \<Rightarrow> writeJSONResponse 201 (Some (messageResponse_json jobID)) w1)"

definition handleJob ::
  "'k api_libs \<Rightarrow> messageRequest body_decoder \<Rightarrow> ('a server_scheme) GetConnectionByClientID
    \<Rightarrow> ('a server_scheme) ConnectorClientProxyFactory \<Rightarrow> ('k, 'a server_scheme) handler" where
  "handleJob libs dec getConnectionByClientID proxyFactory =
     with_principal (al_identity libs) (\<lambda>p req w.
       case decodeJSON dec (req_Body req) of
         Panic \<Rightarrow> (Panic, w)
       | Exit \<Rightarrow> (Exit, w)
       | Ret (Inl err) \<Rightarrow> writeErrorResponse ''Unable to process json input'' 400 (al_Error libs err) w
       | Ret (Inr msgRequest) \<Rightarrow>
           (if GetAccount p \<noteq> mr_Account msgRequest
            then writeErrorResponse accountMismatchErrorMsg 403 accountMismatchErrorMsg w
            else if length (TrimSpace (mr_Directive msgRequest)) = 0
            then writeErrorResponse emptyDirectictiveErrorMsg 400 emptyDirectictiveErrorMsg w
            else
              (case createConnectorClientProxy getConnectionByClientID proxyFactory
                      (mr_Account msgRequest) (mr_Recipient msgRequest) w of
                 (Inl err, w1) \<Rightarrow> writeConnectionFailureResponse w1
               | (Inr client, w1) \<Rightarrow>
                   sendToClient libs client (mr_Directive msgRequest) (mr_Metadata msgRequest)
                     (mr_Payload msgRequest) w1)))"

definition CONNECTED_STATUS :: string where
  "CONNECTED_STATUS = ''connected''"

definition DISCONNECTED_STATUS :: string where
  "DISCONNECTED_STATUS = ''disconnected''"

record connectionID =
  ci_Account :: string
  ci_NodeID :: string

text \<open>The option \<^verbatim>\<open>omitempty\<close> on an interface field: left out when nil.\<close>

definition omit_nil :: "string \<Rightarrow> json \<Rightarrow> (string \<times> json) list" where
  "omit_nil k v = (if v = JNull then [] else [(k, v)])"

definition connectionStatusResponse_json :: "string \<Rightarrow> json \<Rightarrow> json \<Rightarrow> json \<Rightarrow> json" where
  "connectionStatusResponse_json status dispatchers facts tags =
     JObj ((''status'', JStr status) # omit_nil ''dispatchers'' dispatchers
           @ omit_nil ''canonical_facts'' facts @ omit_nil ''tags'' tags)"

definition getConnectionStatus ::
  "'k api_libs \<Rightarrow> connectionID body_decoder \<Rightarrow> ('a server_scheme) GetConnectionByClientID
    \<Rightarrow> ('k request \<Rightarrow> connectionID \<Rightarrow> error option go) \<Rightarrow> ('k, 'a server_scheme) handler" where
  "getConnectionStatus libs dec getConnectionByClientID verifyInput =
     with_principal (al_identity libs) (\<lambda>p req w.
       case decodeJSON dec (req_Body req) of
         Panic \<Rightarrow> (Panic, w)
       | Exit \<Rightarrow> (Exit, w)
       | Ret (Inl err) \<Rightarrow> writeErrorResponse ''Unable to process json input'' 400 (al_Error libs err) w
       | Ret (Inr connID) \<Rightarrow>
           (case verifyInput req connID of
              Panic \<Rightarrow> (Panic, w)
            | Exit \<Rightarrow> (Exit, w)
            | Ret (Some err) \<Rightarrow> writeErrorResponse (al_Error libs err) 403 (al_Error libs err) w
            | Ret None \<Rightarrow>
                (case EANToOrgID (ci_Account connID) w of
                   (Inl err, w1) \<Rightarrow>
                     writeErrorResponse ''Unable to translate account to org_id'' 400 (al_Error libs err) w1
                 | (Inr resolvedOrgId, w1) \<Rightarrow>
                     (case getConnectionByClientID resolvedOrgId (ci_NodeID connID) w1 of
                        ((clientState, None), w2) \<Rightarrow>
                          writeJSONResponse 200 (Some (connectionStatusResponse_json CONNECTED_STATUS
                            (cs_Dispatchers clientState) (cs_CanonicalFacts clientState)
                            (cs_Tags clientState))) w2
                      | ((clientState, Some err), w2) \<Rightarrow>
                          writeJSONResponse 200 (Some (connectionStatusResponse_json DISCONNECTED_STATUS
                            JNull JNull JNull)) w2))))"

definition MessageReceiver_handleConnectionStatus ::
  "'k api_libs \<Rightarrow> connectionID body_decoder \<Rightarrow> ('a server_scheme) GetConnectionByClientID
    \<Rightarrow> ('k, 'a server_scheme) handler" where
  "MessageReceiver_handleConnectionStatus libs dec getConnectionByClientID =
     getConnectionStatus libs dec getConnectionByClientID (\<lambda>req connID.
       case GetPrincipal (al_identity libs) req of
         None \<Rightarrow> Panic
       | Some p \<Rightarrow>
           (if GetAccount p \<noteq> ci_Account connID then Ret (Some (ErrorString accountMismatchErrorMsg))
            else Ret None))"


section \<open>Version 2: the connection mediator\<close>

record messageRequestV2 =
  m2_Payload :: json
  m2_Metadata :: json
  m2_Directive :: string

text \<open>\<^verbatim>\<open>mux.Vars\<close> holds the variables of the route.\<close>

definition getClientIDFromRequestPath :: "'k request \<Rightarrow> ClientID" where
  "getClientIDFromRequestPath req =
     (case map_of (req_Vars req) ''id'' of None \<Rightarrow> '''' | Some v \<Rightarrow> v)"

definition handleSendMessage ::
  "'k api_libs \<Rightarrow> messageRequestV2 body_decoder \<Rightarrow> ('a server_scheme) GetConnectionByClientID
    \<Rightarrow> ('a server_scheme) ConnectorClientProxyFactory \<Rightarrow> ('k, 'a server_scheme) handler" where
  "handleSendMessage libs dec getConnectionByClientID proxyFactory =
     with_principal (al_identity libs) (\<lambda>p req w.
       let recipient = getClientIDFromRequestPath req
       in case decodeJSON dec (req_Body req) of
         Panic \<Rightarrow> (Panic, w)
       | Exit \<Rightarrow> (Exit, w)
       | Ret (Inl err) \<Rightarrow> writeErrorResponse ''Unable to process json input'' 400 (al_Error libs err) w
       | Ret (Inr msgRequest) \<Rightarrow>
           (if length (TrimSpace (m2_Directive msgRequest)) = 0
            then writeErrorResponse emptyDirectictiveErrorMsg 400 emptyDirectictiveErrorMsg w
            else
              (case getConnectionByClientID (GetOrgID p) recipient w of
                 ((clientState, Some err), w1) \<Rightarrow> writeConnectionFailureResponse w1
               | ((clientState, None), w1) \<Rightarrow>
                   (case proxyFactory (cs_OrgID clientState) (cs_Account clientState)
                           (cs_ClientID clientState) (cs_CanonicalFacts clientState)
                           (cs_Dispatchers clientState) (cs_Tags clientState) of
                      Inl err \<Rightarrow> writeConnectionFailureResponse w1
                    | Inr client \<Rightarrow>
                        sendToClient libs client (m2_Directive msgRequest) (m2_Metadata msgRequest)
                          (m2_Payload msgRequest) w1))))"

text \<open>The fields of \<^verbatim>\<open>connectionResponseV2\<close>.\<close>

definition convertConnectorClientStateToConnectionResponseV2 ::
  "ConnectorClientState \<Rightarrow> (string \<times> json) list" where
  "convertConnectorClientStateToConnectionResponseV2 c =
     omit_empty ''account'' (cs_Account c) @ omit_empty ''org_id'' (cs_OrgID c)
     @ omit_empty ''client_id'' (cs_ClientID c) @ omit_nil ''canonical_facts'' (cs_CanonicalFacts c)
     @ omit_nil ''dispatchers'' (cs_Dispatchers c) @ omit_nil ''tags'' (cs_Tags c)"

definition connectionStatusResponseV2_json :: "string \<Rightarrow> (string \<times> json) list \<Rightarrow> json" where
  "connectionStatusResponseV2_json status conn = JObj ((''status'', JStr status) # conn)"

definition convertConnectorClientStateToConnectionStatusResponseV2 :: "ConnectorClientState \<Rightarrow> json" where
  "convertConnectorClientStateToConnectionStatusResponseV2 c =
     connectionStatusResponseV2_json ''connected'' (convertConnectorClientStateToConnectionResponseV2 c)"

definition MediatorV2_handleConnectionStatus ::
  "'k api_libs \<Rightarrow> ('a server_scheme) GetConnectionByClientID \<Rightarrow> ('k, 'a server_scheme) handler" where
  "MediatorV2_handleConnectionStatus libs getConnectionByClientID =
     with_principal (al_identity libs) (\<lambda>p req w.
       let recipient = getClientIDFromRequestPath req
       in case getConnectionByClientID (GetOrgID p) recipient w of
            ((clientState, Some err), w1) \<Rightarrow>
              (if err = NotFoundError
               then writeJSONResponse 200 (Some (connectionStatusResponseV2_json DISCONNECTED_STATUS [])) w1
               else writeConnectionFailureResponse w1)
          | ((clientState, None), w1) \<Rightarrow>
              writeJSONResponse 200
                (Some (convertConnectorClientStateToConnectionStatusResponseV2 clientState)) w1)"

type_synonym 'w GetConnectionsByOrgID =
  "OrgID \<Rightarrow> int \<Rightarrow> int \<Rightarrow> 'w \<Rightarrow> ((ClientID \<times> ConnectorClientState) list \<times> int \<times> error option) \<times> 'w"

text \<open>After a failed listing the handler writes the error and goes on to write the page.\<close>

definition handleConnectionListByOrgId ::
  "'k api_libs \<Rightarrow> ('a server_scheme) GetConnectionsByOrgID \<Rightarrow> ('k, 'a server_scheme) handler" where
  "handleConnectionListByOrgId libs getConnectionsByOrgID =
     with_principal (al_identity libs) (\<lambda>p req w.
       case getOffsetAndLimitFromQueryParams (al_Error libs) (req_URL req) of
         Inl err \<Rightarrow> writeErrorResponse ''Invalid request'' 400 (al_Error libs err) w
       | Inr (offset, limit) \<Rightarrow>
           (case getConnectionsByOrgID (GetOrgID p) offset limit w of
              ((accountConnections, totalConnections, err), w1) \<Rightarrow>
                (let w2 = (case err of
                             None \<Rightarrow> w1
                           | Some e \<Rightarrow> snd (writeErrorResponse ''Error looking up connections by org_id''
                                              500 (al_Error libs e) w1));
                     conns = map (\<lambda>(k, c). JObj (convertConnectorClientStateToConnectionResponseV2 c))
                               accountConnections
                 in writeJSONResponse 200
                      (Some (buildPaginatedResponse (req_URL req) offset limit totalConnections (JArr conns))) w2)))"

section \<open>The management server\<close>

record disconnectRequest =
  dr_Account :: AccountID
  dr_NodeID :: ClientID
  dr_Message :: string

record reconnectRequest =
  rr_Account :: AccountID
  rr_NodeID :: ClientID
  rr_Delay :: int
  rr_Message :: string

definition DECODE_ERROR :: string where
  "DECODE_ERROR = ''Unable to process json input''"

definition NEGATIVE_DELAY_ERROR :: string where
  "NEGATIVE_DELAY_ERROR = ''Delay field cannot be negative''"

definition PING_ERROR :: string where
  "PING_ERROR = ''Ping failed''"

definition createConnectorClient ::
  "('a server_scheme) GetConnectionByClientID \<Rightarrow> ('a server_scheme) ConnectorClientProxyFactory
    \<Rightarrow> AccountID \<Rightarrow> ClientID \<Rightarrow> 'a server_scheme
    \<Rightarrow> (error + ('a server_scheme) ConnectorClient) \<times> 'a server_scheme" where
  "createConnectorClient getConnectionByClientID proxyFactory account clientId =
     createConnectorClientProxy getConnectionByClientID proxyFactory account clientId"

definition no_connection_msg :: "AccountID \<Rightarrow> ClientID \<Rightarrow> string" where
  "no_connection_msg account node = ''No connection found for node ('' @ account @ '':'' @ node @ '')''"

definition handleDisconnect ::
  "'k api_libs \<Rightarrow> disconnectRequest body_decoder \<Rightarrow> ('a server_scheme) GetConnectionByClientID
    \<Rightarrow> ('a server_scheme) ConnectorClientProxyFactory \<Rightarrow> ('k, 'a server_scheme) handler" where
  "handleDisconnect libs dec getConnectionByClientID proxyFactory =
     with_principal (al_identity libs) (\<lambda>p req w.
       case decodeJSON dec (req_Body req) of
         Panic \<Rightarrow> (Panic, w)
       | Exit \<Rightarrow> (Exit, w)
       | Ret (Inl err) \<Rightarrow> writeErrorResponse DECODE_ERROR 400 (al_Error libs err) w
       | Ret (Inr disconnectReq) \<Rightarrow>
           (case createConnectorClient getConnectionByClientID proxyFactory
                   (dr_Account disconnectReq) (dr_NodeID disconnectReq) w of
              (Inl err, w1) \<Rightarrow>
                (let errMsg = no_connection_msg (dr_Account disconnectReq) (dr_NodeID disconnectReq)
                 in writeErrorResponse errMsg 400 errMsg w1)
            | (Inr client, w1) \<Rightarrow>
                (let (_, w2) = cli_Disconnect client (dr_Message disconnectReq) w1
                 in writeJSONResponse 200 (Some (JObj [])) w2)))"

definition handleReconnect ::
  "'k api_libs \<Rightarrow> reconnectRequest body_decoder \<Rightarrow> ('a server_scheme) GetConnectionByClientID
    \<Rightarrow> ('a server_scheme) ConnectorClientProxyFactory \<Rightarrow> ('k, 'a server_scheme) handler" where
  "handleReconnect libs dec getConnectionByClientID proxyFactory =
     with_principal (al_identity libs) (\<lambda>p req w.
       case decodeJSON dec (req_Body req) of
         Panic \<Rightarrow> (Panic, w)
       | Exit \<Rightarrow> (Exit, w)
       | Ret (Inl err) \<Rightarrow> writeErrorResponse DECODE_ERROR 400 (al_Error libs err) w
       | Ret (Inr reconnectReq) \<Rightarrow>
           (if rr_Delay reconnectReq < 0
            then writeErrorResponse NEGATIVE_DELAY_ERROR 400 NEGATIVE_DELAY_ERROR w
            else
              (case createConnectorClient getConnectionByClientID proxyFactory
                      (rr_Account reconnectReq) (rr_NodeID reconnectReq) w of
                 (Inl err, w1) \<Rightarrow>
                   (let errMsg = no_connection_msg (rr_Account reconnectReq) (rr_NodeID reconnectReq)
                    in writeErrorResponse errMsg 400 errMsg w1)
               | (Inr client, w1) \<Rightarrow>
                   (let (_, w2) = cli_Reconnect client (rr_Message reconnectReq) (rr_Delay reconnectReq) w1
                    in writeJSONResponse 200 None w2))))"

definition Management_handleConnectionStatus ::
  "'k api_libs \<Rightarrow> connectionID body_decoder \<Rightarrow> ('a server_scheme) GetConnectionByClientID
    \<Rightarrow> ('k, 'a server_scheme) handler" where
  "Management_handleConnectionStatus libs dec getConnectionByClientID =
     getConnectionStatus libs dec getConnectionByClientID (\<lambda>req connID. Ret None)"

definition connectionPingResponse_json :: "string \<Rightarrow> json" where
  "connectionPingResponse_json status = JObj [(''status'', JStr status), (''payload'', JNull)]"

definition handleConnectionPing ::
  "'k api_libs \<Rightarrow> connectionID body_decoder \<Rightarrow> ('a server_scheme) GetConnectionByClientID
    \<Rightarrow> ('a server_scheme) ConnectorClientProxyFactory \<Rightarrow> ('k, 'a server_scheme) handler" where
  "handleConnectionPing libs dec getConnectionByClientID proxyFactory =
     with_principal (al_identity libs) (\<lambda>p req w.
       case decodeJSON dec (req_Body req) of
         Panic \<Rightarrow> (Panic, w)
       | Exit \<Rightarrow> (Exit, w)
       | Ret (Inl err) \<Rightarrow> writeErrorResponse DECODE_ERROR 400 (al_Error libs err) w
       | Ret (Inr connID) \<Rightarrow>
           (case createConnectorClient getConnectionByClientID proxyFactory
                   (ci_Account connID) (ci_NodeID connID) w of
              (Inl err, w1) \<Rightarrow>
                writeJSONResponse 200 (Some (connectionPingResponse_json DISCONNECTED_STATUS)) w1
            | (Inr client, w1) \<Rightarrow>
                (case cli_Ping client w1 of
                   (Some pingErr, w2) \<Rightarrow> writeErrorResponse PING_ERROR 400 (al_Error libs pingErr) w2
                 | (None, w2) \<Rightarrow>
                     writeJSONResponse 200 (Some (connectionPingResponse_json CONNECTED_STATUS)) w2)))"

text \<open>The parameters of the two listings, as pairs and triples.\<close>

definition getConnectionListingParams :: "'k api_libs \<Rightarrow> 'k request \<Rightarrow> error + int \<times> int" where
  "getConnectionListingParams libs req =
     (case getLimitFromQueryParams (al_Error libs) (req_URL req) of
        Inl err \<Rightarrow> Inl err
      | Inr limit \<Rightarrow>
          (case getOffsetFromQueryParams (al_Error libs) (req_URL req) of
             Inl err \<Rightarrow> Inl err
           | Inr offset \<Rightarrow> Inr (offset, limit)))"

definition getConnectionListingByAccountParams ::
  "'k api_libs \<Rightarrow> 'k request \<Rightarrow> error + string \<times> int \<times> int" where
  "getConnectionListingByAccountParams libs req =
     (let accountId = (case map_of (req_Vars req) ''id'' of None \<Rightarrow> '''' | Some v \<Rightarrow> v)
      in case getLimitFromQueryParams (al_Error libs) (req_URL req) of
           Inl err \<Rightarrow> Inl err
         | Inr limit \<Rightarrow>
             (case getOffsetFromQueryParams (al_Error libs) (req_URL req) of
                Inl err \<Rightarrow> Inl err
              | Inr offset \<Rightarrow> Inr (accountId, offset, limit)))"

type_synonym 'w GetAllConnections =
  "int \<Rightarrow> int \<Rightarrow> 'w
    \<Rightarrow> ((AccountID \<times> (ClientID \<times> ConnectorClientState) list) list \<times> int \<times> error option) \<times> 'w"

text \<open>The errors of the two listings are dropped.\<close>

definition handleConnectionListing ::
  "'k api_libs \<Rightarrow> ('a server_scheme) GetAllConnections \<Rightarrow> ('k, 'a server_scheme) handler" where
  "handleConnectionListing libs getAllConnections =
     with_principal (al_identity libs) (\<lambda>p req w.
       case getConnectionListingParams libs req of
         Inl err \<Rightarrow> writeInvalidInputResponse libs err w
       | Inr (offset, limit) \<Rightarrow>
           (case getAllConnections offset limit w of
              ((allReceptorConnections, totalConnections, _), w1) \<Rightarrow>
                (let conns = map (\<lambda>(key, value).
                       JObj [(''account'', JStr key),
                             (''connections'', JArr (map (\<lambda>(k, _). JStr k) value))]) allReceptorConnections
                 in writeJSONResponse 200
                      (Some (buildPaginatedResponse (req_URL req) offset limit totalConnections (JArr conns))) w1)))"

definition handleConnectionListingByAccount ::
  "'k api_libs \<Rightarrow> ('a server_scheme) GetConnectionsByOrgID \<Rightarrow> ('k, 'a server_scheme) handler" where
  "handleConnectionListingByAccount libs getConnectionsByOrgID =
     with_principal (al_identity libs) (\<lambda>p req w.
       case getConnectionListingByAccountParams libs req of
         Inl err \<Rightarrow> writeInvalidInputResponse libs err w
       | Inr (accountId, offset, limit) \<Rightarrow>
           (case EANToOrgID accountId w of
              (Inl err, w1) \<Rightarrow> writeInvalidInputResponse libs err w1
            | (Inr resolvedOrgId, w1) \<Rightarrow>
                (case getConnectionsByOrgID resolvedOrgId offset limit w1 of
                   ((accountConnections, totalConnections, _), w2) \<Rightarrow>
                     (let conns = map (\<lambda>(k, _). JStr k) accountConnections
                      in writeJSONResponse 200
                           (Some (buildPaginatedResponse (req_URL req) offset limit totalConnections
                              (JArr conns))) w2))))"


section \<open>What the handlers rely on\<close>

text \<open>
  A lookup that keeps its access rule and neither publishes nor answers, and a factory
  whose clients speak on their own topics. \<open>quiet\<close> relates two states that differ in no
  published message, no response and no row.
\<close>

definition quiet :: "'a server_scheme \<Rightarrow> 'a server_scheme \<Rightarrow> bool" where
  "quiet w w' \<longleftrightarrow>
     published w' = published w \<and> responses w' = responses w \<and> connections w' = connections w"

text \<open>
  \<open>answered T w w'\<close>: one response was written, at most one message went out, on a topic of
  \<open>T\<close>, and the table is as it was.
\<close>

definition answered :: "string set \<Rightarrow> 'a server_scheme \<Rightarrow> 'a server_scheme \<Rightarrow> bool" where
  "answered T w w' \<longleftrightarrow>
     (\<exists>ps. published w' = published w @ ps \<and> length ps \<le> 1 \<and> pub_topic ` set ps \<subseteq> T)
     \<and> (\<exists>a. responses w' = responses w @ [a]) \<and> connections w' = connections w"

lemma quiet_refl [simp]: "quiet w w"
  by (simp add: quiet_def)

lemma quiet_trans: "quiet u v \<Longrightarrow> quiet v w \<Longrightarrow> quiet u w"
  by (simp add: quiet_def)

lemma write_answered:
  "quiet w w1 \<Longrightarrow> writeJSONResponse s p w1 = (r, w') \<Longrightarrow> answered T w w'"
  "quiet w w1 \<Longrightarrow> writeErrorResponse t s d w1 = (r, w') \<Longrightarrow> answered T w w'"
  "quiet w w1 \<Longrightarrow> writeConnectionFailureResponse w1 = (r, w') \<Longrightarrow> answered T w w'"
  by (auto simp: writeJSONResponse_def writeErrorResponse_def writeConnectionFailureResponse_def
      answered_def quiet_def)

lemma write_after_speaking:
  "quiet w w1 \<Longrightarrow> spoke T w1 w2 \<Longrightarrow> writeJSONResponse s p w2 = (r, w') \<Longrightarrow> answered T w w'"
  "quiet w w1 \<Longrightarrow> spoke T w1 w2 \<Longrightarrow> writeErrorResponse t s d w2 = (r, w') \<Longrightarrow> answered T w w'"
  "quiet w w1 \<Longrightarrow> spoke T w1 w2 \<Longrightarrow> writeConnectionFailureResponse w2 = (r, w') \<Longrightarrow> answered T w w'"
  by (auto simp: writeJSONResponse_def writeErrorResponse_def writeConnectionFailureResponse_def
      answered_def quiet_def spoke_def)

lemma EANToOrgID_quiet: "EANToOrgID a w = (r, w') \<Longrightarrow> quiet w w'"
  by (auto simp: EANToOrgID_def quiet_def)

locale client_api =
  connection_lookup lookup permitted + proxy_factory factory data_topics control_topics
  for lookup :: "('a server_scheme) GetConnectionByClientID"
    and permitted :: "OrgID \<Rightarrow> row \<Rightarrow> bool"
    and factory :: "('a server_scheme) ConnectorClientProxyFactory"
    and data_topics :: "ClientID \<Rightarrow> string"
    and control_topics :: "ClientID \<Rightarrow> string" +
  assumes lookup_quiet: "lookup org cid w = (res, w') \<Longrightarrow> quiet w w'"
begin

lemma sendToClient_answered:
  assumes "connector_client cl dt ct" and "quiet w w1"
    and "sendToClient libs cl d md p w1 = (out, w')" and "out \<noteq> Panic"
  shows "answered {dt} w w'"
proof -
  obtain i e w2 where s: "cli_SendMessage cl d md p w1 = ((i, e), w2)"
    by (metis surj_pair)
  have sp: "spoke {dt} w1 w2" using connector_client.SendMessage_spoke [OF assms(1) s] .
  show ?thesis
    using assms(3,4) s write_after_speaking [OF assms(2) sp]
    by (auto simp: sendToClient_def split: option.splits if_splits)
qed

lemma sendToClient_spoke:
  assumes "connector_client cl dt ct" and "sendToClient libs cl d md p w = (out, w')"
  shows "\<exists>ps. published w' = published w @ ps \<and> length ps \<le> 1 \<and> pub_topic ` set ps \<subseteq> {dt}"
    and "connections w' = connections w"
proof -
  obtain i e w2 where s: "cli_SendMessage cl d md p w = ((i, e), w2)"
    by (metis surj_pair)
  have sp: "spoke {dt} w w2" using connector_client.SendMessage_spoke [OF assms(1) s] .
  have "published w' = published w2 \<and> connections w' = connections w2"
    using assms(2) s
    by (auto simp: sendToClient_def writeJSONResponse_def writeErrorResponse_def
        writeConnectionFailureResponse_def split: option.splits if_splits)
  then show "\<exists>ps. published w' = published w @ ps \<and> length ps \<le> 1 \<and> pub_topic ` set ps \<subseteq> {dt}"
    "connections w' = connections w"
    using sp by (auto simp: spoke_def)
qed

text \<open>A proxy is made only for a client the resolved tenant may see.\<close>

lemma createConnectorClientProxy_client:
  assumes "createConnectorClientProxy lookup factory acct cid w = (res, w')"
  shows "quiet w w'
     \<and> (\<forall>cl. res = Inr cl \<longrightarrow> connector_client cl (data_topics cid) (control_topics cid)
          \<and> (\<exists>org r. ean_to_org w (ean_calls w) acct = Inr org \<and> r \<in> set (connections w)
                \<and> visible permitted org cid r))"
proof -
  obtain e0 w1 where e: "EANToOrgID acct w = (e0, w1)" by (metis surj_pair)
  have q1: "quiet w w1" using EANToOrgID_quiet [OF e] .
  show ?thesis
  proof (cases e0)
    case (Inl err)
    then show ?thesis using assms e q1 by (auto simp: createConnectorClientProxy_def)
  next
    case (Inr org)
    obtain c er w2 where l: "lookup org cid w1 = ((c, er), w2)" by (metis surj_pair)
    have q2: "quiet w w2" using quiet_trans [OF q1 lookup_quiet [OF l]] .
    show ?thesis
    proof (cases er)
      case None
      have cid: "cs_ClientID c = cid" and vis: "\<exists>r\<in>set (connections w1). visible permitted org cid r"
        using l None lookup_owner [of org cid w1 c w2] lookup_found [of org cid w1 c w2] by auto
      have "ean_to_org w (ean_calls w) acct = Inr org"
        using e Inr by (simp add: EANToOrgID_def)
      moreover have "connections w1 = connections w" using q1 by (simp add: quiet_def)
      ultimately show ?thesis
        using assms e Inr l None q2 cid vis factory_client
        by (auto simp: createConnectorClientProxy_def)
    next
      case (Some x)
      then show ?thesis using assms e Inr l q2 by (auto simp: createConnectorClientProxy_def)
    qed
  qed
qed

text \<open>The three handlers that send a message to a client.\<close>

lemma handleSendMessage_publishes:
  assumes "handleSendMessage libs dec lookup factory req w = (out, w')"
    and "published w' \<noteq> published w"
  shows "\<exists>p r pub. GetPrincipal (al_identity libs) req = Some p \<and> r \<in> set (connections w)
     \<and> visible permitted (GetOrgID p) (getClientIDFromRequestPath req) r
     \<and> published w' = published w @ [pub]
     \<and> pub_topic pub = data_topics (getClientIDFromRequestPath req)"
proof -
  let ?cid = "getClientIDFromRequestPath req"
  obtain p where p: "GetPrincipal (al_identity libs) req = Some p"
    using assms by (auto simp: handleSendMessage_def with_principal_def split: option.splits)
  obtain m where m: "decodeJSON dec (req_Body req) = Ret (Inr m)" "TrimSpace (m2_Directive m) \<noteq> []"
    using assms p
    by (auto simp: handleSendMessage_def with_principal_def writeErrorResponse_def writeJSONResponse_def
        split: go.splits sum.splits if_splits)
  obtain c er w1 where l: "lookup (GetOrgID p) ?cid w = ((c, er), w1)" by (metis surj_pair)
  have q: "quiet w w1" using lookup_quiet [OF l] .
  have none: "er = None"
    using assms p m l q
    by (auto simp: handleSendMessage_def with_principal_def writeConnectionFailureResponse_def
        writeErrorResponse_def writeJSONResponse_def quiet_def split: option.splits)
  have cid: "cs_ClientID c = ?cid"
    and vis: "\<exists>r\<in>set (connections w). visible permitted (GetOrgID p) ?cid r"
    using l none lookup_owner [of "GetOrgID p" ?cid w c w1] lookup_found [of "GetOrgID p" ?cid w c w1]
    by auto
  obtain cl where cl: "factory (cs_OrgID c) (cs_Account c) ?cid (cs_CanonicalFacts c)
      (cs_Dispatchers c) (cs_Tags c) = Inr cl"
    using assms p m l none q cid
    by (auto simp: handleSendMessage_def with_principal_def writeConnectionFailureResponse_def
        writeErrorResponse_def writeJSONResponse_def quiet_def split: sum.splits)
  have "sendToClient libs cl (m2_Directive m) (m2_Metadata m) (m2_Payload m) w1 = (out, w')"
    using assms(1) p m l none cl cid by (simp add: handleSendMessage_def with_principal_def)
  from sendToClient_spoke(1) [OF factory_client [OF cl] this] obtain ps where
    ps: "published w' = published w1 @ ps" "length ps \<le> 1" "pub_topic ` set ps \<subseteq> {data_topics ?cid}"
    by blast
  then obtain pub where "ps = [pub]"
    using assms(2) q by (cases ps) (auto simp: quiet_def)
  then show ?thesis using ps p vis q by (auto simp: quiet_def)
qed

lemma handleJob_publishes:
  assumes "handleJob libs dec lookup factory req w = (out, w')"
    and "published w' \<noteq> published w"
  shows "\<exists>p m org r pub. GetPrincipal (al_identity libs) req = Some p
     \<and> decodeJSON dec (req_Body req) = Ret (Inr m) \<and> mr_Account m = GetAccount p
     \<and> ean_to_org w (ean_calls w) (GetAccount p) = Inr org \<and> r \<in> set (connections w)
     \<and> visible permitted org (mr_Recipient m) r
     \<and> published w' = published w @ [pub] \<and> pub_topic pub = data_topics (mr_Recipient m)"
proof -
  obtain p where p: "GetPrincipal (al_identity libs) req = Some p"
    using assms by (auto simp: handleJob_def with_principal_def split: option.splits)
  obtain m where m: "decodeJSON dec (req_Body req) = Ret (Inr m)" "TrimSpace (mr_Directive m) \<noteq> []"
      "GetAccount p = mr_Account m"
    using assms p
    by (auto simp: handleJob_def with_principal_def writeErrorResponse_def writeJSONResponse_def
        split: go.splits sum.splits if_splits)
  obtain res w1 where c: "createConnectorClientProxy lookup factory (mr_Account m) (mr_Recipient m) w = (res, w1)"
    by (metis surj_pair)
  have q: "quiet w w1" using createConnectorClientProxy_client [OF c] by blast
  obtain cl where cl: "res = Inr cl"
    using assms p m c q
    by (auto simp: handleJob_def with_principal_def writeConnectionFailureResponse_def
        writeErrorResponse_def writeJSONResponse_def quiet_def split: sum.splits)
  obtain org r where cc: "connector_client cl (data_topics (mr_Recipient m)) (control_topics (mr_Recipient m))"
    and org: "ean_to_org w (ean_calls w) (mr_Account m) = Inr org" "r \<in> set (connections w)"
      "visible permitted org (mr_Recipient m) r"
    using createConnectorClientProxy_client [OF c] cl by blast
  have "sendToClient libs cl (mr_Directive m) (mr_Metadata m) (mr_Payload m) w1 = (out, w')"
    using assms(1) p m c cl by (simp add: handleJob_def with_principal_def)
  from sendToClient_spoke(1) [OF cc this] obtain ps where
    ps: "published w' = published w1 @ ps" "length ps \<le> 1"
      "pub_topic ` set ps \<subseteq> {data_topics (mr_Recipient m)}"
    by blast
  then obtain pub where "ps = [pub]"
    using assms(2) q by (cases ps) (auto simp: quiet_def)
  then show ?thesis using ps p m org q by (auto simp: quiet_def)
qed

text \<open>
  The management handlers that send a command: \<open>commanded\<close> is what they share. The command
  goes to a client the tenant of the named account may see.
\<close>

lemma commanded:
  assumes "createConnectorClientProxy lookup factory acct cid w = (Inr cl, w1)"
    and "spoke {control_topics cid} w1 w2" and "published w2 \<noteq> published w"
  shows "\<exists>org r pub. ean_to_org w (ean_calls w) acct = Inr org \<and> r \<in> set (connections w)
     \<and> visible permitted org cid r \<and> published w2 = published w @ [pub]
     \<and> pub_topic pub = control_topics cid"
proof -
  obtain org r where cc: "quiet w w1"
      "ean_to_org w (ean_calls w) acct = Inr org" "r \<in> set (connections w)" "visible permitted org cid r"
    using createConnectorClientProxy_client [OF assms(1)] by blast
  obtain ps where ps: "published w2 = published w @ ps" "length ps \<le> 1" "pub_topic ` set ps \<subseteq> {control_topics cid}"
    using assms(2) cc(1) by (auto simp: spoke_def quiet_def)
  then obtain pub where "ps = [pub]" using assms(3) by (cases ps) auto
  then show ?thesis using ps cc by auto
qed

lemma proxy_commands:
  assumes "createConnectorClientProxy lookup factory acct cid w = (Inr cl, w1)"
  shows "cli_Ping cl w1 = (e, w2) \<Longrightarrow> spoke {control_topics cid} w1 w2"
    and "cli_Reconnect cl msg delay w1 = (e, w2) \<Longrightarrow> spoke {control_topics cid} w1 w2"
    and "cli_Disconnect cl msg w1 = (e, w2) \<Longrightarrow> spoke {control_topics cid} w1 w2"
proof -
  have c: "connector_client cl (data_topics cid) (control_topics cid)"
    using createConnectorClientProxy_client [OF assms] by blast
  show "cli_Ping cl w1 = (e, w2) \<Longrightarrow> spoke {control_topics cid} w1 w2"
    "cli_Reconnect cl msg delay w1 = (e, w2) \<Longrightarrow> spoke {control_topics cid} w1 w2"
    "cli_Disconnect cl msg w1 = (e, w2) \<Longrightarrow> spoke {control_topics cid} w1 w2"
    using connector_client.Ping_spoke [OF c] connector_client.Reconnect_spoke [OF c]
      connector_client.Disconnect_spoke [OF c] by blast+
qed

lemmas responses_only =
  writeJSONResponse_def writeErrorResponse_def writeConnectionFailureResponse_def

lemma handleDisconnect_publishes:
  assumes "handleDisconnect libs dec lookup factory req w = (out, w')" and "published w' \<noteq> published w"
  shows "\<exists>m org r pub. decodeJSON dec (req_Body req) = Ret (Inr m)
     \<and> ean_to_org w (ean_calls w) (dr_Account m) = Inr org \<and> r \<in> set (connections w)
     \<and> visible permitted org (dr_NodeID m) r
     \<and> published w' = published w @ [pub] \<and> pub_topic pub = control_topics (dr_NodeID m)"
proof -
  obtain m where m: "decodeJSON dec (req_Body req) = Ret (Inr m)"
    using assms by (auto simp: handleDisconnect_def with_principal_def responses_only
        split: option.splits go.splits sum.splits)
  obtain res w1 where c: "createConnectorClientProxy lookup factory (dr_Account m) (dr_NodeID m) w = (res, w1)"
    by (metis surj_pair)
  have q: "quiet w w1" using createConnectorClientProxy_client [OF c] by blast
  obtain cl where cl: "res = Inr cl"
    using assms m c q by (auto simp: handleDisconnect_def createConnectorClient_def with_principal_def
        responses_only Let_def quiet_def split: option.splits sum.splits)
  obtain e w2 where d: "cli_Disconnect cl (dr_Message m) w1 = (e, w2)" by (metis surj_pair)
  have "published w' = published w2"
    using assms m c cl d by (auto simp: handleDisconnect_def createConnectorClient_def with_principal_def
        responses_only Let_def split: option.splits)
  then show ?thesis
    using commanded [OF c [unfolded cl] proxy_commands(3) [OF c [unfolded cl] d]] assms(2) m by simp
qed

lemma handleReconnect_publishes:
  assumes "handleReconnect libs dec lookup factory req w = (out, w')" and "published w' \<noteq> published w"
  shows "\<exists>m org r pub. decodeJSON dec (req_Body req) = Ret (Inr m) \<and> 0 \<le> rr_Delay m
     \<and> ean_to_org w (ean_calls w) (rr_Account m) = Inr org \<and> r \<in> set (connections w)
     \<and> visible permitted org (rr_NodeID m) r
     \<and> published w' = published w @ [pub] \<and> pub_topic pub = control_topics (rr_NodeID m)"
proof -
  obtain m where m: "decodeJSON dec (req_Body req) = Ret (Inr m)" "0 \<le> rr_Delay m"
    using assms by (auto simp: handleReconnect_def with_principal_def responses_only
        split: option.splits go.splits sum.splits if_splits)
  obtain res w1 where c: "createConnectorClientProxy lookup factory (rr_Account m) (rr_NodeID m) w = (res, w1)"
    by (metis surj_pair)
  have q: "quiet w w1" using createConnectorClientProxy_client [OF c] by blast
  obtain cl where cl: "res = Inr cl"
    using assms m c q by (auto simp: handleReconnect_def createConnectorClient_def with_principal_def
        responses_only Let_def quiet_def split: option.splits sum.splits)
  obtain e w2 where d: "cli_Reconnect cl (rr_Message m) (rr_Delay m) w1 = (e, w2)" by (metis surj_pair)
  have "published w' = published w2"
    using assms m c cl d by (auto simp: handleReconnect_def createConnectorClient_def with_principal_def
        responses_only Let_def split: option.splits)
  then show ?thesis
    using commanded [OF c [unfolded cl] proxy_commands(2) [OF c [unfolded cl] d]] assms(2) m by simp
qed

lemma handleConnectionPing_publishes:
  assumes "handleConnectionPing libs dec lookup factory req w = (out, w')" and "published w' \<noteq> published w"
  shows "\<exists>m org r pub. decodeJSON dec (req_Body req) = Ret (Inr m)
     \<and> ean_to_org w (ean_calls w) (ci_Account m) = Inr org \<and> r \<in> set (connections w)
     \<and> visible permitted org (ci_NodeID m) r
     \<and> published w' = published w @ [pub] \<and> pub_topic pub = control_topics (ci_NodeID m)"
proof -
  obtain m where m: "decodeJSON dec (req_Body req) = Ret (Inr m)"
    using assms by (auto simp: handleConnectionPing_def with_principal_def responses_only
        split: option.splits go.splits sum.splits)
  obtain res w1 where c: "createConnectorClientProxy lookup factory (ci_Account m) (ci_NodeID m) w = (res, w1)"
    by (metis surj_pair)
  have q: "quiet w w1" using createConnectorClientProxy_client [OF c] by blast
  obtain cl where cl: "res = Inr cl"
    using assms m c q by (auto simp: handleConnectionPing_def createConnectorClient_def with_principal_def
        responses_only Let_def quiet_def split: option.splits sum.splits)
  obtain e w2 where d: "cli_Ping cl w1 = (e, w2)" by (metis surj_pair)
  have "published w' = published w2"
    using assms m c cl d by (auto simp: handleConnectionPing_def createConnectorClient_def with_principal_def
        responses_only Let_def split: option.splits)
  then show ?thesis
    using commanded [OF c [unfolded cl] proxy_commands(1) [OF c [unfolded cl] d]] assms(2) m by simp
qed

end


section \<open>The API server's lookups and factory\<close>

lemma impl_quiet:
  "createGetConnectionByClientIDImpl q org cid w = (res, w') \<Longrightarrow> quiet w w'"
  for w :: "'a server_scheme"
  by (auto simp: createGetConnectionByClientIDImpl_def db_call_def quiet_def
      split: option.splits prod.splits if_splits)

interpretation strict_api: client_api SqlGetConnectionByClientID "\<lambda>org r. r_org_id r = org"
    "CreateProxy ccpf" "BuildOutgoingDataTopic (pf_topicBuilder ccpf)"
    "BuildOutgoingControlTopic (pf_topicBuilder ccpf)" for ccpf
proof (rule client_api.intro [OF strict.connection_lookup_axioms mqtt_factory.proxy_factory_axioms],
    rule client_api_axioms.intro)
  show "SqlGetConnectionByClientID org cid w = (res, w') \<Longrightarrow> quiet w w'" for org cid res
    and w w' :: "'a server_scheme"
    unfolding SqlGetConnectionByClientID_def by (rule impl_quiet)
qed

interpretation relaxed_api: client_api PermittedTenantSqlGetConnectionByClientID
    "\<lambda>org r. r_org_id r = org \<or> jsonb_exists (r_dispatchers r) satelliteWorker"
    "CreateProxy ccpf" "BuildOutgoingDataTopic (pf_topicBuilder ccpf)"
    "BuildOutgoingControlTopic (pf_topicBuilder ccpf)" for ccpf
proof (rule client_api.intro [OF relaxed.connection_lookup_axioms mqtt_factory.proxy_factory_axioms],
    rule client_api_axioms.intro)
  show "PermittedTenantSqlGetConnectionByClientID org cid w = (res, w') \<Longrightarrow> quiet w w'" for org cid res
    and w w' :: "'a server_scheme"
    unfolding PermittedTenantSqlGetConnectionByClientID_def by (rule impl_quiet)
qed


text \<open>
  When the listing of version 2 fails, the handler answers twice: the error, and then a
  page, because the error branch does not return.
\<close>

lemma list_failure_answers_twice:
  assumes "GetPrincipal (al_identity libs) req = Some p"
    and "getOffsetAndLimitFromQueryParams (al_Error libs) (req_URL req) = Inr (offset, limit)"
    and "byOrgID (GetOrgID p) offset limit w = ((cs, n, Some e), w1)" and "responses w1 = responses w"
  shows "\<exists>b1 b2. responses (snd (handleConnectionListByOrgId libs byOrgID req w))
     = responses w @ [(500, b1), (200, b2)]"
  using assms
  by (simp add: handleConnectionListByOrgId_def with_principal_def writeErrorResponse_def
      writeJSONResponse_def Let_def)

text \<open>A body that is the JSON null makes every handler that reads one panic.\<close>

lemma null_body_panics:
  assumes "bd_decode dec body = Inr None" and "bd_Struct dec None = InvalidValidationError"
  shows "decodeJSON dec body = Panic"
  using assms by (simp add: decodeJSON_def)

end
