(* ===== verification/Api_Server.thy ===== *)
theory Api_Server
  imports Rest_Api
begin

text \<open>
  The routes of the three servers behind their middleware (\<^verbatim>\<open>Routes\<close> in
  \<^verbatim>\<open>message_receiver.go\<close>, \<^verbatim>\<open>connection_mediator_v2.go\<close> and \<^verbatim>\<open>management.go\<close>) and the
  wiring of the API server (\<^verbatim>\<open>cmd/cloud-connector/api_server.go\<close>), with the properties
  that span authentication, lookup, proxy and broker.
\<close>

section \<open>Routes\<close>

text \<open>
  A route: method, path template and handler. The router that matches a request against
  the templates is a library. Access log and metrics wrap every handler without effect on
  what is modelled.
\<close>

record ('k, 'w) route =
  rt_method :: string
  rt_path :: string
  rt_handler :: "('k, 'w) handler"

text \<open>How the bodies of the requests are read.\<close>

record api_decoders =
  dec_message :: "messageRequest body_decoder"
  dec_messageV2 :: "messageRequestV2 body_decoder"
  dec_connectionID :: "connectionID body_decoder"
  dec_disconnect :: "disconnectRequest body_decoder"
  dec_reconnect :: "reconnectRequest body_decoder"

definition MessageReceiver_Routes ::
  "'k api_libs \<Rightarrow> api_decoders \<Rightarrow> ('a server_scheme) GetConnectionByClientID
    \<Rightarrow> ('a server_scheme) ConnectorClientProxyFactory \<Rightarrow> Config
    \<Rightarrow> ('k, 'a server_scheme) route list" where
  "MessageReceiver_Routes libs dec byClientID proxyFactory cfg =
     (let amw = \<lparr>Secrets = ServiceToServiceCredentials cfg,
                 IdentityAuth = EnforceIdentity (al_identity libs), Required = Account\<rparr>;
          path = (\<lambda>p. UrlBasePath cfg @ p);
          secured = Authenticate amw
      in [\<lparr>rt_method = ''POST'', rt_path = path ''/v1/message'',
           rt_handler = secured (handleJob libs (dec_message dec) byClientID proxyFactory)\<rparr>,
          \<lparr>rt_method = ''POST'', rt_path = path ''/v1/connection_status'',
           rt_handler = secured
             (MessageReceiver_handleConnectionStatus libs (dec_connectionID dec) byClientID)\<rparr>])"

definition ConnectionMediatorV2_Routes ::
  "'k api_libs \<Rightarrow> api_decoders \<Rightarrow> ('a server_scheme) GetConnectionByClientID
    \<Rightarrow> ('a server_scheme) GetConnectionsByOrgID \<Rightarrow> ('a server_scheme) ConnectorClientProxyFactory
    \<Rightarrow> Config \<Rightarrow> ('k, 'a server_scheme) route list" where
  "ConnectionMediatorV2_Routes libs dec byClientID byOrgID proxyFactory cfg =
     (let amw = \<lparr>Secrets = ServiceToServiceCredentials cfg,
                 IdentityAuth = EnforceIdentity (al_identity libs), Required = OrgID_required\<rparr>;
          path = (\<lambda>p. UrlBasePath cfg @ p);
          secured = Authenticate amw
      in [\<lparr>rt_method = ''POST'', rt_path = path ''/v2/connections/{id}/message'',
           rt_handler = secured (handleSendMessage libs (dec_messageV2 dec) byClientID proxyFactory)\<rparr>,
          \<lparr>rt_method = ''GET'', rt_path = path ''/v2/connections/{id}/status'',
           rt_handler = secured (MediatorV2_handleConnectionStatus libs byClientID)\<rparr>,
          \<lparr>rt_method = ''GET'', rt_path = path ''/v2/connections'',
           rt_handler = secured (handleConnectionListByOrgId libs byOrgID)\<rparr>])"

definition ManagementServer_Routes ::
  "'k api_libs \<Rightarrow> api_decoders \<Rightarrow> ('a server_scheme) GetConnectionByClientID
    \<Rightarrow> ('a server_scheme) GetConnectionsByOrgID \<Rightarrow> ('a server_scheme) GetAllConnections
    \<Rightarrow> ('a server_scheme) ConnectorClientProxyFactory \<Rightarrow> Config
    \<Rightarrow> ('k, 'a server_scheme) route list" where
  "ManagementServer_Routes libs dec byClientID byOrgID allConnections proxyFactory cfg =
     (let amw = \<lparr>Secrets = ServiceToServiceCredentials cfg,
                 IdentityAuth = (\<lambda>next_handler. EnforceIdentity (al_identity libs)
                   (EnforceTurnpikeAuthentication (al_identity libs) next_handler)),
                 Required = Account\<rparr>;
          pathPrefix = UrlBasePath cfg @ ''/v1/connection'';
          path = (\<lambda>p. pathPrefix @ p);
          secured = Authenticate amw
      in [\<lparr>rt_method = ''GET'', rt_path = path '''',
           rt_handler = secured (handleConnectionListing libs allConnections)\<rparr>,
          \<lparr>rt_method = ''GET'', rt_path = path ''/{id:[0-9]+}'',
           rt_handler = secured (handleConnectionListingByAccount libs byOrgID)\<rparr>,
          \<lparr>rt_method = ''POST'', rt_path = path ''/disconnect'',
           rt_handler = secured (handleDisconnect libs (dec_disconnect dec) byClientID proxyFactory)\<rparr>,
          \<lparr>rt_method = ''POST'', rt_path = path ''/reconnect'',
           rt_handler = secured (handleReconnect libs (dec_reconnect dec) byClientID proxyFactory)\<rparr>,
          \<lparr>rt_method = ''POST'', rt_path = path ''/status'',
           rt_handler = secured (Management_handleConnectionStatus libs (dec_connectionID dec) byClientID)\<rparr>,
          \<lparr>rt_method = ''POST'', rt_path = path ''/ping'',
           rt_handler = secured (handleConnectionPing libs (dec_connectionID dec) byClientID proxyFactory)\<rparr>])"

section \<open>Wiring\<close>

definition buildConnectionLookupInstances ::
  "Config \<Rightarrow> ('a server_scheme) GetConnectionByClientID" where
  "buildConnectionLookupInstances cfg =
     (if ApiServerConnectionLookupImpl cfg = ''relaxed''
      then PermittedTenantSqlGetConnectionByClientID
      else SqlGetConnectionByClientID)"

text \<open>
  The tenant translator's table of the mock implementation: an empty string in the
  configuration means no tenant, and a value that is not a string panics.
\<close>

fun buildTenantTranslatorMockMapping ::
  "(string \<times> json) list \<Rightarrow> (string \<times> string option) list go" where
  "buildTenantTranslatorMockMapping [] = Ret []"
| "buildTenantTranslatorMockMapping ((k, v) # kvs) =
     go_bind (as_string v) (\<lambda>value.
       go_bind (buildTenantTranslatorMockMapping kvs) (\<lambda>mapping.
         Ret ((k, if value = '''' then None else Some value) # mapping)))"

text \<open>
  The routes the server registers, in order. The management server always looks
  connections up strictly; the other two by the configured way.
\<close>

definition apiMux_routes ::
  "'k api_libs \<Rightarrow> api_decoders \<Rightarrow> collation \<Rightarrow> ConnectorClientMQTTProxyFactory \<Rightarrow> Config
    \<Rightarrow> ('k, 'a server_scheme) route list" where
  "apiMux_routes libs dec coll proxyFactory cfg =
     (let managementGetConnectionByOrgID = SqlGetConnectionByClientID;
          getConnectionFunction = buildConnectionLookupInstances cfg;
          getConnectionListByOrgIDFunction = SqlGetConnectionsByOrgID coll;
          getAllConnections = GetAllConnections coll
      in MessageReceiver_Routes libs dec getConnectionFunction (CreateProxy proxyFactory) cfg
         @ ManagementServer_Routes libs dec managementGetConnectionByOrgID
             getConnectionListByOrgIDFunction getAllConnections (CreateProxy proxyFactory) cfg
         @ ConnectionMediatorV2_Routes libs dec getConnectionFunction
             getConnectionListByOrgIDFunction (CreateProxy proxyFactory) cfg)"

section \<open>Lemmas\<close>

text \<open>Each route is a handler behind the middleware with the configured secrets.\<close>

definition is_secured :: "Config \<Rightarrow> ('k, 'a server_scheme) handler \<Rightarrow> bool" where
  "is_secured cfg f \<longleftrightarrow>
     (\<exists>auth tenant h. f =
        Authenticate \<lparr>Secrets = ServiceToServiceCredentials cfg, IdentityAuth = auth, Required = tenant\<rparr> h)"

lemma is_securedI:
  "is_secured cfg
     (Authenticate \<lparr>Secrets = ServiceToServiceCredentials cfg, IdentityAuth = auth, Required = tenant\<rparr> h)"
  unfolding is_secured_def by (intro exI) (rule refl)

lemma apiMux_routes_secured:
  "rt \<in> set (apiMux_routes libs dec coll ccpf cfg) \<Longrightarrow> is_secured cfg (rt_handler rt)"
  by (auto simp: apiMux_routes_def MessageReceiver_Routes_def ConnectionMediatorV2_Routes_def
      ManagementServer_Routes_def Let_def is_securedI)
lemma psk_principal:
  "GetPrincipal lib (r\<lparr>req_principal := Some (presented r)\<rparr>) = Some (ServiceToServicePrincipal (presented r))"
  by (simp add: GetPrincipal_def)

lemma path_id_principal [simp]:
  "getClientIDFromRequestPath (r\<lparr>req_principal := p\<rparr>) = getClientIDFromRequestPath r"
  by (simp add: getClientIDFromRequestPath_def)

lemma http_Error_published [simp]: "published (snd (http_Error m c w)) = published w"
  by (simp add: http_Error_def)

lemma psk_published:
  assumes "Header_Get (req_Header r) identityHeader = ''''"
    and "Authenticate amw h r w = (out, w')" and "published w' \<noteq> published w"
  shows "psk_accepted (Secrets amw) (Required amw) r \<and> h (r\<lparr>req_principal := Some (presented r)\<rparr>) w = (out, w')"
  using assms http_Error_published [of authErrorMessage 401 w]
  by (cases "psk_accepted (Secrets amw) (Required amw) r") (auto simp: Authenticate_def handlePSKAuthentication_eq)

text \<open>A lookup changes the state only in the number of calls of the database.\<close>

lemma impl_state:
  "createGetConnectionByClientIDImpl q org cid w = (res, w') \<Longrightarrow> \<exists>n. w' = w\<lparr>db_calls := n\<rparr>"
proof -
  have "\<exists>n. w = w\<lparr>db_calls := n\<rparr>" by (rule exI [of _ "db_calls w"]) simp
  then show "createGetConnectionByClientIDImpl q org cid w = (res, w') \<Longrightarrow> \<exists>n. w' = w\<lparr>db_calls := n\<rparr>"
    by (auto simp: createGetConnectionByClientIDImpl_def db_call_def
        split: option.splits prod.splits if_splits)
qed

lemma db_calls_frame:
  fixes w :: "'a server_scheme"
  shows "published (w\<lparr>db_calls := n\<rparr>) = published w" "responses (w\<lparr>db_calls := n\<rparr>) = responses w"
    "publish_token (w\<lparr>db_calls := n\<rparr>) = publish_token w"
  by simp_all

lemma Proxy_SendMessage_returns:
  fixes w :: "'a server_scheme"
  assumes "uuid_source w (uuids w) = Inr i" and "time_json (clock w (ticks w)) \<noteq> None"
    and "\<forall>e. publish_token w (length (published w)) \<noteq> TokenDone (Some e)"
  shows "\<exists>w'. Proxy_SendMessage cc d md p w = ((Some i, None), w') \<and> responses w' = responses w"
  using assms
  by (auto simp: Proxy_SendMessage_def BuildDataMessage_def new_uuid_def time_now_def sendMessage_def
      DataMessage_json_def Let_def Publish_def split: token.splits)

lemma handleSendMessage_lookup:
  assumes "GetPrincipal (al_identity libs) req = Some p"
    and "decodeJSON dec (req_Body req) = Ret (Inr m)" and "TrimSpace (m2_Directive m) \<noteq> ''''"
    and "lookup (GetOrgID p) (getClientIDFromRequestPath req) w = ((c, None), w1)"
  shows "handleSendMessage libs dec lookup (CreateProxy ccpf) req w =
     sendToClient libs
       (MQTTProxy_client \<lparr>px_Config = pf_config ccpf, px_OrgID = cs_OrgID c, px_AccountID = cs_Account c,
          px_ClientID = cs_ClientID c, px_TopicBuilder = pf_topicBuilder ccpf,
          px_Dispatchers = cs_Dispatchers c, px_CanonicalFacts = cs_CanonicalFacts c, px_Tags = cs_Tags c\<rparr>)
       (m2_Directive m) (m2_Metadata m) (m2_Payload m) w1"
  using assms by (simp add: handleSendMessage_def with_principal_def CreateProxy_def)

section \<open>An example server\<close>

text \<open>A server with one connection, of client c1 and organisation o1, and readable bodies.\<close>

definition example_libs :: "unit api_libs" where
  "example_libs =
     \<lparr>al_identity = \<lparr>enforce = (\<lambda>r. Inl (400, ''Bad Request'')),
                     GetIdentity = (\<lambda>k. \<lparr>id_AccountNumber = '''', id_OrgID = '''', id_Type = ''''\<rparr>)\<rparr>,
      al_Error = (\<lambda>e. '''')\<rparr>"

definition example_reader :: "'r \<Rightarrow> 'r body_decoder" where
  "example_reader r =
     \<lparr>bd_decode = (\<lambda>s. Inr (Some r)), bd_more = (\<lambda>s. False), bd_Struct = (\<lambda>d. Valid), bd_zero = r\<rparr>"

definition example_v2 :: messageRequestV2 where
  "example_v2 = \<lparr>m2_Payload = JStr ''x'', m2_Metadata = JNull, m2_Directive = ''d''\<rparr>"

definition example_v1 :: messageRequest where
  "example_v1 = \<lparr>mr_Account = ''a1'', mr_Recipient = ''c1'', mr_Payload = JStr ''x'', mr_Metadata = JNull,
                 mr_Directive = ''d''\<rparr>"

definition example_connectionID :: connectionID where
  "example_connectionID = \<lparr>ci_Account = ''a1'', ci_NodeID = ''c1''\<rparr>"

definition example_decoders :: api_decoders where
  "example_decoders =
     \<lparr>dec_message = example_reader example_v1, dec_messageV2 = example_reader example_v2,
      dec_connectionID = example_reader example_connectionID,
      dec_disconnect = example_reader \<lparr>dr_Account = ''a1'', dr_NodeID = ''c1'', dr_Message = ''''\<rparr>,
      dec_reconnect = example_reader \<lparr>rr_Account = ''a1'', rr_NodeID = ''c1'', rr_Delay = 5, rr_Message = ''''\<rparr>\<rparr>"

definition example_api_config :: Config where
  "example_api_config = zero_Config\<lparr>ServiceToServiceCredentials := example_secrets, UrlBasePath := '''',
                         ApiServerConnectionLookupImpl := ''strict''\<rparr>"

definition example_authed :: "unit request" where
  "example_authed = example_request\<lparr>req_principal := Some (presented example_request)\<rparr>"

lemma example_decode [simp]: "decodeJSON (example_reader r) b = Ret (Inr r)"
  by (simp add: decodeJSON_def example_reader_def)

lemma example_directive: "TrimSpace (m2_Directive example_v2) \<noteq> ''''" "TrimSpace (mr_Directive example_v1) \<noteq> ''''"
  by code_simp+

lemma example_principal:
  "GetPrincipal (al_identity libs) example_authed = Some (ServiceToServicePrincipal (presented example_request))"
  by (simp add: example_authed_def GetPrincipal_def)

lemma example_presented:
  "sp_account (presented example_request) = ''a1''" "sp_orgID (presented example_request) = ''o1''"
  by (simp_all add: presented_def example_request_headers)

lemma example_path: "getClientIDFromRequestPath example_request = ''c1''"
  "getClientIDFromRequestPath example_authed = ''c1''"
  by (simp_all add: getClientIDFromRequestPath_def example_request_def example_authed_def)

lemma example_server_up: "db_up (example_server rs)"
  by (simp add: db_up_def)

text \<open>
  A request without an identity header and without the key of a known service is refused
  by every route, and nothing else happens.
\<close>

lemma apiMux_routes_refuse:
  assumes "rt \<in> set (apiMux_routes libs dec coll ccpf cfg)"
    and "Header_Get (req_Header r) identityHeader = ''''"
    and "\<not> psk_accepted (ServiceToServiceCredentials cfg) Account r"
    and "\<not> psk_accepted (ServiceToServiceCredentials cfg) OrgID_required r"
  shows "rt_handler rt r w =
     (Ret (), w\<lparr>responses := responses w @ [(401, TextBody (authErrorMessage @ [CHR 0x0A]))]\<rparr>)"
proof -
  obtain auth tenant h where rt: "rt_handler rt =
      Authenticate \<lparr>Secrets = ServiceToServiceCredentials cfg, IdentityAuth = auth, Required = tenant\<rparr> h"
    using apiMux_routes_secured [OF assms(1)] unfolding is_secured_def by blast
  have "\<not> psk_accepted (ServiceToServiceCredentials cfg) tenant r"
    using assms(3,4) by (cases tenant) auto
  then show ?thesis
    using assms(2) by (simp add: rt Authenticate_def handlePSKAuthentication_eq http_Error_def)
qed

section \<open>Properties\<close>



text \<open>
  C20: Version 1 sends only on behalf of the caller's account: a message goes out only when
  the account of the request is the caller's own, the translator maps it to an
  organisation, and that organisation owns a connection of the recipient; it is one
  message on the recipient's data topic.
\<close>

theorem v1_message_isolation:
  assumes "handleJob libs dec SqlGetConnectionByClientID (CreateProxy ccpf) req w = (out, w')"
    and "published w' \<noteq> published w"
  shows "\<exists>p m org r pub. GetPrincipal (al_identity libs) req = Some p
     \<and> decodeJSON dec (req_Body req) = Ret (Inr m) \<and> mr_Account m = GetAccount p
     \<and> ean_to_org w (ean_calls w) (GetAccount p) = Inr org
     \<and> r \<in> set (connections w) \<and> r_client_id r = mr_Recipient m \<and> r_org_id r = org
     \<and> published w' = published w @ [pub]
     \<and> pub_topic pub = BuildOutgoingDataTopic (pf_topicBuilder ccpf) (mr_Recipient m)"
  using strict_api.handleJob_publishes [OF assms] by (auto simp: visible_def)

theorem v1_message_isolation_witness:
  "\<exists>pub. published (snd (handleJob example_libs (example_reader example_v1) SqlGetConnectionByClientID
        (CreateProxy example_factory) example_authed (example_server [example_row1]))) = [pub]"
proof -
  let ?run = "handleJob example_libs (example_reader example_v1) SqlGetConnectionByClientID
        (CreateProxy example_factory) example_authed (example_server [example_row1])"
  have "published (snd ?run) \<noteq> published (example_server [example_row1])" by code_simp
  from v1_message_isolation [OF surjective_pairing this] show ?thesis by auto
qed

text \<open>
  C23: A management command (disconnect, reconnect or ping) goes, as one message, to the
  control topic of the node it names, and only when the organisation of the account it
  names owns a connection of that node; a reconnect also needs a delay that is not negative.
\<close>

theorem management_commands_confined:
  assumes "published w' \<noteq> published w"
    and "(\<exists>dec m. decodeJSON dec (req_Body req) = Ret (Inr m) \<and> acct = dr_Account m \<and> node = dr_NodeID m
            \<and> handleDisconnect libs dec SqlGetConnectionByClientID (CreateProxy ccpf) req w = (out, w'))
       \<or> (\<exists>dec m. decodeJSON dec (req_Body req) = Ret (Inr m) \<and> acct = rr_Account m \<and> node = rr_NodeID m
            \<and> handleReconnect libs dec SqlGetConnectionByClientID (CreateProxy ccpf) req w = (out, w'))
       \<or> (\<exists>dec m. decodeJSON dec (req_Body req) = Ret (Inr m) \<and> acct = ci_Account m \<and> node = ci_NodeID m
            \<and> handleConnectionPing libs dec SqlGetConnectionByClientID (CreateProxy ccpf) req w = (out, w'))"
  shows "\<exists>org r pub. ean_to_org w (ean_calls w) acct = Inr org
     \<and> r \<in> set (connections w) \<and> r_client_id r = node \<and> r_org_id r = org
     \<and> published w' = published w @ [pub]
     \<and> pub_topic pub = BuildOutgoingControlTopic (pf_topicBuilder ccpf) node"
  using assms(2)
proof (elim disjE exE conjE)
  fix dec m
  assume "decodeJSON dec (req_Body req) = Ret (Inr m)" "acct = dr_Account m" "node = dr_NodeID m"
    and h: "handleDisconnect libs dec SqlGetConnectionByClientID (CreateProxy ccpf) req w = (out, w')"
  then show ?thesis
    using strict_api.handleDisconnect_publishes [OF h assms(1)] by (auto simp: visible_def)
next
  fix dec m
  assume "decodeJSON dec (req_Body req) = Ret (Inr m)" "acct = rr_Account m" "node = rr_NodeID m"
    and h: "handleReconnect libs dec SqlGetConnectionByClientID (CreateProxy ccpf) req w = (out, w')"
  then show ?thesis
    using strict_api.handleReconnect_publishes [OF h assms(1)] by (auto simp: visible_def)
next
  fix dec m
  assume "decodeJSON dec (req_Body req) = Ret (Inr m)" "acct = ci_Account m" "node = ci_NodeID m"
    and h: "handleConnectionPing libs dec SqlGetConnectionByClientID (CreateProxy ccpf) req w = (out, w')"
  then show ?thesis
    using strict_api.handleConnectionPing_publishes [OF h assms(1)] by (auto simp: visible_def)
qed


theorem management_commands_confined_witness:
  "\<exists>pub. published (snd (handleConnectionPing example_libs (example_reader example_connectionID)
        SqlGetConnectionByClientID (CreateProxy example_factory) example_authed (example_server [example_row1]))) = [pub]
     \<and> pub_topic pub = BuildOutgoingControlTopic (pf_topicBuilder example_factory) ''c1''"
proof -
  let ?run = "handleConnectionPing example_libs (example_reader example_connectionID)
        SqlGetConnectionByClientID (CreateProxy example_factory) example_authed (example_server [example_row1])"
  have p: "published (snd ?run) \<noteq> published (example_server [example_row1])" by code_simp
  have r: "?run = (fst ?run, snd ?run)" by simp
  have "\<exists>dec m. decodeJSON dec (req_Body example_authed) = Ret (Inr m) \<and> ''a1'' = ci_Account m \<and> ''c1'' = ci_NodeID m
      \<and> handleConnectionPing example_libs dec SqlGetConnectionByClientID (CreateProxy example_factory)
          example_authed (example_server [example_row1]) = (fst ?run, snd ?run)"
    by (rule exI [of _ "example_reader example_connectionID"], rule exI [of _ example_connectionID])
      (simp add: example_connectionID_def)
  from management_commands_confined [OF p disjI2 [OF disjI2 [OF this]]] show ?thesis by auto
qed

text \<open>
  C21: Delivery. When the database answers, the random source, the clock and the broker do
  not fail, and the caller's organisation owns a connection of the client in the path, a
  well-formed message request is answered with 201 and the id of the one message handed to
  the broker for that client, which carries the directive and the content of the request.
\<close>

theorem v2_message_delivered:
  fixes w :: "'a server_scheme"
  assumes cid_def: "getClientIDFromRequestPath req = cid"
    and "GetPrincipal (al_identity libs) req = Some p"
    and "decodeJSON dec (req_Body req) = Ret (Inr m)" and "TrimSpace (m2_Directive m) \<noteq> ''''"
    and "db_up w" and "r \<in> set (connections w)" and "r_client_id r = cid" and "r_org_id r = GetOrgID p"
    and "GetOrgID p \<noteq> ''''" and "cid \<noteq> ''''"
    and "uuid_source w (uuids w) = Inr mid" and "time_json (clock w (ticks w)) \<noteq> None"
    and "\<forall>e. publish_token w (length (published w)) \<noteq> TokenDone (Some e)"
  shows "\<exists>w' pub msg. handleSendMessage libs dec SqlGetConnectionByClientID (CreateProxy ccpf) req w = (Ret (), w')
     \<and> published w' = published w @ [pub]
     \<and> pub_topic pub = BuildOutgoingDataTopic (pf_topicBuilder ccpf) cid
     \<and> pub_payload pub = JObj msg \<and> map_of msg ''message_id'' = Some (JStr mid)
     \<and> map_of msg ''directive'' = Some (JStr (m2_Directive m))
     \<and> map_of msg ''content'' = Some (m2_Payload m)
     \<and> responses w' = responses w @ [(201, JsonBody (messageResponse_json mid))]"
proof -
  obtain c er w1 where l: "SqlGetConnectionByClientID (GetOrgID p) cid w = ((c, er), w1)"
    by (metis surj_pair)
  have "\<exists>r\<in>set (connections w). visible (\<lambda>org r. r_org_id r = org) (GetOrgID p) cid r"
    using assms(6-9) by (auto simp: visible_def)
  then have er: "er = None" using strict.lookup_decides [OF assms(5,9,10)] l by simp
  have cid: "cs_ClientID c = cid" using strict.lookup_owner l er by blast
  obtain n where w1: "w1 = w\<lparr>db_calls := n\<rparr>" using l impl_state unfolding SqlGetConnectionByClientID_def by blast
  let ?px = "\<lparr>px_Config = pf_config ccpf, px_OrgID = cs_OrgID c, px_AccountID = cs_Account c,
          px_ClientID = cs_ClientID c, px_TopicBuilder = pf_topicBuilder ccpf,
          px_Dispatchers = cs_Dispatchers c, px_CanonicalFacts = cs_CanonicalFacts c, px_Tags = cs_Tags c\<rparr>"
  obtain w2 where s: "Proxy_SendMessage ?px (m2_Directive m) (m2_Metadata m) (m2_Payload m) w1 = ((Some mid, None), w2)"
      and rs: "responses w2 = responses w1"
    using Proxy_SendMessage_returns [of w1 mid ?px "m2_Directive m" "m2_Metadata m" "m2_Payload m"] assms(11-13)
    by (auto simp: w1)
  have h: "handleSendMessage libs dec SqlGetConnectionByClientID (CreateProxy ccpf) req w =
      sendToClient libs (MQTTProxy_client ?px) (m2_Directive m) (m2_Metadata m) (m2_Payload m) w1"
    by (rule handleSendMessage_lookup [OF assms(2-4)]) (use l er cid_def in simp)
  have "handleSendMessage libs dec SqlGetConnectionByClientID (CreateProxy ccpf) req w =
      (Ret (), w2\<lparr>responses := responses w2 @ [(201, JsonBody (messageResponse_json mid))]\<rparr>)"
    using s by (simp add: h sendToClient_def MQTTProxy_client_def writeJSONResponse_def)
  then show ?thesis
    using Proxy_SendMessage_sent [OF s] rs cid by (auto simp: w1)
qed

theorem v2_message_delivered_witness:
  "\<exists>w' pub. handleSendMessage example_libs (example_reader example_v2) SqlGetConnectionByClientID
        (CreateProxy example_factory) example_authed (example_server [example_row1]) = (Ret (), w')
     \<and> published w' = [pub]"
  using v2_message_delivered [OF example_path(2) example_principal example_decode example_directive(1)
      example_server_up [of "[example_row1]"], where r = example_row1 and libs = example_libs
      and ccpf = example_factory and mid = "''id''"]
  by (auto simp: example_rows_simps example_presented time_json_epoch)

text \<open>
  C22: A client that the caller's organisation does not own is answered as if it did not
  exist: 404, and nothing is published.
\<close>

theorem v2_unknown_client_refused:
  assumes "GetPrincipal (al_identity libs) req = Some p"
    and "decodeJSON dec (req_Body req) = Ret (Inr m)" and "TrimSpace (m2_Directive m) \<noteq> ''''"
    and "\<forall>r\<in>set (connections w). r_client_id r = getClientIDFromRequestPath req \<longrightarrow> r_org_id r \<noteq> GetOrgID p"
    and "handleSendMessage libs dec SqlGetConnectionByClientID (CreateProxy ccpf) req w = (out, w')"
  shows "out = Ret () \<and> published w' = published w \<and> connections w' = connections w
     \<and> responses w' = responses w @
         [(404, JsonBody (errorResponse_json ''No connection to the rhc client'' 404 ''No connection to the rhc client''))]"
proof -
  let ?cid = "getClientIDFromRequestPath req"
  obtain c er w1 where l: "SqlGetConnectionByClientID (GetOrgID p) ?cid w = ((c, er), w1)"
    by (metis surj_pair)
  have "er \<noteq> None"
    using assms(4) l strict.lookup_found [of "GetOrgID p" ?cid w c w1] by (auto simp: visible_def)
  then obtain e where e: "er = Some e" by blast
  have "quiet w w1" using strict_api.lookup_quiet [OF l] .
  then show ?thesis
    using assms(1-3,5) l
    by (auto simp: e handleSendMessage_def with_principal_def writeConnectionFailureResponse_def
        writeErrorResponse_def writeJSONResponse_def quiet_def)
qed


theorem v2_unknown_client_refused_witness:
  "published (snd (handleSendMessage example_libs (example_reader example_v2) SqlGetConnectionByClientID
       (CreateProxy example_factory) example_authed (example_server [example_row2]))) = []"
  using v2_unknown_client_refused [OF example_principal example_decode example_directive(1), where
      w = "example_server [example_row2]" and ccpf = example_factory and libs = example_libs, OF _ surjective_pairing]
  by (simp add: example_path example_rows_simps)

end
