(* ===== verification/Mqtt_Setup.thy ===== *)
theory Mqtt_Setup
  imports Mqtt_Bridge Platform_Setup
begin

text \<open>
  The connection to the MQTT broker: tokens
  (\<^verbatim>\<open>internal/platform/utils/jwt_utils/jwt.go\<close>), client options and connection
  (\<^verbatim>\<open>internal/mqtt/client_options.go\<close>, \<^verbatim>\<open>broker_client.go\<close>), and how the commands put them
  together (\<^verbatim>\<open>cmd/cloud-connector/api_server.go\<close>, \<^verbatim>\<open>mqtt_message_consumer.go\<close>). The MQTT
  library keeps the options struct and calls the handlers in it.
\<close>

section \<open>The process\<close>

text \<open>
  What the handlers of a connection touch: the clock, Kafka (in the bridge), the channels to
  the main thread, the subscriptions requested, the counter of lost connections, the calls
  of \<^verbatim>\<open>Disconnect\<close> and the log entry on the broker node. \<open>connected_once\<close> is the state of
  the \<^verbatim>\<open>sync.Once\<close>.
\<close>

record mqtt_process = bridge_state +
  hostname :: "error + string"
  connect_fault :: "error option"
  subscribe_fault :: "nat \<Rightarrow> error option"
  subscribe_calls :: "(string \<times> 8 word) list"
  mqttConnectionFailureCounter :: nat
  disconnects :: "int list"
  mqttConnectionFailedChan :: "error list"
  connected_once :: bool
  connectedChan :: nat
  node_log :: "(string \<times> string) list list"

section \<open>Tokens\<close>

definition RsaTokenGenerator :: string where
  "RsaTokenGenerator = ''jwt_rsa_generator''"

definition FileTokenGenerator :: string where
  "FileTokenGenerator = ''jwt_file_reader''"

record customClaims =
  ExpiresAt :: int
  claim_ClientID :: string
  AuthorizationGroup :: string

text \<open>The library: parsing an RSA key, and signing claims under a method and a key id.\<close>

record jwt_lib =
  jl_ParseRSAPrivateKeyFromPEM :: "string \<Rightarrow> error + string"
  jl_SignedString :: "string \<Rightarrow> string \<Rightarrow> customClaims \<Rightarrow> string \<Rightarrow> error + string"

definition createRsaToken :: "jwt_lib \<Rightarrow> string \<Rightarrow> string \<Rightarrow> time \<Rightarrow> string \<Rightarrow> error + string" where
  "createRsaToken lib client authGroup expiry signKey =
     jl_SignedString lib ''RS256'' ''rhcloud-connector''
       \<lparr>ExpiresAt = expiry div 1000000000, claim_ClientID = client, AuthorizationGroup = authGroup\<rparr> signKey"

type_synonym 'w JwtGenerator = "'w \<Rightarrow> (error + string) \<times> 'w"

definition NewFileBasedJwtGenerator :: "files \<Rightarrow> string \<Rightarrow> error + 'w JwtGenerator" where
  "NewFileBasedJwtGenerator fs jwtFilename =
     (case fs_ReadFile fs (Clean jwtFilename) of
        Inl err \<Rightarrow> Inl err
      | Inr jwtText \<Rightarrow> Inr (\<lambda>w. (Inr jwtText, w)))"

definition NewRSABasedJwtGenerator ::
  "files \<Rightarrow> jwt_lib \<Rightarrow> string \<Rightarrow> string \<Rightarrow> int \<Rightarrow> error + ('a runtime_scheme) JwtGenerator" where
  "NewRSABasedJwtGenerator fs lib privateKeyFile clientId tokenExpiry =
     (case fs_ReadFile fs (Clean privateKeyFile) of
        Inl err \<Rightarrow> Inl err
      | Inr signBytes \<Rightarrow>
          (case jl_ParseRSAPrivateKeyFromPEM lib signBytes of
             Inl err \<Rightarrow> Inl err
           | Inr signKey \<Rightarrow>
               Inr (\<lambda>w.
                 let (now, w1) = time_now w;
                     expiryDate = time_add now (Minute * word_of_int tokenExpiry)
                 in (createRsaToken lib clientId ''admin'' expiryDate signKey, w1))))"

definition buildJwtGenerator ::
  "files \<Rightarrow> jwt_lib \<Rightarrow> Config \<Rightarrow> string \<Rightarrow> error + ('a runtime_scheme) JwtGenerator" where
  "buildJwtGenerator fs lib cfg mqttClientId =
     (if MqttBrokerJwtGeneratorImpl cfg = RsaTokenGenerator
      then NewRSABasedJwtGenerator fs lib (JwtPrivateKeyFile cfg) mqttClientId (JwtTokenExpiry cfg)
      else if MqttBrokerJwtGeneratorImpl cfg = FileTokenGenerator
      then NewFileBasedJwtGenerator fs (MqttBrokerJwtFile cfg)
      else Inl (ErrorString ''Invalid JWT generator configured for the MQTT connection''))"

section \<open>Client options\<close>

definition akamaiTokenHeader :: string where
  "akamaiTokenHeader = ''X-Akamai-DCP-Token''"

text \<open>
  HTTP headers of the websocket request, with \<^verbatim>\<open>Add\<close> and \<^verbatim>\<open>Set\<close>; only the header above is
  ever written, so its spelling stands for the canonical one.
\<close>

type_synonym headers = "(string \<times> string list) list"

definition header_add :: "string \<Rightarrow> string \<Rightarrow> headers \<Rightarrow> headers" where
  "header_add k v h = put k ((case map_of h k of None \<Rightarrow> [] | Some vs \<Rightarrow> vs) @ [v]) h"

definition header_set :: "string \<Rightarrow> string \<Rightarrow> headers \<Rightarrow> headers" where
  "header_set k v h = put k [v] h"

text \<open>
  The options struct of the library, as far as the program sets it. The connect handler is
  given the list of servers of the client; the reconnecting handler may change the headers.
\<close>

record 'w client_options =
  co_Servers :: "string list"
  co_ClientID :: string
  co_Username :: string
  co_Password :: string
  co_CleanSession :: bool
  co_ResumeSubs :: bool
  co_HTTPHeaders :: headers
  co_TLSConfig :: "tls_config option"
  co_ProtocolVersion :: "64 word"
  co_AutoReconnect :: bool
  co_OnConnect :: "string list \<Rightarrow> ('w, unit) action"
  co_OnConnectionLost :: "error \<Rightarrow> ('w, unit) action"
  co_DefaultPublishHandler :: "mqtt_message \<Rightarrow> ('w, unit) action"
  co_OnReconnecting :: "headers \<Rightarrow> 'w \<Rightarrow> headers \<times> 'w"

type_synonym 'w MqttClientOptionsFunc = "('w client_options, 'w) option_func"

definition WithJwtAsHttpHeader :: "'w JwtGenerator \<Rightarrow> 'w MqttClientOptionsFunc" where
  "WithJwtAsHttpHeader tokenGenerator opts w =
     (case tokenGenerator w of
        (Inl err, w1) \<Rightarrow> (Inl err, w1)
      | (Inr jwtToken, w1) \<Rightarrow>
          (Inr (opts\<lparr>co_HTTPHeaders := header_add akamaiTokenHeader jwtToken []\<rparr>), w1))"

definition tokenRefresher :: "'w JwtGenerator \<Rightarrow> headers \<Rightarrow> 'w \<Rightarrow> headers \<times> 'w" where
  "tokenRefresher tokenGenerator h w =
     (case tokenGenerator w of
        (Inl err, w1) \<Rightarrow> (h, w1)
      | (Inr jwtToken, w1) \<Rightarrow> (header_set akamaiTokenHeader jwtToken h, w1))"

definition WithJwtReconnectingHandler :: "'w JwtGenerator \<Rightarrow> 'w MqttClientOptionsFunc" where
  "WithJwtReconnectingHandler tokenGenerator =
     setting (\<lambda>opts. opts\<lparr>co_OnReconnecting := tokenRefresher tokenGenerator\<rparr>)"

definition WithTlsConfig :: "tls_config \<Rightarrow> 'w MqttClientOptionsFunc" where
  "WithTlsConfig tlsConfig = setting (\<lambda>opts. opts\<lparr>co_TLSConfig := Some tlsConfig\<rparr>)"

definition WithClientID :: "string \<Rightarrow> 'w MqttClientOptionsFunc" where
  "WithClientID clientID = setting (\<lambda>opts. opts\<lparr>co_ClientID := clientID\<rparr>)"

definition WithUsernameAndPassword :: "string \<Rightarrow> string \<Rightarrow> 'w MqttClientOptionsFunc" where
  "WithUsernameAndPassword username password =
     setting (\<lambda>opts. opts\<lparr>co_Username := username, co_Password := password\<rparr>)"

definition WithCleanSession :: "bool \<Rightarrow> 'w MqttClientOptionsFunc" where
  "WithCleanSession cleanSession = setting (\<lambda>opts. opts\<lparr>co_CleanSession := cleanSession\<rparr>)"

definition WithResumeSubs :: "bool \<Rightarrow> 'w MqttClientOptionsFunc" where
  "WithResumeSubs resumeSubs = setting (\<lambda>opts. opts\<lparr>co_ResumeSubs := resumeSubs\<rparr>)"

definition WithDefaultPublishHandler ::
  "(mqtt_message \<Rightarrow> ('w, unit) action) \<Rightarrow> 'w MqttClientOptionsFunc" where
  "WithDefaultPublishHandler msgHdlr = setting (\<lambda>opts. opts\<lparr>co_DefaultPublishHandler := msgHdlr\<rparr>)"

definition WithProtocolVersion :: "64 word \<Rightarrow> 'w MqttClientOptionsFunc" where
  "WithProtocolVersion protocolVersion = setting (\<lambda>opts. opts\<lparr>co_ProtocolVersion := protocolVersion\<rparr>)"

definition WithAutoReconnect :: "bool \<Rightarrow> 'w MqttClientOptionsFunc" where
  "WithAutoReconnect autoReconnect = setting (\<lambda>opts. opts\<lparr>co_AutoReconnect := autoReconnect\<rparr>)"

text \<open>
  The entry on the broker node that is logged on each connect. \<open>dns\<close> stands for
  \<^verbatim>\<open>url.Parse\<close> with \<^verbatim>\<open>Hostname\<close>, and for the two lookups of the resolver.
\<close>

record dns =
  dns_Hostname :: "string \<Rightarrow> error + string"
  dns_LookupHost :: "string \<Rightarrow> error + string list"
  dns_LookupAddr :: "string \<Rightarrow> error + string list"

definition TrimSuffix :: "string \<Rightarrow> string \<Rightarrow> string" where
  "TrimSuffix s suffix =
     (case strip_prefix (rev suffix) (rev s) of None \<Rightarrow> s | Some r \<Rightarrow> rev r)"

definition first_of :: "error + string list \<Rightarrow> string option" where
  "first_of r = (case r of Inl err \<Rightarrow> None | Inr [] \<Rightarrow> None | Inr (x # _) \<Rightarrow> Some x)"

definition broker_node_fields :: "dns \<Rightarrow> string \<Rightarrow> (string \<times> string) list" where
  "broker_node_fields dns brokerUrl =
     (let fields = [(''broker_url'', brokerUrl)]
      in case dns_Hostname dns brokerUrl of
           Inl err \<Rightarrow> fields
         | Inr host \<Rightarrow>
             (let fields1 = fields @ [(''broker_hostname'', host)]
              in case first_of (dns_LookupHost dns host) of
                   None \<Rightarrow> fields1
                 | Some ip \<Rightarrow>
                     (let fields2 = fields1 @ [(''broker_resolved_ip'', ip)]
                      in case first_of (dns_LookupAddr dns ip) of
                           None \<Rightarrow> fields2
                         | Some node \<Rightarrow> fields2 @ [(''broker_node'', TrimSuffix node ''.'')])))"

definition logBrokerNode :: "dns \<Rightarrow> string \<Rightarrow> 'a mqtt_process_scheme \<Rightarrow> 'a mqtt_process_scheme" where
  "logBrokerNode dns brokerUrl w = w\<lparr>node_log := node_log w @ [broker_node_fields dns brokerUrl]\<rparr>"

definition WithOnConnectHandler ::
  "dns \<Rightarrow> (string list \<Rightarrow> ('a mqtt_process_scheme, unit) action)
    \<Rightarrow> ('a mqtt_process_scheme) MqttClientOptionsFunc" where
  "WithOnConnectHandler dns handler =
     setting (\<lambda>opts. opts\<lparr>co_OnConnect := (\<lambda>servers w.
       handler servers (case servers of [] \<Rightarrow> w | s # _ \<Rightarrow> logBrokerNode dns s w))\<rparr>)"

definition WithConnectionLostHandler ::
  "(error \<Rightarrow> ('a mqtt_process_scheme, unit) action) \<Rightarrow> ('a mqtt_process_scheme) MqttClientOptionsFunc" where
  "WithConnectionLostHandler handler =
     setting (\<lambda>opts. opts\<lparr>co_OnConnectionLost := (\<lambda>e w.
       handler e (w\<lparr>mqttConnectionFailureCounter := Suc (mqttConnectionFailureCounter w)\<rparr>))\<rparr>)"

text \<open>\<open>newClientOptions\<close> is what \<^verbatim>\<open>MQTT.NewClientOptions\<close> gives.\<close>

definition NewBrokerOptions ::
  "'w client_options \<Rightarrow> string \<Rightarrow> 'w MqttClientOptionsFunc list \<Rightarrow> 'w \<Rightarrow> (error + 'w client_options) \<times> 'w" where
  "NewBrokerOptions newClientOptions brokerUrl opts w =
     (let connOpts = newClientOptions\<lparr>co_Servers := co_Servers newClientOptions @ [brokerUrl]\<rparr>
      in apply_options opts connOpts w)"

text \<open>The client is known by its options.\<close>

definition CreateBrokerConnection ::
  "('a mqtt_process_scheme) client_options \<Rightarrow> string \<Rightarrow> ('a mqtt_process_scheme) MqttClientOptionsFunc list
    \<Rightarrow> 'a mqtt_process_scheme \<Rightarrow> (error + ('a mqtt_process_scheme) client_options) \<times> 'a mqtt_process_scheme" where
  "CreateBrokerConnection newClientOptions brokerUrl brokerConfigFuncs w =
     (case NewBrokerOptions newClientOptions brokerUrl brokerConfigFuncs w of
        (Inl err, w1) \<Rightarrow> (Inl err, w1)
      | (Inr connOpts, w1) \<Rightarrow>
          (case connect_fault w1 of
             Some err \<Rightarrow> (Inl err, w1)
           | None \<Rightarrow> (Inr connOpts, w1)))"

section \<open>The handlers of the commands\<close>

definition notifyOnMqttConnectionLostHandler :: "error \<Rightarrow> ('a mqtt_process_scheme, unit) action" where
  "notifyOnMqttConnectionLostHandler err w =
     (Ret (), w\<lparr>disconnects := disconnects w @ [1000],
                mqttConnectionFailedChan := mqttConnectionFailedChan w @ [err]\<rparr>)"

definition logMqttConnectionLostHandler :: "error \<Rightarrow> ('w, unit) action" where
  "logMqttConnectionLostHandler err w = (Ret (), w)"

definition notifyOnIntialMqttConnection :: "string list \<Rightarrow> ('a mqtt_process_scheme, unit) action" where
  "notifyOnIntialMqttConnection servers w =
     (Ret (), if connected_once w then w
              else w\<lparr>connected_once := True, connectedChan := Suc (connectedChan w)\<rparr>)"

record 'w Subscriber =
  sub_Topic :: string
  sub_EntryPoint :: "mqtt_message \<Rightarrow> ('w, unit) action"
  sub_Qos :: "8 word"

fun subscribe_all ::
  "('a mqtt_process_scheme) Subscriber list \<Rightarrow> ('a mqtt_process_scheme, unit) action" where
  "subscribe_all [] w = (Ret (), w)"
| "subscribe_all (s # ss) w =
     (let w1 = w\<lparr>subscribe_calls := subscribe_calls w @ [(sub_Topic s, sub_Qos s)]\<rparr>
      in case subscribe_fault w (length (subscribe_calls w)) of
           Some err \<Rightarrow> (Exit, w1)
         | None \<Rightarrow> subscribe_all ss w1)"

definition subscribeOnMqttConnectHandler ::
  "('a mqtt_process_scheme) Subscriber list \<Rightarrow> string list \<Rightarrow> ('a mqtt_process_scheme, unit) action" where
  "subscribeOnMqttConnectHandler subscribers servers w = subscribe_all subscribers w"

section \<open>The options of the commands\<close>

definition buildMqttClientId :: "Config \<Rightarrow> 'a mqtt_process_scheme \<Rightarrow> error + string" where
  "buildMqttClientId cfg w =
     (if MqttUseHostnameAsClientId cfg then hostname w
      else if MqttClientId cfg \<noteq> '''' then Inr (MqttClientId cfg)
      else Inl (ErrorString ''Unable to determine what to use as the client_id for MQTT connection''))"

definition buildDefaultMqttBrokerConfigFuncList ::
  "files \<Rightarrow> jwt_lib \<Rightarrow> tls_config option \<Rightarrow> Config \<Rightarrow> 'a mqtt_process_scheme
    \<Rightarrow> error + ('a mqtt_process_scheme) MqttClientOptionsFunc list" where
  "buildDefaultMqttBrokerConfigFuncList fs lib tlsConfig cfg w =
     (let tls = (case tlsConfig of None \<Rightarrow> [] | Some t \<Rightarrow> [WithTlsConfig t]);
          rest = [WithProtocolVersion 4, WithConnectionLostHandler logMqttConnectionLostHandler]
      in case buildMqttClientId cfg w of
           Inl err \<Rightarrow> Inl err
         | Inr mqttClientId \<Rightarrow>
             (if MqttBrokerAuthType cfg = ''jwt'' then
                (case buildJwtGenerator fs lib cfg mqttClientId of
                   Inl err \<Rightarrow> Inl err
                 | Inr jwtGenerator \<Rightarrow>
                     Inr (tls @ [WithClientID mqttClientId, WithJwtAsHttpHeader jwtGenerator,
                                 WithJwtReconnectingHandler jwtGenerator] @ rest))
              else if MqttBrokerAuthType cfg = ''password'' then
                Inr (tls @ [WithClientID mqttClientId,
                            WithUsernameAndPassword (MqttBrokerUsername cfg) (MqttBrokerPassword cfg)] @ rest)
              else Inr (tls @ [WithClientID mqttClientId] @ rest)))"

definition buildMessageHandlerMqttBrokerConfigFuncList ::
  "files \<Rightarrow> jwt_lib \<Rightarrow> tls_config option \<Rightarrow> Config \<Rightarrow> 'a mqtt_process_scheme
    \<Rightarrow> error + ('a mqtt_process_scheme) MqttClientOptionsFunc list" where
  "buildMessageHandlerMqttBrokerConfigFuncList fs lib tlsConfig cfg w =
     (case buildDefaultMqttBrokerConfigFuncList fs lib tlsConfig cfg w of
        Inl err \<Rightarrow> Inl err
      | Inr brokerConfigFuncs \<Rightarrow>
          Inr (brokerConfigFuncs @ [WithCleanSession (MqttCleanSession cfg), WithResumeSubs (MqttResumeSubs cfg)]))"

definition buildOnConnectionLostMqttOptions ::
  "Config \<Rightarrow> ('a mqtt_process_scheme) MqttClientOptionsFunc list
    \<Rightarrow> ('a mqtt_process_scheme) MqttClientOptionsFunc list" where
  "buildOnConnectionLostMqttOptions cfg brokerOptions =
     (let (autoReconnect, onConnectionLostHandler) =
            (if ShutdownOnMqttConnectionLost cfg then (False, notifyOnMqttConnectionLostHandler)
             else (True, logMqttConnectionLostHandler))
      in brokerOptions @ [WithAutoReconnect autoReconnect, WithConnectionLostHandler onConnectionLostHandler])"

text \<open>The subscriptions of the bridge, with the handler of each.\<close>

definition bridge_subscribers :: "Config \<Rightarrow> ('a bridge_state_scheme) Subscriber list" where
  "bridge_subscribers cfg =
     (let mqttTopicBuilder = NewTopicBuilder (MqttTopicPrefix cfg);
          mqttTopicVerifier = NewTopicVerifier (MqttTopicPrefix cfg)
      in [\<lparr>sub_Topic = BuildIncomingWildcardControlTopic mqttTopicBuilder,
           sub_EntryPoint = ControlMessageHandler mqttTopicVerifier,
           sub_Qos = MqttControlSubscriptionQoS cfg\<rparr>,
          \<lparr>sub_Topic = BuildIncomingWildcardDataTopic mqttTopicBuilder,
           sub_EntryPoint = DataMessageHandler,
           sub_Qos = MqttDataSubscriptionQoS cfg\<rparr>])"

definition bridge_default_handler :: "Config \<Rightarrow> mqtt_message \<Rightarrow> ('a bridge_state_scheme, unit) action" where
  "bridge_default_handler cfg =
     (let mqttTopicVerifier = NewTopicVerifier (MqttTopicPrefix cfg)
      in DefaultMessageHandler mqttTopicVerifier (ControlMessageHandler mqttTopicVerifier) DataMessageHandler)"

definition bridge_options ::
  "files \<Rightarrow> jwt_lib \<Rightarrow> dns \<Rightarrow> tls_config option \<Rightarrow> Config \<Rightarrow> 'a mqtt_process_scheme
    \<Rightarrow> error + ('a mqtt_process_scheme) MqttClientOptionsFunc list" where
  "bridge_options fs lib dns tlsConfig cfg w =
     (case buildMessageHandlerMqttBrokerConfigFuncList fs lib tlsConfig cfg w of
        Inl err \<Rightarrow> Inl err
      | Inr brokerOptions \<Rightarrow>
          Inr (buildOnConnectionLostMqttOptions cfg brokerOptions
               @ [WithOnConnectHandler dns (subscribeOnMqttConnectHandler (bridge_subscribers cfg)),
                  WithDefaultPublishHandler (bridge_default_handler cfg)]))"

text \<open>The API server and the consumer of control messages only publish.\<close>

definition publisher_options ::
  "files \<Rightarrow> jwt_lib \<Rightarrow> dns \<Rightarrow> tls_config option \<Rightarrow> Config \<Rightarrow> 'a mqtt_process_scheme
    \<Rightarrow> error + ('a mqtt_process_scheme) MqttClientOptionsFunc list" where
  "publisher_options fs lib dns tlsConfig cfg w =
     (case buildDefaultMqttBrokerConfigFuncList fs lib tlsConfig cfg w of
        Inl err \<Rightarrow> Inl err
      | Inr brokerOptions \<Rightarrow>
          Inr (buildOnConnectionLostMqttOptions cfg
                (brokerOptions @ [WithOnConnectHandler dns notifyOnIntialMqttConnection])))"


section \<open>Lemmas\<close>

lemmas option_defs =
  WithJwtAsHttpHeader_def WithJwtReconnectingHandler_def WithTlsConfig_def WithClientID_def
  WithUsernameAndPassword_def WithCleanSession_def WithResumeSubs_def WithDefaultPublishHandler_def
  WithProtocolVersion_def WithAutoReconnect_def WithOnConnectHandler_def WithConnectionLostHandler_def

text \<open>What the options common to all processes do.\<close>

definition jwt_options ::
  "files \<Rightarrow> jwt_lib \<Rightarrow> Config \<Rightarrow> string \<Rightarrow> ('a mqtt_process_scheme) client_options
    \<Rightarrow> 'a mqtt_process_scheme \<Rightarrow> bool" where
  "jwt_options fs lib cfg cid opts w \<longleftrightarrow>
     (\<exists>gen tok w'. buildJwtGenerator fs lib cfg cid = Inr gen \<and> gen w = (Inr tok, w')
        \<and> co_HTTPHeaders opts = [(akamaiTokenHeader, [tok])]
        \<and> co_OnReconnecting opts = tokenRefresher gen)"

definition common_options ::
  "files \<Rightarrow> jwt_lib \<Rightarrow> Config \<Rightarrow> ('a mqtt_process_scheme) client_options
    \<Rightarrow> 'a mqtt_process_scheme \<Rightarrow> ('a mqtt_process_scheme) client_options \<Rightarrow> 'a mqtt_process_scheme \<Rightarrow> bool" where
  "common_options fs lib cfg s w s' w0 \<longleftrightarrow>
     (\<exists>cid. buildMqttClientId cfg w0 = Inr cid \<and> co_ClientID s' = cid
        \<and> (if MqttBrokerAuthType cfg = ''jwt'' then jwt_options fs lib cfg cid s' w
           else co_HTTPHeaders s' = co_HTTPHeaders s)
        \<and> (if MqttBrokerAuthType cfg = ''password''
           then co_Username s' = MqttBrokerUsername cfg \<and> co_Password s' = MqttBrokerPassword cfg
           else co_Username s' = co_Username s \<and> co_Password s' = co_Password s))"

lemma default_options_effect:
  assumes "buildDefaultMqttBrokerConfigFuncList fs lib tlsConfig cfg w0 = Inr opts"
    and "apply_options opts s w = (Inr s', w')"
  shows "common_options fs lib cfg s w s' w0" and "co_Servers s' = co_Servers s"
  using assms
  by (auto simp: buildDefaultMqttBrokerConfigFuncList_def common_options_def jwt_options_def Let_def
      option_defs setting_def header_add_def split: sum.splits if_splits option.splits prod.splits)


lemma apply_options_append_Inr:
  "apply_options (xs @ ys) s w = (Inr s', w') \<longleftrightarrow>
     (\<exists>s1 w1. apply_options xs s w = (Inr s1, w1) \<and> apply_options ys s1 w1 = (Inr s', w'))"
  by (auto simp: apply_options_append split: prod.splits sum.splits)

definition connection_options ::
  "files \<Rightarrow> jwt_lib \<Rightarrow> dns \<Rightarrow> tls_config option \<Rightarrow> Config \<Rightarrow> 'a mqtt_process_scheme
    \<Rightarrow> ('a mqtt_process_scheme) MqttClientOptionsFunc list \<Rightarrow> bool" where
  "connection_options fs lib dns tls cfg w opts \<longleftrightarrow>
     bridge_options fs lib dns tls cfg w = Inr opts \<or> publisher_options fs lib dns tls cfg w = Inr opts"

text \<open>The options of a process: the common ones, then what it does when the connection is lost.\<close>

definition connection_lost_effect ::
  "Config \<Rightarrow> error \<Rightarrow> 'a mqtt_process_scheme \<Rightarrow> 'a mqtt_process_scheme" where
  "connection_lost_effect cfg e p =
     (let p1 = p\<lparr>mqttConnectionFailureCounter := Suc (mqttConnectionFailureCounter p)\<rparr>
      in if ShutdownOnMqttConnectionLost cfg
         then p1\<lparr>disconnects := disconnects p @ [1000],
                 mqttConnectionFailedChan := mqttConnectionFailedChan p @ [e]\<rparr>
         else p1)"

text \<open>What the options after the common ones leave alone.\<close>

definition credentials_of :: "'w client_options \<Rightarrow> string \<times> string \<times> string \<times> headers \<times> (headers \<Rightarrow> 'w \<Rightarrow> headers \<times> 'w)" where
  "credentials_of s = (co_ClientID s, co_Username s, co_Password s, co_HTTPHeaders s, co_OnReconnecting s)"

lemma lost_options_effect:
  assumes "apply_options (buildOnConnectionLostMqttOptions cfg [] @ rest) s w = (Inr s', w')"
    and "rest = [] \<or> rest = [WithOnConnectHandler dns h, WithDefaultPublishHandler d]"
  shows "credentials_of s' = credentials_of s" and "co_AutoReconnect s' \<longleftrightarrow> \<not> ShutdownOnMqttConnectionLost cfg"
    and "co_OnConnectionLost s' e p = (Ret (), connection_lost_effect cfg e p)"
  using assms
  by (cases "ShutdownOnMqttConnectionLost cfg";
      auto simp: buildOnConnectionLostMqttOptions_def option_defs setting_def credentials_of_def
      connection_lost_effect_def notifyOnMqttConnectionLostHandler_def logMqttConnectionLostHandler_def)+

lemma middle_options_effect:
  assumes "apply_options mid s w = (Inr s', w')"
    and "mid = [WithCleanSession a, WithResumeSubs b] \<or> mid = [WithOnConnectHandler dns h]"
  shows "credentials_of s' = credentials_of s"
  using assms by (auto simp: option_defs setting_def credentials_of_def)

lemma connection_options_split:
  assumes "connection_options fs lib dns tls cfg w0 opts"
  obtains base mid rest h d where "buildDefaultMqttBrokerConfigFuncList fs lib tls cfg w0 = Inr base"
    and "opts = base @ mid @ buildOnConnectionLostMqttOptions cfg [] @ rest"
    and "mid = [WithCleanSession (MqttCleanSession cfg), WithResumeSubs (MqttResumeSubs cfg)]
         \<or> mid = [WithOnConnectHandler dns h]"
    and "rest = [] \<or> rest = [WithOnConnectHandler dns h, WithDefaultPublishHandler d]"
proof (cases "buildDefaultMqttBrokerConfigFuncList fs lib tls cfg w0")
  case (Inl err)
  then show ?thesis
    using assms by (simp add: connection_options_def bridge_options_def publisher_options_def
        buildMessageHandlerMqttBrokerConfigFuncList_def)
next
  case (Inr base)

  consider (bridge) "opts = base @ [WithCleanSession (MqttCleanSession cfg), WithResumeSubs (MqttResumeSubs cfg)]
        @ buildOnConnectionLostMqttOptions cfg []
        @ [WithOnConnectHandler dns (subscribeOnMqttConnectHandler (bridge_subscribers cfg)),
           WithDefaultPublishHandler (bridge_default_handler cfg)]"
    | (publisher) "opts = base @ [WithOnConnectHandler dns notifyOnIntialMqttConnection]
        @ buildOnConnectionLostMqttOptions cfg [] @ []"
    using assms Inr
    by (auto simp: connection_options_def bridge_options_def publisher_options_def
        buildMessageHandlerMqttBrokerConfigFuncList_def buildOnConnectionLostMqttOptions_def
        split: prod.splits)
  then show ?thesis
  proof cases
    case bridge
    then show ?thesis using that [OF Inr bridge] by blast
  next
    case publisher
    then show ?thesis using that [OF Inr publisher] by blast
  qed
qed

lemma common_options_credentials:
  "credentials_of s2 = credentials_of s1 \<Longrightarrow>
     common_options fs lib cfg s w s1 w0 \<Longrightarrow> common_options fs lib cfg s w s2 w0"
  by (auto simp: common_options_def jwt_options_def credentials_of_def)

lemma connection_options_effect:
  assumes "connection_options fs lib dns tls cfg w0 opts" and "apply_options opts s w = (Inr s', w')"
  shows "common_options fs lib cfg s w s' w0"
    and "co_AutoReconnect s' \<longleftrightarrow> \<not> ShutdownOnMqttConnectionLost cfg"
    and "co_OnConnectionLost s' e p = (Ret (), connection_lost_effect cfg e p)"
proof -
  obtain base mid rest h d where b: "buildDefaultMqttBrokerConfigFuncList fs lib tls cfg w0 = Inr base"
    and opts: "opts = base @ mid @ buildOnConnectionLostMqttOptions cfg [] @ rest"
    and m: "mid = [WithCleanSession (MqttCleanSession cfg), WithResumeSubs (MqttResumeSubs cfg)]
         \<or> mid = [WithOnConnectHandler dns h]"
    and r: "rest = [] \<or> rest = [WithOnConnectHandler dns h, WithDefaultPublishHandler d]"
    using connection_options_split [OF assms(1)] .
  obtain s1 w1 s2 w2 where 1: "apply_options base s w = (Inr s1, w1)"
    and 2: "apply_options mid s1 w1 = (Inr s2, w2)"
    and 3: "apply_options (buildOnConnectionLostMqttOptions cfg [] @ rest) s2 w2 = (Inr s', w')"
    using assms(2) unfolding opts apply_options_append_Inr by metis
  note lost = lost_options_effect [OF 3 r]
  have "credentials_of s' = credentials_of s1"
    using lost(1) middle_options_effect [OF 2 m] by simp
  then show "common_options fs lib cfg s w s' w0"
    using default_options_effect(1) [OF b 1] by (rule common_options_credentials)
  show "co_AutoReconnect s' \<longleftrightarrow> \<not> ShutdownOnMqttConnectionLost cfg"
    by (rule lost(2))
  show "co_OnConnectionLost s' e p = (Ret (), connection_lost_effect cfg e p)"
    by (rule lost(3))
qed


lemma sint_word_of_int_small: "0 \<le> x \<Longrightarrow> x < 2 ^ 63 \<Longrightarrow> sint (word_of_int x :: duration) = x"
  by (simp add: sint_sbintrunc' signed_take_bit_int_eq_self)

text \<open>Reconnections: the library calls the reconnecting handler before each attempt.\<close>

fun reconnect_times :: "nat \<Rightarrow> (headers \<Rightarrow> 'w \<Rightarrow> headers \<times> 'w) \<Rightarrow> headers \<Rightarrow> 'w \<Rightarrow> headers \<times> 'w" where
  "reconnect_times 0 refresh h w = (h, w)"
| "reconnect_times (Suc n) refresh h w =
     (case refresh h w of (h1, w1) \<Rightarrow> reconnect_times n refresh h1 w1)"

lemma reconnect_times_one_token:
  "\<exists>tok'. fst (reconnect_times n (tokenRefresher gen) [(akamaiTokenHeader, [tok])] w)
     = [(akamaiTokenHeader, [tok'])]"
proof (induction n arbitrary: tok w)
  case 0
  show ?case by simp
next
  case (Suc n)
  obtain tok1 where "fst (tokenRefresher gen [(akamaiTokenHeader, [tok])] w) = [(akamaiTokenHeader, [tok1])]"
    by (cases "gen w"; cases "fst (gen w)") (auto simp: tokenRefresher_def header_set_def)
  then show ?case
    using Suc.IH by (auto split: prod.splits)
qed

lemma subscribe_all_cases:
  "subscribe_all ss w = (r, w') \<Longrightarrow>
     (\<exists>n \<le> length ss. subscribe_calls w' = subscribe_calls w @ map (\<lambda>s. (sub_Topic s, sub_Qos s)) (take n ss)
        \<and> (r = Ret () \<and> n = length ss \<or> r = Exit))"
proof (induction ss arbitrary: w)
  case Nil
  then show ?case by simp
next
  case (Cons s ss)
  show ?case
  proof (cases "subscribe_fault w (length (subscribe_calls w))")
    case None
    then obtain n where "n \<le> length ss"
      "subscribe_calls w' = (subscribe_calls w @ [(sub_Topic s, sub_Qos s)])
         @ map (\<lambda>s. (sub_Topic s, sub_Qos s)) (take n ss)"
      "r = Ret () \<and> n = length ss \<or> r = Exit"
      using Cons.IH Cons.prems by fastforce
    then show ?thesis
      by (intro exI [of _ "Suc n"]) auto
  next
    case (Some e)
    then show ?thesis
      using Cons.prems by (intro exI [of _ 1]) auto
  qed
qed

section \<open>Properties\<close>



text \<open>
  The token signed for a process names its client id and expires the configured number
  of minutes after it was made, as long as that number of nanoseconds fits in 63 bits.
\<close>

theorem rsa_token_expiry:
  assumes "NewRSABasedJwtGenerator fs lib keyFile cid minutes = Inr gen"
    and "0 \<le> minutes" and "minutes * 60000000000 < 2 ^ 63"
  shows "\<exists>key. fst (gen w) = jl_SignedString lib ''RS256'' ''rhcloud-connector''
       \<lparr>ExpiresAt = clock w (ticks w) div 1000000000 + 60 * minutes,
        claim_ClientID = cid, AuthorizationGroup = ''admin''\<rparr> key"
proof -
  have "sint (Minute * word_of_int minutes) = minutes * 60000000000"
  proof -
    have "Minute * word_of_int minutes = (word_of_int (minutes * 60000000000) :: duration)"
      by (simp add: Minute_def mult.commute)
    moreover have "sint (word_of_int (minutes * 60000000000) :: duration) = minutes * 60000000000"
      using assms(2,3) by (intro sint_word_of_int_small) auto
    ultimately show ?thesis by simp
  qed
  moreover have "(t + minutes * 60000000000) div 1000000000 = t div 1000000000 + 60 * minutes" for t :: int
  proof -
    have "t + minutes * 60000000000 = t + (60 * minutes) * 1000000000" by simp
    then show ?thesis by (simp only: div_mult_self1)
  qed
  ultimately show ?thesis
    using assms(1)
    by (auto simp: NewRSABasedJwtGenerator_def createRsaToken_def time_now_def time_add_def Let_def
        split: sum.splits)
qed


lemma default_handler_subscription:
  assumes "CHR ''/'' \<notin> set (MqttTopicPrefix cfg)" and "MqttTopicPrefix cfg \<noteq> ''+''"
    and "s \<in> set (bridge_subscribers cfg)" and "mqtt_matches (sub_Topic s) (mm_Topic m)"
  shows "bridge_default_handler cfg m w = sub_EntryPoint s m w"
proof -
  let ?tv = "NewTopicVerifier (MqttTopicPrefix cfg)"
  note ver = subscription_verified [OF assms(1,2), of "mm_Topic m"]
  consider (control) cid where "VerifyIncomingTopic ?tv (mm_Topic m) = Inr (ControlTopicType, cid)"
      "sub_EntryPoint s = ControlMessageHandler ?tv"
    | (data) cid where "VerifyIncomingTopic ?tv (mm_Topic m) = Inr (DataTopicType, cid)"
      "sub_EntryPoint s = DataMessageHandler"
    using assms(3,4) ver by (auto simp: bridge_subscribers_def Let_def)
  then show ?thesis
    by cases (simp_all add: bridge_default_handler_def DefaultMessageHandler_def Let_def)
qed

text \<open>The choice of a partition: the balancer sees its own history, the message and the count.\<close>

type_synonym partitioner = "balancer \<Rightarrow> kafka_message list \<Rightarrow> kafka_message \<Rightarrow> nat \<Rightarrow> nat"

text \<open>The hash balancer of the Kafka library: messages with the same, not empty key go to one partition.\<close>

definition hash_by_key :: "partitioner \<Rightarrow> bool" where
  "hash_by_key part \<longleftrightarrow>
     (\<forall>past past' m m' n. km_Key m = km_Key m' \<and> km_Key m \<noteq> '''' \<longrightarrow> part Hash past m n = part Hash past' m' n)"

text \<open>
  C11: The order of a client's messages is kept between the two processes. The bridge writes
  all control messages of one client to one partition of the topic and the brokers that the
  consumer reads, with the same credentials and TLS settings.
\<close>

theorem client_messages_one_partition:
  fixes w1 w2 :: "'a bridge_state_scheme"
  assumes "hash_by_key part"
    and "StartProducer env (buildRhcMessageKafkaProducerConfig cfg) = Ret (Inr writer)"
    and "StartConsumer env (buildRhcMessageKafkaConsumerConfig cfg) = Ret (Inr reader)"
    and "VerifyIncomingTopic tv (mm_Topic m1) = Inr (ty1, cid)" and "VerifyIncomingTopic tv (mm_Topic m2) = Inr (ty2, cid)"
    and "cid \<noteq> ''''"
    and "ControlMessageHandler tv m1 w1 = (r1, w1')" and "written w1' = written w1 @ [k1]"
    and "ControlMessageHandler tv m2 w2 = (r2, w2')" and "written w2' = written w2 @ [k2]"
  shows "part (kw_Balancer writer) past1 k1 n = part (kw_Balancer writer) past2 k2 n
     \<and> kr_Topic reader = kw_Topic writer \<and> kr_Brokers reader = kw_Brokers writer
     \<and> kr_Dialer reader = kw_Dialer writer"
proof -
  have key: "km_Key k = cid"
    if "ControlMessageHandler tv m w = (r, w')" "written w' = written w @ [k]"
      "VerifyIncomingTopic tv (mm_Topic m) = Inr (ty, cid)" for m k ty r and w w' :: "'a bridge_state_scheme"
    using that by (cases rule: ControlMessageHandler_cases [OF that(1)]) auto
  obtain d where "createDialer env (kafka_sasl_config cfg) = Ret (Inr d)"
    and writer: "writer = \<lparr>kw_Brokers = RhcMessageKafkaBrokers cfg, kw_Topic = RhcMessageKafkaTopic cfg,
      kw_BatchSize = RhcMessageKafkaBatchSize cfg, kw_BatchBytes = RhcMessageKafkaBatchBytes cfg,
      kw_Dialer = d, kw_Balancer = Hash\<rparr>"
    using assms(2) by (auto simp: StartProducer_Ret_iff buildRhcMessageKafkaProducerConfig_def)
  then have "reader = \<lparr>kr_Brokers = RhcMessageKafkaBrokers cfg, kr_Topic = RhcMessageKafkaTopic cfg,
      kr_GroupID = RhcMessageKafkaConsumerGroup cfg, kr_StartOffset = 0, kr_Dialer = d\<rparr>"
    using assms(3) by (simp add: StartConsumer_def buildRhcMessageKafkaConsumerConfig_def)
  moreover have "part Hash past1 k1 n = part Hash past2 k2 n"
    using assms(1,6) key [OF assms(7,8,4)] key [OF assms(9,10,5)] unfolding hash_by_key_def by metis
  ultimately show ?thesis
    by (simp add: writer)
qed


section \<open>Examples\<close>

definition example_process :: mqtt_process where
  "example_process =
     \<lparr>clock = (\<lambda>n. 5000000000), ticks = 0, uuid_source = (\<lambda>n. Inr ''u''), uuids = 0,
      write_fault = (\<lambda>n. None), write_calls = 0, written = [],
      hostname = Inr ''host-1'', connect_fault = None, subscribe_fault = (\<lambda>n. None),
      subscribe_calls = [], mqttConnectionFailureCounter = 0, disconnects = [],
      mqttConnectionFailedChan = [], connected_once = False, connectedChan = 0, node_log = []\<rparr>"

definition example_defaults :: "'w client_options" where
  "example_defaults =
     \<lparr>co_Servers = [], co_ClientID = '''', co_Username = '''', co_Password = '''', co_CleanSession = True,
      co_ResumeSubs = False, co_HTTPHeaders = [], co_TLSConfig = None, co_ProtocolVersion = 0,
      co_AutoReconnect = True, co_OnConnect = (\<lambda>s w. (Ret (), w)), co_OnConnectionLost = (\<lambda>e w. (Ret (), w)),
      co_DefaultPublishHandler = (\<lambda>m w. (Ret (), w)), co_OnReconnecting = (\<lambda>h w. (h, w))\<rparr>"

definition example_jwt_lib :: jwt_lib where
  "example_jwt_lib =
     \<lparr>jl_ParseRSAPrivateKeyFromPEM = (\<lambda>s. Inr s),
      jl_SignedString = (\<lambda>m k c key. Inr (Itoa (ExpiresAt c) @ claim_ClientID c))\<rparr>"

definition example_key_files :: files where
  "example_key_files = \<lparr>fs_ReadFile = (\<lambda>f. Inr ''key''), fs_LoadX509KeyPair = (\<lambda>c k. Inr c), fs_pem_certs = (\<lambda>s. [s])\<rparr>"

definition example_dns :: dns where
  "example_dns =
     \<lparr>dns_Hostname = (\<lambda>u. Inr u), dns_LookupHost = (\<lambda>h. Inr [''10.0.0.1'']), dns_LookupAddr = (\<lambda>a. Inr [''node-1.''])\<rparr>"

definition example_mqtt_config :: Config where
  "example_mqtt_config =
     zero_Config\<lparr>MqttClientId := ''cc'', MqttBrokerAuthType := ''jwt'', MqttBrokerJwtGeneratorImpl := RsaTokenGenerator,
       JwtTokenExpiry := 10, ShutdownOnMqttConnectionLost := True, MqttTopicPrefix := ''redhat''\<rparr>"

definition example_options :: "mqtt_process MqttClientOptionsFunc list" where
  "example_options =
     projr (bridge_options example_key_files example_jwt_lib example_dns None example_mqtt_config example_process)"

lemma example_connection:
  "connection_options example_key_files example_jwt_lib example_dns None example_mqtt_config
     example_process example_options"
  by (simp add: connection_options_def example_options_def bridge_options_def
      buildMessageHandlerMqttBrokerConfigFuncList_def buildDefaultMqttBrokerConfigFuncList_def
      buildMqttClientId_def buildJwtGenerator_def NewRSABasedJwtGenerator_def example_mqtt_config_def
      zero_Config_def example_key_files_def example_jwt_lib_def)

lemma example_NewBrokerOptions:
  obtains s w where "NewBrokerOptions example_defaults ''ssl://b'' example_options example_process = (Inr s, w)"
  by (simp add: NewBrokerOptions_def example_options_def bridge_options_def
      buildMessageHandlerMqttBrokerConfigFuncList_def buildDefaultMqttBrokerConfigFuncList_def
      buildOnConnectionLostMqttOptions_def option_defs setting_def Let_def
      buildMqttClientId_def buildJwtGenerator_def NewRSABasedJwtGenerator_def createRsaToken_def
      time_now_def example_mqtt_config_def zero_Config_def example_key_files_def example_jwt_lib_def)



theorem rsa_token_expiry_witness:
  "\<exists>gen. NewRSABasedJwtGenerator example_key_files example_jwt_lib ''k'' ''cc'' 10 = Inr gen
     \<and> fst (gen example_process) = Inr ''605cc''"
proof -
  obtain gen where g: "NewRSABasedJwtGenerator example_key_files example_jwt_lib ''k'' ''cc'' 10
      = Inr (gen :: mqtt_process JwtGenerator)"
    by (simp add: NewRSABasedJwtGenerator_def example_key_files_def example_jwt_lib_def)
  have "Itoa 605 = ''605''" by code_simp
  then show ?thesis
    using rsa_token_expiry [OF g, of example_process] g
    by (auto simp: example_jwt_lib_def example_process_def)
qed

definition example_kafka_env :: kafka_env where
  "example_kafka_env = files.extend example_files \<lparr>ke_scram = (\<lambda>h u p. None)\<rparr>"

definition example_partitioner :: partitioner where
  "example_partitioner b past m n = (if b = Hash then length (km_Key m) mod n else length past mod n)"

lemma ControlMessageHandler_writes:
  assumes "VerifyIncomingTopic tv (mm_Topic m) = Inr (ty, cid)" and "mm_Payload m \<noteq> ''''"
    and "write_fault w (write_calls w) = None"
  shows "\<exists>k. written (snd (ControlMessageHandler tv m w)) = written w @ [k]"
  using assms by (simp add: ControlMessageHandler_def time_now_def WriteMessages_def Let_def)

lemma example_dialer:
  "\<exists>d. createDialer example_kafka_env (kafka_sasl_config example_tls_config) = Ret (Inr d)"
proof -
  have "Clean ''etc/x/../ca.pem'' = ''etc/ca.pem''" "map ascii_lower ''SCRAM-SHA-512'' = ''scram-sha-512''"
    by code_simp+
  then show ?thesis
    by (simp add: createDialer_def kafka_sasl_config_def createTLSConfig_def NewTlsConfig_def WithCACerts_def
        createSaslMechanism_def example_kafka_env_def example_files_def example_tls_config_def files.defs)
qed

theorem client_messages_one_partition_witness:
  "\<exists>writer k1 k2. StartProducer example_kafka_env (buildRhcMessageKafkaProducerConfig example_tls_config) = Ret (Inr writer)
     \<and> written (snd (ControlMessageHandler (NewTopicVerifier '''') example_mqtt_message example_bridge)) = [k1]
     \<and> written (snd (ControlMessageHandler (NewTopicVerifier '''')
          (example_mqtt_message\<lparr>mm_Payload := ''{ }''\<rparr>) example_bridge)) = [k2]
     \<and> example_partitioner (kw_Balancer writer) [] k1 3 = example_partitioner (kw_Balancer writer) [k1] k2 3"
proof -
  let ?m2 = "example_mqtt_message\<lparr>mm_Payload := ''{ }''\<rparr>"
  let ?run = "\<lambda>m. ControlMessageHandler (NewTopicVerifier '''') m example_bridge"
  obtain writer reader where
    p: "StartProducer example_kafka_env (buildRhcMessageKafkaProducerConfig example_tls_config) = Ret (Inr writer)"
    and c: "StartConsumer example_kafka_env (buildRhcMessageKafkaConsumerConfig example_tls_config) = Ret (Inr reader)"
    using example_dialer by (auto simp: StartProducer_def StartConsumer_def
        buildRhcMessageKafkaProducerConfig_def buildRhcMessageKafkaConsumerConfig_def)
  have v: "VerifyIncomingTopic (NewTopicVerifier '''') (mm_Topic example_mqtt_message) = Inr (ControlTopicType, ''client-1'')"
    "VerifyIncomingTopic (NewTopicVerifier '''') (mm_Topic ?m2) = Inr (ControlTopicType, ''client-1'')"
    by (simp_all add: VerifyIncomingTopic_def NewTopicVerifier_def defaultTopicPrefix_def example_mqtt_message_def)
  have b: "written example_bridge = []"
    and nofault: "write_fault example_bridge (write_calls example_bridge) = None"
    by (simp_all add: example_bridge_def)
  obtain k1 k2 where k: "written (snd (?run example_mqtt_message)) = written example_bridge @ [k1]"
    "written (snd (?run ?m2)) = written example_bridge @ [k2]"
    using ControlMessageHandler_writes [OF v(1) _ nofault] ControlMessageHandler_writes [OF v(2) _ nofault]
    by (auto simp: example_mqtt_message_def)
  have "hash_by_key example_partitioner"
    by (simp add: hash_by_key_def example_partitioner_def)
  from client_messages_one_partition [OF this p c v _ surjective_pairing k(1) surjective_pairing k(2), of "[]" 3 "[k1]"]
  show ?thesis using p k b by auto
qed

end
