(* ===== verification/Account_Report.thy ===== *)
theory Account_Report
  imports Services Platform_Setup "HOL-Library.Multiset"
begin

text \<open>
  The reports on the number of connections: the query per account
  (\<^verbatim>\<open>internal/connection_repository/connection_counter.go\<close>, \<^verbatim>\<open>account_reporter.go\<close>), its two
  consumers, standard output (\<^verbatim>\<open>cmd/cloud-connector/main.go\<close>) and the Pendo service
  (\<^verbatim>\<open>internal/pendo_transmitter/pendo_reporter.go\<close>), and the total pushed to Prometheus
  (\<^verbatim>\<open>cmd/cloud-connector/connection_count.go\<close>).
\<close>

section \<open>State\<close>

text \<open>
  The package variable \<open>accInfo\<close>, what was printed, and the metric pushed to the gateway.
  \<open>group_order\<close> is the order in which the database forms groups, which decides the order
  among equal counts; \<open>other_query\<close> is what it answers to a statement whose list of
  accounts is not a list of plain literals.
\<close>

record 'c reporter = "'c system" +
  group_order :: "(string option \<times> int) list \<Rightarrow> (string option \<times> int) list"
  other_query :: "string \<Rightarrow> row list \<Rightarrow> error + (string option \<times> int) list"
  accInfo :: "(AccountID \<times> int) list"
  printed :: "string list"
  push_fault :: "error option"
  pushed :: "(string \<times> int) list"

section \<open>The query\<close>

definition count_statement :: "string list \<Rightarrow> string" where
  "count_statement accountsToExclude =
     (let queryStmt = ''SELECT account, COUNT(1) AS connection_count FROM connections'';
          queryStmt1 = (if accountsToExclude \<noteq> []
                        then '' '' @ queryStmt @ '' WHERE account NOT IN (''
                             @ [CHR 0x27] @ join [CHR 0x27, CHR '','', CHR 0x27] accountsToExclude
                             @ [CHR 0x27] @ '')''
                        else queryStmt)
      in '' '' @ queryStmt1 @ '' GROUP BY account ORDER BY connection_count DESC'')"

text \<open>
  The accounts go into the statement as they are. When none contains a quote the database
  reads them back as they were given.
\<close>

definition plain_accounts :: "string list \<Rightarrow> bool" where
  "plain_accounts xs \<longleftrightarrow> (\<forall>x\<in>set xs. CHR 0x27 \<notin> set x)"

text \<open>
  A null account is neither in nor not in a list; it forms a group of its own when there is
  no condition.
\<close>

definition count_condition :: "string list \<Rightarrow> row \<Rightarrow> bool" where
  "count_condition accountsToExclude r \<longleftrightarrow>
     accountsToExclude = []
     \<or> (case r_account r of None \<Rightarrow> False | Some a \<Rightarrow> a \<notin> set accountsToExclude)"

definition count_groups :: "row list \<Rightarrow> (string option \<times> int) list" where
  "count_groups rs =
     map (\<lambda>a. (a, int (length (filter (\<lambda>r. r_account r = a) rs)))) (remdups (map r_account rs))"

definition run_count_query ::
  "string list \<Rightarrow> ('c, 'a) reporter_scheme \<Rightarrow> error + (string option \<times> int) list" where
  "run_count_query accountsToExclude w =
     (if plain_accounts accountsToExclude
      then Inr (sort_key (\<lambda>(a, n). - n)
                 (group_order w (count_groups (filter (count_condition accountsToExclude) (connections w)))))
      else other_query w (count_statement accountsToExclude) (connections w))"

text \<open>A row with a null account cannot be scanned and is skipped; the processor's error is dropped.\<close>

type_synonym 'w ConnectionCountProcessor = "AccountID \<Rightarrow> int \<Rightarrow> ('w, error option) action"

fun process_rows ::
  "'w ConnectionCountProcessor \<Rightarrow> (string option \<times> int) list \<Rightarrow> ('w, error option) action" where
  "process_rows processConnectionCount [] w = (Ret None, w)"
| "process_rows processConnectionCount ((account, connectionCount) # rs) w =
     (case account of
        None \<Rightarrow> process_rows processConnectionCount rs w
      | Some a \<Rightarrow>
          and_then (processConnectionCount a connectionCount w)
            (\<lambda>_ w1. process_rows processConnectionCount rs w1))"

definition ProcessConnectionCounts ::
  "string list \<Rightarrow> (('c, 'a) reporter_scheme) ConnectionCountProcessor
    \<Rightarrow> (('c, 'a) reporter_scheme, error option) action" where
  "ProcessConnectionCounts accountsToExclude processConnectionCount w =
     (case db_call w of
        (Some err, w1) \<Rightarrow> (Exit, w1)
      | (None, w1) \<Rightarrow>
          (case db_call w1 of
             (Some err, w2) \<Rightarrow> (Exit, w2)
           | (None, w2) \<Rightarrow>
               (case run_count_query accountsToExclude w2 of
                  Inl err \<Rightarrow> (Exit, w2)
                | Inr rs \<Rightarrow> process_rows processConnectionCount rs w2)))"

text \<open>Splitting at commas gives at least one account, if only the empty one.\<close>

definition StartConnectedAccountReport ::
  "Config \<Rightarrow> string \<Rightarrow> (('c, 'a) reporter_scheme) ConnectionCountProcessor
    \<Rightarrow> (('c, 'a) reporter_scheme, error option) action" where
  "StartConnectedAccountReport cfg accountsToExcludeCmdLineArg processorFunc w =
     (case InitializeDatabaseConnection cfg of
        Inl err \<Rightarrow> (Exit, w)
      | Inr databaseConn \<Rightarrow>
          ProcessConnectionCounts (split_on CHR '','' accountsToExcludeCmdLineArg) processorFunc w)"

section \<open>Consumers\<close>

definition count_line :: "AccountID \<Rightarrow> int \<Rightarrow> string" where
  "count_line account connCount = account @ '' - '' @ Itoa connCount @ [CHR 0x0A]"

definition stdoutConnectionCountProcessor ::
  "(('c, 'a) reporter_scheme) ConnectionCountProcessor" where
  "stdoutConnectionCountProcessor account connCount w =
     (Ret None, w\<lparr>printed := printed w @ [count_line account connCount]\<rparr>)"

definition accountInfo_json :: "AccountID \<times> int \<Rightarrow> json" where
  "accountInfo_json i =
     JObj [(''accountId'', JStr (fst i)), (''values'', JObj [(''connectionCount'', JNum (of_int (snd i)))])]"

text \<open>The request is used before the error of its construction is looked at.\<close>

definition makeRequest ::
  "string \<Rightarrow> string \<Rightarrow> (('c, 'a) reporter_scheme, error + string) action" where
  "makeRequest endpoint apiKey w =
     (let req = \<lparr>rq_method = ''POST'', rq_url = endpoint @ ''/metadata/account/custom/value'',
                 rq_headers = [(''content-type'', ''application/json''), (''x-pendo-integration-key'', apiKey)],
                 rq_body = Some (JArr (map accountInfo_json (accInfo w)))\<rparr>
      in if parse_url w (rq_url req) \<noteq> None then (Panic, w)
         else case send_http req w of
                (Inl err, w1) \<Rightarrow> (Ret (Inl err), w1)
              | (Inr resp, w1) \<Rightarrow>
                  (if rs_status resp \<noteq> 200
                   then (Ret (Inl (ErrorString (''Pendo Request Unsuccessful. Status: '' @ Itoa (rs_status resp)))), w1)
                   else (Ret (rs_body resp), w1)))"

definition requestHandler :: "string \<Rightarrow> string \<Rightarrow> (('c, 'a) reporter_scheme, unit) action" where
  "requestHandler endpoint apiKey w = and_then (makeRequest endpoint apiKey w) (\<lambda>_ w1. (Ret (), w1))"

definition connectionCountProcessor :: "Config \<Rightarrow> (('c, 'a) reporter_scheme) ConnectionCountProcessor" where
  "connectionCountProcessor cfg account connCount w =
     (let w1 = w\<lparr>printed := printed w @ [count_line account connCount], accInfo := accInfo w @ [(account, connCount)]\<rparr>
      in if int (length (accInfo w1)) \<ge> PendoRequestSize cfg
         then and_then (requestHandler (PendoApiEndpoint cfg) (PendoIntegrationKey cfg) w1)
                (\<lambda>_ w2. (Ret None, w2\<lparr>accInfo := []\<rparr>))
         else (Ret None, w1))"

definition PendoReporter :: "Config \<Rightarrow> string \<Rightarrow> (('c, 'a) reporter_scheme, unit) action" where
  "PendoReporter cfg excludeAccounts w =
     (if PendoIntegrationKey cfg = '''' then (Exit, w)
      else and_then (StartConnectedAccountReport cfg excludeAccounts (connectionCountProcessor cfg) w)
             (\<lambda>_ w1. if accInfo w1 \<noteq> []
                      then requestHandler (PendoApiEndpoint cfg) (PendoIntegrationKey cfg) w1
                      else (Ret (), w1)))"

text \<open>
  The total: one query, one push. The metric is a float64, which holds every count below
  two to the power of 53.
\<close>

definition startConnectionCount :: "Config \<Rightarrow> (('c, 'a) reporter_scheme, unit) action" where
  "startConnectionCount cfg w =
     (case InitializeDatabaseConnection cfg of
        Inl err \<Rightarrow> (Exit, w)
      | Inr database \<Rightarrow>
          (case db_call w of
             (Some err, w1) \<Rightarrow> (Exit, w1)
           | (None, w1) \<Rightarrow>
               (case push_fault w1 of
                  Some err \<Rightarrow> (Exit, w1)
                | None \<Rightarrow>
                    (Ret (), w1\<lparr>pushed := pushed w1
                       @ [(PrometheusPushGateway cfg, int (length (connections w1)))]\<rparr>))))"


section \<open>The counts\<close>

lemma count_groups_fst: "map fst (count_groups rs) = remdups (map r_account rs)"
  by (simp add: count_groups_def comp_def)

lemma count_groups_iff:
  "(a, n) \<in> set (count_groups rs) \<longleftrightarrow> n = int (length (filter (\<lambda>r. r_account r = a) rs)) \<and> n \<noteq> 0"
  by (auto simp: count_groups_def filter_empty_conv)

text \<open>The rows that can be scanned.\<close>

fun scanned :: "(string option \<times> int) list \<Rightarrow> (AccountID \<times> int) list" where
  "scanned [] = []"
| "scanned ((None, n) # rs) = scanned rs"
| "scanned ((Some a, n) # rs) = (a, n) # scanned rs"

lemma set_scanned: "(a, n) \<in> set (scanned rs) \<longleftrightarrow> (Some a, n) \<in> set rs"
  by (induction rs rule: scanned.induct) auto

lemma distinct_scanned: "distinct (map fst rs) \<Longrightarrow> distinct (map fst (scanned rs))"
  by (induction rs rule: scanned.induct) (auto simp: set_scanned, force simp: set_scanned)

lemma sorted_scanned:
  "sorted (map (\<lambda>(a, n). - n) rs) \<Longrightarrow> sorted (map (\<lambda>(a, n). - n :: int) (scanned rs))"
  by (induction rs rule: scanned.induct) (force simp: set_scanned)+

text \<open>What the query counts: every account that is not excluded and has connections, once.\<close>

definition reported :: "string list \<Rightarrow> row list \<Rightarrow> (AccountID \<times> int) list \<Rightarrow> bool" where
  "reported accountsToExclude rs infos \<longleftrightarrow>
     distinct (map fst infos) \<and> sorted (map (\<lambda>(a, n). - n) infos)
     \<and> (\<forall>a n. (a, n) \<in> set infos \<longleftrightarrow>
          a \<notin> set accountsToExclude
          \<and> n = int (length (filter (\<lambda>r. r_account r = Some a) rs)) \<and> n \<noteq> 0)"

definition permutes_groups :: "('c, 'a) reporter_scheme \<Rightarrow> bool" where
  "permutes_groups w \<longleftrightarrow> (\<forall>gs. mset (group_order w gs) = mset gs)"

lemma filter_condition:
  "xs \<noteq> [] \<Longrightarrow> a \<notin> set xs \<Longrightarrow>
     filter (\<lambda>r. r_account r = Some a) (filter (count_condition xs) rs) = filter (\<lambda>r. r_account r = Some a) rs"
  by (auto simp: count_condition_def intro: filter_cong)

lemma run_count_query_reported:
  assumes "plain_accounts xs" and "xs \<noteq> []" and "permutes_groups w"
  shows "\<exists>rs. run_count_query xs w = Inr rs \<and> reported xs (connections w) (scanned rs)"
proof -
  let ?sel = "filter (count_condition xs) (connections w)"
  define rs where "rs = sort_key (\<lambda>(a, n). - n) (group_order w (count_groups ?sel))"
  have m: "mset rs = mset (count_groups ?sel)"
    using assms(3) by (simp add: rs_def permutes_groups_def)
  then have "set rs = set (count_groups ?sel)" "mset (map fst rs) = mset (map fst (count_groups ?sel))"
    by (simp_all flip: set_mset_mset)
  then have "distinct (map fst rs)"
    by (metis count_groups_fst distinct_remdups mset_eq_imp_distinct_iff)
  moreover have "sorted (map (\<lambda>(a, n). - n) rs)"
    unfolding rs_def by (rule sorted_sort_key)
  moreover have "(Some a, n) \<in> set rs \<longleftrightarrow>
      a \<notin> set xs \<and> n = int (length (filter (\<lambda>r. r_account r = Some a) (connections w))) \<and> n \<noteq> 0" for a n
  proof (cases "a \<in> set xs")
    case True
    then have "filter (\<lambda>r. r_account r = Some a) ?sel = []"
      using assms(2) by (auto simp: count_condition_def filter_empty_conv)
    then show ?thesis
      using True \<open>set rs = set (count_groups ?sel)\<close> by (simp add: count_groups_iff)
  next
    case False
    then show ?thesis
      using \<open>set rs = set (count_groups ?sel)\<close> count_groups_iff [of "Some a" n ?sel]
      unfolding filter_condition [OF assms(2) False] by simp
  qed
  ultimately have "reported xs (connections w) (scanned rs)"
    by (simp add: reported_def distinct_scanned sorted_scanned set_scanned)
  moreover have "run_count_query xs w = Inr rs"
    using assms(1) by (simp add: run_count_query_def rs_def)
  ultimately show ?thesis by blast
qed


section \<open>Batches\<close>

text \<open>
  \<open>batched cfg w w' bs\<close>: between the two states the batches \<open>bs\<close> were sent, and what was
  collected before and after fits together.
\<close>

definition batch_body :: "(AccountID \<times> int) list \<Rightarrow> json option" where
  "batch_body b = Some (JArr (map accountInfo_json b))"

definition fits :: "Config \<Rightarrow> (AccountID \<times> int) list \<Rightarrow> bool" where
  "fits cfg b \<longleftrightarrow> b \<noteq> [] \<and> int (length b) \<le> max 1 (PendoRequestSize cfg)"

definition pendo_url :: "Config \<Rightarrow> string" where
  "pendo_url cfg = PendoApiEndpoint cfg @ ''/metadata/account/custom/value''"

lemma requestHandler_sends:
  assumes "parse_url w (pendo_url cfg) = None"
  shows "\<exists>req w'. requestHandler (PendoApiEndpoint cfg) (PendoIntegrationKey cfg) w = (Ret (), w')
     \<and> http_log w' = http_log w @ [req] \<and> rq_body req = batch_body (accInfo w)
     \<and> accInfo w' = accInfo w \<and> parse_url w' = parse_url w"
  using assms
  by (auto simp: requestHandler_def makeRequest_def send_http_def batch_body_def pendo_url_def Let_def
      split: sum.splits)

lemma connectionCountProcessor_step:
  assumes "parse_url w (pendo_url cfg) = None"
    and "accInfo w = [] \<or> int (length (accInfo w)) < PendoRequestSize cfg"
  shows "\<exists>w' bs. connectionCountProcessor cfg a n w = (Ret None, w')
     \<and> map rq_body (http_log w') = map rq_body (http_log w) @ map batch_body bs
     \<and> concat bs @ accInfo w' = accInfo w @ [(a, n)] \<and> (\<forall>b\<in>set bs. fits cfg b)
     \<and> (accInfo w' = [] \<or> int (length (accInfo w')) < PendoRequestSize cfg)
     \<and> parse_url w' = parse_url w"
proof -
  let ?w1 = "w\<lparr>printed := printed w @ [count_line a n], accInfo := accInfo w @ [(a, n)]\<rparr>"
  show ?thesis
  proof (cases "int (length (accInfo ?w1)) \<ge> PendoRequestSize cfg")
    case True
    have "parse_url ?w1 (pendo_url cfg) = None" using assms(1) by simp
    from requestHandler_sends [OF this] obtain req w2 where
      "requestHandler (PendoApiEndpoint cfg) (PendoIntegrationKey cfg) ?w1 = (Ret (), w2)"
      "http_log w2 = http_log w @ [req]" "rq_body req = batch_body (accInfo w @ [(a, n)])" "parse_url w2 = parse_url w"
      by auto
    moreover have "fits cfg (accInfo w @ [(a, n)])"
      using assms(2) by (auto simp: fits_def)
    ultimately show ?thesis
      using True by (intro exI [of _ "w2\<lparr>accInfo := []\<rparr>"] exI [of _ "[accInfo w @ [(a, n)]]"])
        (simp add: connectionCountProcessor_def Let_def)
  next
    case False
    then show ?thesis
      by (intro exI [of _ ?w1] exI [of _ "[]"]) (simp add: connectionCountProcessor_def Let_def)
  qed
qed

lemma process_rows_batches:
  assumes "parse_url w (pendo_url cfg) = None"
    and "accInfo w = [] \<or> int (length (accInfo w)) < PendoRequestSize cfg"
  shows "\<exists>w' bs. process_rows (connectionCountProcessor cfg) rs w = (Ret None, w')
     \<and> map rq_body (http_log w') = map rq_body (http_log w) @ map batch_body bs
     \<and> concat bs @ accInfo w' = accInfo w @ scanned rs \<and> (\<forall>b\<in>set bs. fits cfg b)
     \<and> (accInfo w' = [] \<or> int (length (accInfo w')) < PendoRequestSize cfg)
     \<and> parse_url w' = parse_url w"
  using assms
proof (induction rs arbitrary: w rule: scanned.induct)
  case 1
  then show ?case by (intro exI [of _ w] exI [of _ "[]"]) simp
next
  case (2 n rs)
  then show ?case by simp
next
  case (3 a n rs)
  obtain w1 bs1 where 1: "connectionCountProcessor cfg a n w = (Ret None, w1)"
    "map rq_body (http_log w1) = map rq_body (http_log w) @ map batch_body bs1"
    "concat bs1 @ accInfo w1 = accInfo w @ [(a, n)]" "\<forall>b\<in>set bs1. fits cfg b"
    "accInfo w1 = [] \<or> int (length (accInfo w1)) < PendoRequestSize cfg" "parse_url w1 = parse_url w"
    using connectionCountProcessor_step [OF 3(2,3)] by metis
  obtain w2 bs2 where 2: "process_rows (connectionCountProcessor cfg) rs w1 = (Ret None, w2)"
    "map rq_body (http_log w2) = map rq_body (http_log w1) @ map batch_body bs2"
    "concat bs2 @ accInfo w2 = accInfo w1 @ scanned rs" "\<forall>b\<in>set bs2. fits cfg b"
    "accInfo w2 = [] \<or> int (length (accInfo w2)) < PendoRequestSize cfg" "parse_url w2 = parse_url w1"
    using 3(1) [of w1] 3(2) 1(5,6) by metis
  have "concat (bs1 @ bs2) @ accInfo w2 = accInfo w @ scanned ((Some a, n) # rs)"
    using 1(3) 2(3) by (metis append.assoc append_Cons append_Nil concat_append scanned.simps(3))
  then show ?case
    using 1 2 by (intro exI [of _ w2] exI [of _ "bs1 @ bs2"]) auto
qed

section \<open>Properties\<close>



definition example_pendo_config :: Config where
  "example_pendo_config =
     example_db_config\<lparr>PendoIntegrationKey := ''k'', PendoApiEndpoint := ''https://p'', PendoRequestSize := 1\<rparr>"

definition example_account_row :: "nat \<Rightarrow> string option \<Rightarrow> row" where
  "example_account_row i acct =
     \<lparr>r_id = i, r_account = acct, r_org_id = ''o'', r_client_id = Itoa (int i), r_dispatchers = JNull,
      r_canonical_facts = JNull, r_tags = None, r_created_at = 0, r_updated_at = 0, r_stale_timestamp = 0,
      r_message_id = None, r_message_sent = 0, r_tenant_lookup_failure_count = None,
      r_tenant_lookup_timestamp = None\<rparr>"

definition example_reporter :: "unit reporter" where
  "example_reporter =
     \<lparr>clock = (\<lambda>n. 0), ticks = 0, uuid_source = (\<lambda>n. Inr ''u''), uuids = 0,
      connections = [example_account_row 1 (Some ''a''), example_account_row 2 None,
                     example_account_row 3 (Some ''b''), example_account_row 4 (Some ''a''),
                     example_account_row 5 (Some ''c'')],
      next_id = 6, db_fault = (\<lambda>n. None), db_calls = 0, sql_clock = (\<lambda>n. 0), pg_timestamp = (\<lambda>t. t),
      parse_url = (\<lambda>u. None), http_do = (\<lambda>n req. Inl (ErrorString ''down'')), http_log = [],
      kafka_fault = (\<lambda>n. None), kafka_calls = 0, kafka_log = [], cache = (),
      group_order = rev, other_query = (\<lambda>s rs. Inl (ErrorString ''syntax error'')), accInfo = [], printed = [],
      push_fault = None, pushed = []\<rparr>"


end
