(* ===== verification/Processes.thy ===== *)
theory Processes
  imports Control_Pipeline Consumer_Process Job_Processes Api_Server Mqtt_Setup Account_Report
begin

text \<open>
  The processes as the commands start them (\<^verbatim>\<open>startKafkaMessageConsumer\<close>,
  \<^verbatim>\<open>startMqttMessageConsumer\<close> and \<^verbatim>\<open>startCloudConnectorApiServer\<close> in
  \<^verbatim>\<open>cmd/cloud-connector/\<close>): every component is built from the configuration, and a
  component that cannot be built ends the process. The theory also holds the routes that
  need no credentials and the metrics around the others
  (\<^verbatim>\<open>internal/controller/api/monitoring.go\<close>, \<^verbatim>\<open>spec_handler.go\<close>,
  \<^verbatim>\<open>internal/middlewares/metrics_middleware.go\<close>), and the table of commands.
\<close>

section \<open>Building components\<close>

definition NewConnectedClientRecorder ::
  "kafka_env \<Rightarrow> string \<Rightarrow> map_decoder \<Rightarrow> Config
    \<Rightarrow> (error + (('c, 'a) system_scheme) ConnectedClientRecorder) go" where
  "NewConnectedClientRecorder env impl unmarshal cfg =
     (if impl = ''inventory'' then
        go_bind (StartProducer env (inventory_producer_config cfg)) (\<lambda>r.
          case r of
            Inl err \<Rightarrow> Ret (Inl err)
          | Inr kafkaProducer \<Rightarrow> Ret (Inr (RecordConnectedClient unmarshal cfg)))
      else if impl = ''fake'' then Ret (Inr FakeRecordConnectedClient)
      else Ret (Inl (ErrorString ''Invalid ConnectedClientRecorder impl requested'')))"

definition NewSourcesRecorder ::
  "string \<Rightarrow> (string \<Rightarrow> error + json list) \<Rightarrow> Config \<Rightarrow> error + (('c, 'a) system_scheme) SourcesRecorder" where
  "NewSourcesRecorder impl decode cfg =
     (if impl = ''sources'' then Inr (RegisterWithSources decode cfg)
      else if impl = ''fake'' then Inr FakeRegisterWithSources
      else Inl (ErrorString ''Invalid SourcesRecorder impl requested''))"

text \<open>
  What a process finds around it, apart from its state: files, Kafka, the token library,
  the resolver, the defaults of the MQTT client, and whether the broker confirms the
  connection within the two seconds the main thread waits.
\<close>

record process_env =
  pe_kafka :: kafka_env
  pe_jwt :: jwt_lib
  pe_dns :: dns
  pe_newClientOptions :: "mqtt_process client_options"
  pe_notified :: bool

abbreviation pe_files :: "process_env \<Rightarrow> files" where
  "pe_files env \<equiv> files.truncate (pe_kafka env)"

definition broker_tls :: "process_env \<Rightarrow> Config \<Rightarrow> mqtt_process \<Rightarrow> tls_config go" where
  "broker_tls env cfg p =
     go_bind (must (buildBrokerTlsConfigFuncList (pe_files env) cfg)) (\<lambda>tlsConfigFuncs.
       must (fst (NewTlsConfig tlsConfigFuncs p)))"

definition connect_publisher ::
  "process_env \<Rightarrow> tls_config \<Rightarrow> Config \<Rightarrow> (mqtt_process, mqtt_process client_options) action" where
  "connect_publisher env tlsConfig cfg p =
     and_then (must (publisher_options (pe_files env) (pe_jwt env) (pe_dns env) (Some tlsConfig) cfg p), p)
       (\<lambda>brokerOptions p1.
         case CreateBrokerConnection (pe_newClientOptions env) (MqttBrokerAddress cfg) brokerOptions p1 of
           (r, p2) \<Rightarrow>
             and_then (must r, p2) (\<lambda>mqttClient p3.
               if pe_notified env then (Ret mqttClient, p3) else (Exit, p3)))"

section \<open>The consumer of control messages\<close>

text \<open>
  The state is the system the handlers work on; \<open>p\<close> is the process before it connects to the
  broker. The result is the function that processes a message, the reader and the MQTT client.
\<close>

type_synonym ('c, 'a) processor = "kafka_message \<Rightarrow> (('c, 'a) system_scheme, error option) action"

definition startKafkaMessageConsumer ::
  "process_env \<Rightarrow> 'c libraries \<Rightarrow> error + string \<Rightarrow> (string \<Rightarrow> error + (ClientID \<rightharpoonup> account_entry)) \<Rightarrow> Config
    \<Rightarrow> ('c, 'a) system_scheme \<Rightarrow> mqtt_process
    \<Rightarrow> (('c, 'a) processor \<times> kafka_reader \<times> mqtt_process client_options) go \<times> ('c, 'a) system_scheme" where
  "startKafkaMessageConsumer env lib file unmarshal cfg w p =
     and_then (must (InitializeDatabaseConnection cfg), w) (\<lambda>database w1.
     and_then (broker_tls env cfg p, w1) (\<lambda>tlsConfig w2.
     and_then (new_resolver lib file unmarshal cfg w2) (\<lambda>accountResolver w3.
     and_then (go_bind (NewConnectedClientRecorder (pe_kafka env) (ConnectedClientRecorderImpl cfg)
                          (lib_map lib) cfg) must, w3) (\<lambda>connectedClientRecorder w4.
     and_then (must (NewSourcesRecorder (SourcesRecorderImpl cfg) (lib_sources lib) cfg), w4)
       (\<lambda>sourcesRecorder w5.
     and_then (go_bind (StartConsumer (pe_kafka env) (buildRhcMessageKafkaConsumerConfig cfg)) must, w5)
       (\<lambda>kafkaReader w6.
     and_then (fst (connect_publisher env tlsConfig cfg p), w6) (\<lambda>mqttClient w7.
       let messageProcessor =
             handleMessage (NewTopicVerifier (MqttTopicPrefix cfg))
               (HandleControlMessage (lib_control lib) (lib_validUUID lib)
                 (SqlConnectionRegistrar (lib_pq lib)) accountResolver connectedClientRecorder
                 sourcesRecorder)
       in (Ret (messageProcessor, kafkaReader, mqttClient), w7))))))))"

section \<open>The bridge\<close>

definition startMqttMessageConsumer ::
  "process_env \<Rightarrow> Config \<Rightarrow> (mqtt_process, kafka_writer \<times> mqtt_process client_options) action" where
  "startMqttMessageConsumer env cfg p =
     and_then (broker_tls env cfg p, p) (\<lambda>tlsConfig p1.
     and_then (go_bind (StartProducer (pe_kafka env) (buildRhcMessageKafkaProducerConfig cfg)) must, p1)
       (\<lambda>kafkaProducer p2.
     and_then (must (bridge_options (pe_files env) (pe_jwt env) (pe_dns env) (Some tlsConfig) cfg p2), p2)
       (\<lambda>brokerOptions p3.
         case CreateBrokerConnection (pe_newClientOptions env) (MqttBrokerAddress cfg) brokerOptions p3 of
           (r, p4) \<Rightarrow> and_then (must r, p4) (\<lambda>mqttClient p5. (Ret (kafkaProducer, mqttClient), p5)))))"

section \<open>The API server\<close>

text \<open>\<open>DefaultServeMux\<close> and the metrics handler are library handlers.\<close>

definition handleLiveness :: "('k, 'a server_scheme) handler" where
  "handleLiveness req w = (Ret (), w\<lparr>responses := responses w @ [(200, NoBody)]\<rparr>)"

definition handleReadiness :: "('k, 'a server_scheme) handler" where
  "handleReadiness req w = (Ret (), w\<lparr>responses := responses w @ [(200, NoBody)]\<rparr>)"

definition MonitoringServer_Routes ::
  "('k, 'a server_scheme) handler \<Rightarrow> ('k, 'a server_scheme) handler \<Rightarrow> Config
    \<Rightarrow> ('k, 'a server_scheme) route list" where
  "MonitoringServer_Routes promhttp defaultServeMux cfg =
     [\<lparr>rt_method = ''GET'', rt_path = ''/metrics'', rt_handler = promhttp\<rparr>,
      \<lparr>rt_method = ''GET'', rt_path = ''/liveness'', rt_handler = handleLiveness\<rparr>,
      \<lparr>rt_method = ''GET'', rt_path = ''/readiness'', rt_handler = handleReadiness\<rparr>]
     @ (if Profile cfg
        then [\<lparr>rt_method = '''', rt_path = ''/debug'', rt_handler = defaultServeMux\<rparr>] else [])"

definition handleApiSpec :: "files \<Rightarrow> string \<Rightarrow> ('k, 'a server_scheme) handler" where
  "handleApiSpec fs specFileName req w =
     (case fs_ReadFile fs specFileName of
        Inl err \<Rightarrow> (Ret (), w\<lparr>responses := responses w @ [(404, NoBody)]\<rparr>)
      | Inr file \<Rightarrow> (Ret (), w\<lparr>responses := responses w @ [(200, TextBody file)]\<rparr>))"

definition ApiSpecServer_Routes :: "files \<Rightarrow> Config \<Rightarrow> ('k, 'a server_scheme) route list" where
  "ApiSpecServer_Routes fs cfg =
     [\<lparr>rt_method = ''GET'', rt_path = UrlBasePath cfg @ ''/openapi.json'',
       rt_handler = handleApiSpec fs (OpenApiSpecFilePath cfg)\<rparr>]"

text \<open>
  The tenant translator: a service, or a table from the configuration. The choice decides
  \<open>ean_to_org\<close> of the server's state.
\<close>

datatype translator = TranslatorService string duration | TranslatorMock "(string \<times> string option) list"

definition buildTenantTranslatorInstance :: "Config \<Rightarrow> translator go" where
  "buildTenantTranslatorInstance cfg =
     (if TenantTranslatorImpl cfg = ''translator-service''
      then Ret (TranslatorService (TenantTranslatorURL cfg) (TenantTranslatorTimeout cfg))
      else if TenantTranslatorImpl cfg = ''mock''
      then go_bind (buildTenantTranslatorMockMapping (TenantTranslatorMockMapping cfg)) (\<lambda>mapping.
             Ret (TranslatorMock mapping))
      else Exit)"

definition startCloudConnectorApiServer ::
  "process_env \<Rightarrow> 'k api_libs \<Rightarrow> api_decoders \<Rightarrow> collation
    \<Rightarrow> ('k, 'a server_scheme) handler \<Rightarrow> ('k, 'a server_scheme) handler \<Rightarrow> Config
    \<Rightarrow> (mqtt_process, ('k, 'a server_scheme) route list \<times> translator \<times> mqtt_process client_options) action" where
  "startCloudConnectorApiServer env libs dec coll promhttp defaultServeMux cfg p =
     and_then (must (InitializeDatabaseConnection cfg), p) (\<lambda>database p1.
     and_then (broker_tls env cfg p1, p1) (\<lambda>tlsConfig p2.
     and_then (connect_publisher env tlsConfig cfg p2) (\<lambda>mqttClient p3.
     and_then (must (NewConnectorClientMQTTProxyFactory cfg (NewTopicBuilder (MqttTopicPrefix cfg))), p3)
       (\<lambda>proxyFactory p4.
     and_then (buildTenantTranslatorInstance cfg, p4) (\<lambda>tenantTranslator p5.
       let routes = ApiSpecServer_Routes (pe_files env) cfg
                    @ MonitoringServer_Routes promhttp defaultServeMux cfg
                    @ apiMux_routes libs dec coll proxyFactory cfg
       in (Ret (routes, tenantTranslator, mqttClient), p5))))))"

section \<open>Metrics\<close>

text \<open>
  The wrapped response writer remembers the status written last, 200 at first; the counter
  is incremented with it when the handler returns. The client sees the status written
  first.
\<close>

record metered = server +
  statusCodeCounter :: "int list"

definition RecordHTTPMetrics ::
  "('k, 'a metered_scheme) handler \<Rightarrow> ('k, 'a metered_scheme) handler" where
  "RecordHTTPMetrics next_handler req w =
     and_then (next_handler req w) (\<lambda>_ w1.
       let written = drop (length (responses w)) (responses w1);
           statusCode = (if written = [] then 200 else fst (last written))
       in (Ret (), w1\<lparr>statusCodeCounter := statusCodeCounter w1 @ [statusCode]\<rparr>))"

section \<open>Commands\<close>

datatype process =
    ConnectionCount
  | MqttMessageConsumer
  | KafkaMessageConsumer
  | InventoryStaleTimestampUpdater
  | TenantlessUpdater
  | ApiServer
  | AccountReport

text \<open>The subcommands of the root command, with the names of their own flags and the defaults.\<close>

definition NewRootCommand :: "(string \<times> process \<times> (string \<times> string) list) list" where
  "NewRootCommand =
     [(''mqtt_message_consumer'', MqttMessageConsumer, [(''listen-addr'', '':8081'')]),
      (''inventory_stale_timestamp_updater'', InventoryStaleTimestampUpdater, []),
      (''tenantless_connection_updater'', TenantlessUpdater, []),
      (''api_server'', ApiServer, [(''listen-addr'', '':8081'')]),
      (''kafka_message_consumer'', KafkaMessageConsumer, [(''listen-addr'', '':8081'')]),
      (''connection_count_per_account_reporter'', AccountReport,
         [(''exclude-accounts'', ''477931,6089719,540155''), (''report-exporter'', ''stdout'')]),
      (''publish_connection_count'', ConnectionCount, [])]"

text \<open>The report of the command above: an unknown exporter does nothing.\<close>

definition run_account_report :: "Config \<Rightarrow> string \<Rightarrow> string \<Rightarrow> (('c, 'a) reporter_scheme, unit) action" where
  "run_account_report cfg reportMode excludeAccounts w =
     (if reportMode = ''pendo'' then PendoReporter cfg excludeAccounts w
      else if reportMode = ''stdout''
      then and_then (StartConnectedAccountReport cfg excludeAccounts stdoutConnectionCountProcessor w)
             (\<lambda>_ w1. (Ret (), w1))
      else (Ret (), w))"


section \<open>Lemmas\<close>

lemma go_bind_must_iff: "go_bind g must = Ret x \<longleftrightarrow> g = Ret (Inr x)"
  by (simp add: go_bind_Ret_iff)

lemma NewConnectedClientRecorder_inventory:
  "NewConnectedClientRecorder env ''inventory'' unmarshal cfg = Ret (Inr rec) \<Longrightarrow>
     rec = RecordConnectedClient unmarshal cfg"
  by (cases "StartProducer env (inventory_producer_config cfg)")
    (auto simp: NewConnectedClientRecorder_def split: sum.splits)

lemma NewAccountIdResolver_cached:
  "NewAccountIdResolver ''bop_with_cache'' gw lru file unmarshal cfg w = (Inr res, w') \<Longrightarrow>
     (\<exists>c. lru_New lru (ClientIdToAccountIdCacheSize cfg) (ClientIdToAccountIdCacheValidRespTTL cfg) = Some c
        \<and> w' = w\<lparr>cache := c\<rparr>)
     \<and> res = Cached_MapClientIdToAccountId lru (ClientIdToAccountIdCacheErrorRespTTL cfg)
              (BOP_MapClientIdToAccountId gw cfg)"
  by (auto simp: NewAccountIdResolver_def NewExpirableCachedAccountIdResolver_def split: option.splits)

lemma StartConsumer_Ret:
  "StartConsumer env cfg = Ret (Inr reader) \<Longrightarrow>
     kr_Topic reader = cc_Topic cfg \<and> kr_Brokers reader = cc_Brokers cfg \<and> kr_GroupID reader = cc_GroupID cfg"
  by (cases "createDialer env (cc_SaslConfig cfg)") (auto simp: StartConsumer_def split: sum.splits)

text \<open>What a started consumer is made of.\<close>

lemma startKafkaMessageConsumer_parts:
  assumes "startKafkaMessageConsumer env lib file unmarshal cfg w p = (Ret (proc, reader, client), w')"
  obtains resolver recorder sources where
    "NewAccountIdResolver (ClientIdToAccountIdImpl cfg) (lib_gateway lib) (lib_lru lib) file unmarshal cfg w
       = (Inr resolver, w')"
    "NewConnectedClientRecorder (pe_kafka env) (ConnectedClientRecorderImpl cfg) (lib_map lib) cfg
       = Ret (Inr recorder)"
    "NewSourcesRecorder (SourcesRecorderImpl cfg) (lib_sources lib) cfg = Inr sources"
    "StartConsumer (pe_kafka env) (buildRhcMessageKafkaConsumerConfig cfg) = Ret (Inr reader)"
    "proc = handleMessage (NewTopicVerifier (MqttTopicPrefix cfg))
       (HandleControlMessage (lib_control lib) (lib_validUUID lib) (SqlConnectionRegistrar (lib_pq lib))
         resolver recorder sources)"
  using assms
  by (auto simp: startKafkaMessageConsumer_def new_resolver_def and_then_Ret_iff go_bind_must_iff Let_def split: prod.splits)

section \<open>Properties\<close>

text \<open>
  C14: The production configuration starts the pipeline of the theory \<open>Control_Pipeline\<close>. A
  consumer that comes up with the gateway resolver behind the cache, the inventory recorder
  and the sources recorder processes messages with \<open>messageProcessor\<close>, reads the configured
  topic as the configured group, and starts in a state in which the invariant of the
  pipeline holds, if the table was in order and a new cache is empty.
\<close>

theorem production_consumer_wiring:
  assumes "startKafkaMessageConsumer env lib file unmarshal cfg w p = (Ret (proc, reader, client), w')"
    and "ClientIdToAccountIdImpl cfg = ''bop_with_cache''" and "ConnectedClientRecorderImpl cfg = ''inventory''"
    and "SourcesRecorderImpl cfg = ''sources''"
    and "db_inv w" and "lru_laws (lib_lru lib) holds"
    and "\<forall>n ttl c k r. lru_New (lib_lru lib) n ttl = Some c \<longrightarrow> \<not> holds c k r"
  shows "proc = messageProcessor lib cfg (NewTopicVerifier (MqttTopicPrefix cfg))
     \<and> kr_Topic reader = RhcMessageKafkaTopic cfg \<and> kr_GroupID reader = RhcMessageKafkaConsumerGroup cfg
     \<and> connections w' = connections w \<and> pipeline_inv lib holds cfg w'"
proof -
  obtain resolver recorder sources where
    1: "NewAccountIdResolver ''bop_with_cache'' (lib_gateway lib) (lib_lru lib) file unmarshal cfg w = (Inr resolver, w')"
    and 2: "NewConnectedClientRecorder (pe_kafka env) ''inventory'' (lib_map lib) cfg = Ret (Inr recorder)"
    and 3: "NewSourcesRecorder ''sources'' (lib_sources lib) cfg = Inr sources"
    and 4: "StartConsumer (pe_kafka env) (buildRhcMessageKafkaConsumerConfig cfg) = Ret (Inr reader)"
    and proc: "proc = handleMessage (NewTopicVerifier (MqttTopicPrefix cfg))
       (HandleControlMessage (lib_control lib) (lib_validUUID lib) (SqlConnectionRegistrar (lib_pq lib))
         resolver recorder sources)"
    using startKafkaMessageConsumer_parts [OF assms(1)] unfolding assms(2-4) by metis
  obtain c where c: "lru_New (lib_lru lib) (ClientIdToAccountIdCacheSize cfg) (ClientIdToAccountIdCacheValidRespTTL cfg) = Some c"
    and w': "w' = w\<lparr>cache := c\<rparr>"
    and resolver: "resolver = gatewayResolver lib cfg"
    using NewAccountIdResolver_cached [OF 1] by (auto simp: gatewayResolver_def)
  have "pipeline_inv lib holds cfg w'"
    using assms(5-7) c by (auto simp: pipeline_inv_def cache_inv_def w' db_inv_def unique_clients_def)
  moreover have "sources = RegisterWithSources (lib_sources lib) cfg"
    using 3 by (simp add: NewSourcesRecorder_def)
  ultimately show ?thesis
    using StartConsumer_Ret [OF 4] NewConnectedClientRecorder_inventory [OF 2]
    by (simp add: proc resolver w' messageProcessor_def controlMessageHandler_def
        buildRhcMessageKafkaConsumerConfig_def)
qed


text \<open>
  The status that is counted is not the status the client sees when a handler answers
  twice, as the listing by organisation does when the database fails.
\<close>

lemma failed_listing_counted_as_success:
  fixes w :: "'a metered_scheme"
  assumes "GetPrincipal (al_identity libs) req = Some p"
    and "getOffsetAndLimitFromQueryParams (al_Error libs) (req_URL req) = Inr (offset, limit)"
    and "byOrgID (GetOrgID p) offset limit w = ((cs, n, Some e), w1)" and "responses w1 = responses w"
    and "handleConnectionListByOrgId libs byOrgID req w = (Ret (), w2)"
  shows "\<exists>b w3. responses w3 ! length (responses w) = (500, b)
     \<and> RecordHTTPMetrics (handleConnectionListByOrgId libs byOrgID) req w = (Ret (), w3)
     \<and> statusCodeCounter w3 = statusCodeCounter w2 @ [200]"
  using list_failure_answers_twice [OF assms(1,2), of byOrgID w, OF assms(3,4)] assms(5)
  by (auto simp: RecordHTTPMetrics_def Let_def nth_append)

section \<open>Examples\<close>

definition example_env :: process_env where
  "example_env =
     \<lparr>pe_kafka = example_kafka_env, pe_jwt = example_jwt_lib, pe_dns = example_dns,
      pe_newClientOptions = example_defaults, pe_notified = True\<rparr>"

definition example_production :: Config where
  "example_production =
     example_config\<lparr>ConnectionDatabaseImpl := ''postgres'', ConnectionDatabaseSslMode := ''disable'',
       ClientIdToAccountIdImpl := ''bop_with_cache'', ConnectedClientRecorderImpl := ''inventory'',
       SourcesRecorderImpl := ''sources'', MqttClientId := ''cc'', MqttBrokerAuthType := ''password'',
       RhcMessageKafkaTopic := ''rhc'', TenantTranslatorImpl := ''mock'', UrlBasePath := ''/api/cc''\<rparr>"

lemma example_production_tls:
  "\<exists>t. broker_tls example_env example_production p = Ret t"
  by (simp add: broker_tls_def buildBrokerTlsConfigFuncList_def NewTlsConfig_def example_production_def
      example_config_def zero_Config_def must_def)

lemma example_production_kafka:
  "\<exists>wr. StartProducer example_kafka_env (inventory_producer_config example_production) = Ret (Inr wr)"
  "\<exists>rd. StartConsumer example_kafka_env (buildRhcMessageKafkaConsumerConfig example_production) = Ret (Inr rd)"
  by (simp_all add: StartProducer_def StartConsumer_def inventory_producer_config_def
      buildRhcMessageKafkaConsumerConfig_def kafka_sasl_config_def createDialer_def example_production_def
      example_config_def zero_Config_def)

lemma example_production_broker:
  "\<exists>client. fst (connect_publisher example_env t example_production example_process) = Ret client"
  by (simp add: connect_publisher_def publisher_options_def buildDefaultMqttBrokerConfigFuncList_def
      buildMqttClientId_def buildOnConnectionLostMqttOptions_def CreateBrokerConnection_def NewBrokerOptions_def
      option_defs setting_def must_def example_env_def example_production_def example_config_def zero_Config_def
      example_process_def Let_def)

lemma example_production_database:
  "\<exists>d. InitializeDatabaseConnection example_production = Inr d"
  by (simp add: InitializeDatabaseConnection_def initializePostgresConnection_def
      buildPostgresSslConfigString_def example_production_def)


lemma example_production_starts:
  obtains proc reader client where
    "startKafkaMessageConsumer example_env example_lib (Inl (ErrorString ''none'')) (\<lambda>s. Inr Map.empty)
       example_production example_empty example_process = (Ret (proc, reader, client), example_empty)"
proof -
  obtain t wr rd client d where
    "broker_tls example_env example_production example_process = Ret t"
    "StartProducer example_kafka_env (inventory_producer_config example_production) = Ret (Inr wr)"
    "StartConsumer example_kafka_env (buildRhcMessageKafkaConsumerConfig example_production) = Ret (Inr rd)"
    "fst (connect_publisher example_env t example_production example_process) = Ret client"
    "InitializeDatabaseConnection example_production = Inr d"
    using example_production_tls example_production_kafka example_production_broker example_production_database
    by metis
  moreover have "pe_kafka example_env = example_kafka_env" by (simp add: example_env_def)
  moreover have "ClientIdToAccountIdImpl example_production = ''bop_with_cache''"
    "ConnectedClientRecorderImpl example_production = ''inventory''" "SourcesRecorderImpl example_production = ''sources''"
    by (simp_all add: example_production_def)
  moreover have "example_empty\<lparr>cache := []\<rparr> = example_empty" "lib_lru example_lib = keep_all"
    by (simp_all add: example_empty_def example_system_def example_lib_def)
  ultimately show ?thesis
    by (intro that) (simp add: startKafkaMessageConsumer_def new_resolver_def NewAccountIdResolver_def
        NewExpirableCachedAccountIdResolver_def NewConnectedClientRecorder_def NewSourcesRecorder_def
        keep_all_def must_def)
qed

theorem production_consumer_wiring_witness:
  "\<exists>proc reader client.
     startKafkaMessageConsumer example_env example_lib (Inl (ErrorString ''none'')) (\<lambda>s. Inr Map.empty)
       example_production example_empty example_process = (Ret (proc, reader, client), example_empty)
     \<and> proc = messageProcessor example_lib example_production (NewTopicVerifier '''')
     \<and> kr_Topic reader = ''rhc''"
proof -
  obtain proc reader client where start:
    "startKafkaMessageConsumer example_env example_lib (Inl (ErrorString ''none'')) (\<lambda>s. Inr Map.empty)
       example_production example_empty example_process = (Ret (proc, reader, client), example_empty)"
    by (rule example_production_starts)
  have impls: "ClientIdToAccountIdImpl example_production = ''bop_with_cache''"
    "ConnectedClientRecorderImpl example_production = ''inventory''"
    "SourcesRecorderImpl example_production = ''sources''"
    "MqttTopicPrefix example_production = ''''" "RhcMessageKafkaTopic example_production = ''rhc''"
    by (simp_all add: example_production_def example_config_def zero_Config_def)
  have "db_inv example_empty" "lru_laws (lib_lru example_lib) example_holds"
    using example_inv(1) by (simp_all add: pipeline_inv_def cache_inv_def)
  moreover have "\<forall>n ttl c k r. lru_New (lib_lru example_lib) n ttl = Some c \<longrightarrow> \<not> example_holds c k r"
    by (simp add: example_lib_def keep_all_def example_holds_def)
  ultimately show ?thesis
    using production_consumer_wiring [OF start impls(1-3), of example_holds] start
    by (auto simp: impls(4,5))
qed

lemma example_api_starts:
  obtains routes tr client p' where
    "startCloudConnectorApiServer example_env example_libs example_decoders (\<lambda>a b. True)
       handleLiveness handleLiveness example_production example_process = (Ret (routes, tr, client), p')"
    "hd (MessageReceiver_Routes example_libs example_decoders (buildConnectionLookupInstances example_production)
       (CreateProxy \<lparr>pf_topicBuilder = NewTopicBuilder '''', pf_config = example_production\<rparr>) example_production)
     \<in> set (routes :: (unit, server) route list)"
proof -
  obtain t client d where
    "broker_tls example_env example_production example_process = Ret t"
    and c: "fst (connect_publisher example_env t example_production example_process) = Ret client"
    and "InitializeDatabaseConnection example_production = Inr d"
    using example_production_tls example_production_broker example_production_database by metis
  moreover obtain p' where "connect_publisher example_env t example_production example_process = (Ret client, p')"
    using c by (metis prod.collapse)
  moreover have "buildTenantTranslatorInstance example_production = Ret (TranslatorMock [])"
    by (simp add: buildTenantTranslatorInstance_def example_production_def example_config_def zero_Config_def)
  moreover have "MqttTopicPrefix example_production = ''''"
    by (simp add: example_production_def example_config_def zero_Config_def)
  ultimately have "startCloudConnectorApiServer example_env example_libs example_decoders (\<lambda>a b. True)
       handleLiveness handleLiveness example_production example_process =
     (Ret (ApiSpecServer_Routes (pe_files example_env) example_production
        @ MonitoringServer_Routes handleLiveness handleLiveness example_production
        @ apiMux_routes example_libs example_decoders (\<lambda>a b. True)
            \<lparr>pf_topicBuilder = NewTopicBuilder '''', pf_config = example_production\<rparr> example_production,
        TranslatorMock [], client), p')"
    by (simp add: startCloudConnectorApiServer_def must_def NewConnectorClientMQTTProxyFactory_def)
  then show ?thesis
    by (rule that) (simp add: apiMux_routes_def MessageReceiver_Routes_def Let_def)
qed


end
