(* ===== verification/Api_Process.thy ===== *)
theory Api_Process
  imports Processes Lifecycle
begin

text \<open>
  The API server at run time (\<^verbatim>\<open>startCloudConnectorApiServer\<close> in
  \<^verbatim>\<open>cmd/cloud-connector/api_server.go\<close>, after the routes are registered, and the helpers of
  \<^verbatim>\<open>internal/platform/utils/utils.go\<close>): the HTTP server runs handlers in goroutines, the main
  thread waits for a signal or a lost connection and then shuts the server down and leaves
  the broker. The handlers never write the table.
\<close>

section \<open>Handlers only read the table\<close>

definition reads_only :: "('a server_scheme \<Rightarrow> 'r \<times> 'a server_scheme) \<Rightarrow> bool" where
  "reads_only f \<longleftrightarrow> (\<forall>w. connections (snd (f w)) = connections w)"

lemma reads_onlyD: "reads_only f \<Longrightarrow> f w = (r, w') \<Longrightarrow> connections w' = connections w"
  by (metis reads_only_def snd_conv)

lemma write_reads_only [simp]:
  "connections (snd (writeJSONResponse s p w)) = connections w"
  "connections (snd (writeErrorResponse t s d w)) = connections w"
  "connections (snd (writeConnectionFailureResponse w)) = connections w"
  "connections (snd (writeInvalidInputResponse libs e w)) = connections w"
  "connections (snd (http_Error m s w)) = connections w"
  by (simp_all add: writeJSONResponse_def writeErrorResponse_def writeConnectionFailureResponse_def
      writeInvalidInputResponse_def http_Error_def)

lemma lookup_reads_only:
  "buildConnectionLookupInstances cfg org cid w = (r, w') \<Longrightarrow> connections w' = connections w"
  "SqlGetConnectionByClientID org cid w = (r, w') \<Longrightarrow> connections w' = connections w"
  for w :: "'a server_scheme"
  using strict_api.lookup_quiet [of org cid w r w'] relaxed_api.lookup_quiet [of org cid w r w']
  by (auto simp: buildConnectionLookupInstances_def quiet_def split: if_splits)

lemma listing_reads_only:
  "SqlGetConnectionsByOrgID coll org offset limit w = (r, w') \<Longrightarrow> connections w' = connections w"
  "GetAllConnections coll offset limit w = (q, w') \<Longrightarrow> connections w' = connections w"
  "EANToOrgID a s = (r', s') \<Longrightarrow> connections s' = connections s"
  by (auto simp: SqlGetConnectionsByOrgID_def GetAllConnections_def EANToOrgID_def db_call_def Let_def
      split: option.splits sum.splits if_splits)

text \<open>A lookup and a client object that do not write the table.\<close>

definition reading_lookup :: "('a server_scheme) GetConnectionByClientID \<Rightarrow> bool" where
  "reading_lookup lookup \<longleftrightarrow> (\<forall>org cid. reads_only (lookup org cid))"

definition reading_client :: "('a server_scheme) ConnectorClient \<Rightarrow> bool" where
  "reading_client cl \<longleftrightarrow>
     (\<forall>d md p. reads_only (cli_SendMessage cl d md p)) \<and> reads_only (cli_Ping cl)
     \<and> (\<forall>m delay. reads_only (cli_Reconnect cl m delay)) \<and> (\<forall>m. reads_only (cli_Disconnect cl m))"

lemma reading_lookupD: "reading_lookup lookup \<Longrightarrow> lookup org cid w = (r, w') \<Longrightarrow> connections w' = connections w"
  unfolding reading_lookup_def by (blast dest: reads_onlyD)

lemma reading_lookups:
  "reading_lookup (buildConnectionLookupInstances cfg)" "reading_lookup SqlGetConnectionByClientID"
  by (auto simp: reading_lookup_def reads_only_def intro: lookup_reads_only [OF surjective_pairing])

lemma factory_reading_client:
  assumes "CreateProxy ccpf org acct cid facts disp tags = Inr cl"
  shows "reading_client cl"
proof -
  let ?cc = "connector_client cl (BuildOutgoingDataTopic (pf_topicBuilder ccpf) cid)
      (BuildOutgoingControlTopic (pf_topicBuilder ccpf) cid)"
  have cc: ?cc using assms by (rule mqtt_factory.factory_client)
  have "connections (snd (cli_SendMessage cl d md p w)) = connections w" for d md p w
    using connector_client.SendMessage_spoke [OF cc prod.collapse [symmetric], where d = d and md = md and p = p and w = w] by (simp add: spoke_def)
  moreover have "connections (snd (cli_Ping cl w)) = connections w" for w
    using connector_client.Ping_spoke [OF cc prod.collapse [symmetric], where w = w] by (simp add: spoke_def)
  moreover have "connections (snd (cli_Reconnect cl m delay w)) = connections w" for m delay w
    using connector_client.Reconnect_spoke [OF cc prod.collapse [symmetric], where msg = m and delay = delay and w = w] by (simp add: spoke_def)
  moreover have "connections (snd (cli_Disconnect cl m w)) = connections w" for m w
    using connector_client.Disconnect_spoke [OF cc prod.collapse [symmetric], where msg = m and w = w] by (simp add: spoke_def)
  ultimately show ?thesis by (simp add: reading_client_def reads_only_def)
qed

lemma reading_clientD:
  "cli_SendMessage cl d md p w = (r, w') \<Longrightarrow> reading_client cl \<Longrightarrow> connections w' = connections w"
  "cli_Ping cl w = (r', w') \<Longrightarrow> reading_client cl \<Longrightarrow> connections w' = connections w"
  "cli_Reconnect cl m delay w = (r', w') \<Longrightarrow> reading_client cl \<Longrightarrow> connections w' = connections w"
  "cli_Disconnect cl m w = (r', w') \<Longrightarrow> reading_client cl \<Longrightarrow> connections w' = connections w"
  unfolding reading_client_def by (blast dest: reads_onlyD)+

lemma proxy_reads_only:
  assumes "reading_lookup lookup"
    and "createConnectorClientProxy lookup (CreateProxy ccpf) acct cid w = (res, w')"
  shows "connections w' = connections w \<and> (\<forall>cl. res = Inr cl \<longrightarrow> reading_client cl)"
  using assms(2)
  by (auto simp: createConnectorClientProxy_def split: prod.splits sum.splits option.splits
      dest: factory_reading_client dest!: listing_reads_only(3) reading_lookupD [OF assms(1)])

lemma sendToClient_reads_only:
  assumes "reading_client cl"
  shows "connections (snd (sendToClient libs cl d md p w)) = connections w"
proof -
  obtain i e w1 where s: "cli_SendMessage cl d md p w = ((i, e), w1)" by (metis surj_pair)
  then show ?thesis
    using reading_clientD(1) [OF s assms] by (cases e; cases i) (simp_all add: sendToClient_def)
qed

section \<open>Each handler\<close>

lemma with_principal_reads_only:
  "(\<And>p. reads_only (h p r)) \<Longrightarrow> reads_only (with_principal lib h r)"
  by (auto simp: reads_only_def with_principal_def split: option.splits)

lemma handleSendMessage_reads_only:
  assumes "reading_lookup lookup"
  shows "reads_only (handleSendMessage libs dec lookup (CreateProxy ccpf) req)"
  unfolding handleSendMessage_def
  by (rule with_principal_reads_only)
    (auto simp: reads_only_def Let_def sendToClient_reads_only split: go.splits sum.splits prod.splits option.splits
      dest!: reading_lookupD [OF assms] factory_reading_client)

lemma handleJob_reads_only:
  assumes "reading_lookup lookup"
  shows "reads_only (handleJob libs dec lookup (CreateProxy ccpf) req)"
  unfolding handleJob_def
  by (rule with_principal_reads_only)
    (auto simp: reads_only_def sendToClient_reads_only split: go.splits sum.splits prod.splits
      dest!: proxy_reads_only [OF assms])

lemma getConnectionStatus_reads_only:
  assumes "reading_lookup lookup"
  shows "reads_only (getConnectionStatus libs dec lookup verify req)"
  unfolding getConnectionStatus_def
  by (rule with_principal_reads_only)
    (auto simp: reads_only_def split: go.splits sum.splits option.splits prod.splits
      dest!: listing_reads_only reading_lookupD [OF assms])

lemma MediatorV2_status_reads_only:
  assumes "reading_lookup lookup"
  shows "reads_only (MediatorV2_handleConnectionStatus libs lookup req)"
  unfolding MediatorV2_handleConnectionStatus_def
  by (rule with_principal_reads_only)
    (auto simp: reads_only_def Let_def split: option.splits prod.splits dest!: reading_lookupD [OF assms])

lemma handleConnectionListByOrgId_reads_only:
  "reads_only (handleConnectionListByOrgId libs (SqlGetConnectionsByOrgID coll) req)"
  unfolding handleConnectionListByOrgId_def
  by (rule with_principal_reads_only)
    (auto simp: reads_only_def Let_def split: sum.splits option.splits prod.splits dest!: listing_reads_only)

lemma handleConnectionListing_reads_only:
  "reads_only (handleConnectionListing libs (GetAllConnections coll) req)"
  unfolding handleConnectionListing_def
  by (rule with_principal_reads_only)
    (auto simp: reads_only_def Let_def split: sum.splits prod.splits dest!: listing_reads_only)

lemma handleConnectionListingByAccount_reads_only:
  "reads_only (handleConnectionListingByAccount libs (SqlGetConnectionsByOrgID coll) req)"
  unfolding handleConnectionListingByAccount_def
  by (rule with_principal_reads_only)
    (auto simp: reads_only_def Let_def split: sum.splits prod.splits dest!: listing_reads_only)

lemma handleDisconnect_reads_only:
  assumes "reading_lookup lookup"
  shows "reads_only (handleDisconnect libs dec lookup (CreateProxy ccpf) req)"
  unfolding handleDisconnect_def createConnectorClient_def
  by (rule with_principal_reads_only)
    (auto simp: reads_only_def Let_def split: go.splits sum.splits prod.splits
      dest!: proxy_reads_only [OF assms] reading_clientD)

lemma handleReconnect_reads_only:
  assumes "reading_lookup lookup"
  shows "reads_only (handleReconnect libs dec lookup (CreateProxy ccpf) req)"
  unfolding handleReconnect_def createConnectorClient_def
  by (rule with_principal_reads_only)
    (auto simp: reads_only_def Let_def split: go.splits sum.splits prod.splits
      dest!: proxy_reads_only [OF assms] reading_clientD)

lemma handleConnectionPing_reads_only:
  assumes "reading_lookup lookup"
  shows "reads_only (handleConnectionPing libs dec lookup (CreateProxy ccpf) req)"
  unfolding handleConnectionPing_def createConnectorClient_def
  by (rule with_principal_reads_only)
    (auto simp: reads_only_def split: go.splits sum.splits option.splits prod.splits
      dest!: proxy_reads_only [OF assms] reading_clientD)


lemma Authenticate_reads_only:
  assumes "\<And>r. reads_only (h r)" and "\<And>r. reads_only (IdentityAuth amw h r)"
  shows "reads_only (Authenticate amw h r)"
  using assms
  by (auto simp: reads_only_def Authenticate_def handlePSKAuthentication_def Let_def split: sum.splits option.splits)

lemma EnforceIdentity_reads_only: "(\<And>r. reads_only (h r)) \<Longrightarrow> reads_only (EnforceIdentity lib h r)"
  by (auto simp: reads_only_def EnforceIdentity_def split: sum.splits)

lemma EnforceTurnpike_reads_only:
  "(\<And>r. reads_only (h r)) \<Longrightarrow> reads_only (EnforceTurnpikeAuthentication lib h r)"
  by (auto simp: reads_only_def EnforceTurnpikeAuthentication_def Let_def)

lemmas handlers_read_only = Authenticate_reads_only EnforceIdentity_reads_only EnforceTurnpike_reads_only
  handleJob_reads_only getConnectionStatus_reads_only handleSendMessage_reads_only
  MediatorV2_status_reads_only handleConnectionListByOrgId_reads_only handleConnectionListing_reads_only
  handleConnectionListingByAccount_reads_only handleDisconnect_reads_only handleReconnect_reads_only
  handleConnectionPing_reads_only reading_lookups

lemma apiMux_routes_read_only:
  assumes "rt \<in> set (apiMux_routes libs dec coll ccpf cfg)"
  shows "reads_only (rt_handler rt req)"
  using assms
  by (auto simp: apiMux_routes_def MessageReceiver_Routes_def ConnectionMediatorV2_Routes_def
      ManagementServer_Routes_def Let_def MessageReceiver_handleConnectionStatus_def
      Management_handleConnectionStatus_def intro!: handlers_read_only)

lemma started_routes_read_only:
  assumes "startCloudConnectorApiServer env libs dec coll promhttp pprof cfg p = (Ret (routes, translator, client), p')"
    and "rt \<in> set routes" and "\<And>r. reads_only (promhttp r)" and "\<And>r. reads_only (pprof r)"
  shows "reads_only (rt_handler rt req)"
proof -
  obtain factory where "routes = ApiSpecServer_Routes (pe_files env) cfg
      @ MonitoringServer_Routes promhttp pprof cfg @ apiMux_routes libs dec coll factory cfg"
    using assms(1) by (auto simp: startCloudConnectorApiServer_def and_then_Ret_iff Let_def)
  then show ?thesis
    using assms(2-4)
    by (auto simp: ApiSpecServer_Routes_def MonitoringServer_Routes_def handleLiveness_def handleReadiness_def
        handleApiSpec_def reads_only_def apiMux_routes_read_only [unfolded reads_only_def]
        split: if_splits sum.splits)
qed

section \<open>The process\<close>

text \<open>
  The helpers of the package \<^verbatim>\<open>utils\<close>. A host name that cannot be read is empty, and the first
  address of the host that has a form of four bytes is its address.
\<close>

definition GetHostname :: "error + string \<Rightarrow> string" where
  "GetHostname osHostname = (case osHostname of Inl err \<Rightarrow> '''' | Inr name \<Rightarrow> name)"

fun first_ipv4 :: "('ip \<Rightarrow> 'ip option) \<Rightarrow> 'ip list \<Rightarrow> 'ip option" where
  "first_ipv4 to4 [] = None"
| "first_ipv4 to4 (addr # addrs) = (case to4 addr of Some ipv4 \<Rightarrow> Some ipv4 | None \<Rightarrow> first_ipv4 to4 addrs)"

definition GetIPAddress ::
  "error + string \<Rightarrow> (string \<Rightarrow> error + 'ip list) \<Rightarrow> ('ip \<Rightarrow> 'ip option) \<Rightarrow> 'ip option" where
  "GetIPAddress osHostname lookupIP to4 =
     (case lookupIP (GetHostname osHostname) of Inl err \<Rightarrow> None | Inr addrs \<Rightarrow> first_ipv4 to4 addrs)"

text \<open>
  The HTTP server. \<^verbatim>\<open>ListenAndServe\<close> runs in a goroutine of its own, and an error of it that
  is not the closing of the server ends the process.
\<close>

record ('k, 'w) http_server =
  srv_Addr :: string
  srv_Handler :: "'k request \<Rightarrow> ('k, 'w) handler"
  srv_ReadTimeout :: duration
  srv_ReadHeaderTimeout :: duration
  srv_WriteTimeout :: duration

definition StartHTTPServer :: "string \<Rightarrow> ('k request \<Rightarrow> ('k, 'w) handler) \<Rightarrow> ('k, 'w) http_server" where
  "StartHTTPServer addr handler =
     \<lparr>srv_Addr = addr, srv_Handler = handler, srv_ReadTimeout = 10 * Second,
      srv_ReadHeaderTimeout = 2 * Second, srv_WriteTimeout = 10 * Second\<rparr>"

text \<open>
  The main thread waits in the \<^verbatim>\<open>select\<close>; it has been woken and the server still takes
  requests; the server takes no more and the main thread waits for those it has
  (\<^verbatim>\<open>ShutdownHTTPServer\<close>); it leaves the broker; it has returned, or the process was ended by
  \<^verbatim>\<open>Fatal\<close> in another goroutine.
\<close>

datatype api_main = ApiSelecting | ApiWoken | ApiDraining | ApiDisconnecting | ApiReturned | ApiKilled

record ('k, 'w) api_process =
  ap_world :: 'w
  ap_accepted :: "'k request list"
  ap_active :: "'k request list"
  ap_finished :: "'k request list"
  ap_timed_out :: bool
  ap_connected :: bool
  ap_main :: api_main

definition api_ended :: "('k, 'w) api_process \<Rightarrow> bool" where
  "api_ended p \<longleftrightarrow> ap_main p = ApiReturned \<or> ap_main p = ApiKilled"

text \<open>
  A handler has come to its end. The server recovers a panic of a handler; \<^verbatim>\<open>Fatal\<close> ends the
  process.
\<close>

definition finish_request :: "('k, 'w) http_server \<Rightarrow> 'k request \<Rightarrow> ('k, 'w) api_process \<Rightarrow> ('k, 'w) api_process" where
  "finish_request srv req p =
     (case srv_Handler srv req req (ap_world p) of (r, w) \<Rightarrow>
        p\<lparr>ap_world := w, ap_active := remove1 req (ap_active p), ap_finished := ap_finished p @ [req],
          ap_main := (if r = Exit then ApiKilled else ap_main p)\<rparr>)"

text \<open>
  \<^verbatim>\<open>Shutdown\<close> returns when no request is active any more, or when its context times out, whose
  error is only logged.
\<close>

inductive api_step ::
  "Config \<Rightarrow> ('k, 'w) http_server \<Rightarrow> ('k, 'w) api_process \<Rightarrow> ('k, 'w) api_process \<Rightarrow> bool"
  for cfg srv where
  accept: "ap_main p = ApiSelecting \<or> ap_main p = ApiWoken \<Longrightarrow>
     api_step cfg srv p (p\<lparr>ap_accepted := ap_accepted p @ [req], ap_active := ap_active p @ [req]\<rparr>)"
| finish: "\<not> api_ended p \<Longrightarrow> req \<in> set (ap_active p) \<Longrightarrow> api_step cfg srv p (finish_request srv req p)"
| signal: "ap_main p = ApiSelecting \<Longrightarrow> api_step cfg srv p (p\<lparr>ap_main := ApiWoken\<rparr>)"
| connection_failed: "ap_main p = ApiSelecting \<Longrightarrow> ShutdownOnMqttConnectionLost cfg \<Longrightarrow>
     api_step cfg srv p (p\<lparr>ap_connected := False, ap_main := ApiWoken\<rparr>)"
| shutdown: "ap_main p = ApiWoken \<Longrightarrow> api_step cfg srv p (p\<lparr>ap_main := ApiDraining\<rparr>)"
| drained: "ap_main p = ApiDraining \<Longrightarrow> ap_active p = [] \<Longrightarrow>
     api_step cfg srv p (p\<lparr>ap_main := ApiDisconnecting\<rparr>)"
| timed_out: "ap_main p = ApiDraining \<Longrightarrow>
     api_step cfg srv p (p\<lparr>ap_timed_out := True, ap_main := ApiDisconnecting\<rparr>)"
| disconnect: "ap_main p = ApiDisconnecting \<Longrightarrow>
     api_step cfg srv p (p\<lparr>ap_connected := False, ap_main := ApiReturned\<rparr>)"
| serve_error: "ap_main p = ApiSelecting \<or> ap_main p = ApiWoken \<Longrightarrow>
     api_step cfg srv p (p\<lparr>ap_main := ApiKilled\<rparr>)"

inductive_cases api_stepE: "api_step cfg srv p p'"

definition api_start :: "'w \<Rightarrow> ('k, 'w) api_process" where
  "api_start w =
     \<lparr>ap_world = w, ap_accepted = [], ap_active = [], ap_finished = [], ap_timed_out = False,
      ap_connected = True, ap_main = ApiSelecting\<rparr>"

section \<open>Invariant\<close>

definition serve_all :: "('k, 'w) http_server \<Rightarrow> 'k request list \<Rightarrow> 'w \<Rightarrow> 'w" where
  "serve_all srv reqs w = fold (\<lambda>req w. snd (srv_Handler srv req req w)) reqs w"

definition api_inv :: "('k, 'w) http_server \<Rightarrow> 'w \<Rightarrow> ('k, 'w) api_process \<Rightarrow> bool" where
  "api_inv srv w0 p \<longleftrightarrow>
     ap_world p = serve_all srv (ap_finished p) w0
     \<and> mset (ap_accepted p) = mset (ap_finished p) + mset (ap_active p)
     \<and> (ap_main p = ApiDisconnecting \<or> ap_main p = ApiReturned \<longrightarrow> ap_timed_out p \<or> ap_active p = [])"

lemma serve_all_snoc: "serve_all srv (reqs @ [req]) w = snd (srv_Handler srv req req (serve_all srv reqs w))"
  by (simp add: serve_all_def)

lemma api_inv_step:
  assumes "api_inv srv w0 p" and "api_step cfg srv p p'"
  shows "api_inv srv w0 p'"
  using assms(2)
proof (cases rule: api_step.cases)
  case (finish req)
  then show ?thesis
    using assms(1)
    by (auto simp: api_inv_def finish_request_def serve_all_snoc api_ended_def split: prod.splits)
qed (use assms(1) in \<open>auto simp: api_inv_def\<close>)

lemma api_inv_start: "api_inv srv w0 (api_start w0)"
  by (simp add: api_inv_def api_start_def serve_all_def)

text \<open>The main thread goes on whatever the handlers do.\<close>

fun api_rank :: "api_main \<Rightarrow> nat" where
  "api_rank ApiSelecting = 4"
| "api_rank ApiWoken = 3"
| "api_rank ApiDraining = 2"
| "api_rank ApiDisconnecting = 1"
| "api_rank ApiReturned = 0"
| "api_rank ApiKilled = 0"

lemma api_progress:
  assumes "\<not> api_ended p"
  shows "\<exists>p'. api_step cfg srv p p' \<and> api_rank (ap_main p') < api_rank (ap_main p)"
  using assms
  by (cases "ap_main p")
    (force simp: api_ended_def intro: api_step.signal api_step.shutdown api_step.timed_out api_step.disconnect)+

interpretation api: lifecycle "api_step cfg srv" "\<lambda>p. p = api_start w0" "api_inv srv w0"
    "\<lambda>p. api_rank (ap_main p)" api_ended
  for cfg srv w0
  by unfold_locales (auto intro: api_inv_start api_inv_step api_progress)

lemma serve_all_reads_only:
  assumes "\<And>req. req \<in> set reqs \<Longrightarrow> reads_only (srv_Handler srv req req)"
  shows "connections (serve_all srv reqs w) = connections w"
  using assms by (induction reqs arbitrary: w) (simp_all add: serve_all_def reads_only_def)

section \<open>Properties\<close>


text \<open>A server that answers one probe and is then stopped by a signal.\<close>

lemma example_api_run:
  fixes w :: server
  defines "srv \<equiv> StartHTTPServer '':8081'' (\<lambda>req :: unit request. handleLiveness)"
  shows "\<exists>p. (api_step cfg srv)\<^sup>*\<^sup>* (api_start w) p \<and> ap_main p = ApiReturned \<and> \<not> ap_timed_out p
     \<and> ap_accepted p = [example_request]"
proof -
  let ?p1 = "(api_start w)\<lparr>ap_accepted := [example_request], ap_active := [example_request]\<rparr>"
  let ?p2 = "finish_request srv example_request ?p1"
  let ?p3 = "?p2\<lparr>ap_main := ApiWoken\<rparr>"
  let ?p4 = "?p3\<lparr>ap_main := ApiDraining\<rparr>"
  let ?p5 = "?p4\<lparr>ap_main := ApiDisconnecting\<rparr>"
  let ?p6 = "?p5\<lparr>ap_connected := False, ap_main := ApiReturned\<rparr>"
  have f: "ap_main ?p2 = ApiSelecting" "ap_active ?p2 = []" "ap_accepted ?p2 = [example_request]"
      "ap_timed_out ?p2 = False"
    by (simp_all add: finish_request_def srv_def StartHTTPServer_def handleLiveness_def api_start_def)
  have "api_step cfg srv (api_start w) ?p1"
    using api_step.accept [of "api_start w" cfg srv example_request] by (simp add: api_start_def)
  moreover have "api_step cfg srv ?p1 ?p2" by (rule api_step.finish) (simp_all add: api_ended_def api_start_def)
  moreover have "api_step cfg srv ?p2 ?p3" by (rule api_step.signal) (simp add: f)
  moreover have "api_step cfg srv ?p3 ?p4" by (rule api_step.shutdown) simp
  moreover have "api_step cfg srv ?p4 ?p5" by (rule api_step.drained) (simp_all add: f)
  moreover have "api_step cfg srv ?p5 ?p6" by (rule api_step.disconnect) simp
  ultimately have "(api_step cfg srv)\<^sup>*\<^sup>* (api_start w) ?p6" by (meson converse_rtranclp_into_rtranclp rtranclp.rtrancl_refl)
  then show ?thesis by (intro exI [of _ ?p6]) (simp add: f)
qed


end
