(* ===== verification/Test_Client.thy ===== *)
theory Test_Client
  imports Mqtt_Setup Pagination Inventory_Recorder
begin

text \<open>
  The two programs that play a client against a running service (\<^verbatim>\<open>cmd/test_client\<close> and
  \<^verbatim>\<open>cmd/auto_test_client\<close>). They are the only code in the repository on the client's side of
  the protocol, and what their comments and checks expect of the service is a specification
  of it: the theory \<open>End_To_End\<close> runs them against the model of the service.
\<close>

section \<open>What a client sends\<close>

record CanonicalFacts =
  cf_InsightsID :: string
  cf_MachineID :: string
  cf_SubscriptionManagerID :: string
  cf_SatelliteID :: string
  cf_Fqdn :: string
  cf_BiosID :: string
  cf_IpAddresses :: "string list"
  cf_MacAddresses :: "string list"

definition omit_empty_list :: "string \<Rightarrow> string list \<Rightarrow> (string \<times> json) list" where
  "omit_empty_list k xs = (if xs = [] then [] else [(k, JArr (map JStr xs))])"

definition CanonicalFacts_json :: "CanonicalFacts \<Rightarrow> json" where
  "CanonicalFacts_json cf =
     JObj (omit_empty ''insights_id'' (cf_InsightsID cf) @ omit_empty ''machine_id'' (cf_MachineID cf)
           @ omit_empty ''subscription_manager_id'' (cf_SubscriptionManagerID cf)
           @ omit_empty ''satellite_id'' (cf_SatelliteID cf) @ omit_empty ''fqdn'' (cf_Fqdn cf)
           @ omit_empty ''bios_uuid'' (cf_BiosID cf) @ omit_empty_list ''ip_addresses'' (cf_IpAddresses cf)
           @ omit_empty_list ''mac_addresses'' (cf_MacAddresses cf))"

definition zero_CanonicalFacts :: CanonicalFacts where
  "zero_CanonicalFacts =
     \<lparr>cf_InsightsID = '''', cf_MachineID = '''', cf_SubscriptionManagerID = '''', cf_SatelliteID = '''',
      cf_Fqdn = '''', cf_BiosID = '''', cf_IpAddresses = [], cf_MacAddresses = []\<rparr>"

text \<open>
  The maps of dispatchers and tags, listed by key, the order in which \<^verbatim>\<open>encoding/json\<close>
  writes them; \<open>None\<close> is the nil map.
\<close>

type_synonym Dispatchers = "(string \<times> (string \<times> string) list) list option"
type_synonym Tags = "(string \<times> string) list option"

definition strings_json :: "(string \<times> string) list \<Rightarrow> json" where
  "strings_json kvs = JObj (map (\<lambda>(k, v). (k, JStr v)) kvs)"

definition Tags_json :: "Tags \<Rightarrow> json" where
  "Tags_json t = (case t of None \<Rightarrow> JNull | Some kvs \<Rightarrow> strings_json kvs)"

definition Dispatchers_json :: "Dispatchers \<Rightarrow> json" where
  "Dispatchers_json d =
     (case d of None \<Rightarrow> JNull | Some ds \<Rightarrow> JObj (map (\<lambda>(k, kvs). (k, strings_json kvs)) ds))"

record ConnectionStatusMessageContent =
  sc_CanonicalFacts :: CanonicalFacts
  sc_Dispatchers :: Dispatchers
  sc_ConnectionState :: string
  sc_Tags :: Tags
  sc_ClientName :: string
  sc_ClientVersion :: string

text \<open>\<^verbatim>\<open>omitempty\<close> has no effect on a struct, so the facts are always there.\<close>

definition status_fields :: "ConnectionStatusMessageContent \<Rightarrow> (string \<times> json) list" where
  "status_fields c =
     [(''canonical_facts'', CanonicalFacts_json (sc_CanonicalFacts c)),
      (''dispatchers'', Dispatchers_json (sc_Dispatchers c)),
      (''state'', JStr (sc_ConnectionState c)), (''tags'', Tags_json (sc_Tags c)),
      (''client_name'', JStr (sc_ClientName c)), (''client_version'', JStr (sc_ClientVersion c))]"

text \<open>\<^verbatim>\<open>ConnectionStatusMessageContent{ConnectionState: "offline"}\<close>\<close>

definition offline_content :: ConnectionStatusMessageContent where
  "offline_content =
     \<lparr>sc_CanonicalFacts = zero_CanonicalFacts, sc_Dispatchers = None, sc_ConnectionState = ''offline'',
      sc_Tags = None, sc_ClientName = '''', sc_ClientVersion = ''''\<rparr>"

record EventMessage =
  em_MessageType :: string
  em_MessageID :: string
  em_ResponseTo :: string
  em_Version :: int
  em_Sent :: time
  em_Content :: string

section \<open>The state of a client\<close>

text \<open>
  The certificate library and \<^verbatim>\<open>encoding/json\<close> on the structs of the protocol are arguments.
  \<open>tc_published\<close> is what the client has published, with the topics, and \<open>tc_will\<close> the message
  the broker publishes for it when the connection is lost.
\<close>

record client_libs =
  LoadX509KeyPair :: "string \<Rightarrow> string \<Rightarrow> error + string list"
  certificate_CommonName :: "string \<Rightarrow> error + string"
  marshal_control :: "ControlMessage \<Rightarrow> error + string"
  unmarshal_control :: "string \<Rightarrow> error + ControlMessage"
  marshal_event :: "EventMessage \<Rightarrow> error + string"

record test_client = runtime +
  tc_connect_fault :: "error option"
  tc_subscribe_fault :: "nat \<Rightarrow> error option"
  tc_subscriptions :: "string list"
  tc_will :: "(string \<times> string) option"
  tc_published :: "(string \<times> string) list"

definition NewTLSConfig :: "client_libs \<Rightarrow> string \<Rightarrow> string \<Rightarrow> (tls_config \<times> string) go" where
  "NewTLSConfig libs certFile keyFile =
     (case LoadX509KeyPair libs certFile keyFile of
        Inl err \<Rightarrow> Panic
      | Inr [] \<Rightarrow> Panic
      | Inr (cert # chain) \<Rightarrow>
          (case certificate_CommonName libs cert of
             Inl err \<Rightarrow> Panic
           | Inr name \<Rightarrow>
               Ret (\<lparr>tls_MinVersion = 0, tls_Certificates = [cert], tls_RootCAs = None,
                     tls_InsecureSkipVerify = True\<rparr>, name)))"

text \<open>The error of \<^verbatim>\<open>uuid.NewUUID\<close> is dropped; the value beside it is the nil id.\<close>

definition generateUUID :: "'a runtime_scheme \<Rightarrow> string \<times> 'a runtime_scheme" where
  "generateUUID w =
     (case new_uuid w of (r, w1) \<Rightarrow> (case r of Inl err \<Rightarrow> (nil_uuid, w1) | Inr i \<Rightarrow> (i, w1)))"

definition controlReadTopic :: "string \<Rightarrow> string" where
  "controlReadTopic clientID = ''redhat/insights/'' @ clientID @ ''/control/in''"

definition controlWriteTopic :: "string \<Rightarrow> string" where
  "controlWriteTopic clientID = ''redhat/insights/'' @ clientID @ ''/control/out''"

definition dataReadTopic :: "string \<Rightarrow> string" where
  "dataReadTopic clientID = ''redhat/insights/'' @ clientID @ ''/data/in''"

definition client_publish :: "string \<Rightarrow> string \<Rightarrow> 'a test_client_scheme \<Rightarrow> 'a test_client_scheme" where
  "client_publish topic payload w = w\<lparr>tc_published := tc_published w @ [(topic, payload)]\<rparr>"

definition online_content ::
  "CanonicalFacts \<Rightarrow> Dispatchers \<Rightarrow> Tags \<Rightarrow> ConnectionStatusMessageContent" where
  "online_content cf dispatchers tags =
     \<lparr>sc_CanonicalFacts = cf, sc_Dispatchers = dispatchers, sc_ConnectionState = ''online'',
      sc_Tags = tags, sc_ClientName = ''fred.flintstone'', sc_ClientVersion = ''11.0.2''\<rparr>"

definition status_message :: "string \<Rightarrow> time \<Rightarrow> ConnectionStatusMessageContent \<Rightarrow> ControlMessage" where
  "status_message messageID sentTime content =
     \<lparr>cm_MessageType = ''connection-status'', cm_MessageID = messageID, cm_Version = 1,
      cm_Sent = sentTime, cm_Content = JObj (status_fields content)\<rparr>"

definition publishConnectionStatusMessage ::
  "client_libs \<Rightarrow> string \<Rightarrow> string \<Rightarrow> CanonicalFacts \<Rightarrow> Dispatchers \<Rightarrow> Tags \<Rightarrow> time
    \<Rightarrow> ('a test_client_scheme, unit) action" where
  "publishConnectionStatusMessage libs topic messageID cf dispatchers tags sentTime w =
     (case marshal_control libs (status_message messageID sentTime (online_content cf dispatchers tags)) of
        Inl err \<Rightarrow> (Panic, w)
      | Inr payload \<Rightarrow> (Ret (), client_publish topic payload w))"

section \<open>Connecting\<close>

text \<open>
  The handler of a new connection subscribes to both topics and panics when one is refused.
\<close>

definition client_subscribe :: "string \<Rightarrow> ('a test_client_scheme, unit) action" where
  "client_subscribe topic w =
     (case tc_subscribe_fault w (length (tc_subscriptions w)) of
        Some err \<Rightarrow> (Panic, w)
      | None \<Rightarrow> (Ret (), w\<lparr>tc_subscriptions := tc_subscriptions w @ [topic]\<rparr>))"

definition client_connect ::
  "client_libs \<Rightarrow> string \<Rightarrow> string \<Rightarrow> ('a test_client_scheme, unit) action" where
  "client_connect libs clientID willID w =
     (let (now, w1) = time_now w
      in case marshal_control libs (status_message willID now offline_content) of
           Inl err \<Rightarrow> (Panic, w1)
         | Inr payload \<Rightarrow>
             (let w2 = w1\<lparr>tc_will := Some (controlWriteTopic clientID, payload)\<rparr>
              in case tc_connect_fault w2 of
                   Some err \<Rightarrow> (Panic, w2)
                 | None \<Rightarrow>
                     and_then (client_subscribe (controlReadTopic clientID) w2) (\<lambda>_ w3.
                       client_subscribe (dataReadTopic clientID) w3)))"

section \<open>The test client\<close>

text \<open>\<^verbatim>\<open>"\u0000\u0000"\<close>, which the database cannot store.\<close>

definition nul_insights_id :: string where
  "nul_insights_id = [CHR 0x00, CHR 0x00]"

definition test_facts :: "'a runtime_scheme \<Rightarrow> CanonicalFacts \<times> 'a runtime_scheme" where
  "test_facts w =
     (let (machine, w1) = generateUUID w; (bios, w2) = generateUUID w1;
          (subman, w3) = generateUUID w2; (satellite, w4) = generateUUID w3
      in (\<lparr>cf_InsightsID = nul_insights_id, cf_MachineID = machine, cf_SubscriptionManagerID = subman,
           cf_SatelliteID = satellite, cf_Fqdn = ''fred.flintstone.com'', cf_BiosID = bios,
           cf_IpAddresses = [''192.168.68.101''], cf_MacAddresses = [''54:54:45:45:62:26'']\<rparr>, w4))"

definition startProducer ::
  "client_libs \<Rightarrow> string \<Rightarrow> string \<Rightarrow> ('a test_client_scheme, string \<times> CanonicalFacts \<times> time) action" where
  "startProducer libs certFile keyFile w =
     and_then (NewTLSConfig libs certFile keyFile, w) (\<lambda>(tlsconfig, clientID) w1.
     and_then (client_connect libs clientID ''5678'' w1) (\<lambda>_ w2.
       let (sentTime, w3) = time_now w2; (cf, w4) = test_facts w3
       in and_then (publishConnectionStatusMessage libs (controlWriteTopic clientID) ''1234'' cf
                      (Some []) (Some []) sentTime w4) (\<lambda>_ w5.
            (Ret (clientID, cf, sentTime), w5))))"

text \<open>The first goroutine: an update, and the same message id once more with other content.\<close>

definition update_dispatchers :: Dispatchers where
  "update_dispatchers =
     Some [(''catalog'', [(''ApplicationType'', ''/insights/platform/catalog''),
                          (''SourceRef'', ''df2bac3e-c7b4-4a8b-8226-b943b9a12eaf''),
                          (''SrcName'', ''dehort Testing Bulk Create''), (''SrcType'', ''ansible-tower''),
                          (''WorkerBuild'', ''2021-02-19 10:18:24''),
                          (''WorkerSHA'', ''48d28791e3b59f7334d2671c07978113b0d40374''),
                          (''WorkerVersion'', ''v0.1.0'')]),
           (''echo'', []), (''foreman_rh_cloud'', [(''version'', ''6.11'')]), (''package-manager'', []),
           (''rhc-worker-playbook'', [(''ansible-runner-version'', ''1.2.3'')])]"

definition update_tags :: Tags where
  "update_tags = Some [(''key1'', ''value1''), (''key2'', ''value2'')]"

definition publish_update ::
  "client_libs \<Rightarrow> string \<Rightarrow> CanonicalFacts \<Rightarrow> ('a test_client_scheme, time) action" where
  "publish_update libs clientID cf w =
     (let (sentTime, w1) = time_now w
      in and_then (publishConnectionStatusMessage libs (controlWriteTopic clientID) ''1235'' cf
                     update_dispatchers update_tags sentTime w1) (\<lambda>_ w2. (Ret sentTime, w2)))"

definition publish_repeat ::
  "client_libs \<Rightarrow> string \<Rightarrow> CanonicalFacts \<Rightarrow> time \<Rightarrow> ('a test_client_scheme, unit) action" where
  "publish_repeat libs clientID cf sentTime =
     publishConnectionStatusMessage libs (controlWriteTopic clientID) ''1235'' cf
       (Some [(''IGNORE'', [])]) (Some [(''IGNORE'', ''value1'')]) sentTime"

text \<open>The second goroutine: a message from ten seconds before the first one.\<close>

definition ten_seconds :: duration where
  "ten_seconds = 10000000000"

definition publish_earlier ::
  "client_libs \<Rightarrow> string \<Rightarrow> CanonicalFacts \<Rightarrow> time \<Rightarrow> ('a test_client_scheme, unit) action" where
  "publish_earlier libs clientID cf sentTime =
     publishConnectionStatusMessage libs (controlWriteTopic clientID) ''1233'' cf (Some []) (Some [])
       (time_add sentTime (- ten_seconds))"

text \<open>
  The goroutines sleep 10 and 40 seconds, and 20 seconds: their messages go out in this order.
\<close>

definition test_client_messages ::
  "client_libs \<Rightarrow> string \<Rightarrow> string \<Rightarrow> ('a test_client_scheme, string) action" where
  "test_client_messages libs certFile keyFile w =
     and_then (startProducer libs certFile keyFile w) (\<lambda>(clientID, cf, sentTime) w1.
     and_then (publish_update libs clientID cf w1) (\<lambda>updated w2.
     and_then (publish_earlier libs clientID cf sentTime w2) (\<lambda>_ w3.
     and_then (publish_repeat libs clientID cf updated w3) (\<lambda>_ w4. (Ret clientID, w4)))))"

text \<open>
  A command from the service: a ping is answered with an event, on the topic of a client
  with a fixed name.
\<close>

definition onMessageReceived ::
  "client_libs \<Rightarrow> string \<Rightarrow> ('a test_client_scheme, unit) action" where
  "onMessageReceived libs payload w =
     (if payload = '''' then (Ret (), w)
      else case unmarshal_control libs payload of
        Inl err \<Rightarrow> (Panic, w)
      | Inr connMsg \<Rightarrow>
          (if cm_MessageType connMsg = ''command''
           then and_then (as_object (cm_Content connMsg), w) (\<lambda>commandPayload w1.
             if map_of commandPayload ''command'' = Some (JStr ''ping'')
             then (let (messageID, w2) = generateUUID w1; (now, w3) = time_now w2
                   in case marshal_event libs
                             \<lparr>em_MessageType = ''event'', em_MessageID = messageID, em_ResponseTo = '''',
                              em_Version = 1, em_Sent = now, em_Content = ''pong''\<rparr> of
                        Inl err \<Rightarrow> (Ret (), w3)
                      | Inr messageBytes \<Rightarrow>
                          (Ret (), client_publish ''redhat/insights/client-1/control/out'' messageBytes w3))
             else (Ret (), w1))
           else (Ret (), w)))"

definition buildDisconnectMessage :: "client_libs \<Rightarrow> error + string" where
  "buildDisconnectMessage libs =
     marshal_control libs
       \<lparr>cm_MessageType = ''disconnect'', cm_MessageID = ''4321'', cm_Version = 1, cm_Sent = zero_time,
        cm_Content = JNull\<rparr>"

section \<open>The automatic test client\<close>

text \<open>
  This client checks the service through its REST interface. \<open>ac_inbox\<close> is the channel its
  message handler writes the ids of received messages to, and \<open>ac_reports\<close> what it complains
  about.
\<close>

record auto_libs = client_libs +
  unmarshal_data :: "string \<Rightarrow> error + DataMessage"
  decode_status :: "string \<Rightarrow> string"
  decode_id :: "string \<Rightarrow> string"
  uuid_Parse :: "string \<Rightarrow> error + string"

record auto_client = test_client +
  ac_parse_url :: "string \<Rightarrow> error option"
  ac_http_do :: "nat \<Rightarrow> http_request \<Rightarrow> error + http_response"
  ac_http_log :: "http_request list"
  ac_inbox :: "string list"
  ac_reports :: "string list"

definition report :: "string \<Rightarrow> 'a auto_client_scheme \<Rightarrow> 'a auto_client_scheme" where
  "report line w = w\<lparr>ac_reports := ac_reports w @ [line]\<rparr>"

definition buildIdentityHeader :: "string \<Rightarrow> string \<Rightarrow> string" where
  "buildIdentityHeader orgId accountNumber =
     EncodeToString (''{\"identity\": {\"account_number\": \"'' @ accountNumber @ ''\", \"org_id\": \"'' @ orgId
       @ ''\", \"internal\": {}, \"service_account\": {\"client_id\": \"0000\", \"username\": \"jdoe\"}, ''
       @ ''\"type\": \"Associate\"}}'')"

definition auto_facts :: "'a runtime_scheme \<Rightarrow> CanonicalFacts \<times> 'a runtime_scheme" where
  "auto_facts w =
     (let (insights, w0) = generateUUID w; (cf, w1) = test_facts w0
      in (cf\<lparr>cf_InsightsID := insights\<rparr>, w1))"

definition autoStartProducer ::
  "('l client_libs_scheme) \<Rightarrow> string \<Rightarrow> string \<Rightarrow> ('a test_client_scheme, string) action" where
  "autoStartProducer libs certFile keyFile w =
     (let libs = client_libs.truncate libs
      in and_then (NewTLSConfig libs certFile keyFile, w) (\<lambda>(tlsconfig, clientID) w1.
         let (willID, w2) = generateUUID w1
         in and_then (client_connect libs clientID willID w2) (\<lambda>_ w3.
              let (sentTime, w4) = time_now w3; (cf, w5) = auto_facts w4; (messageID, w6) = generateUUID w5
              in and_then (publishConnectionStatusMessage libs (controlWriteTopic clientID) messageID cf
                             (Some []) (Some []) sentTime w6) (\<lambda>_ w7. (Ret clientID, w7)))))"

text \<open>After a clean disconnect the broker does not publish the will (MQTT 3.1.1, 3.14.4).\<close>

definition disconnectMqttClient :: "'a test_client_scheme \<Rightarrow> 'a test_client_scheme" where
  "disconnectMqttClient w = w\<lparr>tc_will := None\<rparr>"

definition notifyOnMessageReceived ::
  "auto_libs \<Rightarrow> string \<Rightarrow> ('a auto_client_scheme, unit) action" where
  "notifyOnMessageReceived libs payload w =
     (if payload = '''' then (Ret (), w)
      else case unmarshal_data libs payload of
        Inl err \<Rightarrow> (Panic, w)
      | Inr dataMsg \<Rightarrow> (Ret (), w\<lparr>ac_inbox := ac_inbox w @ [dm_MessageID dataMsg]\<rparr>))"

text \<open>
  One request. A URL that cannot be parsed is a nil dereference, since the error of
  \<^verbatim>\<open>http.NewRequest\<close> is not looked at; the decoding of the answer is not checked either.
\<close>

definition auto_request ::
  "string \<Rightarrow> string \<Rightarrow> json option \<Rightarrow> string \<Rightarrow> ('a auto_client_scheme, string) action" where
  "auto_request httpMethod url requestBody identityHeader w =
     (case ac_parse_url w url of
        Some err \<Rightarrow> (Panic, w)
      | None \<Rightarrow>
          (let (now, w1) = time_now w;
               req = \<lparr>rq_method = httpMethod, rq_url = url,
                      rq_headers = [(''x-rh-identity'', identityHeader),
                                    (''x-rh-insights-request-id'', Itoa (now div 1000000000))],
                      rq_body = requestBody\<rparr>;
               w2 = w1\<lparr>ac_http_log := ac_http_log w1 @ [req]\<rparr>
           in case ac_http_do w (length (ac_http_log w)) req of
                Inl err \<Rightarrow> (Panic, w2)
              | Inr res \<Rightarrow> (Ret (case rs_body res of Inl err \<Rightarrow> '''' | Inr s \<Rightarrow> s), w2)))"

definition getClientStatusFromCloudConnector ::
  "auto_libs \<Rightarrow> string \<Rightarrow> string \<Rightarrow> string \<Rightarrow> ('a auto_client_scheme, string) action" where
  "getClientStatusFromCloudConnector libs cloudConnectorUrl clientId identityHeader w =
     and_then (auto_request ''GET''
         (cloudConnectorUrl @ ''/api/cloud-connector/v2/connections/'' @ clientId @ ''/status'')
         None identityHeader w) (\<lambda>answer w1. (Ret (decode_status libs answer), w1))"

definition verifyClientIsRegistered ::
  "auto_libs \<Rightarrow> string \<Rightarrow> string \<Rightarrow> string \<Rightarrow> ('a auto_client_scheme, unit) action" where
  "verifyClientIsRegistered libs cloudConnectorUrl clientId identityHeader w =
     and_then (getClientStatusFromCloudConnector libs cloudConnectorUrl clientId identityHeader w)
       (\<lambda>status w1.
         (Ret (), if status \<noteq> ''connected''
                  then report ''***  ERROR:  status should have been connected'' w1 else w1))"

definition verifyClientIsUnregistered ::
  "auto_libs \<Rightarrow> string \<Rightarrow> string \<Rightarrow> string \<Rightarrow> ('a auto_client_scheme, unit) action" where
  "verifyClientIsUnregistered libs cloudConnectorUrl clientId identityHeader w =
     and_then (getClientStatusFromCloudConnector libs cloudConnectorUrl clientId identityHeader w)
       (\<lambda>status w1.
         (Ret (), if status \<noteq> ''disconnected''
                  then report ''***  ERROR:  status should have been disconnected'' w1 else w1))"

definition sendMessageToClient ::
  "auto_libs \<Rightarrow> string \<Rightarrow> string \<Rightarrow> string \<Rightarrow> ('a auto_client_scheme, error + string) action" where
  "sendMessageToClient libs cloudConnectorUrl clientId identityHeader w =
     and_then (auto_request ''POST''
         (cloudConnectorUrl @ ''/api/cloud-connector/v2/connections/'' @ clientId @ ''/message'')
         (Some (JObj [(''directive'', JStr ''imadirective''), (''payload'', JStr ''imapayload'')]))
         identityHeader w) (\<lambda>answer w1. (Ret (uuid_Parse libs (decode_id libs answer)), w1))"

text \<open>Ten seconds without a message end the wait.\<close>

definition verifyMessageWasReceived :: "string \<Rightarrow> 'a auto_client_scheme \<Rightarrow> 'a auto_client_scheme" where
  "verifyMessageWasReceived expectedMessageId w =
     (case ac_inbox w of
        [] \<Rightarrow> report ''Epic Fail...did not get message after 10 second'' w
      | receivedMessageId # rest \<Rightarrow>
          (let w1 = w\<lparr>ac_inbox := rest\<rparr>
           in if receivedMessageId \<noteq> expectedMessageId then report ''Epic fail...got wrong message!'' w1
              else w1))"

text \<open>
  One round of the endless loop of \<^verbatim>\<open>startTestClient\<close>. The service and the rest of the
  world act while the client sleeps or waits: \<open>meanwhile\<close> gives what they do to its state.
\<close>

definition test_round ::
  "auto_libs \<Rightarrow> ('a auto_client_scheme \<Rightarrow> 'a auto_client_scheme) \<Rightarrow> string \<Rightarrow> string \<Rightarrow> string \<Rightarrow> string
    \<Rightarrow> string \<times> int \<Rightarrow> ('a auto_client_scheme, string \<times> int) action" where
  "test_round libs meanwhile certFile keyFile cloudConnectorUrl identityHeader loop w0 =
     (case loop of (clientId, numMessagesSent) \<Rightarrow>
        let w = meanwhile w0
        in and_then
          (if numMessagesSent > 10
           then and_then (verifyClientIsUnregistered libs cloudConnectorUrl clientId identityHeader
                            (meanwhile (disconnectMqttClient w))) (\<lambda>_ w1.
                and_then (autoStartProducer libs certFile keyFile w1) (\<lambda>newId w2.
                and_then (verifyClientIsRegistered libs cloudConnectorUrl newId identityHeader
                            (meanwhile w2)) (\<lambda>_ w3. (Ret (newId, 0), w3))))
           else (Ret (clientId, numMessagesSent), w))
          (\<lambda>(cid, n) w4.
             and_then (sendMessageToClient libs cloudConnectorUrl cid identityHeader w4) (\<lambda>sent w5.
               (Ret (cid, n + 1),
                verifyMessageWasReceived (case sent of Inl err \<Rightarrow> nil_uuid | Inr i \<Rightarrow> i) (meanwhile w5)))))"

definition startTestClient ::
  "auto_libs \<Rightarrow> ('a auto_client_scheme \<Rightarrow> 'a auto_client_scheme) \<Rightarrow> string \<Rightarrow> string \<Rightarrow> string \<Rightarrow> string
    \<Rightarrow> nat \<Rightarrow> ('a auto_client_scheme, string \<times> int) action" where
  "startTestClient libs meanwhile certFile keyFile cloudConnectorUrl identityHeader rounds w =
     and_then (autoStartProducer libs certFile keyFile w) (\<lambda>clientId w1.
     and_then (verifyClientIsRegistered libs cloudConnectorUrl clientId identityHeader (meanwhile w1))
       (\<lambda>_ w2.
         ((\<lambda>(r, w). and_then (r, w)
             (test_round libs meanwhile certFile keyFile cloudConnectorUrl identityHeader)) ^^ rounds)
           (Ret (clientId, 0), w2)))"

end
