(* ===== verification/Bridge_Process.thy ===== *)
theory Bridge_Process
  imports Mqtt_Setup Kafka_Consumer Lifecycle "HOL-Library.Sublist"
begin

text \<open>
  The bridge at run time (\<^verbatim>\<open>startMqttMessageConsumer\<close> in
  \<^verbatim>\<open>cmd/cloud-connector/mqtt_message_consumer.go\<close>, after the broker connection is made). The
  MQTT library takes messages from the broker, hands each to a handler and acknowledges it
  when the handler has returned; the main thread waits for a signal or a lost connection and
  then closes the server, the connection and the producer, in this order. The three
  interleave. Whatever the moment at which the process ends, every acknowledged message is
  in Kafka.
\<close>

section \<open>State\<close>

datatype bridge_main =
  Waiting | StoppingServer | StoppingClient | StoppingProducer | FlushingLogs | SleepingForLogs | Done | Dead

text \<open>The message the library is working on; it keeps their order.\<close>

datatype in_flight = Idle | Received mqtt_message | Handled mqtt_message

record bridge_process =
  bp_world :: mqtt_process
  bp_connected :: bool
  bp_flight :: in_flight
  bp_handled :: "mqtt_message list"
  bp_acked :: "mqtt_message list"
  bp_main :: bridge_main

definition bridge_ended :: "bridge_process \<Rightarrow> bool" where
  "bridge_ended b \<longleftrightarrow> bp_main b = Done \<or> bp_main b = Dead"

section \<open>Handling messages\<close>

text \<open>A message goes to a subscriber whose topic it matches, or to the default handler.\<close>

definition bridge_handler ::
  "Config \<Rightarrow> mqtt_message \<Rightarrow> (mqtt_message \<Rightarrow> ('a bridge_state_scheme, unit) action) \<Rightarrow> bool" where
  "bridge_handler cfg m h \<longleftrightarrow>
     h = bridge_default_handler cfg
     \<or> (\<exists>s\<in>set (bridge_subscribers cfg). mqtt_matches (sub_Topic s) (mm_Topic m) \<and> h = sub_EntryPoint s)"

text \<open>A handler that ends the process takes the main thread with it.\<close>

definition after_handler :: "unit go \<times> mqtt_process \<Rightarrow> mqtt_message \<Rightarrow> bridge_process \<Rightarrow> bridge_process" where
  "after_handler res m b =
     (case fst res of
        Ret _ \<Rightarrow> b\<lparr>bp_world := snd res, bp_flight := Handled m, bp_handled := bp_handled b @ [m]\<rparr>
      | _ \<Rightarrow> b\<lparr>bp_world := snd res, bp_main := Dead\<rparr>)"

definition connection_lost_handler :: "Config \<Rightarrow> error \<Rightarrow> ('a mqtt_process_scheme, unit) action" where
  "connection_lost_handler cfg =
     (if ShutdownOnMqttConnectionLost cfg then notifyOnMqttConnectionLostHandler
      else logMqttConnectionLostHandler)"

text \<open>The producer of \<^verbatim>\<open>kafka-go\<close> refuses every write after it is closed.\<close>

definition errClosedPipe :: error where
  "errClosedPipe = ErrorString ''io: read/write on closed pipe''"

definition close_producer :: "mqtt_process \<Rightarrow> mqtt_process" where
  "close_producer w = w\<lparr>write_fault := (\<lambda>n. Some errClosedPipe)\<rparr>"

section \<open>Steps\<close>

text \<open>
  An acknowledgement needs the connection. Without it the broker will send the message
  again, to this process after a reconnection or to the next. The library reconnects unless
  a lost connection is to end the process.
\<close>

inductive bridge_step :: "Config \<Rightarrow> bridge_process \<Rightarrow> bridge_process \<Rightarrow> bool" for cfg where
  deliver: "\<not> bridge_ended b \<Longrightarrow> bp_connected b \<Longrightarrow> bp_flight b = Idle \<Longrightarrow>
     bridge_step cfg b (b\<lparr>bp_flight := Received m\<rparr>)"
| handle: "\<not> bridge_ended b \<Longrightarrow> bp_flight b = Received m \<Longrightarrow> bridge_handler cfg m h \<Longrightarrow>
     bridge_step cfg b (after_handler (h m (bp_world b)) m b)"
| ack: "\<not> bridge_ended b \<Longrightarrow> bp_connected b \<Longrightarrow> bp_flight b = Handled m \<Longrightarrow>
     bridge_step cfg b (b\<lparr>bp_flight := Idle, bp_acked := bp_acked b @ [m]\<rparr>)"
| unacked: "\<not> bridge_ended b \<Longrightarrow> \<not> bp_connected b \<Longrightarrow> bp_flight b = Handled m \<Longrightarrow>
     bridge_step cfg b (b\<lparr>bp_flight := Idle\<rparr>)"
| lost: "\<not> bridge_ended b \<Longrightarrow> bp_connected b \<Longrightarrow>
     bridge_step cfg b (b\<lparr>bp_connected := False,
                          bp_world := snd (connection_lost_handler cfg err (bp_world b))\<rparr>)"
| reconnect: "bp_main b = Waiting \<or> bp_main b = StoppingServer \<Longrightarrow> \<not> bp_connected b \<Longrightarrow>
     \<not> ShutdownOnMqttConnectionLost cfg \<Longrightarrow> bridge_step cfg b (b\<lparr>bp_connected := True\<rparr>)"
| signal: "bp_main b = Waiting \<Longrightarrow> bridge_step cfg b (b\<lparr>bp_main := StoppingServer\<rparr>)"
| connection_failed: "bp_main b = Waiting \<Longrightarrow> mqttConnectionFailedChan (bp_world b) = err # errs \<Longrightarrow>
     bridge_step cfg b (b\<lparr>bp_world := (bp_world b)\<lparr>mqttConnectionFailedChan := errs\<rparr>,
                          bp_main := StoppingServer\<rparr>)"
| server_stopped: "bp_main b = StoppingServer \<Longrightarrow> bridge_step cfg b (b\<lparr>bp_main := StoppingClient\<rparr>)"
| client_stopped: "bp_main b = StoppingClient \<Longrightarrow>
     bridge_step cfg b (b\<lparr>bp_connected := False, bp_main := StoppingProducer\<rparr>)"
| producer_stopped: "bp_main b = StoppingProducer \<Longrightarrow>
     bridge_step cfg b (b\<lparr>bp_world := close_producer (bp_world b), bp_main := FlushingLogs\<rparr>)"
| logs_flushed: "bp_main b = FlushingLogs \<Longrightarrow> bridge_step cfg b (b\<lparr>bp_main := SleepingForLogs\<rparr>)"
| slept: "bp_main b = SleepingForLogs \<Longrightarrow> bridge_step cfg b (b\<lparr>bp_main := Done\<rparr>)"
| server_failed: "bp_main b = Waiting \<or> bp_main b = StoppingServer \<Longrightarrow>
     bridge_step cfg b (b\<lparr>bp_main := Dead\<rparr>)"

inductive_cases bridge_stepE: "bridge_step cfg b b'"

definition bridge_start :: "mqtt_process \<Rightarrow> bridge_process" where
  "bridge_start w =
     \<lparr>bp_world = w, bp_connected = True, bp_flight = Idle, bp_handled = [], bp_acked = [],
      bp_main = Waiting\<rparr>"

section \<open>What a message becomes\<close>

text \<open>
  What must arrive in Kafka for a message: the client as the key, the payload and the topic
  of a control message that is not empty, and nothing for any other.
\<close>

definition forwarded :: "Config \<Rightarrow> mqtt_message \<Rightarrow> (ClientID \<times> string \<times> string) option" where
  "forwarded cfg m =
     (case VerifyIncomingTopic (NewTopicVerifier (MqttTopicPrefix cfg)) (mm_Topic m) of
        Inr (ControlTopicType, cid) \<Rightarrow> if mm_Payload m = '''' then None else Some (cid, mm_Payload m, mm_Topic m)
      | _ \<Rightarrow> None)"

text \<open>What the consumer takes from a Kafka message.\<close>

definition kafka_content :: "kafka_message \<Rightarrow> ClientID \<times> string \<times> string" where
  "kafka_content km =
     (km_Key km, km_Value km,
      case km_Headers km of None \<Rightarrow> '''' | Some hs \<Rightarrow> getHeaderValueAsString hs TopicKafkaHeaderKey)"

text \<open>No write is reported as cancelled: the handlers write with a context that nobody cancels.\<close>

definition writes_not_cancelled :: "'a bridge_state_scheme \<Rightarrow> bool" where
  "writes_not_cancelled w \<longleftrightarrow> (\<forall>n e. write_fault w n = Some e \<longrightarrow> \<not> errors_is e ContextCanceled)"

section \<open>Invariant\<close>

lemma map_filter_append [simp]: "List.map_filter f (xs @ ys) = List.map_filter f xs @ List.map_filter f ys"
  by (simp add: List.map_filter_def)

lemma subseq_map_filter: "subseq xs ys \<Longrightarrow> subseq (List.map_filter f xs) (List.map_filter f ys)"
  by (simp add: List.map_filter_def subseq_map subseq_filter)

lemma control_handler_forwards:
  assumes "ControlMessageHandler (NewTopicVerifier (MqttTopicPrefix cfg)) m w = (r, w')"
    and "VerifyIncomingTopic (NewTopicVerifier (MqttTopicPrefix cfg)) (mm_Topic m) = Inr (ControlTopicType, cid)"
    and "writes_not_cancelled w"
  shows "write_fault w' = write_fault w \<and>
     map kafka_content (written w')
       = map kafka_content (written w) @ (if r = Ret () then List.map_filter (forwarded cfg) [m] else [])"
  using assms
  by (auto simp: ControlMessageHandler_def time_now_def WriteMessages_def Let_def forwarded_def
      kafka_content_def map_filter_simps writes_not_cancelled_def
      split: if_splits option.splits)

lemma default_handler_forwards:
  assumes "bridge_default_handler cfg m w = (r, w')" and "writes_not_cancelled w"
  shows "write_fault w' = write_fault w \<and>
     map kafka_content (written w')
       = map kafka_content (written w) @ (if r = Ret () then List.map_filter (forwarded cfg) [m] else [])"
proof (cases "\<exists>cid. VerifyIncomingTopic (NewTopicVerifier (MqttTopicPrefix cfg)) (mm_Topic m)
    = Inr (ControlTopicType, cid)")
  case True
  then show ?thesis
    using control_handler_forwards [of cfg m w r w'] assms
    by (auto simp: bridge_default_handler_def DefaultMessageHandler_def Let_def)
next
  case False
  then have "forwarded cfg m = None"
    by (auto simp: forwarded_def split: sum.splits TopicType.splits)
  then show ?thesis
    using assms(1) False
    by (auto simp: bridge_default_handler_def DefaultMessageHandler_def DataMessageHandler_def Let_def
        map_filter_simps split: sum.splits prod.splits TopicType.splits)
qed

lemma bridge_handler_forwards:
  assumes "CHR ''/'' \<notin> set (MqttTopicPrefix cfg)" and "MqttTopicPrefix cfg \<noteq> ''+''"
    and "bridge_handler cfg m h" and "h m w = (r, w')" and "writes_not_cancelled w"
  shows "write_fault w' = write_fault w \<and>
     map kafka_content (written w')
       = map kafka_content (written w) @ (if r = Ret () then List.map_filter (forwarded cfg) [m] else [])"
proof -
  have "h m w = bridge_default_handler cfg m w"
    using assms(3) by (auto simp: bridge_handler_def intro: default_handler_subscription [OF assms(1,2), symmetric])
  then show ?thesis using default_handler_forwards [of cfg m w r w'] assms(4,5) by simp
qed

text \<open>
  What is in Kafka is what the handled messages become, in their order; the acknowledged ones
  are among them, in their order, and the one that is handled but not yet acknowledged is the
  last.
\<close>

fun acked_order :: "in_flight \<Rightarrow> mqtt_message list \<Rightarrow> mqtt_message list \<Rightarrow> bool" where
  "acked_order (Handled m) acked handled \<longleftrightarrow> (\<exists>before. handled = before @ [m] \<and> subseq acked before)"
| "acked_order _ acked handled \<longleftrightarrow> subseq acked handled"

definition bridge_inv :: "Config \<Rightarrow> bridge_process \<Rightarrow> bool" where
  "bridge_inv cfg b \<longleftrightarrow>
     map kafka_content (written (bp_world b)) = List.map_filter (forwarded cfg) (bp_handled b)
     \<and> acked_order (bp_flight b) (bp_acked b) (bp_handled b)
     \<and> writes_not_cancelled (bp_world b)"

lemma bridge_inv_acked: "bridge_inv cfg b \<Longrightarrow> subseq (bp_acked b) (bp_handled b)"
  by (cases "bp_flight b") (auto simp: bridge_inv_def intro: subseq_rev_drop_many)

lemma connection_lost_frame:
  "written (snd (connection_lost_handler cfg err w)) = written w"
  "write_fault (snd (connection_lost_handler cfg err w)) = write_fault w"
  by (simp_all add: connection_lost_handler_def notifyOnMqttConnectionLostHandler_def
      logMqttConnectionLostHandler_def)

lemma bridge_inv_step:
  assumes "CHR ''/'' \<notin> set (MqttTopicPrefix cfg)" and "MqttTopicPrefix cfg \<noteq> ''+''"
    and "bridge_inv cfg b" and "bridge_step cfg b b'"
  shows "bridge_inv cfg b'"
  using assms(4)
proof (cases rule: bridge_step.cases)
  case (handle m h)
  obtain r w' where run: "h m (bp_world b) = (r, w')" by (cases "h m (bp_world b)")
  have "writes_not_cancelled (bp_world b)" using assms(3) by (simp add: bridge_inv_def)
  note fwd = bridge_handler_forwards [OF assms(1,2) handle(4) run this]
  show ?thesis
    using assms(3) handle fwd run
    by (cases r) (auto simp: bridge_inv_def after_handler_def writes_not_cancelled_def)
next
  case (ack m)
  then show ?thesis using assms(3)
    by (auto simp: bridge_inv_def intro: list_emb_append_mono)
next
  case (unacked m)
  then show ?thesis using assms(3) bridge_inv_acked [OF assms(3)] by (auto simp: bridge_inv_def)
next
  case (lost err)
  then show ?thesis using assms(3)
    by (auto simp: bridge_inv_def connection_lost_frame writes_not_cancelled_def)
qed (use assms(3) in \<open>auto simp: bridge_inv_def close_producer_def writes_not_cancelled_def errClosedPipe_def\<close>)

lemma bridge_inv_start:
  "writes_not_cancelled w \<Longrightarrow> written w = [] \<Longrightarrow> bridge_inv cfg (bridge_start w)"
  by (simp add: bridge_inv_def bridge_start_def map_filter_simps)

section \<open>The shutdown is never blocked\<close>

fun bridge_rank :: "bridge_main \<Rightarrow> nat" where
  "bridge_rank Waiting = 6"
| "bridge_rank StoppingServer = 5"
| "bridge_rank StoppingClient = 4"
| "bridge_rank StoppingProducer = 3"
| "bridge_rank FlushingLogs = 2"
| "bridge_rank SleepingForLogs = 1"
| "bridge_rank Done = 0"
| "bridge_rank Dead = 0"

lemma bridge_progress:
  assumes "\<not> bridge_ended b"
  shows "\<exists>b'. bridge_step cfg b b' \<and> bridge_rank (bp_main b') < bridge_rank (bp_main b)"
  using assms
  by (cases "bp_main b") (force simp: bridge_ended_def intro: bridge_step.signal bridge_step.server_stopped
      bridge_step.client_stopped bridge_step.producer_stopped bridge_step.logs_flushed bridge_step.slept)+

definition topic_prefix_ok :: "Config \<Rightarrow> bool" where
  "topic_prefix_ok cfg \<longleftrightarrow> CHR ''/'' \<notin> set (MqttTopicPrefix cfg) \<and> MqttTopicPrefix cfg \<noteq> ''+''"

interpretation bridge: lifecycle "bridge_step cfg"
    "\<lambda>b. topic_prefix_ok cfg \<and> (\<exists>w. writes_not_cancelled w \<and> written w = [] \<and> b = bridge_start w)"
    "\<lambda>b. topic_prefix_ok cfg \<and> bridge_inv cfg b" "\<lambda>b. bridge_rank (bp_main b)" bridge_ended
  for cfg
  by unfold_locales
    (auto simp: topic_prefix_ok_def intro: bridge_inv_start bridge_inv_step bridge_progress)

section \<open>Properties\<close>

text \<open>
  C10: The bridge loses no message. At every moment of its life, during a shutdown and after
  a lost connection too, what it has written to Kafka is what the messages it has handled
  become, in their order, the acknowledged messages are among these in their order, and so
  every acknowledged control message is in Kafka, with its client, payload and topic. A
  message that could not be written ends the process unacknowledged. From every such moment
  the process can end.
\<close>

theorem bridge_at_least_once:
  assumes "CHR ''/'' \<notin> set (MqttTopicPrefix cfg)" and "MqttTopicPrefix cfg \<noteq> ''+''"
    and "writes_not_cancelled w" and "written w = []" and "(bridge_step cfg)\<^sup>*\<^sup>* (bridge_start w) b"
  shows "map kafka_content (written (bp_world b)) = List.map_filter (forwarded cfg) (bp_handled b)
     \<and> subseq (bp_acked b) (bp_handled b)
     \<and> subseq (List.map_filter (forwarded cfg) (bp_acked b)) (map kafka_content (written (bp_world b)))
     \<and> (\<exists>b'. (bridge_step cfg)\<^sup>*\<^sup>* b b' \<and> bridge_ended b')"
proof -
  have init: "topic_prefix_ok cfg
      \<and> (\<exists>w'. writes_not_cancelled w' \<and> written w' = [] \<and> bridge_start w = bridge_start w')"
    using assms(1-4) by (auto simp: topic_prefix_ok_def)
  have inv: "bridge_inv cfg b" using bridge.reachable_inv [OF init assms(5)] by simp
  then have "map kafka_content (written (bp_world b)) = List.map_filter (forwarded cfg) (bp_handled b)"
    by (simp add: bridge_inv_def)
  then show ?thesis using bridge_inv_acked [OF inv] subseq_map_filter bridge.can_end [OF init assms(5)] by metis
qed

text \<open>A message that is handled and acknowledged.\<close>

lemma example_bridge_run:
  "\<exists>b. (bridge_step example_config)\<^sup>*\<^sup>* (bridge_start example_process) b \<and> bp_acked b = [example_mqtt_message]"
proof -
  let ?step = "bridge_step example_config"
  let ?m = example_mqtt_message
  let ?b1 = "(bridge_start example_process)\<lparr>bp_flight := Received ?m\<rparr>"
  let ?res = "bridge_default_handler example_config ?m (bp_world ?b1)"
  let ?b2 = "after_handler ?res ?m ?b1"
  let ?b3 = "?b2\<lparr>bp_flight := Idle, bp_acked := bp_acked ?b2 @ [?m]\<rparr>"
  have "?step (bridge_start example_process) ?b1"
    by (rule bridge_step.deliver) (simp_all add: bridge_start_def bridge_ended_def)
  moreover have "?step ?b1 ?b2"
    by (rule bridge_step.handle) (simp_all add: bridge_start_def bridge_ended_def bridge_handler_def)
  moreover have topic: "VerifyIncomingTopic (NewTopicVerifier (MqttTopicPrefix example_config))
      (mm_Topic ?m) = Inr (ControlTopicType, ''client-1'')"
    by (simp add: VerifyIncomingTopic_def NewTopicVerifier_def example_mqtt_message_def
        defaultTopicPrefix_def example_config_def zero_Config_def)
  have "fst ?res = Ret ()"
    using topic by (simp add: bridge_default_handler_def DefaultMessageHandler_def ControlMessageHandler_def
        WriteMessages_def time_now_def bridge_start_def example_process_def Let_def)
  then have b2: "?b2 = ?b1\<lparr>bp_world := snd ?res, bp_flight := Handled ?m, bp_handled := bp_handled ?b1 @ [?m]\<rparr>"
    by (simp add: after_handler_def)
  have "?step ?b2 ?b3"
    unfolding b2 by (rule bridge_step.ack) (simp_all add: bridge_start_def bridge_ended_def)
  moreover have "bp_acked ?b3 = [?m]" unfolding b2 by (simp add: bridge_start_def)
  ultimately show ?thesis by (meson converse_rtranclp_into_rtranclp r_into_rtranclp)
qed

theorem bridge_at_least_once_witness:
  "\<exists>b. (bridge_step example_config)\<^sup>*\<^sup>* (bridge_start example_process) b
     \<and> bp_acked b = [example_mqtt_message]
     \<and> subseq [(''client-1'', ''{}'', ''redhat/insights/client-1/control/out'')]
         (map kafka_content (written (bp_world b)))"
proof -
  obtain b where run: "(bridge_step example_config)\<^sup>*\<^sup>* (bridge_start example_process) b"
    and b: "bp_acked b = [example_mqtt_message]"
    using example_bridge_run by blast
  have p: "MqttTopicPrefix example_config = ''''" by (simp add: example_config_def zero_Config_def)
  have "forwarded example_config example_mqtt_message
      = Some (''client-1'', ''{}'', ''redhat/insights/client-1/control/out'')"
    by (simp add: forwarded_def p VerifyIncomingTopic_def NewTopicVerifier_def example_mqtt_message_def
        defaultTopicPrefix_def)
  moreover have "writes_not_cancelled example_process" "written example_process = []"
    by (simp_all add: writes_not_cancelled_def example_process_def)
  ultimately have "subseq [(''client-1'', ''{}'', ''redhat/insights/client-1/control/out'')]
      (map kafka_content (written (bp_world b)))"
    using bridge_at_least_once [of example_config example_process b] run b by (auto simp: p map_filter_simps)
  with b run show ?thesis by blast
qed

end
