(* ===== verification/End_To_End.thy ===== *)
theory End_To_End
  imports Test_Client Bridge_Process Control_Pipeline Api_Server
begin

text \<open>
  The way of a client's messages through the whole service: published to the MQTT broker by
  the clients of \<open>Test_Client\<close>, written to Kafka by the bridge, applied to the table by the
  consumer, and seen by other services through the API. The theory states what the test
  clients were written to check.
\<close>

section \<open>The consumer stays up\<close>

text \<open>Handling a message does not change which calls of the outside world fail.\<close>

definition live_at ::
  "'c libraries \<Rightarrow> ('c \<Rightarrow> ClientID \<Rightarrow> cachedResult \<Rightarrow> bool) \<Rightarrow> Config
    \<Rightarrow> (nat \<Rightarrow> http_request \<Rightarrow> error + http_response) \<Rightarrow> ('c, 'a) system_scheme \<Rightarrow> bool" where
  "live_at lib holds cfg H w \<longleftrightarrow> pipeline_at lib holds cfg H w \<and> system_up w"

lemma Register_sources:
  "reg_Register (SqlConnectionRegistrar pq) c w = (r, w') \<Longrightarrow>
     db_fault w' = db_fault w \<and> uuid_source w' = uuid_source w"
  by (auto simp: SqlConnectionRegistrar_def Register_def db_call_def time_now_def upsert_def Let_def
      split: prod.splits option.splits error.splits if_splits)

lemma Unregister_sources:
  "reg_Unregister (SqlConnectionRegistrar pq) cid w = (r, w') \<Longrightarrow>
     db_fault w' = db_fault w \<and> uuid_source w' = uuid_source w"
  by (auto simp: SqlConnectionRegistrar_def Unregister_def db_call_def split: prod.splits option.splits)

lemma RecordConnectedClient_sources:
  "RecordConnectedClient un cfg ident c w = (r, w') \<Longrightarrow> uuid_source w' = uuid_source w"
  by (auto simp: RecordConnectedClient_def and_then_pure time_now_def new_uuid_def Let_def
      InventoryMessageProducer_def kafka_write_def
      split: go.splits if_splits sum.splits option.splits prod.splits)

lemma makeHttpRequest_sources:
  "makeHttpRequest i rid m u b w = (r, w') \<Longrightarrow> uuid_source w' = uuid_source w"
  by (auto simp: makeHttpRequest_def send_http_def split: option.splits)

lemma new_uuid_sources: "new_uuid w = (r, w') \<Longrightarrow> uuid_source w' = uuid_source w"
  by (auto simp: new_uuid_def)

lemma RegisterWithSources_sources:
  "RegisterWithSources dec cfg i acc org cid a b c d w = (r, w') \<Longrightarrow> uuid_source w' = uuid_source w"
  by (auto simp: RegisterWithSources_def checkForExistingSourcesEntry_def createSourcesEntry_def
      split: prod.splits sum.splits if_splits dest!: makeHttpRequest_sources new_uuid_sources)

lemma system_up_cong:
  "db_fault w' = db_fault w \<Longrightarrow> uuid_source w' = uuid_source w \<Longrightarrow> system_up w' = system_up w"
  by (simp add: system_up_def db_up_def)

interpretation live: control_handler
  "SqlConnectionRegistrar (lib_pq lib)" conn_view pg_timestamp "live_at lib holds cfg H"
  "gatewayResolver lib cfg" "RecordConnectedClient (lib_map lib) cfg"
  "RegisterWithSources (lib_sources lib) cfg"
  for lib :: "'c libraries" and holds cfg H
proof (unfold_locales, goal_cases)
  case (1 w c w')
  then show ?case by (intro pipeline.register_ok) (auto simp: live_at_def)
next
  case (2 w c e w')
  then show ?case by (intro pipeline.register_err) (auto simp: live_at_def)
next
  case (3 w c r w')
  then show ?case
    using pipeline.register_keeps [OF _ 3(2)] Register_sources [OF 3(2)] system_up_cong [of w' w]
    by (auto simp: live_at_def)
next
  case (4 w cid w')
  then show ?case by (intro pipeline.unregister_ok) (auto simp: live_at_def)
next
  case (5 w cid e w')
  then show ?case by (intro pipeline.unregister_err) (auto simp: live_at_def)
next
  case (6 w cid r w')
  then show ?case
    using pipeline.unregister_keeps [OF _ 6(2)] Unregister_sources [OF 6(2)] system_up_cong [of w' w]
    by (auto simp: live_at_def)
next
  case (7 w cid c w')
  then show ?case by (intro pipeline.find_ok) (auto simp: live_at_def)
next
  case (8 w cid c w')
  then show ?case by (intro pipeline.find_missing) (auto simp: live_at_def)
next
  case (9 w cid c e w')
  then show ?case by (intro pipeline.find_err) (auto simp: live_at_def)
next
  case (10 w cid res w')
  then show ?case
    using pipeline.find_keeps [OF _ 10(2)] pipeline.up_find_keeps [OF _ _ 10(2)]
    by (auto simp: live_at_def)
next
  case (11 w cid v)
  then show ?case by (intro pipeline.view_client) (auto simp: live_at_def)
next
  case (12 w cid v)
  then show ?case by (intro pipeline.view_time) (auto simp: live_at_def)
next
  case (13 w t u)
  then show ?case by (intro pipeline.ts_mono) (auto simp: live_at_def)
next
  case (14 w cid ra w')
  then show ?case
    using pipeline.resolver_keeps [OF _ 14(2)] pipeline.resolver_up [OF _ _ 14(2)] by (auto simp: live_at_def)
next
  case (15 w cid)
  then show ?case by (intro pipeline.resolver_returns) (auto simp: live_at_def)
next
  case (16 w ident c rb w')
  then show ?case
    using pipeline.recorder_keeps [OF _ 16(2)] RecordConnectedClient_sources [OF 16(2)]
      RecordConnectedClient_frame [OF 16(2)] system_up_cong [of w' w]
    by (auto simp: live_at_def same_store_def)
next
  case (17 w ident c)
  then show ?case by (intro pipeline.recorder_returns) (auto simp: live_at_def)
next
  case (18 w ident acc org cid s1 s2 s3 s4 rc w')
  then show ?case
    using pipeline.sources_keeps [OF _ 18(2)] RegisterWithSources_sources [OF 18(2)]
      RegisterWithSources_store [OF 18(2)] system_up_cong [of w' w]
    by (auto simp: live_at_def same_store_def)
qed

lemma messageProcessor_live:
  assumes "live_at lib holds cfg H w"
  shows "live_at lib holds cfg H (snd (messageProcessor lib cfg tv msg w))
     \<and> pg_timestamp (snd (messageProcessor lib cfg tv msg w)) = pg_timestamp w"
proof (cases "messageProcessor lib cfg tv msg w" rule: prod.exhaust)
  case (Pair r w')
  from Pair show ?thesis
  proof (cases rule: messageProcessor_cases)
    case ignored
    then show ?thesis using assms Pair by simp
  next
    case (handled cid)
    then show ?thesis
      using live.control_keeps [OF assms handled(2) [unfolded controlMessageHandler_def]] Pair by simp
  qed
qed

text \<open>A message that repeats an id or is older than what is stored has no effect.\<close>

lemma old_message_ignored:
  assumes "pipeline_inv lib holds cfg w" and "message_client tv msg = Some cid"
    and "lib_control lib (km_Value msg) = Inr m" and "cm_Content m = JObj hp"
    and "map_of hp ''state'' = Some (JStr ''online'')"
    and "conn_view w cid = Some v" and "isDuplicateOrOldMessage v m"
  shows "conn_view (snd (messageProcessor lib cfg tv msg w)) = conn_view w"
proof -
  obtain r w' where run: "messageProcessor lib cfg tv msg w = (r, w')"
    by (cases "messageProcessor lib cfg tv msg w")
  then have h: "controlMessageHandler lib cfg cid (km_Value msg) w = (r, w')"
    using assms(2) by (simp add: messageProcessor_def handleMessage_client)
  show ?thesis
  proof (rule pipeline.control_cases [OF pipeline_atI [OF assms(1)] h [unfolded controlMessageHandler_def]])
    assume "conn_view w' = conn_view w"
    then show ?thesis by (simp add: run)
  next
    fix m' assume "lib_control lib (km_Value msg) = Inr m'"
      and "\<forall>v. conn_view w cid = Some v \<longrightarrow> \<not> isDuplicateOrOldMessage v m'"
    then show ?thesis using assms(3,6,7) by simp
  next
    fix m' hp' assume "lib_control lib (km_Value msg) = Inr m'" "cm_Content m' = JObj hp'"
      and "map_of hp' ''state'' = Some (JStr ''offline'')"
    then show ?thesis using assms(3-5) by simp
  qed
qed

section \<open>From the broker to the table\<close>

text \<open>
  A publication of a client, handled by the bridge with a producer that works, and the Kafka
  messages that come out of it, processed by the consumer.
\<close>

definition relay ::
  "'c libraries \<Rightarrow> Config \<Rightarrow> string \<times> string \<Rightarrow> bridge_state \<times> ('c, 'a) system_scheme
    \<Rightarrow> bridge_state \<times> ('c, 'a) system_scheme" where
  "relay lib cfg pub st =
     (case st of (b, w) \<Rightarrow>
        (let b' = snd (bridge_default_handler cfg
                         \<lparr>mm_Topic = fst pub, mm_MessageID = 0, mm_Payload = snd pub\<rparr> b)
         in (b', apply_all (messageProcessor lib cfg (NewTopicVerifier (MqttTopicPrefix cfg)))
                   (drop (length (written b)) (written b')) w)))"

definition producer_up :: "'a bridge_state_scheme \<Rightarrow> bool" where
  "producer_up b \<longleftrightarrow> (\<forall>n. write_fault b n = None)"

lemma relay_control:
  assumes "producer_up b" and "payload \<noteq> ''''"
    and "VerifyIncomingTopic (NewTopicVerifier (MqttTopicPrefix cfg)) topic = Inr (ControlTopicType, cid)"
  obtains b' km where "relay lib cfg (topic, payload) (b, w)
      = (b', snd (messageProcessor lib cfg (NewTopicVerifier (MqttTopicPrefix cfg)) km w))"
    "producer_up b'" "message_client (NewTopicVerifier (MqttTopicPrefix cfg)) km = Some cid"
    "km_Value km = payload"
  using assms
  by (simp add: relay_def bridge_default_handler_def DefaultMessageHandler_def ControlMessageHandler_def
      time_now_def WriteMessages_def producer_up_def message_client_def Let_def)

section \<open>From the table to the API\<close>

lemma row_of_view:
  assumes "unique_clients w"
  shows "(\<exists>r\<in>set (connections w). r_client_id r = cid \<and> r_org_id r = org)
     \<longleftrightarrow> (\<exists>v. conn_view w cid = Some v \<and> cs_OrgID v = org)"
proof
  assume "\<exists>r\<in>set (connections w). r_client_id r = cid \<and> r_org_id r = org"
  then obtain r where r: "r \<in> set (connections w)" "r_client_id r = cid" "r_org_id r = org" by blast
  then have "find (\<lambda>s. r_client_id s = cid) (connections w) \<noteq> None" by (auto simp: find_None_iff)
  then obtain s where s: "find (\<lambda>s. r_client_id s = cid) (connections w) = Some s" by blast
  then have "s \<in> set (connections w)" "r_client_id s = cid"
    by (auto simp: find_Some_iff)
  then have "s = r" using unique_client_rows [OF assms, of s r] r by simp
  then show "\<exists>v. conn_view w cid = Some v \<and> cs_OrgID v = org"
    using s r by (simp add: conn_view_def)
next
  assume "\<exists>v. conn_view w cid = Some v \<and> cs_OrgID v = org"
  then show "\<exists>r\<in>set (connections w). r_client_id r = cid \<and> r_org_id r = org"
    by (auto simp: conn_view_def find_Some_iff)
qed

text \<open>The handler answers with this status, and with nothing else.\<close>

definition status_answered :: "string \<Rightarrow> 'a server_scheme \<Rightarrow> 'a server_scheme \<Rightarrow> bool" where
  "status_answered status s s' \<longleftrightarrow>
     (\<exists>fields. responses s' = responses s @ [(200, JsonBody (JObj ((''status'', JStr status) # fields)))])"

lemma status_from_view:
  assumes "GetPrincipal (al_identity libs) req = Some p" and "GetOrgID p \<noteq> ''''"
    and "getClientIDFromRequestPath req = cid" and "cid \<noteq> ''''"
    and "db_up s" and "unique_clients s"
  shows "status_answered
     (if \<exists>v. conn_view s cid = Some v \<and> cs_OrgID v = GetOrgID p then ''connected'' else ''disconnected'')
     s (snd (MediatorV2_handleConnectionStatus libs SqlGetConnectionByClientID req s))"
proof -
  obtain c er s1 where l: "SqlGetConnectionByClientID (GetOrgID p) cid s = ((c, er), s1)"
    by (metis surj_pair)
  have rs: "responses s1 = responses s"
    using strict_api.lookup_quiet [OF l] by (simp add: quiet_def)
  have "er = None \<longleftrightarrow> (\<exists>v. conn_view s cid = Some v \<and> cs_OrgID v = GetOrgID p)"
    using strict.lookup_decides [OF assms(5,2,4)] l row_of_view [OF assms(6), of cid "GetOrgID p"] assms(2)
    by (auto simp: visible_def)
  moreover have "e = NotFoundError" if "er = Some e" for e
    using strict.lookup_up [OF assms(5,2,4)] l that by blast
  ultimately show ?thesis
    using assms(1,3) l rs
    by (cases er) (auto simp: status_answered_def MediatorV2_handleConnectionStatus_def with_principal_def
        writeJSONResponse_def connectionStatusResponseV2_json_def DISCONNECTED_STATUS_def
        convertConnectorClientStateToConnectionStatusResponseV2_def)
qed

section \<open>What the test clients send\<close>

text \<open>The client's encoder and the consumer's decoder fit, and no message encodes to nothing.\<close>

definition codec_ok :: "'l client_libs_scheme \<Rightarrow> 'c libraries \<Rightarrow> bool" where
  "codec_ok cl lib \<longleftrightarrow> (\<forall>m p. marshal_control cl m = Inr p \<longrightarrow> p \<noteq> '''' \<and> lib_control lib p = Inr m)"

lemma client_facts: "\<exists>facts. sanitizeCanonicalFacts vu (CanonicalFacts_json cf) = Ret facts"
proof -
  let ?kvs = "omit_empty ''insights_id'' (cf_InsightsID cf) @ omit_empty ''machine_id'' (cf_MachineID cf)
           @ omit_empty ''subscription_manager_id'' (cf_SubscriptionManagerID cf)
           @ omit_empty ''satellite_id'' (cf_SatelliteID cf) @ omit_empty ''fqdn'' (cf_Fqdn cf)
           @ omit_empty ''bios_uuid'' (cf_BiosID cf) @ omit_empty_list ''ip_addresses'' (cf_IpAddresses cf)
           @ omit_empty_list ''mac_addresses'' (cf_MacAddresses cf)"
  have "sanitize_entries vu ?kvs [] \<noteq> Panic"
    unfolding sanitize_entries_Panic_iff by (auto simp: omit_empty_def omit_empty_list_def split: if_splits)
  then obtain kvs where "sanitize_entries vu ?kvs [] = Ret kvs"
    using sanitize_entries_not_Exit by (metis go.exhaust)
  then show ?thesis by (simp add: sanitizeCanonicalFacts_def CanonicalFacts_json_def)
qed

lemma client_online_payload:
  assumes "codec_ok cl lib"
    and "marshal_control cl (status_message mid t (online_content cf d tg)) = Inr p"
  shows "\<exists>facts. online_payload lib p (status_message mid t (online_content cf d tg))
           (status_fields (online_content cf d tg)) facts"
  using assms client_facts [of "lib_validUUID lib" cf]
  by (auto simp: online_payload_def codec_ok_def status_message_def status_fields_def online_content_def
      index_map_def)

lemma client_offline_payload:
  assumes "codec_ok cl lib" and "marshal_control cl (status_message mid t offline_content) = Inr p"
  shows "offline_payload lib p"
  using assms by (auto simp: offline_payload_def codec_ok_def status_message_def status_fields_def
      offline_content_def)

lemma client_topic:
  assumes "CHR ''/'' \<notin> set cid" and "MqttTopicPrefix cfg = ''''"
  shows "VerifyIncomingTopic (NewTopicVerifier (MqttTopicPrefix cfg)) (controlWriteTopic cid)
     = Inr (ControlTopicType, cid)"
  unfolding VerifyIncomingTopic_Inr_iff topic_of_segments
  using assms by (simp add: controlWriteTopic_def NewTopicVerifier_def defaultTopicPrefix_def)

text \<open>A client has come online: its will is with the broker and its status is published.\<close>

definition came_online ::
  "'l client_libs_scheme \<Rightarrow> ClientID \<Rightarrow> 'a test_client_scheme \<Rightarrow> 'a test_client_scheme \<Rightarrow> bool" where
  "came_online cl cid c c' \<longleftrightarrow>
     (\<exists>mid t cf willID willTime p will.
        tc_published c' = tc_published c @ [(controlWriteTopic cid, p)]
        \<and> marshal_control cl (status_message mid t (online_content cf (Some []) (Some []))) = Inr p
        \<and> tc_will c' = Some (controlWriteTopic cid, will)
        \<and> marshal_control cl (status_message willID willTime offline_content) = Inr will)"

lemma generateUUID_frame [simp]:
  "tc_published (snd (generateUUID (c :: 'a test_client_scheme))) = tc_published c"
  "tc_will (snd (generateUUID c)) = tc_will c"
  "clock (snd (generateUUID c)) = clock c" "ticks (snd (generateUUID c)) = ticks c"
  by (auto simp: generateUUID_def new_uuid_def split: sum.splits)

lemma test_facts_frame [simp]:
  "tc_published (snd (test_facts (c :: 'a test_client_scheme))) = tc_published c"
  "tc_will (snd (test_facts c)) = tc_will c"
  "clock (snd (test_facts c)) = clock c" "ticks (snd (test_facts c)) = ticks c"
  by (simp_all add: test_facts_def split_beta)

lemma auto_facts_frame [simp]:
  "tc_published (snd (auto_facts (c :: 'a test_client_scheme))) = tc_published c"
  "tc_will (snd (auto_facts c)) = tc_will c"
  by (simp_all add: auto_facts_def split_beta)

lemma client_connect_will:
  assumes "client_connect cl cid willID c = (Ret u, c')"
  obtains will where "tc_will c' = Some (controlWriteTopic cid, will)" "tc_published c' = tc_published c"
    "clock c' = clock c" "ticks c' = Suc (ticks c)"
    "marshal_control cl (status_message willID (clock c (ticks c)) offline_content) = Inr will"
  using assms
  by (auto simp: client_connect_def client_subscribe_def time_now_def and_then_Ret_iff Let_def
      split: sum.splits option.splits)

lemma publish_Ret_iff:
  "publishConnectionStatusMessage cl topic mid cf d tg t c = (Ret u, c') \<longleftrightarrow>
     (\<exists>p. marshal_control cl (status_message mid t (online_content cf d tg)) = Inr p
        \<and> c' = client_publish topic p c)"
  by (auto simp: publishConnectionStatusMessage_def split: sum.splits)

lemma startProducer_parts:
  assumes "startProducer cl cert key c = (Ret (cid, cf, t), c')"
  obtains c2 p where "client_connect cl cid ''5678'' c = (Ret (), c2)" "t = fst (time_now c2)"
    "marshal_control cl (status_message ''1234'' t (online_content cf (Some []) (Some []))) = Inr p"
    "c' = client_publish (controlWriteTopic cid) p (snd (test_facts (snd (time_now c2))))"
  using assms by (auto simp: startProducer_def and_then_Ret_iff publish_Ret_iff split_beta)

lemma startProducer_online:
  assumes "startProducer cl cert key c = (Ret (cid, cf, t), c')"
  shows "came_online cl cid c c'"
proof -
  obtain c2 p where c2: "client_connect cl cid ''5678'' c = (Ret (), c2)"
    and p: "marshal_control cl (status_message ''1234'' t (online_content cf (Some []) (Some []))) = Inr p"
      "c' = client_publish (controlWriteTopic cid) p (snd (test_facts (snd (time_now c2))))"
    using assms by (rule startProducer_parts)
  from c2 obtain will where "tc_will c2 = Some (controlWriteTopic cid, will)" "tc_published c2 = tc_published c"
    "marshal_control cl (status_message ''5678'' (clock c (ticks c)) offline_content) = Inr will"
    by (rule client_connect_will)
  then show ?thesis
    using p unfolding came_online_def by (auto simp: client_publish_def time_now_def)
qed

lemma autoStartProducer_online:
  assumes "autoStartProducer cl cert key c = (Ret cid, c')"
  shows "came_online cl cid c c'"
proof -
  let ?cl = "client_libs.truncate cl" and ?c0 = "snd (generateUUID c)"
  obtain c2 cf mid t p where c2: "client_connect ?cl cid (fst (generateUUID c)) ?c0 = (Ret (), c2)"
    and p: "marshal_control ?cl (status_message mid t (online_content cf (Some []) (Some []))) = Inr p"
      "c' = client_publish (controlWriteTopic cid) p (snd (generateUUID (snd (auto_facts (snd (time_now c2))))))"
    using assms by (auto simp: autoStartProducer_def and_then_Ret_iff publish_Ret_iff split_beta Let_def)
  from c2 obtain will where "tc_will c2 = Some (controlWriteTopic cid, will)" "tc_published c2 = tc_published ?c0"
    "marshal_control ?cl (status_message (fst (generateUUID c)) (clock ?c0 (ticks ?c0)) offline_content) = Inr will"
    by (rule client_connect_will)
  moreover have "marshal_control ?cl = marshal_control cl" by (simp add: client_libs.truncate_def)
  ultimately show ?thesis
    using p unfolding came_online_def by (auto simp: client_publish_def time_now_def)
qed

section \<open>One message, end to end\<close>

lemma relay_online:
  assumes "codec_ok cl lib" and "MqttTopicPrefix cfg = ''''" and "CHR ''/'' \<notin> set cid"
    and "producer_up b" and "live_at lib holds cfg H w"
    and "marshal_control cl (status_message mid t (online_content cf d tg)) = Inr p"
    and "\<forall>v. conn_view w cid = Some v
           \<longrightarrow> \<not> isDuplicateOrOldMessage v (status_message mid t (online_content cf d tg))"
  obtains b' w' ident acc org facts where "relay lib cfg (controlWriteTopic cid, p) (b, w) = (b', w')"
    "producer_up b'" "live_at lib holds cfg H w'" "pg_timestamp w' = pg_timestamp w"
    "conn_view w' = (conn_view w)(cid \<mapsto> registration (pg_timestamp w)
       (online_state cid acc org (status_fields (online_content cf d tg)) facts
         (status_message mid t (online_content cf d tg))))"
    "gateway_says (lib_gateway lib) cfg w cid ident acc org \<or> acc = '''' \<and> org = ''''"
proof -
  let ?tv = "NewTopicVerifier (MqttTopicPrefix cfg)"
  have p: "p \<noteq> ''''" using assms(1,6) by (auto simp: codec_ok_def)
  obtain b' km where r: "relay lib cfg (controlWriteTopic cid, p) (b, w)
      = (b', snd (messageProcessor lib cfg ?tv km w))" "producer_up b'"
    and km: "message_client ?tv km = Some cid" "km_Value km = p"
    using relay_control [OF assms(4) p client_topic [OF assms(3,2)]] by metis
  obtain facts where on: "online_payload lib (km_Value km) (status_message mid t (online_content cf d tg))
      (status_fields (online_content cf d tg)) facts"
    using client_online_payload [OF assms(1,6)] km(2) by auto
  have inv: "pipeline_inv lib holds cfg w" "system_up w"
    using assms(5) by (simp_all add: live_at_def pipeline_at_def)
  note live = messageProcessor_live [OF assms(5), of ?tv km]
  from online_message [OF inv km(1) on assms(7)] show ?thesis
    using that [OF r] live by blast
qed

lemma relay_old:
  assumes "codec_ok cl lib" and "MqttTopicPrefix cfg = ''''" and "CHR ''/'' \<notin> set cid"
    and "producer_up b" and "live_at lib holds cfg H w"
    and "marshal_control cl (status_message mid t (online_content cf d tg)) = Inr p"
    and "conn_view w cid = Some v" and "isDuplicateOrOldMessage v (status_message mid t (online_content cf d tg))"
  obtains b' w' where "relay lib cfg (controlWriteTopic cid, p) (b, w) = (b', w')"
    "producer_up b'" "live_at lib holds cfg H w'" "pg_timestamp w' = pg_timestamp w" "conn_view w' = conn_view w"
proof -
  let ?tv = "NewTopicVerifier (MqttTopicPrefix cfg)"
  have p: "p \<noteq> ''''" and dec: "lib_control lib p = Inr (status_message mid t (online_content cf d tg))"
    using assms(1,6) by (auto simp: codec_ok_def)
  obtain b' km where r: "relay lib cfg (controlWriteTopic cid, p) (b, w)
      = (b', snd (messageProcessor lib cfg ?tv km w))" "producer_up b'"
    and km: "message_client ?tv km = Some cid" "km_Value km = p"
    using relay_control [OF assms(4) p client_topic [OF assms(3,2)]] by metis
  have "conn_view (snd (messageProcessor lib cfg ?tv km w)) = conn_view w"
  proof (rule old_message_ignored [where hp = "status_fields (online_content cf d tg)", OF _ km(1) _ _ _ assms(7,8)])
    show "pipeline_inv lib holds cfg w" using assms(5) by (simp add: live_at_def pipeline_at_def)
    show "lib_control lib (km_Value km) = Inr (status_message mid t (online_content cf d tg))"
      using dec km(2) by simp
  qed (simp_all add: status_message_def status_fields_def online_content_def)
  then show ?thesis using that [OF r] messageProcessor_live [OF assms(5), of ?tv km] by blast
qed

lemma relay_offline:
  assumes "codec_ok cl lib" and "MqttTopicPrefix cfg = ''''" and "CHR ''/'' \<notin> set cid"
    and "producer_up b" and "live_at lib holds cfg H w"
    and "marshal_control cl (status_message mid t offline_content) = Inr p"
  obtains b' w' where "relay lib cfg (controlWriteTopic cid, p) (b, w) = (b', w')"
    "producer_up b'" "live_at lib holds cfg H w'" "conn_view w' = (conn_view w)(cid := None)"
proof -
  let ?tv = "NewTopicVerifier (MqttTopicPrefix cfg)"
  have p: "p \<noteq> ''''" using assms(1,6) by (auto simp: codec_ok_def)
  obtain b' km where r: "relay lib cfg (controlWriteTopic cid, p) (b, w)
      = (b', snd (messageProcessor lib cfg ?tv km w))" "producer_up b'"
    and km: "message_client ?tv km = Some cid" "km_Value km = p"
    using relay_control [OF assms(4) p client_topic [OF assms(3,2)]] by metis
  have "pipeline_inv lib holds cfg w" "db_up w"
    using assms(5) by (simp_all add: live_at_def pipeline_at_def system_up_def)
  then have "conn_view (snd (messageProcessor lib cfg ?tv km w)) = (conn_view w)(cid := None)"
    using offline_message [OF _ _ km(1) _ surjective_pairing] client_offline_payload [OF assms(1,6)] km(2)
    by blast
  then show ?thesis using that [OF r] messageProcessor_live [OF assms(5), of ?tv km] by blast
qed

section \<open>Properties\<close>

text \<open>What the API says of a client, whatever state with the same table it runs in.\<close>

lemma status_of_table:
  assumes "live_at lib holds cfg H w" and "connections s = connections w" and "db_up s"
    and "GetPrincipal (al_identity libs) req = Some p" and "GetOrgID p \<noteq> ''''"
    and "getClientIDFromRequestPath req = cid" and "cid \<noteq> ''''"
  shows "status_answered
     (if \<exists>v. conn_view w cid = Some v \<and> cs_OrgID v = GetOrgID p then ''connected'' else ''disconnected'')
     s (snd (MediatorV2_handleConnectionStatus libs SqlGetConnectionByClientID req s))"
proof -
  have "unique_clients s" "conn_view s = conn_view w"
    using assms(1,2)
    by (auto simp: live_at_def pipeline_at_def pipeline_inv_def db_inv_def unique_clients_def conn_view_def)
  then show ?thesis using status_from_view [OF assms(4-7,3)] by simp
qed


lemma startProducer_messages:
  assumes "startProducer cl cert key c = (Ret (cid, cf, t), c')"
  obtains p where "tc_published c' = tc_published c @ [(controlWriteTopic cid, p)]"
    "marshal_control cl (status_message ''1234'' t (online_content cf (Some []) (Some []))) = Inr p"
    "t = clock c (Suc (ticks c))" "clock c' = clock c" "ticks c' = Suc (Suc (ticks c))"
proof -
  obtain c2 p where c2: "client_connect cl cid ''5678'' c = (Ret (), c2)" and t: "t = fst (time_now c2)"
    and p: "marshal_control cl (status_message ''1234'' t (online_content cf (Some []) (Some []))) = Inr p"
      "c' = client_publish (controlWriteTopic cid) p (snd (test_facts (snd (time_now c2))))"
    using assms by (rule startProducer_parts)
  from c2 obtain "tc_published c2 = tc_published c" "clock c2 = clock c" "ticks c2 = Suc (ticks c)"
    by (rule client_connect_will)
  then show ?thesis using p t by (intro that [of p]) (simp_all add: client_publish_def time_now_def)
qed

lemma test_client_sends:
  assumes "test_client_messages cl cert key c = (Ret cid, c')"
  obtains cf p1 p2 p3 p4 where
    "tc_published c' = tc_published c @ map (Pair (controlWriteTopic cid)) [p1, p2, p3, p4]"
    "marshal_control cl (status_message ''1234'' (clock c (ticks c + 1)) (online_content cf (Some []) (Some []))) = Inr p1"
    "marshal_control cl (status_message ''1235'' (clock c (ticks c + 2))
       (online_content cf update_dispatchers update_tags)) = Inr p2"
    "marshal_control cl (status_message ''1233'' (time_add (clock c (ticks c + 1)) (- ten_seconds))
       (online_content cf (Some []) (Some []))) = Inr p3"
    "marshal_control cl (status_message ''1235'' (clock c (ticks c + 2))
       (online_content cf (Some [(''IGNORE'', [])]) (Some [(''IGNORE'', ''value1'')]))) = Inr p4"
proof -
  obtain cf t c1 t1 c2 c3 where s: "startProducer cl cert key c = (Ret (cid, cf, t), c1)"
    and u: "publish_update cl cid cf c1 = (Ret t1, c2)" and e: "publish_earlier cl cid cf t c2 = (Ret (), c3)"
    and r: "publish_repeat cl cid cf t1 c3 = (Ret (), c')"
    using assms by (auto simp: test_client_messages_def and_then_Ret_iff)
  obtain p1 where p1: "tc_published c1 = tc_published c @ [(controlWriteTopic cid, p1)]"
    "marshal_control cl (status_message ''1234'' t (online_content cf (Some []) (Some []))) = Inr p1"
    "t = clock c (Suc (ticks c))" "clock c1 = clock c" "ticks c1 = Suc (Suc (ticks c))"
    using s by (rule startProducer_messages)
  obtain p2 where p2: "t1 = clock c1 (ticks c1)" "tc_published c2 = tc_published c1 @ [(controlWriteTopic cid, p2)]"
    "marshal_control cl (status_message ''1235'' t1 (online_content cf update_dispatchers update_tags)) = Inr p2"
    using u by (auto simp: publish_update_def and_then_Ret_iff publish_Ret_iff time_now_def client_publish_def)
  obtain p3 where p3: "tc_published c3 = tc_published c2 @ [(controlWriteTopic cid, p3)]"
    "marshal_control cl (status_message ''1233'' (time_add t (- ten_seconds))
       (online_content cf (Some []) (Some []))) = Inr p3"
    using e by (auto simp: publish_earlier_def publish_Ret_iff client_publish_def)
  obtain p4 where p4: "tc_published c' = tc_published c3 @ [(controlWriteTopic cid, p4)]"
    "marshal_control cl (status_message ''1235'' t1
       (online_content cf (Some [(''IGNORE'', [])]) (Some [(''IGNORE'', ''value1'')]))) = Inr p4"
    using r by (auto simp: publish_repeat_def publish_Ret_iff client_publish_def)
  have "t = clock c (ticks c + 1)" "t1 = clock c (ticks c + 2)" using p1 p2(1) by simp_all
  then show ?thesis using p1(2) p2(3) p3(2) p4(2) p1(1) p2(2) p3(1) p4(1)
    by (intro that [of p1 p2 p3 p4 cf]) simp_all
qed

text \<open>The precision of stored times: PostgreSQL keeps microseconds.\<close>

definition keeps_microseconds :: "(time \<Rightarrow> time) \<Rightarrow> bool" where
  "keeps_microseconds ts \<longleftrightarrow> (\<forall>t. \<bar>ts t - t\<bar> < 1000)"

text \<open>The four messages, and how each compares with what the service has stored by then.\<close>

abbreviation first_message :: "CanonicalFacts \<Rightarrow> time \<Rightarrow> ControlMessage" where
  "first_message cf t \<equiv> status_message ''1234'' t (online_content cf (Some []) (Some []))"

abbreviation update_message :: "CanonicalFacts \<Rightarrow> time \<Rightarrow> ControlMessage" where
  "update_message cf t \<equiv> status_message ''1235'' t (online_content cf update_dispatchers update_tags)"

abbreviation earlier_message :: "CanonicalFacts \<Rightarrow> time \<Rightarrow> ControlMessage" where
  "earlier_message cf t \<equiv>
     status_message ''1233'' (time_add t (- ten_seconds)) (online_content cf (Some []) (Some []))"

abbreviation repeat_message :: "CanonicalFacts \<Rightarrow> time \<Rightarrow> ControlMessage" where
  "repeat_message cf t \<equiv> status_message ''1235'' t
     (online_content cf (Some [(''IGNORE'', [])]) (Some [(''IGNORE'', ''value1'')]))"

lemma keeps_microsecondsD: "keeps_microseconds ts \<Longrightarrow> ts t < t + 1000 \<and> t < ts t + 1000"
  unfolding keeps_microseconds_def by (smt (verit))

lemma update_is_new:
  assumes "keeps_microseconds ts" and "t0 + 10000000000 \<le> t1"
  shows "\<not> isDuplicateOrOldMessage (registration ts (online_state cid acc org content facts (first_message cf t0)))
           (update_message cf t1)"
  using keeps_microsecondsD [OF assms(1), of t0] assms(2)
  by (simp add: isDuplicateOrOldMessage_def time_before_def online_state_def status_message_def)

lemma earlier_is_old:
  assumes "keeps_microseconds ts" and "t0 + 10000000000 \<le> t1"
  shows "isDuplicateOrOldMessage (registration ts (online_state cid acc org content facts (update_message cf t1)))
           (earlier_message cf t0)"
  using keeps_microsecondsD [OF assms(1), of t1] assms(2)
  by (simp add: isDuplicateOrOldMessage_def time_before_def online_state_def status_message_def
      time_add_def ten_seconds_def)

lemma repeat_is_old:
  "isDuplicateOrOldMessage (registration ts (online_state cid acc org content facts (update_message cf t)))
     (repeat_message cf t)"
  by (simp add: isDuplicateOrOldMessage_def online_state_def status_message_def)

text \<open>
  C13: The service does with the messages of the test client what its comments ask for. Of
  the four messages it sends, the first registers the client, the update that follows is
  recorded, the message sent before the first one is ignored although it arrives later, and
  so is the repetition of the update's id with other content: in the end the client is
  registered with the dispatchers and tags of the update, and no other client has changed.
\<close>

theorem test_client_scenario:
  fixes w :: "('c, 'a) system_scheme"
  assumes "test_client_messages cl cert key c = (Ret cid, c')"
    and "clock c (ticks c + 1) + 10000000000 \<le> clock c (ticks c + 2)"
    and "codec_ok cl lib" and "MqttTopicPrefix cfg = ''''" and "CHR ''/'' \<notin> set cid"
    and "producer_up b" and "pipeline_inv lib holds cfg w" and "system_up w"
    and "keeps_microseconds (pg_timestamp w)"
    and "conn_view w cid = None" and "tc_published c = []"
  shows "\<exists>b' w' v. fold (relay lib cfg) (tc_published c') (b, w) = (b', w')
     \<and> conn_view w' = (conn_view w)(cid \<mapsto> v)
     \<and> LatestMessageID (cs_MessageMetadata v) = ''1235''
     \<and> cs_Dispatchers v = Dispatchers_json update_dispatchers \<and> cs_Tags v = Tags_json update_tags"
proof -
  let ?H = "http_do w" and ?ts = "pg_timestamp w" and ?t = "clock c (ticks c + 1)" and ?t1 = "clock c (ticks c + 2)"
  obtain cf p1 p2 p3 p4 where
    pub: "tc_published c' = map (Pair (controlWriteTopic cid)) [p1, p2, p3, p4]"
    and m1: "marshal_control cl (first_message cf ?t) = Inr p1"
    and m2: "marshal_control cl (update_message cf ?t1) = Inr p2"
    and m3: "marshal_control cl (earlier_message cf ?t) = Inr p3"
    and m4: "marshal_control cl (repeat_message cf ?t1) = Inr p4"
    using assms(11) by (auto intro: test_client_sends [OF assms(1)])
  have l0: "live_at lib holds cfg ?H w" using assms(7,8) by (simp add: live_at_def pipeline_at_def)
  note cfg = assms(3-5)
  obtain b1 w1 acc1 org1 facts1 where r1: "relay lib cfg (controlWriteTopic cid, p1) (b, w) = (b1, w1)"
    and u1: "producer_up b1" and l1: "live_at lib holds cfg ?H w1" and t1: "pg_timestamp w1 = ?ts"
    and v1: "conn_view w1 = (conn_view w)(cid \<mapsto> registration ?ts (online_state cid acc1 org1
       (status_fields (online_content cf (Some []) (Some []))) facts1 (first_message cf ?t)))"
    by (rule relay_online [OF cfg assms(6) l0 m1]) (use assms(10) in auto)
  have new: "\<forall>v. conn_view w1 cid = Some v \<longrightarrow> \<not> isDuplicateOrOldMessage v (update_message cf ?t1)"
    using update_is_new [OF assms(9,2)] by (simp add: v1)
  obtain b2 w2 acc2 org2 facts2 where r2: "relay lib cfg (controlWriteTopic cid, p2) (b1, w1) = (b2, w2)"
    and u2: "producer_up b2" and l2: "live_at lib holds cfg ?H w2"
    and v2: "conn_view w2 = (conn_view w1)(cid \<mapsto> registration (pg_timestamp w1) (online_state cid acc2 org2
       (status_fields (online_content cf update_dispatchers update_tags)) facts2 (update_message cf ?t1)))"
    by (rule relay_online [OF cfg u1 l1 m2 new])
  let ?v = "registration ?ts (online_state cid acc2 org2
      (status_fields (online_content cf update_dispatchers update_tags)) facts2 (update_message cf ?t1))"
  have v2': "conn_view w2 cid = Some ?v" by (simp add: v2 t1)
  obtain b3 w3 where r3: "relay lib cfg (controlWriteTopic cid, p3) (b2, w2) = (b3, w3)"
    and u3: "producer_up b3" and l3: "live_at lib holds cfg ?H w3" and v3: "conn_view w3 = conn_view w2"
    by (rule relay_old [OF cfg u2 l2 m3 v2' earlier_is_old [OF assms(9,2)]])
  obtain b4 w4 where r4: "relay lib cfg (controlWriteTopic cid, p4) (b3, w3) = (b4, w4)"
    and v4: "conn_view w4 = conn_view w3"
    by (rule relay_old [OF cfg u3 l3 m4 v2' [folded v3] repeat_is_old])
  have "conn_view w4 = (conn_view w)(cid \<mapsto> ?v)" by (simp add: v4 v3 v2 v1 t1)
  moreover have "fold (relay lib cfg) (tc_published c') (b, w) = (b4, w4)" by (simp add: pub r1 r2 r3 r4)
  ultimately show ?thesis
    by (intro exI [of _ b4] exI [of _ w4] exI [of _ ?v])
      (simp add: online_state_def status_message_def status_fields_def online_content_def index_map_def)
qed

section \<open>Witnesses\<close>

text \<open>An encoding of finitely many messages by names that a table gives.\<close>

definition table_marshal :: "('m \<times> string) list \<Rightarrow> 'm \<Rightarrow> error + string" where
  "table_marshal tbl m = (case map_of tbl m of None \<Rightarrow> Inl (ErrorString ''unknown'') | Some p \<Rightarrow> Inr p)"

definition table_unmarshal :: "('m \<times> string) list \<Rightarrow> string \<Rightarrow> error + 'm" where
  "table_unmarshal tbl p =
     (case map_of (map prod.swap tbl) p of None \<Rightarrow> Inl (ErrorString ''unknown'') | Some m \<Rightarrow> Inr m)"

lemma table_codec:
  assumes "distinct (map snd tbl)" and "'''' \<notin> snd ` set tbl"
    and "marshal_control cl = table_marshal tbl" and "lib_control lib = table_unmarshal tbl"
  shows "codec_ok cl lib"
proof -
  have "p \<noteq> '''' \<and> map_of (map prod.swap tbl) p = Some m" if "map_of tbl m = Some p" for m p
  proof -
    have "distinct (map fst (map prod.swap tbl))" using assms(1) by (simp add: comp_def)
    moreover have "(p, m) \<in> set (map prod.swap tbl)" using map_of_SomeD [OF that] by force
    ultimately have "map_of (map prod.swap tbl) p = Some m" by (rule map_of_is_SomeI)
    then show ?thesis using map_of_SomeD [OF that] assms(2) by force
  qed
  then show ?thesis
    using assms(3,4) by (auto simp: codec_ok_def table_marshal_def table_unmarshal_def split: option.splits)
qed

lemma status_message_eq_iff:
  "status_message i t c = status_message i' t' c' \<longleftrightarrow> i = i' \<and> t = t' \<and> status_fields c = status_fields c'"
  by (simp add: status_message_def)

text \<open>The client c1, whose clock advances by ten seconds with every reading.\<close>

definition example_test_client :: test_client where
  "example_test_client =
     \<lparr>clock = (\<lambda>n. 10000000000 * int n), ticks = 0, uuid_source = (\<lambda>n. Inr ''u''), uuids = 0,
      tc_connect_fault = None, tc_subscribe_fault = (\<lambda>n. None), tc_subscriptions = [],
      tc_will = None, tc_published = []\<rparr>"

definition example_facts :: CanonicalFacts where
  "example_facts = fst (test_facts example_test_client)"

definition example_messages :: "(ControlMessage \<times> string) list" where
  "example_messages =
     [(status_message ''5678'' 0 offline_content, ''will''),
      (status_message ''1234'' 10000000000 (online_content example_facts (Some []) (Some [])), ''first''),
      (status_message ''1233'' 0 (online_content example_facts (Some []) (Some [])), ''earlier''),
      (status_message ''1235'' 20000000000 (online_content example_facts update_dispatchers update_tags), ''update''),
      (status_message ''1235'' 20000000000
         (online_content example_facts (Some [(''IGNORE'', [])]) (Some [(''IGNORE'', ''value1'')])), ''repeat'')]"

definition example_client_libs :: client_libs where
  "example_client_libs =
     \<lparr>LoadX509KeyPair = (\<lambda>c k. Inr [''cert'']), certificate_CommonName = (\<lambda>c. Inr ''c1''),
      marshal_control = table_marshal example_messages, unmarshal_control = table_unmarshal example_messages,
      marshal_event = (\<lambda>e. Inl (ErrorString ''no events''))\<rparr>"

definition example_service :: "((ClientID \<times> cachedResult) list) libraries" where
  "example_service = example_lib\<lparr>lib_control := table_unmarshal example_messages\<rparr>"

lemma example_codec: "codec_ok example_client_libs example_service"
  by (rule table_codec [of example_messages])
    (simp_all add: example_messages_def example_client_libs_def example_service_def)

lemma example_service_inv: "pipeline_inv example_service example_holds example_config example_empty"
  using example_inv(1) by (simp add: pipeline_inv_def example_service_def)

lemma example_other_fields:
  "status_fields (online_content cf update_dispatchers update_tags)
     \<noteq> status_fields (online_content cf' (Some [(''IGNORE'', [])]) (Some [(''IGNORE'', ''value1'')]))"
  by (simp add: status_fields_def online_content_def update_tags_def Tags_json_def strings_json_def)

lemma example_facts_any:
  "uuid_source c = uuid_source example_test_client \<Longrightarrow> fst (test_facts c) = example_facts"
  by (simp add: example_facts_def test_facts_def generateUUID_def new_uuid_def split_beta example_test_client_def)

lemma example_marshal:
  "marshal_control example_client_libs (status_message ''5678'' 0 offline_content) = Inr ''will''"
  "marshal_control example_client_libs
     (status_message ''1234'' 10000000000 (online_content example_facts (Some []) (Some []))) = Inr ''first''"
  "marshal_control example_client_libs
     (status_message ''1233'' 0 (online_content example_facts (Some []) (Some []))) = Inr ''earlier''"
  "marshal_control example_client_libs
     (status_message ''1235'' 20000000000 (online_content example_facts update_dispatchers update_tags)) = Inr ''update''"
  "marshal_control example_client_libs (status_message ''1235'' 20000000000
     (online_content example_facts (Some [(''IGNORE'', [])]) (Some [(''IGNORE'', ''value1'')]))) = Inr ''repeat''"
  by (simp_all add: example_client_libs_def table_marshal_def example_messages_def status_message_eq_iff
      example_other_fields [symmetric] example_other_fields)


lemma example_test_client_simps [simp]:
  "clock example_test_client = (\<lambda>n. 10000000000 * int n)" "ticks example_test_client = 0"
  "uuid_source example_test_client = (\<lambda>n. Inr ''u'')" "uuids example_test_client = 0"
  "tc_connect_fault example_test_client = None" "tc_subscribe_fault example_test_client = (\<lambda>n. None)"
  "tc_subscriptions example_test_client = []" "tc_published example_test_client = []"
  by (simp_all add: example_test_client_def)

lemma example_start:
  "startProducer example_client_libs cert key example_test_client
     = (Ret (''c1'', example_facts, 10000000000),
        example_test_client\<lparr>ticks := Suc (Suc 0), uuids := 4,
          tc_subscriptions := [controlReadTopic ''c1'', dataReadTopic ''c1''],
          tc_will := Some (controlWriteTopic ''c1'', ''will''),
          tc_published := [(controlWriteTopic ''c1'', ''first'')]\<rparr>)"
proof -
  let ?c = "example_test_client\<lparr>ticks := Suc 0,
      tc_subscriptions := [controlReadTopic ''c1'', dataReadTopic ''c1''],
      tc_will := Some (controlWriteTopic ''c1'', ''will'')\<rparr>"
  have "client_connect example_client_libs ''c1'' ''5678'' example_test_client = (Ret (), ?c)"
    using example_marshal(1) by (simp add: client_connect_def time_now_def client_subscribe_def)
  moreover have "test_facts (?c\<lparr>ticks := Suc (Suc 0)\<rparr>) = (example_facts, ?c\<lparr>ticks := Suc (Suc 0), uuids := 4\<rparr>)"
    using example_facts_any [of "?c\<lparr>ticks := Suc (Suc 0)\<rparr>"]
    by (simp add: test_facts_def generateUUID_def new_uuid_def split_beta)
  moreover have "NewTLSConfig example_client_libs cert key
      = Ret (\<lparr>tls_MinVersion = 0, tls_Certificates = [''cert''], tls_RootCAs = None,
                     tls_InsecureSkipVerify = True\<rparr>, ''c1'')"
    by (simp add: NewTLSConfig_def example_client_libs_def)
  ultimately show ?thesis
    using example_marshal(2)
    by (simp add: startProducer_def time_now_def publishConnectionStatusMessage_def client_publish_def)
qed

lemma example_run:
  "fst (test_client_messages example_client_libs cert key example_test_client) = Ret ''c1''"
  using example_marshal(3-5)
  by (simp add: test_client_messages_def example_start publish_update_def publish_earlier_def
      publish_repeat_def publishConnectionStatusMessage_def time_now_def time_add_def ten_seconds_def
      client_publish_def)

theorem test_client_scenario_witness:
  "\<exists>b' w' v. fold (relay example_service example_config)
       (tc_published (snd (test_client_messages example_client_libs ''cert'' ''key'' example_test_client)))
       (example_bridge, example_empty) = (b', w')
     \<and> conn_view w' = [''c1'' \<mapsto> v] \<and> LatestMessageID (cs_MessageMetadata v) = ''1235''
     \<and> cs_Dispatchers v = Dispatchers_json update_dispatchers \<and> cs_Tags v = Tags_json update_tags"
proof -
  have run: "test_client_messages example_client_libs ''cert'' ''key'' example_test_client
      = (Ret ''c1'', snd (test_client_messages example_client_libs ''cert'' ''key'' example_test_client))"
    by (rule prod_eqI) (simp_all add: example_run)
  have empty: "conn_view example_empty = Map.empty" by (rule ext) (rule example_views)
  have us: "keeps_microseconds (pg_timestamp example_empty)"
    unfolding keeps_microseconds_def example_empty_def example_system_def
    by (simp add: minus_mod_eq_div_mult [symmetric])
  have "producer_up example_bridge" by (simp add: producer_up_def example_bridge_def)
  then show ?thesis
    using test_client_scenario [OF run _ example_codec _ _ _ example_service_inv example_up(1) us, of example_bridge]
    by (simp add: empty example_config_def zero_Config_def)
qed


end
