(* ===== verification/Db_Schema.thy ===== *)
theory Db_Schema
  imports Connection_Maintenance Platform_Setup
begin

text \<open>
  Tables, the types of their columns and the statements that change them, as far as the
  migrations of the database use them. Statements on the schema keep the rows well typed, and
  they succeed together when they do so on the columns and on each row.
\<close>

section \<open>Tables and values\<close>

datatype sql_type = Serial | Varchar nat | Jsonb | Timestamptz | Int4

datatype sql_value = NULL | VText string | VJson json | VTime time | VInt int

datatype sql_default = NoDefault | DefaultNextval | DefaultNow | DefaultValue sql_value

record column =
  col_type :: sql_type
  col_not_null :: bool
  col_default :: sql_default

text \<open>The columns in their order, and rows with one value for each of them.\<close>

type_synonym columns = "(string \<times> column) list"
type_synonym sql_row = "(string \<times> sql_value) list"

record database =
  db_table :: "(columns \<times> sql_row list) option"
  db_indexes :: "(string \<times> string) list"

text \<open>
  What a column can hold. PostgreSQL counts the characters of a varchar, of which there are
  at most as many as bytes; integers have 32 bits.
\<close>

fun fits_type :: "sql_type \<Rightarrow> sql_value \<Rightarrow> bool" where
  "fits_type t NULL = True"
| "fits_type (Varchar n) (VText s) = (length s \<le> n)"
| "fits_type Jsonb (VJson j) = True"
| "fits_type Timestamptz (VTime t) = True"
| "fits_type Int4 (VInt i) = (- (2 ^ 31) \<le> i \<and> i < 2 ^ 31)"
| "fits_type Serial (VInt i) = (- (2 ^ 31) \<le> i \<and> i < 2 ^ 31)"
| "fits_type _ _ = False"

definition fits :: "column \<Rightarrow> sql_value \<Rightarrow> bool" where
  "fits c v \<longleftrightarrow> fits_type (col_type c) v \<and> (col_not_null c \<longrightarrow> v \<noteq> NULL)"

definition row_typed :: "columns \<Rightarrow> sql_row \<Rightarrow> bool" where
  "row_typed cols r \<longleftrightarrow> list_all2 (\<lambda>(n, c) (m, v). n = m \<and> fits c v) cols r"

definition column_default :: "time \<Rightarrow> nat \<Rightarrow> column \<Rightarrow> sql_value" where
  "column_default now i c =
     (case col_default c of
        NoDefault \<Rightarrow> NULL
      | DefaultNextval \<Rightarrow> VInt (int i)
      | DefaultNow \<Rightarrow> VTime now
      | DefaultValue v \<Rightarrow> v)"

section \<open>Statements on the schema\<close>

text \<open>The flag of the last four is \<^verbatim>\<open>IF EXISTS\<close> or \<^verbatim>\<open>IF NOT EXISTS\<close>.\<close>

datatype ddl =
    CREATE_TABLE columns
  | DROP_TABLE
  | ADD_COLUMN string column
  | SET_NOT_NULL string
  | DROP_NOT_NULL string
  | DROP_COLUMN bool string
  | CREATE_INDEX bool string string
  | DROP_INDEX bool string

definition set_not_null :: "bool \<Rightarrow> string \<Rightarrow> columns \<Rightarrow> columns" where
  "set_not_null b n = map (\<lambda>(m, c). (m, if m = n then c\<lparr>col_not_null := b\<rparr> else c))"

definition without :: "string \<Rightarrow> (string \<times> 'v) list \<Rightarrow> (string \<times> 'v) list" where
  "without n = filter (\<lambda>(m, v). m \<noteq> n)"

text \<open>
  What a statement does to the columns, to each row and to the indexes; \<open>None\<close> is an error.
  A table is dropped with its indexes, and a column with those on it.
\<close>

fun alter_columns :: "ddl \<Rightarrow> columns option \<Rightarrow> columns option option" where
  "alter_columns (CREATE_TABLE cols) None = Some (Some cols)"
| "alter_columns (CREATE_TABLE cols) (Some _) = None"
| "alter_columns DROP_TABLE _ = Some None"
| "alter_columns (DROP_INDEX e i) t = Some t"
| "alter_columns _ None = None"
| "alter_columns (ADD_COLUMN n c) (Some cols) = (if n \<in> fst ` set cols then None else Some (Some (cols @ [(n, c)])))"
| "alter_columns (SET_NOT_NULL n) (Some cols) =
     (if n \<in> fst ` set cols then Some (Some (set_not_null True n cols)) else None)"
| "alter_columns (DROP_NOT_NULL n) (Some cols) =
     (if n \<in> fst ` set cols then Some (Some (set_not_null False n cols)) else None)"
| "alter_columns (DROP_COLUMN e n) (Some cols) =
     (if n \<in> fst ` set cols then Some (Some (without n cols)) else if e then Some (Some cols) else None)"
| "alter_columns (CREATE_INDEX e i n) (Some cols) = (if n \<in> fst ` set cols then Some (Some cols) else None)"

fun alter_row :: "time \<Rightarrow> ddl \<Rightarrow> sql_row \<Rightarrow> sql_row option" where
  "alter_row now (ADD_COLUMN n c) r =
     (let v = column_default now 0 c in if fits c v then Some (r @ [(n, v)]) else None)"
| "alter_row now (SET_NOT_NULL n) r = (if map_of r n = Some NULL then None else Some r)"
| "alter_row now (DROP_COLUMN e n) r = Some (without n r)"
| "alter_row now _ r = Some r"

fun alter_indexes :: "ddl \<Rightarrow> (string \<times> string) list \<Rightarrow> (string \<times> string) list option" where
  "alter_indexes DROP_TABLE ix = Some []"
| "alter_indexes (DROP_COLUMN e n) ix = Some (filter (\<lambda>(i, m). m \<noteq> n) ix)"
| "alter_indexes (CREATE_INDEX e i n) ix =
     (if i \<in> fst ` set ix then if e then Some ix else None else Some (ix @ [(i, n)]))"
| "alter_indexes (DROP_INDEX e i) ix =
     (if i \<in> fst ` set ix then Some (without i ix) else if e then Some ix else None)"
| "alter_indexes _ ix = Some ix"

fun plan :: "ddl \<Rightarrow> columns option \<times> (string \<times> string) list \<Rightarrow> (columns option \<times> (string \<times> string) list) option" where
  "plan stmt (cols, ix) =
     Option.bind (alter_columns stmt cols) (\<lambda>cols'.
     Option.bind (alter_indexes stmt ix) (\<lambda>ix'. Some (cols', ix')))"

definition db_schema :: "'a database_scheme \<Rightarrow> columns option \<times> (string \<times> string) list" where
  "db_schema d = (map_option fst (db_table d), db_indexes d)"

definition db_rows :: "'a database_scheme \<Rightarrow> sql_row list" where
  "db_rows d = (case db_table d of None \<Rightarrow> [] | Some (cols, rs) \<Rightarrow> rs)"

definition exec_ddl :: "time \<Rightarrow> ddl \<Rightarrow> 'a database_scheme \<Rightarrow> 'a database_scheme option" where
  "exec_ddl now stmt d =
     Option.bind (plan stmt (db_schema d)) (\<lambda>(cols, ix).
     Option.bind (those (map (alter_row now stmt) (db_rows d))) (\<lambda>rs.
       Some (d\<lparr>db_table := map_option (\<lambda>c. (c, rs)) cols, db_indexes := ix\<rparr>)))"

text \<open>Several statements, each with the time that \<^verbatim>\<open>NOW()\<close> has in its transaction.\<close>

fun plan_all :: "ddl list \<Rightarrow> columns option \<times> (string \<times> string) list \<Rightarrow> (columns option \<times> (string \<times> string) list) option" where
  "plan_all [] s = Some s"
| "plan_all (stmt # stmts) s = Option.bind (plan stmt s) (plan_all stmts)"

fun exec_all :: "(time \<times> ddl) list \<Rightarrow> 'a database_scheme \<Rightarrow> 'a database_scheme option" where
  "exec_all [] d = Some d"
| "exec_all ((now, stmt) # stmts) d = Option.bind (exec_ddl now stmt d) (exec_all stmts)"

fun row_all :: "(time \<times> ddl) list \<Rightarrow> sql_row \<Rightarrow> sql_row option" where
  "row_all [] r = Some r"
| "row_all ((now, stmt) # stmts) r = Option.bind (alter_row now stmt r) (row_all stmts)"

section \<open>Statements keep the types\<close>

definition table_typed :: "'a database_scheme \<Rightarrow> bool" where
  "table_typed d \<longleftrightarrow>
     (case db_table d of None \<Rightarrow> True | Some (cols, rs) \<Rightarrow> distinct (map fst cols) \<and> (\<forall>r\<in>set rs. row_typed cols r))"

lemma row_typed_names: "row_typed cols r \<Longrightarrow> map fst r = map fst cols"
  unfolding row_typed_def by (induction cols r rule: list_all2_induct) auto

lemma row_typed_append:
  "row_typed (cols @ [(n, c)]) (r @ [(n, v)]) \<longleftrightarrow> row_typed cols r \<and> fits c v"
proof (cases "length cols = length r")
  case True
  then show ?thesis by (simp add: row_typed_def list_all2_append)
next
  case False
  then have "\<not> row_typed cols r" "\<not> row_typed (cols @ [(n, c)]) (r @ [(n, v)])"
    by (auto simp: row_typed_def dest: list_all2_lengthD)
  then show ?thesis by simp
qed

lemma row_typed_without: "row_typed cols r \<Longrightarrow> row_typed (without n cols) (without n r)"
  unfolding row_typed_def without_def by (induction cols r rule: list_all2_induct) auto

lemma without_absent: "n \<notin> fst ` set xs \<Longrightarrow> without n xs = xs"
  unfolding without_def by (induction xs) auto

lemma row_typed_set_not_null:
  assumes "row_typed cols r" and "distinct (map fst cols)" and "b \<Longrightarrow> map_of r n \<noteq> Some NULL"
  shows "row_typed (set_not_null b n cols) r"
proof -
  have "distinct (map fst r)" using assms(1,2) by (simp add: row_typed_names)
  then have "b \<Longrightarrow> (n, NULL) \<notin> set r" using assms(3) by (auto dest: map_of_is_SomeI)
  with assms(1) show ?thesis
    unfolding row_typed_def set_not_null_def
    by (induction cols r rule: list_all2_induct) (auto simp: fits_def split: if_splits)
qed

lemma set_not_null_names [simp]: "map fst (set_not_null b n cols) = map fst cols"
  by (simp add: set_not_null_def comp_def split_beta)

lemma without_names: "distinct (map fst xs) \<Longrightarrow> distinct (map fst (without n xs))"
  unfolding without_def by (rule distinct_map_filter)

text \<open>No statement on the schema ever leaves a row that its columns do not admit.\<close>

lemma alter_row_typed:
  assumes "row_typed cols r" and "distinct (map fst cols)"
    and "alter_columns stmt (Some cols) = Some (Some cols')" and "alter_row now stmt r = Some r'"
  shows "row_typed cols' r'"
proof -
  have "fst ` set r = fst ` set cols" using row_typed_names [OF assms(1)] by (metis set_map)
  then show ?thesis
    using assms
    by (cases stmt)
      (auto simp: row_typed_append row_typed_without row_typed_set_not_null without_absent Let_def
        split: if_splits)
qed

lemma alter_columns_distinct:
  "alter_columns stmt (Some cols) = Some (Some cols') \<Longrightarrow> distinct (map fst cols) \<Longrightarrow> distinct (map fst cols')"
  by (cases stmt) (auto simp: without_names split: if_splits)

lemma those_Some_iff: "those (map f xs) = Some ys \<longleftrightarrow> list_all2 (\<lambda>x y. f x = Some y) xs ys"
proof (induction xs arbitrary: ys)
  case (Cons x xs)
  then show ?case by (cases "f x") (auto simp: list_all2_Cons1)
qed auto

lemma list_all2_source: "list_all2 P xs ys \<Longrightarrow> y \<in> set ys \<Longrightarrow> \<exists>x\<in>set xs. P x y"
  by (induction rule: list_all2_induct) auto

lemma exec_ddl_table:
  assumes "exec_ddl now stmt d = Some d'" and "db_table d = Some (cols, rs)" and "db_table d' = Some (cols', rs')"
  shows "alter_columns stmt (Some cols) = Some (Some cols')"
    and "list_all2 (\<lambda>r r'. alter_row now stmt r = Some r') rs rs'"
  using assms by (auto simp: exec_ddl_def those_Some_iff bind_eq_Some_conv db_schema_def db_rows_def)

lemma exec_ddl_created:
  assumes "exec_ddl now stmt d = Some d'" and "db_table d = None" and "db_table d' = Some (cols, rs)"
  shows "stmt = CREATE_TABLE cols \<and> rs = []"
  using assms
  by (cases stmt) (auto simp: exec_ddl_def those_Some_iff bind_eq_Some_conv db_schema_def db_rows_def)

lemma exec_ddl_typed:
  assumes "table_typed d" and "exec_ddl now stmt d = Some d'"
    and "\<And>cols. stmt = CREATE_TABLE cols \<Longrightarrow> distinct (map fst cols)"
  shows "table_typed d'"
proof (cases "db_table d'")
  case None
  then show ?thesis by (simp add: table_typed_def)
next
  case (Some t')
  then obtain cols' rs' where t': "db_table d' = Some (cols', rs')" by (cases t') auto
  show ?thesis
  proof (cases "db_table d")
    case None
    then show ?thesis using exec_ddl_created [OF assms(2) None t'] assms(3) t' by (simp add: table_typed_def)
  next
    case (Some t)
    then obtain cols rs where t: "db_table d = Some (cols, rs)" by (cases t) auto
    note ex = exec_ddl_table [OF assms(2) t t']
    have "row_typed cols' r'" if "r' \<in> set rs'" for r'
      using list_all2_source [OF ex(2) that] alter_row_typed [OF _ _ ex(1)] assms(1) t
      by (auto simp: table_typed_def)
    then show ?thesis using t t' ex(1) assms(1) by (auto simp: table_typed_def dest: alter_columns_distinct)
  qed
qed

lemma exec_all_typed:
  assumes "table_typed d" and "exec_all stmts d = Some d'"
    and "\<And>now cols. (now, CREATE_TABLE cols) \<in> set stmts \<Longrightarrow> distinct (map fst cols)"
  shows "table_typed d'"
  using assms
proof (induction stmts arbitrary: d)
  case (Cons p stmts)
  obtain now stmt where p: "p = (now, stmt)" by (cases p)
  obtain d1 where d1: "exec_ddl now stmt d = Some d1" "exec_all stmts d1 = Some d'"
    using Cons.prems(2) p by (auto simp: bind_eq_Some_conv)
  have "table_typed d1" using exec_ddl_typed [OF Cons.prems(1) d1(1)] Cons.prems(3) p by auto
  then show ?case using Cons.IH d1(2) Cons.prems(3) by auto
qed simp

section \<open>When the statements succeed\<close>

lemma list_all2_mono_set:
  "list_all2 P xs ys \<Longrightarrow> (\<And>x y. x \<in> set xs \<Longrightarrow> P x y \<Longrightarrow> Q x y) \<Longrightarrow> list_all2 Q xs ys"
  by (induction rule: list_all2_induct) auto

text \<open>A list of statements succeeds when it does so on the columns and indexes and on each row.\<close>

lemma plan_all_append: "plan_all (xs @ ys) s = Option.bind (plan_all xs s) (plan_all ys)"
  by (induction xs arbitrary: s) (auto split: bind_splits)

lemma exec_all_ok:
  assumes "plan_all (map snd stmts) (db_schema d) = Some s" and "DROP_TABLE \<notin> set (map snd stmts)"
    and "\<forall>r\<in>set (db_rows d). row_all stmts r \<noteq> None"
  shows "\<exists>d'. exec_all stmts d = Some d' \<and> db_schema d' = s
     \<and> list_all2 (\<lambda>r r'. row_all stmts r = Some r') (db_rows d) (db_rows d')
     \<and> database.more d' = database.more d"
  using assms
proof (induction stmts arbitrary: d)
  case Nil
  then show ?case by (simp add: list_all2_refl)
next
  case (Cons p stmts)
  obtain now stmt where p: "p = (now, stmt)" by (cases p)
  obtain s1 where s1: "plan stmt (db_schema d) = Some s1" "plan_all (map snd stmts) s1 = Some s"
    using Cons.prems(1) p by (auto simp: bind_eq_Some_conv)
  obtain cols ix where s1': "s1 = (cols, ix)" by (cases s1)
  define rs where "rs = map (the \<circ> alter_row now stmt) (db_rows d)"
  have ok: "row_all (p # stmts) r \<noteq> None" if "r \<in> set (db_rows d)" for r
    using Cons.prems(3) that by blast
  have some: "alter_row now stmt r = Some (the (alter_row now stmt r))" if "r \<in> set (db_rows d)" for r
    using ok [OF that] p by (cases "alter_row now stmt r") simp_all
  have rest: "row_all stmts (the (alter_row now stmt r)) = row_all (p # stmts) r" if "r \<in> set (db_rows d)" for r
    using ok [OF that] p by (cases "alter_row now stmt r") simp_all
  have th: "those (map (alter_row now stmt) (db_rows d)) = Some rs"
    unfolding those_Some_iff rs_def list_all2_map2 list_all2_same comp_apply by (rule ballI) (rule some)
  define d1 where "d1 = d\<lparr>db_table := map_option (\<lambda>c. (c, rs)) cols, db_indexes := ix\<rparr>"
  have ex: "exec_ddl now stmt d = Some d1" by (simp add: exec_ddl_def s1(1) s1' th d1_def)
  have "cols = None \<Longrightarrow> db_rows d = []"
    using s1(1) Cons.prems(2) s1' p
    by (cases stmt; cases "db_table d") (auto simp: db_schema_def db_rows_def bind_eq_Some_conv split: if_splits)
  then have rows: "db_rows d1 = rs" and "db_schema d1 = s1"
    by (auto simp: d1_def db_rows_def db_schema_def s1' rs_def option.map_comp comp_def option.map_ident
        split: option.splits)
  moreover have "\<forall>r\<in>set (db_rows d1). row_all stmts r \<noteq> None" using ok rest by (auto simp: rows rs_def)
  ultimately obtain d' where d': "exec_all stmts d1 = Some d'" "db_schema d' = s"
      "list_all2 (\<lambda>r r'. row_all stmts r = Some r') rs (db_rows d')" "database.more d' = database.more d1"
    using Cons.IH [of d1] s1(2) Cons.prems(2) by fastforce
  have "list_all2 (\<lambda>r r'. row_all (p # stmts) r = Some r') (db_rows d) (db_rows d')"
    using d'(3) unfolding rs_def list_all2_map1 by (rule list_all2_mono_set) (simp only: comp_apply rest)
  moreover have "exec_all (p # stmts) d = Some d'" using ex d'(1) p by simp
  moreover have "database.more d' = database.more d" using d'(4) by (simp add: d1_def)
  ultimately show ?case using d'(2) by (intro exI [of _ d'] conjI)
qed

text \<open>
  A row is altered without an error when the new columns have a default, or can be null, and
  the columns that may not be null any more have a value in it.
\<close>

lemma map_of_without: "map_of (without n r) m = (if m = n then None else map_of r m)"
  unfolding without_def by (induction r) auto

lemma alter_row_lookup:
  assumes "alter_row now stmt r = Some r'" and "\<forall>c. stmt \<noteq> ADD_COLUMN n c"
  shows "map_of r' n = map_of r n \<or> (map_of r' n = None \<and> (\<exists>e. stmt = DROP_COLUMN e n))"
  using assms by (cases stmt) (auto simp: Let_def map_of_without map_add_def split: if_splits option.splits)

lemma row_all_ok:
  assumes "\<forall>t n c. (t, ADD_COLUMN n c) \<in> set stmts \<longrightarrow> fits c (column_default t 0 c)"
    and "\<forall>t n. (t, SET_NOT_NULL n) \<in> set stmts \<longrightarrow>
           map_of r n \<noteq> Some NULL \<and> (\<forall>t c. (t, ADD_COLUMN n c) \<notin> set stmts)"
  shows "row_all stmts r \<noteq> None"
  using assms
proof (induction stmts arbitrary: r)
  case (Cons p stmts)
  obtain now stmt where p: "p = (now, stmt)" by (cases p)
  have "alter_row now stmt r \<noteq> None"
    using Cons.prems p by (cases stmt) (auto simp: Let_def)
  then obtain r1 where r1: "alter_row now stmt r = Some r1" by blast
  have r1': "map_of r1 n \<noteq> Some NULL" if "(t, SET_NOT_NULL n) \<in> set stmts" for t n
  proof -
    have n: "map_of r n \<noteq> Some NULL" "\<forall>c. stmt \<noteq> ADD_COLUMN n c" using Cons.prems(2) that p by fastforce+
    show ?thesis using alter_row_lookup [OF r1 n(2)] n(1) by auto
  qed
  have "row_all stmts r1 \<noteq> None"
    using Cons.prems r1' by (intro Cons.IH allI impI conjI) (meson list.set_intros(2))+
  then show ?case using r1 p by simp
qed simp

lemma row_all_keeps:
  assumes "row_all stmts r = Some r'" and "map_of r n = Some v"
    and "\<And>t e. (t, DROP_COLUMN e n) \<notin> set stmts"
  shows "map_of r' n = Some v"
  using assms
proof (induction stmts arbitrary: r)
  case (Cons p stmts)
  obtain now stmt where p: "p = (now, stmt)" by (cases p)
  obtain r1 where r1: "alter_row now stmt r = Some r1" "row_all stmts r1 = Some r'"
    using Cons.prems(1) p by (auto simp: bind_eq_Some_conv)
  have "map_of r1 n = Some v"
  proof (cases stmt)
    case (DROP_COLUMN e m)
    then have "m \<noteq> n" using Cons.prems(3) [of now e] p by auto
    then show ?thesis using DROP_COLUMN r1(1) Cons.prems(2) by (auto simp: map_of_without)
  qed (use r1(1) Cons.prems(2) in \<open>auto simp: Let_def split: if_splits\<close>)
  then show ?case using Cons.IH [OF r1(2)] Cons.prems(3) by auto
qed simp

end
