(* ===== verification/Db_Migrations.thy ===== *)
theory Db_Migrations
  imports Db_Schema
begin

text \<open>
  The schema of the database as the migrations build it (\<^verbatim>\<open>db/migrations\<close>), the tools that
  run and inspect them (\<^verbatim>\<open>cmd/migrate_db\<close>, \<^verbatim>\<open>cmd/stage_db_fixer\<close>, \<^verbatim>\<open>cmd/db_schema_dumper\<close>),
  and the types of the rows that the other theories write: the record \<open>row\<close> is what the
  last migration leaves, and its defaults are those of the schema.
\<close>

section \<open>The migrations\<close>

record migration =
  mig_version :: nat
  mig_up :: "ddl list"
  mig_down :: "ddl list"

definition col :: "sql_type \<Rightarrow> column" where
  "col t = \<lparr>col_type = t, col_not_null = False, col_default = NoDefault\<rparr>"

definition not_null :: "column \<Rightarrow> column" where
  "not_null c = c\<lparr>col_not_null := True\<rparr>"

definition with_default :: "sql_default \<Rightarrow> column \<Rightarrow> column" where
  "with_default v c = c\<lparr>col_default := v\<rparr>"

definition create_connections_table :: migration where
  "create_connections_table =
     \<lparr>mig_version = 1,
      mig_up = [CREATE_TABLE
        [(''id'', not_null (with_default DefaultNextval (col Serial))),
         (''account'', not_null (col (Varchar 10))),
         (''client_id'', not_null (col (Varchar 100))),
         (''dispatchers'', not_null (with_default (DefaultValue (VJson (JObj []))) (col Jsonb))),
         (''created_at'', not_null (with_default DefaultNow (col Timestamptz))),
         (''updated_at'', not_null (with_default DefaultNow (col Timestamptz)))]],
      mig_down = [DROP_TABLE]\<rparr>"

definition add_canonical_facts_and_stale_timestamp :: migration where
  "add_canonical_facts_and_stale_timestamp =
     \<lparr>mig_version = 2,
      mig_up = [ADD_COLUMN ''canonical_facts''
                  (not_null (with_default (DefaultValue (VJson (JObj []))) (col Jsonb))),
                CREATE_INDEX False ''idx_canonical_facts_gin'' ''canonical_facts'',
                ADD_COLUMN ''stale_timestamp'' (not_null (with_default DefaultNow (col Timestamptz)))],
      mig_down = [DROP_INDEX False ''idx_canonical_facts_gin'', DROP_COLUMN False ''canonical_facts'',
                  DROP_COLUMN False ''stale_timestamp'']\<rparr>"

definition add_tags_column :: migration where
  "add_tags_column =
     \<lparr>mig_version = 3,
      mig_up = [ADD_COLUMN ''tags'' (col Jsonb), CREATE_INDEX False ''idx_tags_gin'' ''tags''],
      mig_down = [DROP_INDEX False ''idx_tags_gin'', DROP_COLUMN False ''tags'']\<rparr>"

definition add_message_id_and_message_sent_column :: migration where
  "add_message_id_and_message_sent_column =
     \<lparr>mig_version = 4,
      mig_up = [ADD_COLUMN ''message_id'' (col (Varchar 40)),
                ADD_COLUMN ''message_sent'' (not_null (with_default DefaultNow (col Timestamptz)))],
      mig_down = [DROP_COLUMN True ''message_id'', DROP_COLUMN True ''message_sent'']\<rparr>"

definition add_org_id_column :: migration where
  "add_org_id_column =
     \<lparr>mig_version = 5,
      mig_up = [ADD_COLUMN ''org_id'' (col (Varchar 20)), CREATE_INDEX False ''idx_org_id'' ''org_id''],
      mig_down = [DROP_COLUMN True ''org_id'']\<rparr>"

definition add_permitted_accounts_column :: migration where
  "add_permitted_accounts_column =
     \<lparr>mig_version = 6,
      mig_up = [ADD_COLUMN ''permitted_tenants''
                  (not_null (with_default (DefaultValue (VJson (JArr []))) (col Jsonb))),
                CREATE_INDEX False ''idx_permitted_tenants_gin'' ''permitted_tenants''],
      mig_down = [DROP_INDEX False ''idx_permitted_tenants_gin'', DROP_COLUMN False ''permitted_tenants'']\<rparr>"

definition alter_account_and_org_id_null :: migration where
  "alter_account_and_org_id_null =
     \<lparr>mig_version = 7,
      mig_up = [SET_NOT_NULL ''org_id'', DROP_NOT_NULL ''account''],
      mig_down = [DROP_NOT_NULL ''org_id'', SET_NOT_NULL ''account'']\<rparr>"

definition drop_permitted_tenants_column :: migration where
  "drop_permitted_tenants_column =
     \<lparr>mig_version = 8,
      mig_up = [DROP_INDEX False ''idx_permitted_tenants_gin'', DROP_COLUMN False ''permitted_tenants''],
      mig_down = [ADD_COLUMN ''permitted_tenants'' (with_default (DefaultValue (VJson (JArr []))) (col Jsonb)),
                  CREATE_INDEX False ''idx_permitted_tenants_gin'' ''permitted_tenants'']\<rparr>"

definition add_failed_tenant_lookup_count_column :: migration where
  "add_failed_tenant_lookup_count_column =
     \<lparr>mig_version = 9,
      mig_up = [ADD_COLUMN ''tenant_lookup_failure_count'' (with_default (DefaultValue (VInt 0)) (col Int4)),
                ADD_COLUMN ''tenant_lookup_timestamp'' (col Timestamptz)],
      mig_down = [DROP_COLUMN False ''tenant_lookup_failure_count'',
                  DROP_COLUMN False ''tenant_lookup_timestamp'']\<rparr>"

definition add_client_id_index :: migration where
  "add_client_id_index =
     \<lparr>mig_version = 10,
      mig_up = [CREATE_INDEX True ''idx_connections_client_id'' ''client_id''],
      mig_down = [DROP_INDEX True ''idx_connections_client_id'']\<rparr>"

definition db_migrations :: "migration list" where
  "db_migrations =
     [create_connections_table, add_canonical_facts_and_stale_timestamp, add_tags_column,
      add_message_id_and_message_sent_column, add_org_id_column, add_permitted_accounts_column,
      alter_account_and_org_id_null, drop_permitted_tenants_column,
      add_failed_tenant_lookup_count_column, add_client_id_index]"

section \<open>The tools\<close>

text \<open>
  The database with the table \<^verbatim>\<open>schema_migrations\<close> of the migration library, which is an
  argument: its two constructors can fail, \<open>mig_Up\<close> runs what is pending and \<open>mig_Steps\<close> goes
  the given number of steps.
\<close>

record migrated = database +
  mg_version :: "nat option"
  mg_dirty :: bool

record migrate_lib =
  WithInstance :: "string \<times> string \<Rightarrow> error option"
  NewWithDatabaseInstance :: "string \<Rightarrow> string \<Rightarrow> error option"
  mig_Up :: "migrated \<Rightarrow> error option \<times> migrated"
  mig_Steps :: "int \<Rightarrow> migrated \<Rightarrow> error option \<times> migrated"

definition ErrNoChange :: error where
  "ErrNoChange = ErrorString ''no change''"

definition performDbMigration ::
  "migrate_lib \<Rightarrow> Config \<Rightarrow> string \<Rightarrow> migrated \<Rightarrow> error option \<times> migrated" where
  "performDbMigration lib cfg direction d =
     (case InitializeDatabaseConnection cfg of
        Inl err \<Rightarrow> (Some err, d)
      | Inr db \<Rightarrow>
          (case WithInstance lib db of
             Some err \<Rightarrow> (Some err, d)
           | None \<Rightarrow>
               (case NewWithDatabaseInstance lib ''file://db/migrations'' ''postgres'' of
                  Some err \<Rightarrow> (Some err, d)
                | None \<Rightarrow>
                    if direction = ''up'' \<or> direction = ''down''
                    then (let (err, d1) = (if direction = ''up'' then mig_Up lib d else mig_Steps lib (-1) d)
                          in case err of
                               None \<Rightarrow> (None, d1)
                             | Some e \<Rightarrow> if errors_is e ErrNoChange then (None, d1) else (Some e, d1))
                    else (Some (ErrorString ''Invalid operation''), d))))"

text \<open>The commands; an error ends the process with status 1.\<close>

definition migrate_commands ::
  "migrate_lib \<Rightarrow> Config \<Rightarrow> (string \<times> (migrated \<Rightarrow> error option \<times> migrated)) list" where
  "migrate_commands lib cfg =
     [(''upgrade'', performDbMigration lib cfg ''up''), (''downgrade'', performDbMigration lib cfg ''down'')]"

definition migrate_main :: "migrate_lib \<Rightarrow> Config \<Rightarrow> string \<Rightarrow> (migrated, unit) action" where
  "migrate_main lib cfg command d =
     (case map_of (migrate_commands lib cfg) command of
        None \<Rightarrow> (Exit, d)
      | Some run \<Rightarrow> (case run d of (None, d1) \<Rightarrow> (Ret (), d1) | (Some err, d1) \<Rightarrow> (Exit, d1)))"

text \<open>
  \<^verbatim>\<open>stage_db_fixer\<close>, which writes a fixed version to \<^verbatim>\<open>schema_migrations\<close>; the outcomes of the
  two calls of the driver are arguments. An UPDATE of an empty table changes nothing.
\<close>

definition stage_db_fixer :: "error option \<Rightarrow> error option \<Rightarrow> Config \<Rightarrow> migrated \<Rightarrow> migrated" where
  "stage_db_fixer prepareErr execErr cfg d =
     (case InitializeDatabaseConnection cfg of
        Inl err \<Rightarrow> d
      | Inr db \<Rightarrow>
          if prepareErr \<noteq> None \<or> execErr \<noteq> None then d
          else d\<lparr>mg_version := map_option (\<lambda>v. 4) (mg_version d), mg_dirty := False\<rparr>)"

text \<open>
  \<^verbatim>\<open>db_schema_dumper\<close>: the lines it logs, given what the driver returns for each query, row
  by row. The first row that cannot be scanned ends the output.
\<close>

datatype log_line = LogLine string | LogError string error

fun print_columns :: "(error + string \<times> string \<times> string option \<times> string) list \<Rightarrow> log_line list" where
  "print_columns [] = []"
| "print_columns (Inl err # rows) = [LogError ''SQL scan failed.  Skipping row.'' err]"
| "print_columns (Inr (columnName, dataType, defaultValueString, isNullable) # rows) =
     LogLine (columnName @ ''|'' @ dataType @ ''|''
       @ (case defaultValueString of None \<Rightarrow> ''null'' | Some s \<Rightarrow> s) @ ''|'' @ isNullable)
     # print_columns rows"

fun print_versions :: "(error + int \<times> bool) list \<Rightarrow> log_line list" where
  "print_versions [] = []"
| "print_versions (Inl err # rows) = [LogError ''SQL scan failed.  Skipping row.'' err]"
| "print_versions (Inr (version, dirty) # rows) =
     LogLine (Itoa version @ ''|'' @ (if dirty then ''true'' else ''false'')) # print_versions rows"

definition dump_query :: "string \<Rightarrow> error + error + 'r list \<Rightarrow> ('r list \<Rightarrow> log_line list) \<Rightarrow> log_line list" where
  "dump_query title answer printer =
     (case answer of
        Inl err \<Rightarrow> [LogError ''SQL Prepare failed'' err]
      | Inr (Inl err) \<Rightarrow> [LogError ''SQL query failed'' err]
      | Inr (Inr rows) \<Rightarrow>
          [LogLine ''-----------------'', LogLine title, LogLine ''-----------------''] @ printer rows)"

definition printConnectionsColumns ::
  "error + error + (error + string \<times> string \<times> string option \<times> string) list \<Rightarrow> log_line list" where
  "printConnectionsColumns answer = dump_query ''connections table:'' answer print_columns"

definition dumpSchemaMigrationsTable :: "error + error + (error + int \<times> bool) list \<Rightarrow> log_line list" where
  "dumpSchemaMigrationsTable answer = dump_query ''schema_migrations table:'' answer print_versions"

definition db_schema_dumper ::
  "Config \<Rightarrow> error + error + (error + string \<times> string \<times> string option \<times> string) list
    \<Rightarrow> error + error + (error + int \<times> bool) list \<Rightarrow> log_line list" where
  "db_schema_dumper cfg columnsAnswer migrationsAnswer =
     (case InitializeDatabaseConnection cfg of
        Inl err \<Rightarrow> [LogError ''Unable to initialize database connection'' err]
      | Inr db \<Rightarrow> printConnectionsColumns columnsAnswer @ dumpSchemaMigrationsTable migrationsAnswer)"

text \<open>The message says that the row is skipped; the rows after it are lost too.\<close>

lemma print_columns_stops:
  "print_columns (map Inr rows @ Inl err # rest)
     = print_columns (map Inr rows) @ [LogError ''SQL scan failed.  Skipping row.'' err]"
  by (induction rows) auto

section \<open>Versions\<close>

definition schema_at :: "nat \<Rightarrow> (columns option \<times> (string \<times> string) list) option" where
  "schema_at v = plan_all (concat (map mig_up (take v db_migrations))) (None, [])"

text \<open>A database on which the first \<open>v\<close> migrations have been run, with whatever rows.\<close>

definition at_version :: "nat \<Rightarrow> migrated \<Rightarrow> bool" where
  "at_version v d \<longleftrightarrow>
     schema_at v = Some (db_schema d) \<and> mg_version d = (if v = 0 then None else Some v) \<and> \<not> mg_dirty d"

definition pending :: "migrated \<Rightarrow> migration list" where
  "pending d = filter (\<lambda>m. case mg_version d of None \<Rightarrow> True | Some v \<Rightarrow> v < mig_version m) db_migrations"

definition timed :: "(nat \<Rightarrow> time) \<Rightarrow> migration list \<Rightarrow> (time \<times> ddl) list" where
  "timed now ms = concat (map (\<lambda>m. map (Pair (now (mig_version m))) (mig_up m)) ms)"

text \<open>
  What the documentation of the migration library says of \<^verbatim>\<open>Up\<close>: it refuses a dirty database,
  returns \<^verbatim>\<open>ErrNoChange\<close> when nothing is pending, and otherwise runs all up migrations that are
  pending, in order, and records the last.
\<close>

definition migrate_docs :: "(nat \<Rightarrow> time) \<Rightarrow> migrate_lib \<Rightarrow> bool" where
  "migrate_docs now lib \<longleftrightarrow>
     (\<forall>d. mg_dirty d \<longrightarrow> (\<exists>e. mig_Up lib d = (Some e, d) \<and> \<not> errors_is e ErrNoChange))
   \<and> (\<forall>d. \<not> mg_dirty d \<and> pending d = [] \<longrightarrow> mig_Up lib d = (Some ErrNoChange, d))
   \<and> (\<forall>d d'. \<not> mg_dirty d \<and> pending d \<noteq> [] \<and> exec_all (timed now (pending d)) d = Some d' \<longrightarrow>
        mig_Up lib d = (None, d'\<lparr>mg_version := Some (mig_version (last (pending d)))\<rparr>))"

definition connects :: "migrate_lib \<Rightarrow> Config \<Rightarrow> bool" where
  "connects lib cfg \<longleftrightarrow>
     (\<exists>db. InitializeDatabaseConnection cfg = Inr db \<and> WithInstance lib db = None)
     \<and> NewWithDatabaseInstance lib ''file://db/migrations'' ''postgres'' = None"

lemmas migration_defs = create_connections_table_def add_canonical_facts_and_stale_timestamp_def
  add_tags_column_def add_message_id_and_message_sent_column_def add_org_id_column_def
  add_permitted_accounts_column_def alter_account_and_org_id_null_def drop_permitted_tenants_column_def
  add_failed_tenant_lookup_count_column_def add_client_id_index_def

lemma version_cases:
  fixes v :: nat
  assumes "v \<le> 10"
  shows "v = 0 \<or> v = 1 \<or> v = 2 \<or> v = 3 \<or> v = 4 \<or> v = 5 \<or> v = 6 \<or> v = 7 \<or> v = 8 \<or> v = 9 \<or> v = 10"
  using assms by presburger

lemma pending_at_version:
  assumes "at_version v d" and "v \<le> 10"
  shows "pending d = drop v db_migrations"
  using version_cases [OF assms(2)] assms(1)
  by (elim disjE) (simp_all add: at_version_def pending_def db_migrations_def migration_defs)

lemma final_schema:
  assumes "schema_at v = Some s"
  shows "plan_all (concat (map mig_up (drop v db_migrations))) s = schema_at 10"
proof -
  have "schema_at 10 = plan_all (concat (map mig_up (take v db_migrations @ drop v db_migrations))) (None, [])"
    by (simp only: append_take_drop_id) (simp add: schema_at_def db_migrations_def)
  also have "\<dots> = Option.bind (schema_at v) (plan_all (concat (map mig_up (drop v db_migrations))))"
    by (simp only: map_append concat_append plan_all_append schema_at_def)
  finally show ?thesis using assms by simp
qed

lemma timed_stmts: "map snd (timed now ms) = concat (map mig_up ms)"
  by (simp add: timed_def map_concat comp_def)

text \<open>
  Rows from before the column \<^verbatim>\<open>org_id\<close>, or without an organisation, stop the seventh migration.
\<close>

definition upgradable :: "nat \<Rightarrow> migrated \<Rightarrow> bool" where
  "upgradable v d \<longleftrightarrow>
     (v < 5 \<longrightarrow> db_rows d = []) \<and> (v < 7 \<longrightarrow> (\<forall>r\<in>set (db_rows d). map_of r ''org_id'' \<noteq> Some NULL))"

lemma timed_set: "(t, stmt) \<in> set (timed now ms) \<longleftrightarrow> (\<exists>m\<in>set ms. t = now (mig_version m) \<and> stmt \<in> set (mig_up m))"
  by (auto simp: timed_def)

lemma added_fit:
  assumes "(t, ADD_COLUMN n c) \<in> set (timed now (drop v db_migrations))"
  shows "fits c (column_default t 0 c)"
proof -
  obtain m where "m \<in> set db_migrations" "ADD_COLUMN n c \<in> set (mig_up m)"
    using assms by (auto simp: timed_set dest: in_set_dropD)
  then show ?thesis
    by (auto simp: db_migrations_def migration_defs fits_def column_default_def col_def not_null_def
        with_default_def)
qed

lemma not_null_added:
  assumes "5 \<le> v" and "v \<le> 10" and "(t, SET_NOT_NULL n) \<in> set (timed now (drop v db_migrations))"
  shows "n = ''org_id'' \<and> v < 7 \<and> (\<forall>t c. (t, ADD_COLUMN n c) \<notin> set (timed now (drop v db_migrations)))"
proof -
  have "v = 5 \<or> v = 6 \<or> v = 7 \<or> v = 8 \<or> v = 9 \<or> v = 10" using assms(1,2) by presburger
  then show ?thesis using assms(3)
    by (elim disjE) (auto simp: timed_set db_migrations_def migration_defs)
qed

lemma dropped_column:
  assumes "(t, DROP_COLUMN e n) \<in> set (timed now (drop v db_migrations))"
  shows "n = ''permitted_tenants''"
proof -
  obtain m where "m \<in> set db_migrations" "DROP_COLUMN e n \<in> set (mig_up m)"
    using assms by (auto simp: timed_set dest: in_set_dropD)
  then show ?thesis by (auto simp: db_migrations_def migration_defs)
qed

lemma no_drop_table: "DROP_TABLE \<notin> set (concat (map mig_up (drop v db_migrations)))"
proof
  assume "DROP_TABLE \<in> set (concat (map mig_up (drop v db_migrations)))"
  then obtain m where "m \<in> set db_migrations" "DROP_TABLE \<in> set (mig_up m)" by (auto dest: in_set_dropD)
  then show False by (auto simp: db_migrations_def migration_defs)
qed

lemma created_distinct:
  assumes "(t, CREATE_TABLE cols) \<in> set (timed now (drop v db_migrations))"
  shows "distinct (map fst cols)"
proof -
  obtain m where "m \<in> set db_migrations" "CREATE_TABLE cols \<in> set (mig_up m)"
    using assms by (auto simp: timed_set dest: in_set_dropD)
  then show ?thesis by (auto simp: db_migrations_def migration_defs)
qed

lemma upgradable_row:
  assumes "upgradable v d" and "v \<le> 10" and "r \<in> set (db_rows d)"
  shows "row_all (timed now (drop v db_migrations)) r \<noteq> None"
proof (rule row_all_ok)
  have v: "5 \<le> v" using assms(1,3) by (auto simp: upgradable_def not_less [symmetric])
  show "\<forall>t n c. (t, ADD_COLUMN n c) \<in> set (timed now (drop v db_migrations)) \<longrightarrow> fits c (column_default t 0 c)"
    using added_fit by blast
  show "\<forall>t n. (t, SET_NOT_NULL n) \<in> set (timed now (drop v db_migrations)) \<longrightarrow>
      map_of r n \<noteq> Some NULL \<and> (\<forall>t c. (t, ADD_COLUMN n c) \<notin> set (timed now (drop v db_migrations)))"
    using not_null_added [OF v assms(2)] assms(1,3) by (fastforce simp: upgradable_def)
qed

lemma performDbMigration_up:
  assumes "connects lib cfg"
  shows "performDbMigration lib cfg ''up'' d =
     (case mig_Up lib d of (None, d') \<Rightarrow> (None, d')
      | (Some e, d') \<Rightarrow> if errors_is e ErrNoChange then (None, d') else (Some e, d'))"
  using assms by (auto simp: performDbMigration_def connects_def split: prod.splits option.splits)

lemma upgrade_again:
  assumes "migrate_docs now lib" and "connects lib cfg" and "at_version 10 d"
  shows "performDbMigration lib cfg ''up'' d = (None, d)"
proof -
  have "pending d = []" using pending_at_version [OF assms(3)] by (simp add: db_migrations_def)
  then have "mig_Up lib d = (Some ErrNoChange, d)"
    using assms(1,3) by (simp add: migrate_docs_def at_version_def)
  then show ?thesis by (simp add: performDbMigration_up [OF assms(2)])
qed

lemma final_schema_exists: "\<exists>cols ix. schema_at 10 = Some (Some cols, ix)"
  by (simp add: schema_at_def db_migrations_def migration_defs set_not_null_def without_def)


text \<open>
  A database with one row at version 6, and a library that does what is documented.
\<close>

definition example_migrate :: "migrate_lib" where
  "example_migrate =
     \<lparr>WithInstance = (\<lambda>db. None), NewWithDatabaseInstance = (\<lambda>source driver. None),
      mig_Up = (\<lambda>d. if mg_dirty d then (Some (ErrorString ''dirty''), d)
                     else if pending d = [] then (Some ErrNoChange, d)
                     else case exec_all (timed (\<lambda>v. 0) (pending d)) d of
                            None \<Rightarrow> (Some (ErrorString ''failed''), d\<lparr>mg_dirty := True\<rparr>)
                          | Some d' \<Rightarrow> (None, d'\<lparr>mg_version := Some (mig_version (last (pending d)))\<rparr>)),
      mig_Steps = (\<lambda>n d. (Some (ErrorString ''unused''), d))\<rparr>"

lemma example_migrate_docs: "migrate_docs (\<lambda>v. 0) example_migrate"
  by (simp add: migrate_docs_def example_migrate_def ErrNoChange_def)

lemma example_migrate_connects: "connects example_migrate example_db_config"
  by (simp add: connects_def example_migrate_def example_db_config_def InitializeDatabaseConnection_def
      initializePostgresConnection_def buildPostgresSslConfigString_def zero_Config_def Let_def)

definition example_old_row :: sql_row where
  "example_old_row =
     [(''id'', VInt 1), (''account'', VText ''a1''), (''client_id'', VText ''c1''),
      (''dispatchers'', VJson (JObj [])), (''created_at'', VTime 0), (''updated_at'', VTime 0),
      (''canonical_facts'', VJson (JObj [])), (''stale_timestamp'', VTime 0), (''tags'', NULL),
      (''message_id'', NULL), (''message_sent'', VTime 0), (''org_id'', VText ''o1''),
      (''permitted_tenants'', VJson (JArr []))]"

definition example_old_database :: migrated where
  "example_old_database =
     (case the (schema_at 6) of (cols, ix) \<Rightarrow>
        \<lparr>db_table = Some (the cols, [example_old_row]), db_indexes = ix, mg_version = Some 6, mg_dirty = False\<rparr>)"

lemma example_old_version: "at_version 6 example_old_database"
  by (simp add: at_version_def example_old_database_def schema_at_def db_migrations_def migration_defs
      db_schema_def)

lemma example_old_ok: "upgradable 6 example_old_database" "table_typed example_old_database"
  by (simp_all add: upgradable_def table_typed_def example_old_database_def schema_at_def db_migrations_def
      migration_defs db_rows_def example_old_row_def row_typed_def fits_def col_def not_null_def with_default_def)


section \<open>The rows the program writes\<close>

definition opt_value :: "('v \<Rightarrow> sql_value) \<Rightarrow> 'v option \<Rightarrow> sql_value" where
  "opt_value f x = (case x of None \<Rightarrow> NULL | Some v \<Rightarrow> f v)"

text \<open>The record \<open>row\<close> of the theory \<open>Connection_Store\<close> as a row of the table.\<close>

definition row_values :: "row \<Rightarrow> sql_row" where
  "row_values r =
     [(''id'', VInt (int (r_id r))), (''account'', opt_value VText (r_account r)),
      (''client_id'', VText (r_client_id r)), (''dispatchers'', VJson (r_dispatchers r)),
      (''created_at'', VTime (r_created_at r)), (''updated_at'', VTime (r_updated_at r)),
      (''canonical_facts'', VJson (r_canonical_facts r)), (''stale_timestamp'', VTime (r_stale_timestamp r)),
      (''tags'', opt_value VJson (r_tags r)), (''message_id'', opt_value VText (r_message_id r)),
      (''message_sent'', VTime (r_message_sent r)), (''org_id'', VText (r_org_id r)),
      (''tenant_lookup_failure_count'', opt_value VInt (r_tenant_lookup_failure_count r)),
      (''tenant_lookup_timestamp'', opt_value VTime (r_tenant_lookup_timestamp r))]"

text \<open>
  INSERT and UPDATE: the columns that are named take the values, the others their defaults,
  or what they had. The two lists of the registrar's statement follow.
\<close>

definition sql_insert :: "time \<Rightarrow> nat \<Rightarrow> columns \<Rightarrow> sql_row \<Rightarrow> sql_row" where
  "sql_insert now i cols given =
     map (\<lambda>(n, c). (n, case map_of given n of Some v \<Rightarrow> v | None \<Rightarrow> column_default now i c)) cols"

definition sql_set :: "sql_row \<Rightarrow> sql_row \<Rightarrow> sql_row" where
  "sql_set given r = map (\<lambda>(n, v). (n, case map_of given n of Some v' \<Rightarrow> v' | None \<Rightarrow> v)) r"

definition insert_values :: "ConnectorClientState \<Rightarrow> time option \<Rightarrow> (time \<Rightarrow> time) \<Rightarrow> sql_row" where
  "insert_values c tenantLookupTimestamp ts =
     [(''account'', VText (cs_Account c)), (''org_id'', VText (cs_OrgID c)),
      (''client_id'', VText (cs_ClientID c)), (''dispatchers'', VJson (cs_Dispatchers c)),
      (''canonical_facts'', VJson (cs_CanonicalFacts c)), (''tags'', VJson (cs_Tags c)),
      (''message_id'', VText (LatestMessageID (cs_MessageMetadata c))),
      (''message_sent'', VTime (ts (LatestTimestamp (cs_MessageMetadata c)))),
      (''tenant_lookup_timestamp'', opt_value (VTime \<circ> ts) tenantLookupTimestamp)]"

definition update_values :: "ConnectorClientState \<Rightarrow> time option \<Rightarrow> time \<Rightarrow> (time \<Rightarrow> time) \<Rightarrow> sql_row" where
  "update_values c tenantLookupTimestamp now ts =
     [(''dispatchers'', VJson (cs_Dispatchers c)), (''tags'', VJson (cs_Tags c)), (''updated_at'', VTime now),
      (''message_id'', VText (LatestMessageID (cs_MessageMetadata c))),
      (''message_sent'', VTime (ts (LatestTimestamp (cs_MessageMetadata c)))),
      (''org_id'', VText (cs_OrgID c)), (''account'', VText (cs_Account c)),
      (''tenant_lookup_timestamp'', opt_value (VTime \<circ> ts) tenantLookupTimestamp)]
     @ (if isTenantlessConnection c then [] else [(''tenant_lookup_failure_count'', VInt 0)])"

text \<open>The lengths that the columns allow.\<close>

definition fits_table :: "ConnectorClientState \<Rightarrow> bool" where
  "fits_table c \<longleftrightarrow>
     length (cs_Account c) \<le> 10 \<and> length (cs_OrgID c) \<le> 20 \<and> length (cs_ClientID c) \<le> 100
     \<and> length (LatestMessageID (cs_MessageMetadata c)) \<le> 40"

definition connections_columns :: columns where
  "connections_columns = (case schema_at 10 of Some (Some cols, ix) \<Rightarrow> cols | _ \<Rightarrow> [])"

lemma connections_columns:
  "connections_columns =
     [(''id'', not_null (with_default DefaultNextval (col Serial))), (''account'', col (Varchar 10)),
      (''client_id'', not_null (col (Varchar 100))),
      (''dispatchers'', not_null (with_default (DefaultValue (VJson (JObj []))) (col Jsonb))),
      (''created_at'', not_null (with_default DefaultNow (col Timestamptz))),
      (''updated_at'', not_null (with_default DefaultNow (col Timestamptz))),
      (''canonical_facts'', not_null (with_default (DefaultValue (VJson (JObj []))) (col Jsonb))),
      (''stale_timestamp'', not_null (with_default DefaultNow (col Timestamptz))),
      (''tags'', col Jsonb), (''message_id'', col (Varchar 40)),
      (''message_sent'', not_null (with_default DefaultNow (col Timestamptz))),
      (''org_id'', not_null (col (Varchar 20))),
      (''tenant_lookup_failure_count'', with_default (DefaultValue (VInt 0)) (col Int4)),
      (''tenant_lookup_timestamp'', col Timestamptz)]"
  by (simp add: connections_columns_def schema_at_def db_migrations_def migration_defs set_not_null_def
      without_def not_null_def col_def with_default_def)

text \<open>The rows of the model are of the table's type when their strings and counters fit.\<close>

lemma row_typed_iff:
  "row_typed connections_columns (row_values r) \<longleftrightarrow>
     r_id r < 2 ^ 31 \<and> (\<forall>a. r_account r = Some a \<longrightarrow> length a \<le> 10)
     \<and> length (r_client_id r) \<le> 100 \<and> (\<forall>m. r_message_id r = Some m \<longrightarrow> length m \<le> 40)
     \<and> length (r_org_id r) \<le> 20
     \<and> (\<forall>n. r_tenant_lookup_failure_count r = Some n \<longrightarrow> - (2 ^ 31) \<le> n \<and> n < 2 ^ 31)"
  by (auto simp: row_typed_def connections_columns row_values_def fits_def not_null_def col_def
      with_default_def opt_value_def split: option.splits)

definition store_typed :: "'a db_state_scheme \<Rightarrow> bool" where
  "store_typed w \<longleftrightarrow> (\<forall>r\<in>set (connections w). row_typed connections_columns (row_values r))"

lemma exec_update_typed:
  assumes "store_typed w"
    and "\<And>now r. r \<in> set (connections w) \<Longrightarrow> row_typed connections_columns (row_values r) \<Longrightarrow>
           row_typed connections_columns (row_values (f now r))"
  shows "store_typed (snd (exec_update P f w))"
  using assms
  by (auto simp: store_typed_def exec_update_def db_call_def sql_update_set split: option.splits)

lemma upsert_typed:
  assumes "store_typed w" and "fits_table c" and "next_id w < 2 ^ 31"
  shows "store_typed (upsert c t now w)"
  using assms
  by (auto simp: store_typed_def upsert_def sql_update_set row_typed_iff fits_table_def register_update_def
      register_insert_def split: if_splits)

lemma Register_typed:
  assumes "store_typed w" and "fits_table c" and "next_id w < 2 ^ 31"
  shows "store_typed (snd (Register pq c w))"
proof -
  have up: "store_typed (upsert c t now w')" if "connections w' = connections w" "next_id w' = next_id w" for t now w'
    using that assms by (intro upsert_typed) (auto simp: store_typed_def)
  have same: "store_typed w'" if "connections w' = connections w" for w' :: "'a db_state_scheme"
    using that assms(1) by (simp add: store_typed_def)
  show ?thesis
    by (simp add: Register_def db_call_def time_now_def Let_def up same split: option.splits error.splits)
qed


definition example_one_row :: db_state where
  "example_one_row =
     example_db\<lparr>connections := [register_insert 1 (zero_ConnectorClientState\<lparr>cs_ClientID := ''c1''\<rparr>) None 0 id],
                next_id := 2\<rparr>"


section \<open>Downgrades\<close>

text \<open>
  Undoing a migration restores the columns of the version before, except for the eighth: the
  column it drops comes back without NOT NULL.
\<close>

definition undo :: "nat \<Rightarrow> (columns option \<times> (string \<times> string) list) option" where
  "undo v = Option.bind (schema_at v) (plan_all (mig_down (db_migrations ! (v - 1))))"

lemma downgrade_restores:
  assumes "v \<in> {1, 2, 3, 4, 5, 6, 7, 9, 10}"
  shows "undo v = schema_at (v - 1)"
  using assms
  by (elim insertE) (simp_all add: undo_def schema_at_def db_migrations_def migration_defs set_not_null_def
      without_def not_null_def col_def with_default_def)

lemma downgrade_8_loses_not_null: "undo 8 \<noteq> schema_at 7"
  by (simp add: undo_def schema_at_def db_migrations_def migration_defs set_not_null_def
      without_def not_null_def col_def with_default_def)

text \<open>
  A dirty database is left alone, and the fixer makes one that has the schema of version 4
  ready for an upgrade.
\<close>

lemma dirty_refused:
  assumes "migrate_docs now lib" and "connects lib cfg" and "mg_dirty d"
  shows "\<exists>e. performDbMigration lib cfg ''up'' d = (Some e, d)"
proof -
  obtain e where "mig_Up lib d = (Some e, d)" "\<not> errors_is e ErrNoChange"
    using assms(1,3) unfolding migrate_docs_def by blast
  then show ?thesis by (simp add: performDbMigration_up [OF assms(2)])
qed

lemma stage_db_fixer_version:
  assumes "connects lib cfg" and "schema_at 4 = Some (db_schema d)" and "mg_version d \<noteq> None"
  shows "at_version 4 (stage_db_fixer None None cfg d)"
  using assms by (auto simp: connects_def stage_db_fixer_def at_version_def db_schema_def)

end
