(* ===== verification/Telemetry.thy ===== *)
theory Telemetry
  imports Http_Auth Configuration Services "HOL-Library.Multiset"
begin

text \<open>
  The logger (\<^verbatim>\<open>internal/platform/logger\<close>) and the metrics every binary declares
  (\<^verbatim>\<open>metrics.go\<close> of four packages, \<^verbatim>\<open>metrics_middleware.go\<close>, \<^verbatim>\<open>kafka_message_consumer.go\<close>):
  how the logger is set up and what it writes, and that the metrics register without a panic.
\<close>

section \<open>The logger\<close>

datatype log_level = FatalLevel | ErrorLevel | WarnLevel | InfoLevel | DebugLevel | TraceLevel

fun log_level_String :: "log_level \<Rightarrow> string" where
  "log_level_String FatalLevel = ''fatal''"
| "log_level_String ErrorLevel = ''error''"
| "log_level_String WarnLevel = ''warning''"
| "log_level_String InfoLevel = ''info''"
| "log_level_String DebugLevel = ''debug''"
| "log_level_String TraceLevel = ''trace''"

text \<open>Levels are ordered by their number: an entry is written when its level is at most the logger's.\<close>

fun level_number :: "log_level \<Rightarrow> nat" where
  "level_number FatalLevel = 1"
| "level_number ErrorLevel = 2"
| "level_number WarnLevel = 3"
| "level_number InfoLevel = 4"
| "level_number DebugLevel = 5"
| "level_number TraceLevel = 6"

lemma level_number_inj: "level_number a = level_number b \<Longrightarrow> a = b"
  by (cases a; cases b) simp_all

instantiation log_level :: linorder
begin

definition less_eq_log_level :: "log_level \<Rightarrow> log_level \<Rightarrow> bool" where
  "less_eq_log_level a b \<longleftrightarrow> level_number a \<le> level_number b"

definition less_log_level :: "log_level \<Rightarrow> log_level \<Rightarrow> bool" where
  "less_log_level a b \<longleftrightarrow> level_number a < level_number b"

instance
  by standard (auto simp: less_eq_log_level_def less_log_level_def level_number_inj)

end

text \<open>
  The formatter, the hook that sends entries to CloudWatch and its batch writer, which is nil
  (\<open>None\<close>) when it could not be made.
\<close>

datatype formatter = TextFormatter | CustomCloudwatch string

record batch_writer =
  bw_group :: string
  bw_stream :: string
  bw_region :: string
  bw_key :: string
  bw_secret :: string
  bw_frequency :: duration

type_synonym cloudwatch_hook = "batch_writer option"

record logger =
  lg_Level :: log_level
  lg_Formatter :: formatter
  lg_Hooks :: "cloudwatch_hook list"
  lg_ReportCaller :: bool

text \<open>
  The variables of the package. \<open>flushed\<close> is the calls of \<^verbatim>\<open>Flush\<close> and \<open>lines\<close> the entries the
  set-up itself passes to the logger, which writes those of its level or below.
\<close>

record log_globals =
  initializeLogger_done :: bool
  g_Log :: "logger option"
  g_logLevel :: log_level
  cloudWatchHook :: "cloudwatch_hook option"
  flushed :: "cloudwatch_hook list"
  lines :: "(log_level \<times> string) list"

record clowder_cloudwatch =
  cw_AccessKeyId :: string
  cw_SecretAccessKey :: string
  cw_Region :: string
  cw_LogGroup :: string

text \<open>
  What the set-up asks: the host name, the options, Clowder, whether a test runs
  (\<^verbatim>\<open>flag.Lookup("test.v")\<close>), and the constructor of the batch writer.
\<close>

record log_env =
  le_Hostname :: "error + string"
  le_viper :: viper
  le_IsClowderEnabled :: bool
  le_Cloudwatch :: "clowder_cloudwatch option"
  le_testing :: bool
  le_NewBatchWriter :: "batch_writer \<Rightarrow> error option"

definition NewCloudwatchFormatter :: "log_env \<Rightarrow> formatter" where
  "NewCloudwatchFormatter env =
     CustomCloudwatch (case le_Hostname env of Inl err \<Rightarrow> ''unknown'' | Inr h \<Rightarrow> h)"

definition buildFormatter :: "log_env \<Rightarrow> string \<Rightarrow> formatter" where
  "buildFormatter env format =
     (if map to_upper format = ''TEXT'' then TextFormatter else NewCloudwatchFormatter env)"

definition logconfig :: "log_env \<Rightarrow> viper_options" where
  "logconfig env =
     \<lparr>vo_defaults = [(''LOG_LEVEL'', OStr ''DEBUG''), (''LOG_GROUP'', OStr ''platform-dev''),
        (''AWS_REGION'', OStr ''us-east-1''),
        (''LOG_STREAM'', OStr (case le_Hostname env of Inl err \<Rightarrow> '''' | Inr h \<Rightarrow> h)),
        (''LOG_FORMAT'', OStr ''text''), (''LOG_BATCH_FREQUENCY'', ODuration (10 * Second))],
      vo_env_prefix = ''CLOUD_CONNECTOR'', vo_automatic_env = True\<rparr>"

definition read_log_level :: "string \<Rightarrow> bool \<Rightarrow> log_level" where
  "read_log_level name testing =
     (if testing then FatalLevel
      else if map to_upper name = ''TRACE'' then TraceLevel
      else if map to_upper name = ''DEBUG'' then DebugLevel
      else if map to_upper name = ''ERROR'' then ErrorLevel
      else InfoLevel)"

text \<open>
  The hook is assigned to a new variable of the inner block, not to the one of the package.
\<close>

definition init_logger :: "log_env \<Rightarrow> (log_globals, unit) action" where
  "init_logger env g =
     (let options = logconfig env;
          getString = vp_GetString (le_viper env) options;
          format = getString ''LOG_FORMAT'';
          batchFrequency = vp_GetDuration (le_viper env) options ''LOG_BATCH_FREQUENCY'';
          stream = getString ''LOG_STREAM'';
          clowder =
            (if le_IsClowderEnabled env
             then go_bind (deref (le_Cloudwatch env)) (\<lambda>cw.
                    Ret (cw_AccessKeyId cw, cw_SecretAccessKey cw, cw_Region cw, cw_LogGroup cw))
             else Ret (getString ''CW_AWS_ACCESS_KEY_ID'', getString ''CW_AWS_SECRET_ACCESS_KEY'',
                       getString ''AWS_REGION'', getString ''LOG_GROUP''))
      in and_then (clowder, g) (\<lambda>(key, secret, region, grp) g.
           let level = read_log_level (getString ''LOG_LEVEL'') (le_testing env);
               logger = \<lparr>lg_Level = level, lg_Formatter = buildFormatter env format, lg_Hooks = [],
                         lg_ReportCaller = True\<rparr>;
               g1 = g\<lparr>g_logLevel := level, g_Log := Some logger\<rparr>
           in if key = '''' then (Ret (), g1)
              else (let writer = \<lparr>bw_group = grp, bw_stream = stream, bw_region = region, bw_key = key,
                                  bw_secret = secret, bw_frequency = batchFrequency\<rparr>;
                        err = le_NewBatchWriter env writer;
                        hook = (case err of None \<Rightarrow> Some writer | Some e \<Rightarrow> None);
                        g2 = g1\<lparr>lines := lines g1 @ [(InfoLevel,
                               ''Configuring CloudWatch logging (level='' @ log_level_String level
                               @ '', group='' @ grp @ '', stream='' @ stream
                               @ '', batchFrequency='' @ fmt_d (sint batchFrequency) @ '')'')]\<rparr>;
                        g3 = (case err of
                                None \<Rightarrow> g2
                              | Some e \<Rightarrow> g2\<lparr>lines := lines g2 @ [(WarnLevel, ''Unable to configure CloudWatch hook'')]\<rparr>)
                    in (Ret (), g3\<lparr>g_Log := Some (logger\<lparr>lg_Hooks := [hook]\<rparr>)\<rparr>))))"

text \<open>\<^verbatim>\<open>sync.Once\<close> counts a call that panics as done.\<close>

definition InitLogger :: "log_env \<Rightarrow> (log_globals, unit) action" where
  "InitLogger env g =
     (if initializeLogger_done g then (Ret (), g)
      else (case init_logger env g of (r, g1) \<Rightarrow> (r, g1\<lparr>initializeLogger_done := True\<rparr>)))"

definition FlushLogger :: "log_globals \<Rightarrow> log_globals" where
  "FlushLogger g =
     (case cloudWatchHook g of None \<Rightarrow> g | Some hook \<Rightarrow> g\<lparr>flushed := flushed g @ [hook]\<rparr>)"

text \<open>
  \<^verbatim>\<open>main\<close> of the service: set up the logger, let the command line library run a command (an
  argument), flush. The deferred flush runs after a panic of the command too, and not when the
  command ends the process itself.
\<close>

definition cloud_connector_main ::
  "log_env \<Rightarrow> (log_globals, error option) action \<Rightarrow> (log_globals, unit) action" where
  "cloud_connector_main env Execute g =
     and_then (InitLogger env g) (\<lambda>_ g1.
       case Execute g1 of
         (Ret None, g2) \<Rightarrow> (Ret (), FlushLogger g2)
       | (Ret (Some err), g2) \<Rightarrow> (Exit, FlushLogger g2)
       | (Panic, g2) \<Rightarrow> (Panic, FlushLogger g2)
       | (Exit, g2) \<Rightarrow> (Exit, g2))"

section \<open>Entries\<close>

text \<open>
  The value of a field: an error, a value that says itself how it is logged, or any other.
\<close>

datatype field_value = FieldError string | FieldMarshaler json | FieldValue json

record log_entry =
  en_Message :: string
  en_Level :: log_level
  en_Caller :: "string option"
  en_Data :: "(string \<times> field_value) list"

fun field_json :: "field_value \<Rightarrow> json" where
  "field_json (FieldError text) = JStr text"
| "field_json (FieldMarshaler j) = j"
| "field_json (FieldValue j) = j"

text \<open>
  \<^verbatim>\<open>2006-01-02T15:04:05.999Z\<close>: up to three digits of the fraction, without trailing zeros.
\<close>

definition format_millis :: "time \<Rightarrow> string" where
  "format_millis t =
     butlast (format_rfc3339 t) @ fraction_digits (t mod 1000000000 div 1000000 * 1000000) @ ''Z''"

text \<open>
  The formatter keeps the last host name it could read. The fields of the entry go into the
  same map as the fixed ones. \<open>marshal\<close> is \<^verbatim>\<open>json.Marshal\<close> of a map.
\<close>

definition format_data :: "time \<Rightarrow> string \<Rightarrow> string \<Rightarrow> log_entry \<Rightarrow> (string \<times> json) list" where
  "format_data now hostname caller entry =
     fold (\<lambda>(k, v). put k (field_json v)) (en_Data entry)
       [(''@timestamp'', JStr (format_millis now)), (''@version'', JNum 1), (''message'', JStr (en_Message entry)),
        (''levelname'', JStr (log_level_String (en_Level entry))), (''source_host'', JStr hostname),
        (''app'', JStr ''cloud-connector''), (''caller'', JStr caller)]"

definition Format ::
  "((string \<times> json) list \<Rightarrow> error + string) \<Rightarrow> error + string \<Rightarrow> time \<Rightarrow> log_entry \<Rightarrow> string
    \<Rightarrow> (error + string) go \<times> string" where
  "Format marshal host now entry f_Hostname =
     (let hostname = (case host of Inl err \<Rightarrow> f_Hostname | Inr h \<Rightarrow> h)
      in and_then (deref (en_Caller entry), hostname) (\<lambda>caller h.
           case marshal (format_data now h caller entry) of
             Inl err \<Rightarrow> (Ret (Inl err), h)
           | Inr j \<Rightarrow> (Ret (Inr (j @ [CHR 0x0A])), h)))"

text \<open>
  The entry for a request (\<^verbatim>\<open>logrusAccessLogAdapter\<close>); the URL is printed by its library, and
  the caller is found by the logging library.
\<close>

definition logrusAccessLogAdapter ::
  "string \<Rightarrow> string \<Rightarrow> string \<Rightarrow> string \<Rightarrow> string \<Rightarrow> 'k request \<Rightarrow> int \<Rightarrow> int \<Rightarrow> log_entry" where
  "logrusAccessLogAdapter caller httpMethod url proto remoteAddr req statusCode responseSize =
     \<lparr>en_Message = ''access'', en_Level = InfoLevel, en_Caller = Some caller,
      en_Data = [(''remote_addr'', FieldValue (JStr remoteAddr)),
                 (''request'', FieldValue (JStr (httpMethod @ '' '' @ url @ '' '' @ proto))),
                 (''request_id'', FieldValue (JStr (Header_Get (req_Header req) ''X-Rh-Insights-Request-Id''))),
                 (''status'', FieldValue (JNum (of_int statusCode))), (''size'', FieldValue (JNum (of_int responseSize)))]\<rparr>"

text \<open>The entries for errors, given the error's text. A fatal entry ends the process.\<close>

definition LogError :: "string \<Rightarrow> string \<Rightarrow> string \<Rightarrow> log_entry" where
  "LogError caller msg err_text =
     \<lparr>en_Message = msg, en_Level = ErrorLevel, en_Caller = Some caller, en_Data = [(''error'', FieldError err_text)]\<rparr>"

definition LogFatalError :: "string \<Rightarrow> string \<Rightarrow> string \<Rightarrow> log_entry \<times> unit go" where
  "LogFatalError caller msg err_text =
     (\<lparr>en_Message = msg, en_Level = FatalLevel, en_Caller = Some caller,
       en_Data = [(''error'', FieldError err_text)]\<rparr>, Exit)"

definition LogErrorWithAccountAndClientId ::
  "string \<Rightarrow> string \<Rightarrow> string \<Rightarrow> AccountID \<Rightarrow> OrgID \<Rightarrow> ClientID \<Rightarrow> log_entry" where
  "LogErrorWithAccountAndClientId caller msg err_text account org_id client_id =
     \<lparr>en_Message = msg, en_Level = ErrorLevel, en_Caller = Some caller,
      en_Data = [(''error'', FieldError err_text), (''account'', FieldValue (JStr account)),
                 (''org_id'', FieldValue (JStr org_id)), (''client_id'', FieldValue (JStr client_id))]\<rparr>"

section \<open>Properties of the logger\<close>

lemma init_logger_hook:
  "cloudWatchHook (snd (init_logger env g)) = cloudWatchHook g \<and> flushed (snd (init_logger env g)) = flushed g"
  by (cases "le_Cloudwatch env")
    (auto simp: init_logger_def Let_def deref_def split: option.splits)

text \<open>Outside the tests no setting silences errors: the least level there is to choose writes them.\<close>

lemma errors_written:
  assumes "init_logger env g = (Ret (), g')" and "g_Log g' = Some l" and "\<not> le_testing env"
  shows "ErrorLevel \<le> lg_Level l"
proof -
  have "ErrorLevel \<le> read_log_level name False" for name
    by (simp add: read_log_level_def less_eq_log_level_def)
  then show ?thesis
    using assms by (auto simp: init_logger_def Let_def deref_def split: option.splits if_splits)
qed

text \<open>Only the first call does something, whatever changes in between.\<close>

lemma InitLogger_once:
  "InitLogger env' (snd (InitLogger env g)) = (Ret (), snd (InitLogger env g))"
  by (auto simp: InitLogger_def split: prod.splits)

lemma InitLogger_hook:
  "cloudWatchHook (snd (InitLogger env g)) = cloudWatchHook g \<and> flushed (snd (InitLogger env g)) = flushed g"
  using init_logger_hook [of env g] by (auto simp: InitLogger_def split: prod.splits)

text \<open>
  The package variable of the hook is never set: after any number of set-ups, flushing does
  nothing, although \<open>main\<close> and the bridge rely on it before they end the process.
\<close>

lemma FlushLogger_does_nothing:
  assumes "cloudWatchHook g = None" and "g' = fold (\<lambda>env g. snd (InitLogger env g)) envs g"
  shows "FlushLogger g' = g'"
proof -
  have "cloudWatchHook (fold (\<lambda>env g. snd (InitLogger env g)) envs g) = None"
    using assms(1) InitLogger_hook by (induction envs arbitrary: g) auto
  then show ?thesis by (simp add: FlushLogger_def assms(2))
qed

text \<open>So a run of the whole program flushes no hook, however the command ends.\<close>

lemma main_flushes_nothing:
  assumes "cloudWatchHook g = None" and "flushed g = []"
    and "\<And>g. cloudWatchHook (snd (Execute g)) = cloudWatchHook g \<and> flushed (snd (Execute g)) = flushed g"
  shows "flushed (snd (cloud_connector_main env Execute g)) = []"
proof -
  obtain r g1 where init: "InitLogger env g = (r, g1)" by fastforce
  then have g1: "cloudWatchHook g1 = None" "flushed g1 = []" using InitLogger_hook [of env g] assms(1,2) by simp_all
  obtain r2 g2 where run: "Execute g1 = (r2, g2)" by fastforce
  then have "cloudWatchHook g2 = None" "flushed g2 = []" using assms(3) [of g1] g1 by simp_all
  then show ?thesis using init run g1
    by (cases r) (auto simp: cloud_connector_main_def FlushLogger_def split: go.splits option.splits)
qed

text \<open>
  The logger has a hook exactly when there is a key, also when its writer could not be made;
  then the hook has no writer.
\<close>

lemma init_logger_hooks:
  assumes "init_logger env g = (Ret (), g')" and "\<not> le_IsClowderEnabled env"
  shows "\<exists>l. g_Log g' = Some l \<and> (lg_Hooks l = [] \<longleftrightarrow> vp_GetString (le_viper env) (logconfig env) ''CW_AWS_ACCESS_KEY_ID'' = '''')
     \<and> (\<forall>w\<in>set (lg_Hooks l). \<forall>b. w = Some b \<longrightarrow> le_NewBatchWriter env b = None)"
  using assms by (auto simp: init_logger_def Let_def split: if_splits option.splits)

text \<open>A field of an entry replaces a fixed field of the same name.\<close>

lemma map_of_put_fields:
  "map_of (fold (\<lambda>(k, v). put k (f v)) kvs m) k
     = (case map_of (rev kvs) k of Some v \<Rightarrow> Some (f v) | None \<Rightarrow> map_of m k)"
  by (induction kvs arbitrary: m) (auto simp: map_add_def split: option.splits)

lemma format_data_lookup:
  "map_of (format_data now host caller entry) k =
     (case map_of (rev (en_Data entry)) k of
        Some v \<Rightarrow> Some (field_json v)
      | None \<Rightarrow> map_of (format_data now host caller (entry\<lparr>en_Data := []\<rparr>)) k)"
  by (auto simp: format_data_def map_of_put_fields split: option.split)

section \<open>Metrics\<close>

datatype metric_kind = Counter | Gauge | Histogram | CounterVec "string list" | HistogramVec "string list"

record metric =
  mt_Name :: string
  mt_kind :: metric_kind

definition metric :: "metric_kind \<Rightarrow> string \<Rightarrow> metric" where
  "metric k n = \<lparr>mt_Name = n, mt_kind = k\<rparr>"

definition mqtt_metrics :: "metric list" where
  "mqtt_metrics =
     [metric Counter ''cloud_connector_mqtt_connection_failure_count'',
      metric Counter ''cloud_connector_mqtt_control_message_received_count'',
      metric Counter ''cloud_connector_mqtt_data_message_received_count'',
      metric (CounterVec [''directive'']) ''cloud_connector_mqtt_sent_message_directive_count'',
      metric Counter ''cloud_connector_mqtt_message_published_success_count'',
      metric Counter ''cloud_connector_mqtt_message_published_failure_count'',
      metric Gauge ''cloud_connector_mqtt_message_consumer_kafka_writer_go_routine_count'',
      metric Histogram ''cloud_connector_mqtt_message_consumer_kafka_writer_publish_duration'']"

definition controller_metrics :: "metric list" where
  "controller_metrics =
     [metric Gauge ''cloud_connector_inventory_kafka_writer_go_routine_count'',
      metric Counter ''cloud_connector_inventory_kafka_writer_success_count'',
      metric Counter ''cloud_connector_inventory_kafka_writer_failure_count'',
      metric (CounterVec [''status_code'']) ''cloud_connector_auth_gateway_account_lookup_status_code_counter'',
      metric Histogram ''cloud_connector_auth_gateway_account_lookup_duration'',
      metric Counter ''cloud_connector_account_lookup_cache_hit'',
      metric Counter ''cloud_connector_account_lookup_cache_miss'']"

definition cloud_connector_metrics :: "metric list" where
  "cloud_connector_metrics = [metric Counter ''cloud_connector_control_message_received_from_kafka_count'']"

definition connection_repository_metrics :: "metric list" where
  "connection_repository_metrics =
     [metric Histogram ''cloud_connector_sql_lookup_connection_by_account_or_permitted_account_and_client_id_duration'',
      metric Histogram ''cloud_connector_sql_lookup_connection_by_account_and_client_id_duration'',
      metric Histogram ''cloud_connector_sql_lookup_connections_by_account'',
      metric Histogram ''cloud_connector_sql_lookup_all_connections'',
      metric Histogram ''cloud_connector_sql_register_connection_duration'',
      metric Histogram ''cloud_connector_sql_unregister_connection_duration'',
      metric Histogram ''cloud_connector_sql_lookup_connection_by_client_id_duration'']"

definition middleware_metrics :: "metric list" where
  "middleware_metrics =
     [metric (CounterVec [''status_code'']) ''cloud_connector_http_status_code_counter'',
      metric (HistogramVec [''status_code'']) ''cloud_connector_http_response_duration'']"

definition consumer_metrics :: "metric list" where
  "consumer_metrics =
     [metric Counter ''cloud_connector_kafka_message_received_count'',
      metric Histogram ''cloud_connector_kafka_message_wait_time'']"

text \<open>
  The series a metric is scraped as: a histogram has its buckets, their sum and their count.
\<close>

fun kind_series :: "metric_kind \<Rightarrow> string list" where
  "kind_series Histogram = [''_bucket'', ''_sum'', ''_count'']"
| "kind_series (HistogramVec ls) = [''_bucket'', ''_sum'', ''_count'']"
| "kind_series _ = ['''']"

definition series :: "metric \<Rightarrow> string list" where
  "series m = map (\<lambda>s. mt_Name m @ s) (kind_series (mt_kind m))"

text \<open>\<^verbatim>\<open>promauto\<close> registers at the default registry and panics when the name is taken.\<close>

fun register_metrics :: "metric list \<Rightarrow> metric list \<Rightarrow> metric list go" where
  "register_metrics [] registry = Ret registry"
| "register_metrics (m # ms) registry =
     (if mt_Name m \<in> mt_Name ` set registry then Panic else register_metrics ms (registry @ [m]))"

definition all_metrics :: "metric list" where
  "all_metrics =
     mqtt_metrics @ controller_metrics @ cloud_connector_metrics @ connection_repository_metrics
     @ middleware_metrics @ consumer_metrics"

lemma register_metrics_Ret:
  "register_metrics ms registry = Ret (registry @ ms)"
  if "distinct (map mt_Name (registry @ ms))"
  using that by (induction ms arbitrary: registry) auto

lemmas all_metrics_defs = all_metrics_def mqtt_metrics_def controller_metrics_def cloud_connector_metrics_def
  connection_repository_metrics_def middleware_metrics_def consumer_metrics_def metric_def

text \<open>The names differ after the prefix they share.\<close>

lemma metric_names_distinct: "distinct (map mt_Name all_metrics)"
proof -
  have "distinct (map (drop 16) (map mt_Name all_metrics))" by (simp add: all_metrics_defs)
  then show ?thesis unfolding distinct_map by (rule conjunct1)
qed

text \<open>No two metrics share a series, so that no scrape has a name twice.\<close>

lemma metric_series_distinct: "distinct (concat (map series all_metrics))"
proof -
  have "distinct (map (drop 16) (concat (map series all_metrics)))" by (simp add: all_metrics_defs series_def)
  then show ?thesis unfolding distinct_map by (rule conjunct1)
qed

text \<open>In whatever order the packages are initialised, no registration panics.\<close>

lemma metrics_register:
  assumes "mset ms = mset all_metrics"
  shows "register_metrics ms [] = Ret ms"
proof -
  have "mset (map mt_Name ms) = mset (map mt_Name all_metrics)" using assms by simp
  then have "distinct (map mt_Name ms)" using metric_names_distinct by (metis mset_eq_imp_distinct_iff)
  then show ?thesis using register_metrics_Ret [of "[]" ms] by simp
qed

end
