(* ===== verification/Spec2Isabelle.thy ===== *)
theory Spec2Isabelle
  imports Processes Api_Process End_To_End Db_Migrations Telemetry
begin

text \<open>
  \<^bold>\<open>Verification of cloud-connector.\<close>

  Cloud-connector is the service of the Red Hat Hybrid Cloud Console that keeps track of
  connected hosts (clients) and sends them messages over MQTT. It is a set of processes,
  each a command of \<^verbatim>\<open>cmd/cloud-connector\<close>, around one database table of connections:

  \<^item> the MQTT message consumer (the bridge) takes the control messages clients publish to the
    MQTT broker and writes them to a Kafka topic;
  \<^item> the Kafka message consumer reads that topic, finds the tenant of the client with an
    outside gateway, and registers or removes the connection; it reports new connections to
    the inventory and sources services;
  \<^item> the API server lets other services and associates list connections and send messages
    to clients of their own tenant, over three REST interfaces;
  \<^item> two periodic jobs refresh stale hosts in the inventory and look up the tenants of
    connections that have none yet; others report counts.

  Beside them are the programs that migrate the database (\<^verbatim>\<open>cmd/migrate_db\<close> and two tools) and
  two test clients, which speak the client's side of the protocol.

  \<^bold>\<open>How the code is modelled.\<close> A Go function is a HOL function of the same name (with the
  receiver's name in front where two methods share one). Structs are records, with the
  fields of the struct, and interfaces are records of functions or function types; laws of
  an interface are a locale, interpreted on each implementation. A call that can panic or
  end the process returns the type \<open>go\<close> (\<open>Ret\<close>, \<open>Panic\<close>, \<open>Exit\<close>); a stateful call takes and
  returns the state, and effects made before a panic stay. Each outside party is a field of
  the state: an oracle for its answers, read once per call, and a log of what it was sent.
  Time is nanoseconds as an integer, durations are 64-bit words, decoded JSON is a datatype.

  \<^bold>\<open>Theories, in order of dependency.\<close>

  \<^item> \<open>CC_Prelude\<close>: outcomes, errors, JSON, time, \<^verbatim>\<open>strings\<close> and \<^verbatim>\<open>strconv\<close>, shared lemmas.
  \<^item> \<open>Lifecycle\<close>: the interfaces \<open>step_system\<close> (an invariant of a step relation) and \<open>lifecycle\<close>
    (a process that can always go on to its end), interpreted on every process below.
  \<^item> \<open>Configuration\<close> (\<^verbatim>\<open>internal/config\<close>): the configuration, its text, defaults, reading.
    When the process panics while reading it; the default configuration.
  \<^item> \<open>Protocol\<close> (\<^verbatim>\<open>internal/domain\<close>, \<^verbatim>\<open>internal/cloud_connector/protocol\<close>) and \<open>Topic\<close>
    (\<^verbatim>\<open>internal/mqtt/topic.go\<close>): messages and topics. What the verifier accepts, that the
    subscriptions deliver exactly that, that topics of different clients differ.
  \<^item> \<open>Connection_Store\<close> (\<^verbatim>\<open>internal/connection_repository\<close>, registrar): the table and its
    statements. The registrar implements a finite map (locale \<open>connection_registrar\<close> and its
    interpretation), and what is registered is found.
  \<^item> \<open>Base64\<close>, \<open>Services\<close>: identity headers, HTTP and Kafka as a process sees them.
  \<^item> \<open>Message_Handlers\<close> (\<^verbatim>\<open>internal/cloud_connector\<close>): online, offline and event messages.
    The handler's contract is proved once in the locale \<open>control_handler\<close>.
  \<^item> \<open>Account_Resolver\<close>, \<open>Inventory_Recorder\<close>, \<open>Sources_Recorder\<close>
    (\<^verbatim>\<open>internal/controller\<close>): the three services the handler calls. The cached resolver gives
    only tenants the gateway gave; a client cannot choose the fields of its report.
  \<^item> \<open>Mqtt_Bridge\<close> (\<^verbatim>\<open>internal/mqtt/message_handlers.go\<close>): the handlers of MQTT messages.
  \<^item> \<open>Bridge_Process\<close> (\<^verbatim>\<open>mqtt_message_consumer.go\<close>): the handlers beside the main thread, as an
    interleaving. At every moment Kafka holds what the handled messages become, in order,
    and every acknowledged message is there.
  \<^item> \<open>Kafka_Consumer\<close> (\<^verbatim>\<open>kafka_message_consumer.go\<close>): the fetch, process and commit loop as a
    step relation. In every reachable state messages were processed in order and commits
    are a prefix; a failure stops the loop; ten fetch errors in a row end it.
  \<^item> \<open>Consumer_Process\<close>: that loop beside the main thread and the management server, as an
    interleaving. When the loop has stopped the process ends within three steps.
  \<^item> \<open>Control_Pipeline\<close>: the consumer with the production components. A message changes only
    its own client; time never goes back; redelivery is harmless; what online and offline
    messages leave in the table.
  \<^item> \<open>Connection_Locator\<close> (lookup and listings), \<open>Connection_Maintenance\<close> (the two jobs): tenants
    find their own clients only; pages list every client.
  \<^item> \<open>Job_Processes\<close>: the two jobs as processes. Failed lookups are bounded, whatever all the
    processes do in whatever order.
  \<^item> \<open>Mqtt_Proxy\<close>, \<open>Pagination\<close>, \<open>Http_Auth\<close>, \<open>Rest_Api\<close>, \<open>Api_Server\<close> (\<^verbatim>\<open>internal/mqtt\<close>,
    \<^verbatim>\<open>internal/middlewares\<close>, \<^verbatim>\<open>internal/controller/api\<close>): the way out to clients and the REST
    interfaces. Which requests get in, whom a request can reach (locale \<open>client_api\<close>,
    interpreted for the strict and the relaxed lookup), delivery, refusals, page links.
  \<^item> \<open>Platform_Setup\<close> (\<^verbatim>\<open>internal/platform\<close>), \<open>Mqtt_Setup\<close> (client options, tokens): TLS, SASL,
    Kafka, database and MQTT settings from the configuration; the log hides secrets; one
    partition per client; what happens when the connection is lost.
  \<^item> \<open>Account_Report\<close>: counts per account, batches to Pendo.
  \<^item> \<open>Processes\<close>: the processes as the commands start them. The production configuration
    starts the pipeline of \<open>Control_Pipeline\<close>; which routes need no credentials.
  \<^item> \<open>Api_Process\<close>: the started API server with its requests and its shutdown. It only reads
    the table, and a shutdown that does not time out has answered every request.
  \<^item> \<open>Test_Client\<close> (\<^verbatim>\<open>cmd/test_client\<close>, \<^verbatim>\<open>cmd/auto_test_client\<close>): the messages of a client and
    the answers it expects.
  \<^item> \<open>End_To_End\<close>: client, bridge, consumer and API server in a row. A client that connects is
    seen by its organisation and by no other until its will is published; the messages of the
    test client have the effect its comments ask for.
  \<^item> \<open>Db_Schema\<close>, \<open>Db_Migrations\<close> (\<^verbatim>\<open>db/migrations\<close>, \<^verbatim>\<open>cmd/migrate_db\<close>, \<^verbatim>\<open>cmd/stage_db_fixer\<close>,
    \<^verbatim>\<open>cmd/db_schema_dumper\<close>): a table with typed columns, the statements of the ten migrations in
    both directions, the tools. An upgrade reaches the current schema from every version with
    the data kept; the rows the program writes have the types of that schema.
  \<^item> \<open>Telemetry\<close> (\<^verbatim>\<open>internal/platform/logger\<close>, the \<^verbatim>\<open>metrics.go\<close> files, \<^verbatim>\<open>main\<close>): the set-up of the
    logger and its entries, the declared metrics. The flush before the end does nothing; the
    metrics have different names, so that no registration panics.

  \<^bold>\<open>Parameters.\<close> Libraries and services are arguments: the JSON text codec (structs are
  decoded by an argument), the PostgreSQL driver's error classes and collation, the LRU
  cache, the gateway, the platform identity library, the validator, viper, Clowder, the
  MQTT, Kafka, JWT, SCRAM and TLS libraries, DNS, files, the migration library, and the
  order in which the HTTP server and the MQTT client run their handlers. What a property relies on is a
  hypothesis about the argument, and a concrete argument satisfies it in the witness.

  \<^bold>\<open>Bounds and fuel.\<close> The only fuel is the length of the string in \<open>trim_runes\<close> (each step
  removes at least one character). Integers that can overflow are words, or wrapped at 64
  bits in \<open>Pagination\<close>; the other counters of the code are integers. The consumer's loop is a
  step relation and needs no bound.

  \<^bold>\<open>Not modelled.\<close> The output of logs and the values of metrics (apart from the status code
  counter); the CloudWatch client; concurrent transactions on the table (a process sees its
  own statements one after the other, and two processes that register a new client at the
  same instant are outside the model, since the client id has no unique index); requests of
  the API server are handled one at a time, in any order, which is no restriction on the
  table, since they only read it; failures in the middle of a result set and the query
  timeout while a chunk is processed; time zones other than UTC in formatted times; matching
  of paths by the router, fragments of request URLs and queries of more than 10000
  parameters; prefixes of topics with formatting verbs other than those of \<open>sprintf_s\<close>; the
  parsing of command lines and flags; closing of the Kafka reader; constructors and struct
  declarations that only hold the arguments of a handler; the helper of the tests in
  \<^verbatim>\<open>internal/controller/api/test_utils.go\<close>.
\<close>

end
